(* ===== verification/Prelude.thy ===== *)
theory Prelude
  imports "HOL-Library.Word" "HOL-Library.Multiset" "HOL-Library.Signed_Division"
begin

text \<open>
  Shared vocabulary of the development: the machine-integer types of the C code, the
  C arithmetic that differs from the arithmetic of HOL (division that truncates, the
  \<open>abs\<close> of \<open>stdlib.h\<close> applied to a \<open>long\<close>), big-endian byte conversion, the ordered
  insertion that the frame queue and the scheduler both perform, and the interface
  \<open>timed_queue\<close> that states what both promise.
\<close>

section \<open>Machine integers\<close>

unbundle bit_operations_syntax

type_synonym u8 = "8 word"
type_synonym u16 = "16 word"
type_synonym u32 = "32 word"
type_synonym s32 = "32 word"

named_theorems c_arith \<open>rewriting rules for the C arithmetic of the model\<close>

text \<open>
  \<open>abs\<close> takes an \<open>int\<close>: a \<open>long\<close> argument is first truncated to 32 bits, and the result is
  an \<open>int\<close> again.
\<close>

definition int_of_long :: "int \<Rightarrow> int" where
  "int_of_long x = signed_take_bit 31 x"

definition c_abs :: "int \<Rightarrow> int" where
  "c_abs x = int_of_long \<bar>int_of_long x\<bar>"

lemma int_of_long_id [c_arith]:
  assumes "- (2 ^ 31) \<le> x" "x < 2 ^ 31"
  shows "int_of_long x = x"
  using assms by (simp add: int_of_long_def signed_take_bit_int_eq_self)

lemma c_abs_small [c_arith]:
  assumes "\<bar>x\<bar> < 2 ^ 31"
  shows "c_abs x = \<bar>x\<bar>"
  using assms by (simp add: c_abs_def int_of_long_id abs_le_iff)

text \<open>C division of a non-negative number agrees with \<open>div\<close>.\<close>

lemma sdiv_nonneg [c_arith]:
  fixes a b :: int
  assumes "0 \<le> a" "0 < b"
  shows "a sdiv b = a div b"
  using assms by (cases "a = 0") (simp_all add: signed_divide_int_def)

section \<open>Bytes\<close>

text \<open>\<open>htons\<close>, \<open>htonl\<close> followed by a byte copy, and the reverse: network order is big-endian.\<close>

definition be16 :: "u16 \<Rightarrow> u8 list" where
  "be16 w = [ucast (drop_bit 8 w), ucast w]"

definition be32 :: "u32 \<Rightarrow> u8 list" where
  "be32 w = [ucast (drop_bit 24 w), ucast (drop_bit 16 w), ucast (drop_bit 8 w), ucast w]"

definition rd16 :: "u8 list \<Rightarrow> u16" where
  "rd16 bs = push_bit 8 (ucast (bs ! 0)) OR ucast (bs ! 1)"

definition rd32 :: "u8 list \<Rightarrow> u32" where
  "rd32 bs = push_bit 24 (ucast (bs ! 0)) OR push_bit 16 (ucast (bs ! 1)) OR
             push_bit 8 (ucast (bs ! 2)) OR ucast (bs ! 3)"

lemma length_be [simp]: "length (be16 x) = 2" "length (be32 y) = 4"
  by (simp_all add: be16_def be32_def)

lemma rd16_be16 [simp]: "rd16 (be16 w @ rest) = w"
  by (rule bit_word_eqI)
    (auto simp: rd16_def be16_def bit_simps nth_append not_less)

lemma rd32_be32 [simp]: "rd32 (be32 w @ rest) = w"
proof (rule bit_word_eqI)
  fix n
  assume "n < LENGTH(32)"
  then show "bit (rd32 (be32 w @ rest)) n = bit w n"
    by (cases "n < 8"; cases "n < 16"; cases "n < 24")
      (auto simp: rd32_def be32_def bit_simps)
qed

section \<open>Ordered insertion\<close>

text \<open>
  Both linked lists of the library are kept in ascending order of a key and take a new
  element behind the elements with the same key.
\<close>

fun insert_after :: "('a \<Rightarrow> 'k::linorder) \<Rightarrow> 'a \<Rightarrow> 'a list \<Rightarrow> 'a list" where
  "insert_after k x [] = [x]"
| "insert_after k x (y # ys) = (if k y \<le> k x then y # insert_after k x ys else x # y # ys)"

abbreviation sorted_by :: "('a \<Rightarrow> 'k::linorder) \<Rightarrow> 'a list \<Rightarrow> bool" where
  "sorted_by k xs \<equiv> sorted (map k xs)"

lemma mset_insert_after [simp]: "mset (insert_after k x xs) = add_mset x (mset xs)"
  by (induction xs) auto

lemma set_insert_after [simp]: "set (insert_after k x xs) = insert x (set xs)"
  by (induction xs) auto

lemma length_insert_after [simp]: "length (insert_after k x xs) = Suc (length xs)"
  by (induction xs) auto

lemma sorted_insert_after [intro]: "sorted_by k xs \<Longrightarrow> sorted_by k (insert_after k x xs)"
  by (induction xs) auto

lemma insert_after_snoc:
  "\<forall>y \<in> set xs. k y \<le> k x \<Longrightarrow> insert_after k x (xs @ zs) = xs @ insert_after k x zs"
  by (induction xs) auto

lemma insert_after_last: "\<forall>y \<in> set xs. k y \<le> k x \<Longrightarrow> insert_after k x xs = xs @ [x]"
  using insert_after_snoc[of xs k x "[]"] by simp

lemma insert_after_before:
  "\<forall>y \<in> set xs. k y \<le> k x \<Longrightarrow> k x < k z \<Longrightarrow> insert_after k x (xs @ z # zs) = xs @ x # z # zs"
  by (auto simp: insert_after_snoc dest: leD)

text \<open>Elements of one key keep their order of arrival.\<close>

lemma filter_insert_after:
  "sorted_by k xs \<Longrightarrow>
   filter (\<lambda>y. k y = c) (insert_after k x xs) =
     filter (\<lambda>y. k y = c) xs @ (if k x = c then [x] else [])"
proof (induction xs)
  case (Cons y ys)
  show ?case
  proof (cases "k y \<le> k x")
    case True
    with Cons show ?thesis by simp
  next
    case False
    then have "\<forall>z \<in> set (y # ys). k z \<noteq> k x"
      using Cons.prems by fastforce
    then have "k x = c \<Longrightarrow> filter (\<lambda>z. k z = c) (y # ys) = []"
      by (auto simp: filter_empty_conv)
    with False show ?thesis by auto
  qed
qed simp

text \<open>For an injective key the sorted list is determined by the elements alone.\<close>

lemma filter_eq_replicate_count: "filter (\<lambda>x. a = x) zs = replicate (count (mset zs) a) a"
  by (induction zs) auto

lemma sort_key_eqI:
  assumes "inj k" "mset xs = mset ys" "sorted_by k ys"
  shows "sort_key k xs = ys"
proof (rule properties_for_sort_key)
  show "mset ys = mset xs" using assms(2) by simp
  show "filter (\<lambda>x. k a = k x) ys = filter (\<lambda>x. k a = k x) xs" for a
    using assms(1,2) by (simp add: inj_eq filter_eq_replicate_count)
qed (fact assms(3))

lemma sort_key_cong_mset: "inj k \<Longrightarrow> mset xs = mset ys \<Longrightarrow> sort_key k xs = sort_key k ys"
  by (rule sort_key_eqI) simp_all

lemma sort_key_snoc: "inj k \<Longrightarrow> sort_key k (xs @ [x]) = insert_after k x (sort_key k xs)"
  by (rule sort_key_eqI) auto

lemma sort_key_split:
  assumes "inj k" "mset xs = mset (as @ bs)" "sorted_by k as"
    and "\<forall>a \<in> set as. \<forall>b \<in> set bs. k a \<le> k b"
  shows "sort_key k xs = as @ sort_key k bs"
  using assms by (intro sort_key_eqI) (auto simp: sorted_append)

text \<open>
  A buffer that keeps the \<open>n\<close> least elements seen so far only ever needs to insert into
  what it kept.
\<close>

lemma take_insert_after:
  "take n (insert_after k x (take n ys)) = take n (insert_after k x ys)"
  by (induction ys arbitrary: n) (auto simp: take_Cons' split: nat.split)

lemma take_insert_after_ge:
  assumes "sorted_by k ys" "length ys = n" "0 < n" "k (ys ! (n - 1)) \<le> k x"
  shows "take n (insert_after k x ys) = ys"
proof -
  have "k y \<le> k x" if "y \<in> set ys" for y
  proof -
    from that obtain i where "i < n" "y = ys ! i" using assms(2) by (auto simp: in_set_conv_nth)
    then have "k y \<le> k (ys ! (n - 1))"
      using assms(1,2) sorted_nth_mono[of "map k ys" i "n - 1"] by simp
    with assms(4) show ?thesis by (rule order_trans[rotated])
  qed
  then show ?thesis using assms(2) by (simp add: insert_after_last)
qed

section \<open>The interface of a queue ordered by time\<close>

text \<open>
  \<open>put\<close> inserts in key order behind equal keys, \<open>pop\<close> removes the first element if its key is
  due at the given time, and nothing otherwise. Both the frame queue of the jitter buffer
  (keys are millisecond timestamps) and the event scheduler (keys are \<open>timeval\<close>s) keep this
  contract on a sorted list.
\<close>

locale timed_queue =
  fixes items :: "'q \<Rightarrow> 'a list"
    and key :: "'a \<Rightarrow> 'k::linorder"
    and put :: "'a \<Rightarrow> 'q \<Rightarrow> 'q"
    and pop :: "'k \<Rightarrow> 'q \<Rightarrow> 'a option \<times> 'q"
  assumes put_items: "sorted_by key (items q) \<Longrightarrow> items (put a q) = insert_after key a (items q)"
    and pop_due: "sorted_by key (items q) \<Longrightarrow> items q = a # as \<Longrightarrow> key a \<le> t \<Longrightarrow>
                    fst (pop t q) = Some a \<and> items (snd (pop t q)) = as"
    and pop_early: "sorted_by key (items q) \<Longrightarrow> items q = a # as \<Longrightarrow> t < key a \<Longrightarrow>
                    fst (pop t q) = None \<and> items (snd (pop t q)) = a # as"
    and pop_empty: "items q = [] \<Longrightarrow> fst (pop t q) = None \<and> items (snd (pop t q)) = []"
begin

lemma put_sorted: "sorted_by key (items q) \<Longrightarrow> sorted_by key (items (put a q))"
  by (auto simp: put_items)

lemma pop_cases:
  assumes "sorted_by key (items q)"
  shows "pop t q = (None, snd (pop t q)) \<and> items (snd (pop t q)) = items q \<and>
           (\<forall>a \<in> set (items q). t < key a) \<or>
         (\<exists>a. pop t q = (Some a, snd (pop t q)) \<and> items q = a # items (snd (pop t q)) \<and> key a \<le> t)"
proof (cases "items q")
  case Nil
  with pop_empty[OF Nil, of t] show ?thesis by (simp add: prod_eq_iff)
next
  case (Cons a as)
  show ?thesis
  proof (cases "key a \<le> t")
    case True
    with pop_due[OF assms Cons True] Cons show ?thesis by (auto simp: prod_eq_iff)
  next
    case False
    with assms Cons have "\<forall>b \<in> set (items q). t < key b" by auto
    with pop_early[OF assms Cons] False Cons show ?thesis by (simp add: prod_eq_iff)
  qed
qed

lemma pop_sorted: "sorted_by key (items q) \<Longrightarrow> sorted_by key (items (snd (pop t q)))"
  using pop_cases[of q t] by auto

lemma pop_conserve:
  "sorted_by key (items q) \<Longrightarrow>
   mset (items q) = (case fst (pop t q) of None \<Rightarrow> {#} | Some a \<Rightarrow> {#a#})
                    + mset (items (snd (pop t q)))"
  using pop_cases[of q t] by (auto simp: prod_eq_iff)

lemma pop_least: "sorted_by key (items q) \<Longrightarrow> fst (pop t q) = Some a \<Longrightarrow>
    key a \<le> t \<and> (\<forall>b \<in> set (items q). key a \<le> key b)"
  using pop_cases[of q t] by (auto simp: prod_eq_iff)

lemma pop_None: "sorted_by key (items q) \<Longrightarrow> fst (pop t q) = None \<Longrightarrow>
    items (snd (pop t q)) = items q \<and> (\<forall>b \<in> set (items q). t < key b)"
  using pop_cases[of q t] by (auto simp: prod_eq_iff)

lemma put_fifo: "sorted_by key (items q) \<Longrightarrow>
    filter (\<lambda>y. key y = c) (items (put a q)) =
    filter (\<lambda>y. key y = c) (items q) @ (if key a = c then [a] else [])"
  by (simp add: put_items filter_insert_after)

end

end
