(* ===== verification/Jitterbuf.thy ===== *)
theory Jitterbuf
  imports Prelude
begin

text \<open>
  The adaptive jitter buffer, \<open>iaxclient/lib/libiax2/src/jitterbuf.c\<close> and \<open>jitterbuf.h\<close>:
  the history of packet delays, the frame queue, and the decision taken on every
  \<open>jb_put\<close> and \<open>jb_get\<close>.

  A \<open>long\<close> is an \<open>int\<close> here: every value is a number of milliseconds or a frame count, far
  from the bounds of the 64-bit type. \<open>hist_ptr\<close> only ever grows, so it is a \<open>nat\<close>. The
  circular doubly-linked list of frames is the list of its frames from \<open>jb->frames\<close> along
  \<open>next\<close>, so \<open>jb->frames->prev\<close> is its last element; the list of free frames is only its
  length, because the contents of a free frame are never read before they are overwritten.
  A failing \<open>malloc\<close> is the argument \<open>alloc\<close> of the operations that allocate. Frames carry
  a payload of any type, the \<open>void *data\<close> of the code.
\<close>

section \<open>Data\<close>

definition JB_HISTORY_SZ :: nat where "JB_HISTORY_SZ = 500"
definition JB_HISTORY_DROPPCT :: nat where "JB_HISTORY_DROPPCT = 3"
definition JB_HISTORY_DROPPCT_MAX :: nat where "JB_HISTORY_DROPPCT_MAX = 4"
definition JB_HISTORY_MAXBUF_SZ :: nat where
  "JB_HISTORY_MAXBUF_SZ = JB_HISTORY_SZ * JB_HISTORY_DROPPCT_MAX div 100"
definition JB_TARGET_EXTRA :: int where "JB_TARGET_EXTRA = 40"
definition JB_ADJUST_DELAY :: int where "JB_ADJUST_DELAY = 40"
definition JB_LONGMAX :: int where "JB_LONGMAX = 2147483647"
definition JB_LONGMIN :: int where "JB_LONGMIN = - JB_LONGMAX - 1"

lemmas jb_consts = JB_HISTORY_SZ_def JB_HISTORY_DROPPCT_def JB_HISTORY_DROPPCT_MAX_def
  JB_HISTORY_MAXBUF_SZ_def JB_TARGET_EXTRA_def JB_ADJUST_DELAY_def JB_LONGMAX_def JB_LONGMIN_def

lemma MAXBUF_20: "JB_HISTORY_MAXBUF_SZ = 20"
  by (simp add: jb_consts)

datatype jb_ret = JB_OK | JB_EMPTY | JB_NOFRAME | JB_INTERP | JB_DROP | JB_SCHED

datatype jb_type = JB_TYPE_CONTROL | JB_TYPE_VOICE | JB_TYPE_VIDEO | JB_TYPE_SILENCE

record jb_conf =
  jc_max_jitterbuf :: int
  jc_resync_threshold :: int
  jc_max_contig_interp :: int
  jc_target_extra :: int

record jb_info =
  ji_conf :: jb_conf
  ji_frames_in :: int
  ji_frames_out :: int
  ji_frames_late :: int
  ji_frames_lost :: int
  ji_frames_dropped :: int
  ji_frames_ooo :: int
  ji_frames_cur :: int
  ji_jitter :: int
  ji_min :: int
  ji_current :: int
  ji_target :: int
  ji_losspct :: int
  ji_next_voice_ts :: int
  ji_last_voice_ms :: int
  ji_silence_begin_ts :: int
  ji_last_adjustment :: int
  ji_last_delay :: int
  ji_cnt_delay_discont :: int
  ji_resync_offset :: int
  ji_cnt_contig_interp :: int

record 'd jb_frame =
  jf_data :: 'd
  jf_ts :: int
  jf_ms :: int
  jf_type :: jb_type

record 'd jitterbuf =
  jb_info :: jb_info
  jb_history :: "int list"
  jb_hist_ptr :: nat
  jb_hist_maxbuf :: "int list"
  jb_hist_minbuf :: "int list"
  jb_hist_maxbuf_valid :: bool
  jb_frames :: "'d jb_frame list"
  jb_free :: nat

abbreviation upd_info :: "(jb_info \<Rightarrow> jb_info) \<Rightarrow> 'd jitterbuf \<Rightarrow> 'd jitterbuf" where
  "upd_info f jb \<equiv> jb\<lparr>jb_info := f (jb_info jb)\<rparr>"

section \<open>Operations\<close>

subsection \<open>Loss statistics, creation and reset\<close>

definition increment_losspct :: "jb_info \<Rightarrow> jb_info" where
  "increment_losspct i = i\<lparr>ji_losspct := (100000 + 499 * ji_losspct i) sdiv 500\<rparr>"

definition decrement_losspct :: "jb_info \<Rightarrow> jb_info" where
  "decrement_losspct i = i\<lparr>ji_losspct := (499 * ji_losspct i) sdiv 500\<rparr>"

definition zero_info :: "jb_conf \<Rightarrow> jb_info" where
  "zero_info c = \<lparr>ji_conf = c, ji_frames_in = 0, ji_frames_out = 0, ji_frames_late = 0,
     ji_frames_lost = 0, ji_frames_dropped = 0, ji_frames_ooo = 0, ji_frames_cur = 0,
     ji_jitter = 0, ji_min = 0, ji_current = 0, ji_target = 0, ji_losspct = 0,
     ji_next_voice_ts = 0, ji_last_voice_ms = 0, ji_silence_begin_ts = 0,
     ji_last_adjustment = 0, ji_last_delay = 0, ji_cnt_delay_discont = 0,
     ji_resync_offset = 0, ji_cnt_contig_interp = 0\<rparr>"

text \<open>\<open>memset\<close> clears everything but the settings, the queue and the free list included.\<close>

definition jb_reset :: "'d jitterbuf \<Rightarrow> 'd jitterbuf" where
  "jb_reset jb =
     (let s = ji_conf (jb_info jb);
          i = (zero_info s)\<lparr>ji_current := JB_TARGET_EXTRA, ji_target := JB_TARGET_EXTRA,
                            ji_silence_begin_ts := - 1\<rparr>
      in \<lparr>jb_info = i, jb_history = replicate JB_HISTORY_SZ 0, jb_hist_ptr = 0,
          jb_hist_maxbuf = replicate JB_HISTORY_MAXBUF_SZ 0,
          jb_hist_minbuf = replicate JB_HISTORY_MAXBUF_SZ 0,
          jb_hist_maxbuf_valid = False, jb_frames = [], jb_free = 0\<rparr>)"

text \<open>
  \<open>jb_new\<close> resets a freshly allocated buffer, whose contents \<open>garbage\<close> are arbitrary: the
  settings it keeps are those of the garbage until \<open>jb_setconf\<close> is called.
\<close>

definition jb_new :: "bool \<Rightarrow> 'd jitterbuf \<Rightarrow> 'd jitterbuf option" where
  "jb_new alloc garbage = (if alloc then Some (jb_reset garbage) else None)"

definition jb_setconf :: "jb_conf \<Rightarrow> 'd jitterbuf \<Rightarrow> jb_ret \<times> 'd jitterbuf" where
  "jb_setconf conf jb =
     (let te = (if jc_target_extra conf = - 1 then JB_TARGET_EXTRA else jc_target_extra conf);
          c = (ji_conf (jb_info jb))\<lparr>jc_max_jitterbuf := jc_max_jitterbuf conf,
                jc_resync_threshold := jc_resync_threshold conf,
                jc_max_contig_interp := jc_max_contig_interp conf,
                jc_target_extra := te\<rparr>
      in (JB_OK, upd_info (\<lambda>i. i\<lparr>ji_conf := c, ji_current := te, ji_target := te\<rparr>) jb))"

subsection \<open>The history of delays\<close>

text \<open>
  The resynchronisation check of \<open>history_put\<close>: \<open>None\<close> is its \<open>return -1\<close>, otherwise the delay to
  record and the buffer after the check.
\<close>

definition history_resync ::
    "'d jitterbuf \<Rightarrow> int \<Rightarrow> int \<Rightarrow> int \<Rightarrow> int \<Rightarrow> 'd jitterbuf \<times> int option" where
  "history_resync jb ts now delay threshold =
     (let i = jb_info jb in
      if jc_resync_threshold (ji_conf i) \<noteq> - 1 then
        (if c_abs (delay - ji_last_delay i) > threshold then
           (let n = ji_cnt_delay_discont i + 1 in
            if n > 3 then
              (jb\<lparr>jb_info := i\<lparr>ji_cnt_delay_discont := 0, ji_resync_offset := ts - now,
                              ji_last_delay := 0\<rparr>,
                  jb_hist_ptr := 0, jb_hist_maxbuf_valid := False\<rparr>, Some 0)
            else (jb\<lparr>jb_info := i\<lparr>ji_cnt_delay_discont := n\<rparr>\<rparr>, None))
         else (jb\<lparr>jb_info := i\<lparr>ji_last_delay := delay, ji_cnt_delay_discont := 0\<rparr>\<rparr>, Some delay))
      else (jb, Some delay))"

text \<open>
  Storing the delay, and the test that leaves the cached extreme buffers valid (the chain of
  \<open>goto invalidate\<close>).
\<close>

definition history_store :: "int \<Rightarrow> 'd jitterbuf \<Rightarrow> 'd jitterbuf" where
  "history_store delay jb =
     (let slot = jb_hist_ptr jb mod JB_HISTORY_SZ;
          kicked = jb_history jb ! slot;
          jb1 = jb\<lparr>jb_history := (jb_history jb)[slot := delay], jb_hist_ptr := jb_hist_ptr jb + 1\<rparr>;
          maxl = jb_hist_maxbuf jb1 ! (JB_HISTORY_MAXBUF_SZ - 1);
          minl = jb_hist_minbuf jb1 ! (JB_HISTORY_MAXBUF_SZ - 1)
      in if \<not> jb_hist_maxbuf_valid jb1 then jb1
         else if jb_hist_ptr jb1 < JB_HISTORY_SZ then jb1\<lparr>jb_hist_maxbuf_valid := False\<rparr>
         else if delay < minl then jb1\<lparr>jb_hist_maxbuf_valid := False\<rparr>
         else if delay > maxl then jb1\<lparr>jb_hist_maxbuf_valid := False\<rparr>
         else if kicked \<le> minl then jb1\<lparr>jb_hist_maxbuf_valid := False\<rparr>
         else if kicked \<ge> maxl then jb1\<lparr>jb_hist_maxbuf_valid := False\<rparr>
         else jb1)"

text \<open>The result is true when the frame must be dropped (\<open>return -1\<close>).\<close>

definition history_put :: "int \<Rightarrow> int \<Rightarrow> 'd jitterbuf \<Rightarrow> bool \<times> 'd jitterbuf" where
  "history_put ts now jb =
     (let delay = now - (ts - ji_resync_offset (jb_info jb));
          threshold = 2 * ji_jitter (jb_info jb) + jc_resync_threshold (ji_conf (jb_info jb))
      in if ts \<le> 0 then (False, jb)
         else case history_resync jb ts now delay threshold of
                (jb1, None) \<Rightarrow> (True, jb1)
              | (jb1, Some d) \<Rightarrow> (False, history_store d jb1))"

text \<open>
  The inner loop of \<open>history_calc_maxbuf\<close>: from slot \<open>j\<close>, with \<open>n\<close> slots left, shift and
  insert at the first slot that the new value beats (\<open>memmove\<close> drops the last value).
\<close>

definition memmove_insert :: "int list \<Rightarrow> nat \<Rightarrow> int \<Rightarrow> int list" where
  "memmove_insert buf j toins = take j buf @ toins # take (JB_HISTORY_MAXBUF_SZ - (j + 1)) (drop j buf)"

fun insert_scan :: "(int \<Rightarrow> int \<Rightarrow> bool) \<Rightarrow> int \<Rightarrow> int list \<Rightarrow> nat \<Rightarrow> nat \<Rightarrow> int list" where
  "insert_scan beats toins buf j 0 = buf"
| "insert_scan beats toins buf j (Suc n) =
     (if beats toins (buf ! j) then memmove_insert buf j toins
      else insert_scan beats toins buf (j + 1) n)"

definition extreme_insert :: "(int \<Rightarrow> int \<Rightarrow> bool) \<Rightarrow> int \<Rightarrow> int list \<Rightarrow> int list" where
  "extreme_insert beats toins buf =
     (if beats toins (buf ! (JB_HISTORY_MAXBUF_SZ - 1))
      then insert_scan beats toins buf 0 JB_HISTORY_MAXBUF_SZ else buf)"

text \<open>The loop over the history, index \<open>i\<close> up to \<open>hist_ptr\<close>.\<close>

fun calc_loop :: "int list \<Rightarrow> nat \<Rightarrow> nat \<Rightarrow> int list \<times> int list \<Rightarrow> int list \<times> int list" where
  "calc_loop hist i 0 (maxb, minb) = (maxb, minb)"
| "calc_loop hist i (Suc n) (maxb, minb) =
     (let toins = hist ! (i mod JB_HISTORY_SZ)
      in calc_loop hist (i + 1) n (extreme_insert (>) toins maxb, extreme_insert (<) toins minb))"

definition history_calc_maxbuf :: "'d jitterbuf \<Rightarrow> 'd jitterbuf" where
  "history_calc_maxbuf jb =
     (if jb_hist_ptr jb = 0 then jb
      else let maxb = replicate JB_HISTORY_MAXBUF_SZ JB_LONGMIN;
               minb = replicate JB_HISTORY_MAXBUF_SZ JB_LONGMAX;
               i = (if jb_hist_ptr jb > JB_HISTORY_SZ then jb_hist_ptr jb - JB_HISTORY_SZ else 0);
               (maxb', minb') = calc_loop (jb_history jb) i (jb_hist_ptr jb - i) (maxb, minb)
           in jb\<lparr>jb_hist_maxbuf := maxb', jb_hist_minbuf := minb', jb_hist_maxbuf_valid := True\<rparr>)"

text \<open>
  \<open>index\<close> is clamped to the size of the buffers. It cannot be negative: the branch of the code
  for a negative index is dead, since \<open>hist_ptr\<close> is never negative.
\<close>

definition history_index :: "'d jitterbuf \<Rightarrow> nat" where
  "history_index jb =
     (let count = (if jb_hist_ptr jb < JB_HISTORY_SZ then jb_hist_ptr jb else JB_HISTORY_SZ);
          index = count * JB_HISTORY_DROPPCT div 100
      in if index > JB_HISTORY_MAXBUF_SZ - 1 then JB_HISTORY_MAXBUF_SZ - 1 else index)"

definition history_get :: "'d jitterbuf \<Rightarrow> 'd jitterbuf" where
  "history_get jb =
     (let jb1 = (if jb_hist_maxbuf_valid jb then jb else history_calc_maxbuf jb);
          index = history_index jb1;
          mx = jb_hist_maxbuf jb1 ! index;
          mn = jb_hist_minbuf jb1 ! index
      in upd_info (\<lambda>i. i\<lparr>ji_min := mn, ji_jitter := mx - mn\<rparr>) jb1)"

definition jb_getinfo :: "'d jitterbuf \<Rightarrow> jb_info \<times> 'd jitterbuf" where
  "jb_getinfo jb = (let jb1 = history_get jb in (jb_info jb1, jb1))"

subsection \<open>The frame queue\<close>

text \<open>
  The backward walk of \<open>queue_put\<close> from the last frame (the list is reversed here): it goes on
  while the new timestamp is smaller and the head of the queue is not reached.
\<close>

fun queue_walk :: "'d jb_frame \<Rightarrow> 'd jb_frame list \<Rightarrow> 'd jb_frame list" where
  "queue_walk f [] = [f]"
| "queue_walk f (p # ps) =
     (if jf_ts f < jf_ts p \<and> ps \<noteq> [] then p # queue_walk f ps else f # p # ps)"

definition queue_link :: "'d jb_frame \<Rightarrow> int \<Rightarrow> 'd jitterbuf \<Rightarrow> bool \<times> 'd jitterbuf" where
  "queue_link frame ts jb =
     (case jb_frames jb of
        [] \<Rightarrow> (True, jb\<lparr>jb_frames := [frame]\<rparr>)
      | h # _ \<Rightarrow>
          if jf_ts frame < jf_ts h then
            (True, upd_info (\<lambda>i. i\<lparr>ji_frames_ooo := ji_frames_ooo i + 1\<rparr>)
                     (jb\<lparr>jb_frames := frame # jb_frames jb\<rparr>))
          else
            (False,
             (if ts < jf_ts (last (jb_frames jb))
              then upd_info (\<lambda>i. i\<lparr>ji_frames_ooo := ji_frames_ooo i + 1\<rparr>) jb else jb)
               \<lparr>jb_frames := rev (queue_walk frame (rev (jb_frames jb)))\<rparr>))"

text \<open>True: the frame is the new head of the queue.\<close>

definition queue_put ::
    "bool \<Rightarrow> 'd \<Rightarrow> jb_type \<Rightarrow> int \<Rightarrow> int \<Rightarrow> 'd jitterbuf \<Rightarrow> bool \<times> 'd jitterbuf" where
  "queue_put alloc data ty ms ts jb =
     (let resync_ts = ts - ji_resync_offset (jb_info jb) in
      if jb_free jb = 0 \<and> \<not> alloc then (False, jb)
      else queue_link \<lparr>jf_data = data, jf_ts = resync_ts, jf_ms = ms, jf_type = ty\<rparr> ts
             (upd_info (\<lambda>i. i\<lparr>ji_frames_cur := ji_frames_cur i + 1\<rparr>)
                (jb\<lparr>jb_free := jb_free jb - 1\<rparr>)))"

definition queue_next :: "'d jitterbuf \<Rightarrow> int" where
  "queue_next jb = (case jb_frames jb of [] \<Rightarrow> - 1 | h # _ \<Rightarrow> jf_ts h)"

definition queue_last :: "'d jitterbuf \<Rightarrow> int" where
  "queue_last jb = (if jb_frames jb = [] then - 1 else jf_ts (last (jb_frames jb)))"

text \<open>\<open>_queue_get\<close>: the removed frame goes to the free list.\<close>

definition queue_get_any :: "int \<Rightarrow> bool \<Rightarrow> 'd jitterbuf \<Rightarrow> 'd jb_frame option \<times> 'd jitterbuf" where
  "queue_get_any ts all_frames jb =
     (case jb_frames jb of
        [] \<Rightarrow> (None, jb)
      | h # t \<Rightarrow>
          if all_frames \<or> ts \<ge> jf_ts h then
            (Some h, upd_info (\<lambda>i. i\<lparr>ji_frames_cur := ji_frames_cur i - 1\<rparr>)
                       (jb\<lparr>jb_frames := t, jb_free := jb_free jb + 1\<rparr>))
          else (None, jb))"

definition queue_get :: "int \<Rightarrow> 'd jitterbuf \<Rightarrow> 'd jb_frame option \<times> 'd jitterbuf" where
  "queue_get ts jb = queue_get_any ts False jb"

definition queue_getall :: "'d jitterbuf \<Rightarrow> 'd jb_frame option \<times> 'd jitterbuf" where
  "queue_getall jb = queue_get_any 0 True jb"


subsection \<open>The operations of the interface\<close>

definition jb_put ::
    "bool \<Rightarrow> 'd \<Rightarrow> jb_type \<Rightarrow> int \<Rightarrow> int \<Rightarrow> int \<Rightarrow> 'd jitterbuf \<Rightarrow> jb_ret \<times> 'd jitterbuf" where
  "jb_put alloc data ty ms ts now jb =
     (let jb1 = upd_info (\<lambda>i. i\<lparr>ji_frames_in := ji_frames_in i + 1\<rparr>) jb;
          (drop_it, jb2) = (if ty = JB_TYPE_VOICE then history_put ts now jb1 else (False, jb1))
      in if drop_it then (JB_DROP, jb2)
         else let (head, jb3) = queue_put alloc data ty ms ts jb2
              in (if head then JB_SCHED else JB_OK, jb3))"

text \<open>The target of \<open>_jb_get\<close>, with the clamp, and the distance to it.\<close>

definition jb_retarget :: "'d jitterbuf \<Rightarrow> 'd jitterbuf" where
  "jb_retarget jb =
     (let jb1 = history_get jb; i = jb_info jb1;
          target = ji_jitter i + ji_min i + jc_target_extra (ji_conf i);
          mx = jc_max_jitterbuf (ji_conf i);
          target' = (if mx \<noteq> 0 \<and> target - ji_min i > mx then ji_min i + mx else target)
      in upd_info (\<lambda>i. i\<lparr>ji_target := target'\<rparr>) jb1)"

text \<open>After too many contiguous interpolations, silence is assumed.\<close>

definition assume_silence :: "jb_info \<Rightarrow> jb_info" where
  "assume_silence i =
     (if jc_max_contig_interp (ji_conf i) \<noteq> 0 \<and> ji_cnt_contig_interp i \<ge> jc_max_contig_interp (ji_conf i)
      then i\<lparr>ji_silence_begin_ts := ji_next_voice_ts i - ji_current i\<rparr> else i)"

text \<open>
  The non-silent case after the attempt to grow: \<open>frame\<close> is what \<open>queue_get\<close> returned. The
  result is the return code, what was stored in \<open>*frameout\<close> (if anything was), and the buffer.
\<close>

definition jb_get_noframe ::
    "int \<Rightarrow> int \<Rightarrow> int \<Rightarrow> 'd jitterbuf \<Rightarrow> jb_ret \<times> 'd jb_frame option \<times> 'd jitterbuf" where
  "jb_get_noframe diff now interpl jb =
     (let i = jb_info jb in
      if diff < - jc_target_extra (ji_conf i) \<and>
         (ji_last_adjustment i + 80 < now \<or> ji_last_adjustment i + 500 < now) then
        (JB_NOFRAME, None,
         upd_info (\<lambda>i. increment_losspct (i\<lparr>ji_last_adjustment := now, ji_cnt_contig_interp := 0,
                      ji_current := ji_current i - ji_last_voice_ms i,
                      ji_frames_lost := ji_frames_lost i + 1\<rparr>)) jb)
      else
        (JB_INTERP, None,
         upd_info (\<lambda>i. assume_silence ((increment_losspct (i\<lparr>ji_frames_lost := ji_frames_lost i + 1\<rparr>))
                      \<lparr>ji_next_voice_ts := ji_next_voice_ts i + interpl,
                       ji_last_voice_ms := interpl,
                       ji_cnt_contig_interp := ji_cnt_contig_interp i + 1\<rparr>)) jb))"

definition jb_get_frame ::
    "int \<Rightarrow> int \<Rightarrow> 'd jb_frame \<Rightarrow> 'd jitterbuf \<Rightarrow> jb_ret \<times> 'd jb_frame option \<times> 'd jitterbuf" where
  "jb_get_frame diff now frame jb =
     (let i = jb_info jb in
      if jf_type frame \<noteq> JB_TYPE_VOICE then
        (JB_OK, Some frame,
         upd_info (\<lambda>i. (if jf_type frame = JB_TYPE_SILENCE
                        then i\<lparr>ji_silence_begin_ts := jf_ts frame, ji_cnt_contig_interp := 0\<rparr> else i)
                       \<lparr>ji_frames_out := ji_frames_out i + 1\<rparr>) jb)
      else if jf_ts frame + ji_current i < ji_next_voice_ts i then
        (if jf_ts frame + ji_current i > ji_next_voice_ts i - ji_last_voice_ms i then
           (JB_OK, Some frame,
            upd_info (\<lambda>i. (decrement_losspct
                       (i\<lparr>ji_next_voice_ts := jf_ts frame + ji_current i + jf_ms frame,
                          ji_frames_out := ji_frames_out i + 1\<rparr>))\<lparr>ji_cnt_contig_interp := 0\<rparr>) jb)
         else
           (JB_DROP, Some frame,
            upd_info (\<lambda>i. (decrement_losspct (i\<lparr>ji_frames_out := ji_frames_out i + 1\<rparr>))
                       \<lparr>ji_frames_late := ji_frames_late i + 1,
                        ji_frames_lost := ji_frames_lost i - 1\<rparr>) jb))
      else
        (let jb1 = (if jf_ms frame > 0 then upd_info (\<lambda>i. i\<lparr>ji_last_voice_ms := jf_ms frame\<rparr>) jb
                    else jb);
             i1 = jb_info jb1
         in if diff < - jc_target_extra (ji_conf i1) \<and> ji_last_adjustment i1 + 500 < now then
              (JB_DROP, Some frame,
               upd_info (\<lambda>i. (decrement_losspct
                  (i\<lparr>ji_last_adjustment := now, ji_cnt_contig_interp := 0,
                     ji_current := ji_current i - jf_ms frame,
                     ji_frames_out := ji_frames_out i + 1\<rparr>))
                  \<lparr>ji_frames_dropped := ji_frames_dropped i + 1\<rparr>) jb1)
            else
              (JB_OK, Some frame,
               upd_info (\<lambda>i. (decrement_losspct
                  (i\<lparr>ji_next_voice_ts := ji_next_voice_ts i + jf_ms frame,
                     ji_frames_out := ji_frames_out i + 1\<rparr>))\<lparr>ji_cnt_contig_interp := 0\<rparr>) jb1)))"

definition jb_get_voice ::
    "int \<Rightarrow> int \<Rightarrow> int \<Rightarrow> 'd jitterbuf \<Rightarrow> jb_ret \<times> 'd jb_frame option \<times> 'd jitterbuf" where
  "jb_get_voice diff now interpl jb =
     (let i = jb_info jb in
      if diff > 0 \<and> (ji_last_adjustment i + JB_ADJUST_DELAY < now \<or>
                     diff > queue_last jb - queue_next jb) then
        (JB_INTERP, None,
         upd_info (\<lambda>i. assume_silence
                    (i\<lparr>ji_current := ji_current i + interpl,
                       ji_next_voice_ts := ji_next_voice_ts i + interpl,
                       ji_last_voice_ms := interpl, ji_last_adjustment := now,
                       ji_cnt_contig_interp := ji_cnt_contig_interp i + 1\<rparr>)) jb)
      else case queue_get (ji_next_voice_ts i - ji_current i) jb of
             (None, jb1) \<Rightarrow> jb_get_noframe diff now interpl jb1
           | (Some frame, jb1) \<Rightarrow> jb_get_frame diff now frame jb1)"

definition jb_get_silence ::
    "int \<Rightarrow> int \<Rightarrow> int \<Rightarrow> 'd jitterbuf \<Rightarrow> jb_ret \<times> 'd jb_frame option \<times> 'd jitterbuf" where
  "jb_get_silence diff now interpl jb =
     (let i = jb_info jb;
          jb1 = (if diff < - jc_target_extra (ji_conf i) \<and> ji_last_adjustment i + 10 \<le> now
                 then upd_info (\<lambda>i. i\<lparr>ji_current := ji_current i - interpl,
                                      ji_last_adjustment := now\<rparr>) jb
                 else jb)
      in case queue_get (now - ji_current (jb_info jb1)) jb1 of
           (None, jb2) \<Rightarrow> (JB_NOFRAME, None, jb2)
         | (Some frame, jb2) \<Rightarrow>
             if jf_type frame \<noteq> JB_TYPE_VOICE then
               (JB_OK, Some frame,
                upd_info (\<lambda>i. i\<lparr>ji_frames_out := ji_frames_out i + 1\<rparr>) jb2)
             else if jf_ts frame < ji_silence_begin_ts (jb_info jb2) then
               (JB_DROP, Some frame,
                upd_info (\<lambda>i. (decrement_losspct (i\<lparr>ji_frames_out := ji_frames_out i + 1\<rparr>))
                           \<lparr>ji_frames_late := ji_frames_late i + 1,
                            ji_frames_lost := ji_frames_lost i - 1\<rparr>) jb2)
             else
               (JB_OK, Some frame,
                upd_info (\<lambda>i. decrement_losspct
                   (i\<lparr>ji_current := ji_target i, ji_silence_begin_ts := 0,
                      ji_next_voice_ts := jf_ts frame + ji_target i + jf_ms frame,
                      ji_last_voice_ms := jf_ms frame,
                      ji_frames_out := ji_frames_out i + 1\<rparr>)) jb2))"

definition jb_get ::
    "int \<Rightarrow> int \<Rightarrow> 'd jitterbuf \<Rightarrow> jb_ret \<times> 'd jb_frame option \<times> 'd jitterbuf" where
  "jb_get now interpl jb =
     (let jb1 = jb_retarget jb;
          diff = ji_target (jb_info jb1) - ji_current (jb_info jb1)
      in if ji_silence_begin_ts (jb_info jb1) = 0 then jb_get_voice diff now interpl jb1
         else jb_get_silence diff now interpl jb1)"

definition jb_next :: "'d jitterbuf \<Rightarrow> int" where
  "jb_next jb =
     (let i = jb_info jb in
      if ji_silence_begin_ts i \<noteq> 0 then
        (let nxt = queue_next jb in
         if nxt > 0 then
           (if ji_target i - ji_current i < - jc_target_extra (ji_conf i)
            then ji_last_adjustment i + 10 else nxt + ji_target i)
         else JB_LONGMAX)
      else ji_next_voice_ts i)"

definition jb_getall :: "'d jitterbuf \<Rightarrow> jb_ret \<times> 'd jb_frame option \<times> 'd jitterbuf" where
  "jb_getall jb =
     (case queue_getall jb of
        (None, jb1) \<Rightarrow> (JB_NOFRAME, None, jb1)
      | (Some f, jb1) \<Rightarrow> (JB_OK, Some f, jb1))"

section \<open>The extreme buffers\<close>

text \<open>
  What the two buffers are for: the \<open>JB_HISTORY_MAXBUF_SZ\<close> greatest (or least) delays of the
  window of recent delays, in order. \<open>k\<close> is \<open>uminus\<close> for the greatest and \<open>\<lambda>x. x\<close> for the least.
\<close>

definition hist_window :: "'d jitterbuf \<Rightarrow> int list" where
  "hist_window jb =
     map (\<lambda>i. jb_history jb ! (i mod JB_HISTORY_SZ)) [jb_hist_ptr jb - JB_HISTORY_SZ ..< jb_hist_ptr jb]"

definition extremes :: "(int \<Rightarrow> int) \<Rightarrow> int \<Rightarrow> int list \<Rightarrow> int list" where
  "extremes k pad xs =
     take JB_HISTORY_MAXBUF_SZ (sort_key k (replicate JB_HISTORY_MAXBUF_SZ pad @ xs))"

lemma length_extremes [simp]: "length (extremes k pad xs) = JB_HISTORY_MAXBUF_SZ"
  by (simp add: extremes_def)

lemma sorted_extremes: "sorted_by k (extremes k pad xs)"
  by (simp add: extremes_def take_map[symmetric] sorted_wrt_take)

lemma insert_scan_after:
  assumes "\<And>a b. beats a b \<longleftrightarrow> k a < k b"
    and "length buf = JB_HISTORY_MAXBUF_SZ" "j + n = JB_HISTORY_MAXBUF_SZ"
    and "\<forall>i < j. k (buf ! i) \<le> k x"
  shows "insert_scan beats x buf j n = take JB_HISTORY_MAXBUF_SZ (insert_after k x buf)"
  using assms(3,4)
proof (induction n arbitrary: j)
  case 0
  then have "\<forall>y \<in> set buf. k y \<le> k x"
    using assms(2) by (auto simp: in_set_conv_nth)
  then show ?case by (simp add: insert_after_last assms(2))
next
  case (Suc n)
  have split: "buf = take j buf @ buf ! j # drop (Suc j) buf"
    using Suc.prems assms(2) by (simp add: id_take_nth_drop)
  show ?case
  proof (cases "k x < k (buf ! j)")
    case True
    have le: "\<forall>y \<in> set (take j buf). k y \<le> k x"
      using Suc.prems assms(2) by (auto simp: in_set_conv_nth)
    have "insert_after k x buf = take j buf @ x # drop j buf"
      using insert_after_before[OF le True, of "drop (Suc j) buf"] split Suc.prems assms(2)
      by (metis Cons_nth_drop_Suc add_Suc_right less_add_Suc1)
    then show ?thesis
      using True Suc.prems assms(2)
      by (simp add: assms(1) memmove_insert_def take_Cons' min_def)
  next
    case False
    then have "\<forall>i < j + 1. k (buf ! i) \<le> k x"
      using Suc.prems(2) by (auto simp: less_Suc_eq)
    with Suc.IH[of "j + 1"] Suc.prems(1) False show ?thesis by (simp add: assms(1))
  qed
qed

lemma extreme_insert_after:
  assumes "\<And>a b. beats a b \<longleftrightarrow> k a < k b" "length buf = JB_HISTORY_MAXBUF_SZ" "sorted_by k buf"
  shows "extreme_insert beats x buf = take JB_HISTORY_MAXBUF_SZ (insert_after k x buf)"
proof (cases "beats x (buf ! (JB_HISTORY_MAXBUF_SZ - 1))")
  case True
  then show ?thesis
    using insert_scan_after[OF assms(1,2), where j = 0 and n = JB_HISTORY_MAXBUF_SZ and x = x]
    by (simp add: extreme_insert_def)
next
  case False
  then show ?thesis
    using take_insert_after_ge[OF assms(3,2), of x] assms(1) by (simp add: extreme_insert_def MAXBUF_20)
qed

lemma extremes_snoc:
  assumes "\<And>a b. beats a b \<longleftrightarrow> k a < k b" "inj k"
  shows "extreme_insert beats x (extremes k pad xs) = extremes k pad (xs @ [x])"
proof -
  have "extreme_insert beats x (extremes k pad xs) =
        take JB_HISTORY_MAXBUF_SZ (insert_after k x (extremes k pad xs))"
    by (rule extreme_insert_after[OF assms(1)]) (simp_all add: sorted_extremes)
  also have "\<dots> = extremes k pad (xs @ [x])"
    using sort_key_snoc[OF assms(2), of "replicate JB_HISTORY_MAXBUF_SZ pad @ xs" x]
    by (simp add: extremes_def take_insert_after)
  finally show ?thesis .
qed

lemma calc_loop_extremes:
  "calc_loop hist i n (extremes uminus lo xs, extremes (\<lambda>x. x) hi xs) =
     (let ys = xs @ map (\<lambda>j. hist ! (j mod JB_HISTORY_SZ)) [i ..< i + n]
      in (extremes uminus lo ys, extremes (\<lambda>x. x) hi ys))"
proof (induction n arbitrary: i xs)
  case (Suc n)
  have "extreme_insert (>) x (extremes uminus lo xs) = extremes uminus lo (xs @ [x])" for x
    by (rule extremes_snoc) (auto intro: injI)
  moreover have "extreme_insert (<) x (extremes (\<lambda>x. x) hi xs) = extremes (\<lambda>x. x) hi (xs @ [x])" for x
    by (rule extremes_snoc) (auto intro: injI)
  moreover have "[i ..< i + Suc n] = i # [i + 1 ..< i + 1 + n]"
    by (simp add: upt_conv_Cons del: upt_Suc)
  ultimately show ?case
    using Suc.IH[of "i + 1"] by (simp add: Let_def del: upt_Suc)
qed simp

lemma extremes_Nil: "extremes k pad [] = replicate JB_HISTORY_MAXBUF_SZ pad"
proof -
  have "sorted_by k (replicate n pad)" for n by (induction n) auto
  then show ?thesis by (simp add: extremes_def sort_key_id_if_sorted)
qed

end
