(* ===== verification/Jitterbuf_Props.thy ===== *)
theory Jitterbuf_Props
  imports Jitterbuf
begin

text \<open>
  Correctness of the jitter buffer: the extreme buffers against sorting, the coherence of
  their cache, the frame queue as a \<open>timed_queue\<close>, the invariant of every operation, and
  the conservation of frames over runs.
\<close>

section \<open>The delay history\<close>

lemma window_update:
  assumes "length (jb_history jb) = JB_HISTORY_SZ"
  shows "hist_window (jb\<lparr>jb_history := (jb_history jb)[jb_hist_ptr jb mod JB_HISTORY_SZ := d],
                        jb_hist_ptr := Suc (jb_hist_ptr jb)\<rparr>) =
         (if jb_hist_ptr jb < JB_HISTORY_SZ then hist_window jb else tl (hist_window jb)) @ [d]"
proof -
  let ?N = JB_HISTORY_SZ and ?p = "jb_hist_ptr jb"
  let ?h = "(jb_history jb)[?p mod ?N := d]"
  have N: "0 < ?N" by (simp add: jb_consts)
  have other: "?h ! (i mod ?N) = jb_history jb ! (i mod ?N)" if "i < ?p" "?p < i + ?N" for i
  proof -
    have "i mod ?N \<noteq> ?p mod ?N"
    proof
      assume "i mod ?N = ?p mod ?N"
      then have "?N dvd ?p - i" using that(1) by (metis less_or_eq_imp_le mod_eq_dvd_iff_nat)
      with that show False by (auto dest: dvd_imp_le)
    qed
    then show ?thesis by simp
  qed
  have last: "?h ! (?p mod ?N) = d" using assms N by simp
  show ?thesis
  proof (cases "?p < ?N")
    case True
    then have "Suc ?p - ?N = 0" "?p - ?N = 0" by simp_all
    then show ?thesis using True other last by (simp add: hist_window_def)
  next
    case False
    then have "[?p - ?N ..< ?p] = (?p - ?N) # [Suc ?p - ?N ..< ?p]"
      using N by (simp add: upt_conv_Cons Suc_diff_le)
    then show ?thesis using False other last N
      by (auto simp: hist_window_def Suc_diff_le)
  qed
qed

lemma length_hist_window: "length (hist_window jb) = min (jb_hist_ptr jb) JB_HISTORY_SZ"
  by (simp add: hist_window_def)

lemma hd_hist_window:
  assumes "JB_HISTORY_SZ \<le> jb_hist_ptr jb"
  shows "hd (hist_window jb) = jb_history jb ! (jb_hist_ptr jb mod JB_HISTORY_SZ)"
proof -
  have "[jb_hist_ptr jb - JB_HISTORY_SZ ..< jb_hist_ptr jb] \<noteq> []"
    using assms by (simp add: jb_consts)
  then have "hd (hist_window jb) = jb_history jb ! ((jb_hist_ptr jb - JB_HISTORY_SZ) mod JB_HISTORY_SZ)"
    by (simp add: hist_window_def list.map_sel)
  with assms show ?thesis by (simp add: le_mod_geq)
qed

text \<open>
  A value that leaves the window strictly beyond the buffer, and a value that enters it no
  earlier than the end of the buffer, leave the buffer as it is.
\<close>

lemma extremes_add_irrelevant:
  assumes "inj k" "B = extremes k pad xs" "k (B ! (JB_HISTORY_MAXBUF_SZ - 1)) \<le> k d"
  shows "extremes k pad (xs @ [d]) = B"
proof -
  have "extremes k pad (xs @ [d]) = take JB_HISTORY_MAXBUF_SZ (insert_after k d B)"
    using sort_key_snoc[OF assms(1), of "replicate JB_HISTORY_MAXBUF_SZ pad @ xs" d]
    by (simp add: extremes_def take_insert_after assms(2))
  also have "\<dots> = B"
    by (rule take_insert_after_ge) (use assms in \<open>auto simp: sorted_extremes MAXBUF_20\<close>)
  finally show ?thesis .
qed

lemma extremes_drop_irrelevant:
  assumes "inj k" "B = extremes k pad (x # xs)" "k (B ! (JB_HISTORY_MAXBUF_SZ - 1)) < k x"
  shows "extremes k pad xs = B"
proof -
  let ?n = JB_HISTORY_MAXBUF_SZ
  let ?M = "replicate ?n pad @ x # xs" and ?M' = "replicate ?n pad @ xs"
  define R where "R = drop ?n (sort_key k ?M)"
  have BR: "B @ R = sort_key k ?M" by (simp add: R_def assms(2) extremes_def)
  have sB: "sorted_by k B" and lB: "length B = ?n" by (simp_all add: assms(2) sorted_extremes)
  have B_le: "k b \<le> k (B ! (?n - 1))" if "b \<in> set B" for b
  proof -
    from that obtain i where "i < ?n" "b = B ! i" using lB by (auto simp: in_set_conv_nth)
    then show ?thesis using sB lB sorted_nth_mono[of "map k B" i "?n - 1"] by simp
  qed
  have "x \<notin> set B" using B_le assms(3) by force
  moreover have "x \<in> set (B @ R)" by (simp add: BR)
  ultimately have xR: "x \<in> set R" by simp
  have "mset (B @ R) = mset ?M" by (simp only: BR mset_sort)
  then have m: "mset ?M' = mset (B @ remove1 x R)"
    using xR by (simp add: algebra_simps)
  have "sorted_by k (B @ R)" unfolding BR by simp
  then have "\<forall>a \<in> set B. \<forall>b \<in> set (remove1 x R). k a \<le> k b"
    using notin_set_remove1 by (fastforce simp: sorted_append dest: set_remove1_subset[THEN subsetD])
  then have "sort_key k ?M' = B @ sort_key k (remove1 x R)"
    by (rule sort_key_split[OF assms(1) m sB])
  then show ?thesis by (simp add: extremes_def lB)
qed

section \<open>The well-formed buffer\<close>

definition cache_ok :: "'d jitterbuf \<Rightarrow> bool" where
  "cache_ok jb \<longleftrightarrow> (jb_hist_maxbuf_valid jb \<longrightarrow> 0 < jb_hist_ptr jb \<and>
     jb_hist_maxbuf jb = extremes uminus JB_LONGMIN (hist_window jb) \<and>
     jb_hist_minbuf jb = extremes (\<lambda>x. x) JB_LONGMAX (hist_window jb))"

definition hist_wf :: "'d jitterbuf \<Rightarrow> bool" where
  "hist_wf jb \<longleftrightarrow> length (jb_history jb) = JB_HISTORY_SZ \<and>
     length (jb_hist_maxbuf jb) = JB_HISTORY_MAXBUF_SZ \<and>
     length (jb_hist_minbuf jb) = JB_HISTORY_MAXBUF_SZ \<and> cache_ok jb"

definition queue_wf :: "'d jitterbuf \<Rightarrow> bool" where
  "queue_wf jb \<longleftrightarrow> sorted_by jf_ts (jb_frames jb) \<and>
     ji_frames_cur (jb_info jb) = int (length (jb_frames jb))"

definition losspct_ok :: "jb_info \<Rightarrow> bool" where
  "losspct_ok i \<longleftrightarrow> 0 \<le> ji_losspct i \<and> ji_losspct i \<le> 100000"

definition jb_wf :: "'d jitterbuf \<Rightarrow> bool" where
  "jb_wf jb \<longleftrightarrow> hist_wf jb \<and> queue_wf jb \<and> losspct_ok (jb_info jb)"

named_theorems jb_inv \<open>preservation of the parts of the jitter buffer invariant\<close>

text \<open>The window, and so the cache invariant, only depends on the history fields.\<close>

lemma hist_window_cong:
  "jb_history a = jb_history b \<Longrightarrow> jb_hist_ptr a = jb_hist_ptr b \<Longrightarrow> hist_window a = hist_window b"
  by (simp add: hist_window_def)

lemma hist_wf_cong [jb_inv]:
  "hist_wf (jb\<lparr>jb_info := i\<rparr>) = hist_wf jb" "hist_wf (jb\<lparr>jb_frames := fs\<rparr>) = hist_wf jb"
  "hist_wf (jb\<lparr>jb_free := n\<rparr>) = hist_wf jb"
  by (simp_all add: hist_wf_def cache_ok_def hist_window_def)

lemma hist_window_fields [simp]:
  "hist_window (jb\<lparr>jb_info := i\<rparr>) = hist_window jb"
  "hist_window (jb\<lparr>jb_hist_maxbuf_valid := v\<rparr>) = hist_window jb"
  "hist_window (jb\<lparr>jb_hist_maxbuf := a\<rparr>) = hist_window jb"
  "hist_window (jb\<lparr>jb_hist_minbuf := b\<rparr>) = hist_window jb"
  by (simp_all add: hist_window_def)


text \<open>Two buffers for the witnesses below: one just reset, and one with two delays in its history.\<close>

definition jb_example :: "nat jitterbuf" where
  "jb_example = jb_reset
     \<lparr>jb_info = zero_info \<lparr>jc_max_jitterbuf = 0, jc_resync_threshold = 1000,
                           jc_max_contig_interp = 0, jc_target_extra = 40\<rparr>,
      jb_history = [], jb_hist_ptr = 0, jb_hist_maxbuf = [], jb_hist_minbuf = [],
      jb_hist_maxbuf_valid = False, jb_frames = [], jb_free = 0\<rparr>"

definition jb_example1 :: "nat jitterbuf" where
  "jb_example1 = snd (history_put 10 5 (snd (history_put 30 32 jb_example)))"

lemma jb_example1_window: "hist_window jb_example1 = [2, - 5]" "jb_hist_ptr jb_example1 = 2"
  by code_simp+

lemma history_calc_maxbuf_extremes:
  assumes "0 < jb_hist_ptr jb"
  shows "history_calc_maxbuf jb =
     jb\<lparr>jb_hist_maxbuf := extremes uminus JB_LONGMIN (hist_window jb),
        jb_hist_minbuf := extremes (\<lambda>x. x) JB_LONGMAX (hist_window jb),
        jb_hist_maxbuf_valid := True\<rparr>"
proof -
  let ?i = "jb_hist_ptr jb - JB_HISTORY_SZ"
  have i: "(if jb_hist_ptr jb > JB_HISTORY_SZ then ?i else 0) = ?i" by simp
  have "?i + (jb_hist_ptr jb - ?i) = jb_hist_ptr jb" by simp
  then show ?thesis
    using calc_loop_extremes[of "jb_history jb" ?i "jb_hist_ptr jb - ?i" JB_LONGMIN "[]" JB_LONGMAX]
      assms
    by (simp add: extremes_Nil hist_window_def history_calc_maxbuf_def i Let_def)
qed

text \<open>
  C8. \<open>history_calc_maxbuf\<close> (two insertion sorts into fixed arrays by \<open>memmove\<close>) leaves in
  \<open>hist_maxbuf\<close> the 20 greatest delays of the window of the last 500, in descending order, and
  in \<open>hist_minbuf\<close> the 20 least in ascending order, padded by \<open>JB_LONGMIN\<close> and \<open>JB_LONGMAX\<close>: the
  same as sorting the whole window.
\<close>

theorem history_calc_maxbuf_sorts:
  assumes "0 < jb_hist_ptr jb"
  shows "history_calc_maxbuf jb =
     jb\<lparr>jb_hist_maxbuf := take 20 (sort_key uminus (replicate 20 JB_LONGMIN @ hist_window jb)),
        jb_hist_minbuf := take 20 (sort (replicate 20 JB_LONGMAX @ hist_window jb)),
        jb_hist_maxbuf_valid := True\<rparr>"
  using history_calc_maxbuf_extremes[OF assms] by (simp add: extremes_def MAXBUF_20)

lemma history_calc_maxbuf_sorts_witness:
  "jb_hist_maxbuf (history_calc_maxbuf jb_example1) = 2 # - 5 # replicate 18 JB_LONGMIN \<and>
   jb_hist_minbuf (history_calc_maxbuf jb_example1) = - 5 # 2 # replicate 18 JB_LONGMAX"
proof -
  have "take 20 (sort_key uminus (replicate 20 JB_LONGMIN @ [2, - 5])) = 2 # - 5 # replicate 18 JB_LONGMIN"
    "take 20 (sort (replicate 20 JB_LONGMAX @ [2, - 5])) = - 5 # 2 # replicate 18 JB_LONGMAX"
    by code_simp+
  then show ?thesis
    using history_calc_maxbuf_sorts[of jb_example1] by (simp add: jb_example1_window)
qed

section \<open>The cached buffers\<close>

lemma extremes_replace:
  assumes "inj k" "B = extremes k pad w" "w \<noteq> []"
    and "k (B ! (JB_HISTORY_MAXBUF_SZ - 1)) < k (hd w)" "k (B ! (JB_HISTORY_MAXBUF_SZ - 1)) \<le> k d"
  shows "extremes k pad (tl w @ [d]) = B"
proof (rule extremes_add_irrelevant[OF assms(1) _ assms(5)])
  show "B = extremes k pad (tl w)"
    by (rule extremes_drop_irrelevant[OF assms(1) _ assms(4), symmetric]) (simp add: assms(2,3))
qed

lemma history_store_wf:
  assumes "hist_wf jb"
  shows "hist_wf (history_store d jb)"
proof -
  let ?p = "jb_hist_ptr jb" and ?w = "hist_window jb"
  let ?jb1 = "jb\<lparr>jb_history := (jb_history jb)[?p mod JB_HISTORY_SZ := d], jb_hist_ptr := Suc ?p\<rparr>"
  let ?max = "jb_hist_maxbuf jb ! (JB_HISTORY_MAXBUF_SZ - 1)"
  let ?min = "jb_hist_minbuf jb ! (JB_HISTORY_MAXBUF_SZ - 1)"
  let ?kicked = "jb_history jb ! (?p mod JB_HISTORY_SZ)"
  have lens: "length (jb_history jb) = JB_HISTORY_SZ"
    "length (jb_hist_maxbuf jb) = JB_HISTORY_MAXBUF_SZ"
    "length (jb_hist_minbuf jb) = JB_HISTORY_MAXBUF_SZ" and c: "cache_ok jb"
    using assms by (simp_all add: hist_wf_def)
  have inv: "hist_wf (?jb1\<lparr>jb_hist_maxbuf_valid := False\<rparr>)"
    using lens by (simp add: hist_wf_def cache_ok_def)
  have keep: "cache_ok ?jb1"
    if v: "jb_hist_maxbuf_valid jb" and d: "?min \<le> d" "d \<le> ?max" and k: "?min < ?kicked" "?kicked < ?max"
  proof -
    have B: "jb_hist_maxbuf jb = extremes uminus JB_LONGMIN ?w"
      "jb_hist_minbuf jb = extremes (\<lambda>x. x) JB_LONGMAX ?w"
      using c v by (simp_all add: cache_ok_def)
    have w': "hist_window ?jb1 = (if ?p < JB_HISTORY_SZ then ?w else tl ?w) @ [d]"
      by (rule window_update) (fact lens(1))
    show ?thesis
    proof (cases "?p < JB_HISTORY_SZ")
      case True
      then have "extremes uminus JB_LONGMIN (hist_window ?jb1) = jb_hist_maxbuf jb"
        "extremes (\<lambda>x. x) JB_LONGMAX (hist_window ?jb1) = jb_hist_minbuf jb"
        using w' d B by (auto intro!: extremes_add_irrelevant injI)
      then show ?thesis by (simp add: cache_ok_def)
    next
      case False
      then have "?w \<noteq> []" "hd ?w = ?kicked"
        using length_hist_window[of jb] hd_hist_window[of jb]
        by (auto simp: jb_consts simp flip: length_0_conv)
      then have "extremes uminus JB_LONGMIN (hist_window ?jb1) = jb_hist_maxbuf jb"
        "extremes (\<lambda>x. x) JB_LONGMAX (hist_window ?jb1) = jb_hist_minbuf jb"
        using False w' d k B by (auto intro!: extremes_replace injI)
      then show ?thesis by (simp add: cache_ok_def)
    qed
  qed
  have "hist_wf ?jb1" if "\<not> jb_hist_maxbuf_valid jb"
    using lens that by (simp add: hist_wf_def cache_ok_def)
  moreover have "hist_wf ?jb1" if "jb_hist_maxbuf_valid jb" "?min \<le> d" "d \<le> ?max" "?min < ?kicked" "?kicked < ?max"
    using lens keep[OF that] by (simp add: hist_wf_def)
  ultimately show ?thesis
    using inv by (simp add: history_store_def Let_def not_less not_le del: mod_less)
qed

lemma history_resync_wf:
  "hist_wf jb \<Longrightarrow> hist_wf (fst (history_resync jb ts now d th))"
  by (auto simp: history_resync_def Let_def jb_inv hist_wf_def cache_ok_def)

lemma history_put_wf: "hist_wf jb \<Longrightarrow> hist_wf (snd (history_put ts now jb))"
  using history_resync_wf[of jb ts now "now - (ts - ji_resync_offset (jb_info jb))"
      "2 * ji_jitter (jb_info jb) + jc_resync_threshold (ji_conf (jb_info jb))"]
  by (auto simp: history_put_def Let_def split: option.splits prod.splits intro: history_store_wf)

lemma history_calc_maxbuf_0: "jb_hist_ptr jb = 0 \<Longrightarrow> history_calc_maxbuf jb = jb"
  by (simp add: history_calc_maxbuf_def)

lemma history_calc_wf:
  assumes "hist_wf jb"
  shows "hist_wf (history_calc_maxbuf jb)"
proof (cases "jb_hist_ptr jb = 0")
  case True
  with assms show ?thesis by (simp add: history_calc_maxbuf_0)
next
  case False
  with assms show ?thesis by (simp add: history_calc_maxbuf_extremes hist_wf_def cache_ok_def)
qed

lemma history_get_wf: "hist_wf jb \<Longrightarrow> hist_wf (history_get jb)"
  by (simp add: history_get_def Let_def jb_inv history_calc_wf)

text \<open>
  C9. The cache of the extreme buffers is coherent: whenever \<open>hist_maxbuf_valid\<close> is set, the
  buffers are those that \<open>history_calc_maxbuf\<close> would compute from the present history. The
  test in \<open>history_put\<close> that leaves them valid (neither the new delay nor the delay it
  overwrites is in a buffer) keeps this, so recomputing in \<open>history_get\<close> changes nothing.
\<close>

theorem history_cache_coherent:
  assumes "hist_wf jb" "0 < jb_hist_ptr jb"
  shows "hist_wf (snd (history_put ts now jb)) \<and>
         history_get (jb\<lparr>jb_hist_maxbuf_valid := False\<rparr>) = history_get jb"
proof
  show "hist_wf (snd (history_put ts now jb))" using assms(1) by (rule history_put_wf)
  have "history_calc_maxbuf (jb\<lparr>jb_hist_maxbuf_valid := False\<rparr>) =
        (if jb_hist_maxbuf_valid jb then jb else history_calc_maxbuf jb)"
    using assms by (simp add: history_calc_maxbuf_extremes hist_wf_def cache_ok_def)
  then show "history_get (jb\<lparr>jb_hist_maxbuf_valid := False\<rparr>) = history_get jb"
    by (simp add: history_get_def)
qed

lemma jb_reset_hist_wf: "hist_wf (jb_reset jb)"
  by (simp add: hist_wf_def cache_ok_def jb_reset_def Let_def)

lemma jb_example1_wf: "hist_wf jb_example1"
  by (simp add: jb_example1_def jb_example_def history_put_wf jb_reset_hist_wf)

lemma history_cache_coherent_witness:
  "hist_wf (snd (history_put 50 55 (history_get jb_example1))) \<and>
   history_get ((history_get jb_example1)\<lparr>jb_hist_maxbuf_valid := False\<rparr>) =
   history_get (history_get jb_example1)"
proof (rule history_cache_coherent)
  show "hist_wf (history_get jb_example1)" by (rule history_get_wf) (rule jb_example1_wf)
  have "jb_hist_ptr (history_get jb_example1) = jb_hist_ptr (history_calc_maxbuf jb_example1) \<or>
        jb_hist_ptr (history_get jb_example1) = jb_hist_ptr jb_example1"
    by (simp add: history_get_def Let_def)
  then show "0 < jb_hist_ptr (history_get jb_example1)"
    by (auto simp: history_calc_maxbuf_extremes jb_example1_window)
qed


section \<open>Jitter and minimum\<close>

lemma history_index_le: "history_index jb \<le> 15" "0 < jb_hist_ptr jb \<Longrightarrow> history_index jb < jb_hist_ptr jb"
  by (auto simp: history_index_def jb_consts Let_def)

lemma history_index_double: "0 < length (hist_window jb) \<Longrightarrow>
    2 * history_index jb < length (hist_window jb)"
  by (auto simp: history_index_def jb_consts Let_def length_hist_window)

lemma sort_replicate_least:
  fixes k :: "int \<Rightarrow> int"
  assumes "inj k" "\<forall>x \<in> set xs. k x \<le> k pad"
  shows "sort_key k (replicate n pad @ xs) = sort_key k xs @ replicate n pad"
proof -
  have "sorted_by k (replicate n pad)" for n by (induction n) auto
  then show ?thesis
    using assms by (intro sort_key_eqI) (auto simp: sorted_append)
qed

lemma sort_uminus_rev: "sort_key uminus (xs :: int list) = rev (sort xs)"
  by (intro sort_key_eqI) (simp_all add: sorted_wrt_map sorted_wrt_rev inj_def)

text \<open>
  C10. The minimum and the jitter that \<open>history_get\<close> publishes are order statistics of the window:
  with \<open>n\<close> the 3 percent outlier count, the minimum is the \<open>n\<close>-th least delay and the jitter is
  the distance from it to the \<open>n\<close>-th greatest, which is never negative. The delays have to
  be within the 32-bit range of \<open>JB_LONGMIN\<close> and \<open>JB_LONGMAX\<close>.
\<close>

theorem history_get_order_statistics:
  assumes "hist_wf jb" "0 < jb_hist_ptr jb"
    and "\<forall>d \<in> set (hist_window jb). JB_LONGMIN \<le> d \<and> d \<le> JB_LONGMAX"
  shows "let w = sort (hist_window jb); n = history_index jb; i = jb_info (history_get jb)
         in ji_min i = w ! n \<and> ji_jitter i = w ! (length w - 1 - n) - w ! n \<and> 0 \<le> ji_jitter i"
proof -
  let ?w = "hist_window jb" and ?n = "history_index jb"
  let ?s = "sort ?w"
  have len: "0 < length ?w" using assms(2) by (simp add: length_hist_window jb_consts)
  have n: "?n < 20" "2 * ?n < length ?s"
    using history_index_le(1)[of jb] history_index_double[OF len] by simp_all
  have "history_get jb = upd_info (\<lambda>i. i\<lparr>ji_min := extremes (\<lambda>x. x) JB_LONGMAX ?w ! ?n,
      ji_jitter := extremes uminus JB_LONGMIN ?w ! ?n - extremes (\<lambda>x. x) JB_LONGMAX ?w ! ?n\<rparr>)
      (if jb_hist_maxbuf_valid jb then jb else history_calc_maxbuf jb)"
    using assms(1,2)
    by (simp add: history_get_def Let_def history_calc_maxbuf_extremes hist_wf_def cache_ok_def
        history_index_def)
  moreover have "extremes (\<lambda>x. x) JB_LONGMAX ?w = take 20 (?s @ replicate 20 JB_LONGMAX)"
    using assms(3) sort_replicate_least[of "\<lambda>x. x" ?w JB_LONGMAX 20]
    by (simp add: extremes_def MAXBUF_20 inj_def)
  moreover have "extremes uminus JB_LONGMIN ?w = take 20 (rev ?s @ replicate 20 JB_LONGMIN)"
    using assms(3) sort_replicate_least[of uminus ?w JB_LONGMIN 20]
    by (simp add: extremes_def MAXBUF_20 inj_def sort_uminus_rev)
  moreover have "?s ! ?n \<le> ?s ! (length ?s - 1 - ?n)"
    using n(2) by (intro sorted_nth_mono) auto
  ultimately show ?thesis
    using n by (simp add: Let_def nth_append rev_nth)
qed

lemma history_get_order_statistics_witness:
  "let w = sort (hist_window jb_example1); n = history_index jb_example1;
       i = jb_info (history_get jb_example1)
   in ji_min i = w ! n \<and> ji_jitter i = w ! (length w - 1 - n) - w ! n \<and> 0 \<le> ji_jitter i"
  by (rule history_get_order_statistics[OF jb_example1_wf])
    (simp_all add: jb_example1_window JB_LONGMIN_def JB_LONGMAX_def)

section \<open>The frame queue\<close>

lemma queue_walk_insert:
  assumes "sorted_by jf_ts xs" "xs \<noteq> []" "jf_ts (hd xs) \<le> jf_ts f"
  shows "rev (queue_walk f (rev xs)) = insert_after jf_ts f xs"
  using assms
proof (induction xs rule: rev_induct)
  case (snoc x xs)
  show ?case
  proof (cases "jf_ts f < jf_ts x \<and> xs \<noteq> []")
    case True
    have "sorted_by jf_ts xs" "jf_ts (hd xs) \<le> jf_ts f"
      using snoc.prems True by (simp_all add: sorted_append)
    with snoc.IH True have "rev (queue_walk f (rev xs)) = insert_after jf_ts f xs" by simp
    moreover have "insert_after jf_ts f (ys @ [x]) = insert_after jf_ts f ys @ [x]" for ys
      using True by (induction ys) auto
    ultimately show ?thesis using True by simp
  next
    case False
    then have "\<forall>y \<in> set (xs @ [x]). jf_ts y \<le> jf_ts f"
      using snoc.prems by (fastforce simp: sorted_append)
    then have "insert_after jf_ts f (xs @ [x]) = (xs @ [x]) @ [f]"
      by (rule insert_after_last)
    with False show ?thesis by auto
  qed
qed simp

lemma queue_link_frames:
  assumes "sorted_by jf_ts (jb_frames jb)"
  shows "jb_frames (snd (queue_link f ts jb)) = insert_after jf_ts f (jb_frames jb)"
  using assms queue_walk_insert[of "jb_frames jb" f]
  by (auto simp: queue_link_def not_le split: list.split)

interpretation jq: timed_queue jb_frames jf_ts "\<lambda>f jb. snd (queue_link f ts jb)" queue_get
  by unfold_locales
    (auto simp: queue_link_frames queue_get_def queue_get_any_def)


text \<open>
  \<open>info_only a b\<close>: from \<open>a\<close> to \<open>b\<close> nothing but the statistics changed, and among these neither
  the settings nor the number of queued frames; the loss percentage stays in range.
\<close>

definition info_only :: "'d jitterbuf \<Rightarrow> 'd jitterbuf \<Rightarrow> bool" where
  "info_only a b \<longleftrightarrow> (\<exists>i. b = a\<lparr>jb_info := i\<rparr> \<and> ji_frames_cur i = ji_frames_cur (jb_info a) \<and>
     ji_conf i = ji_conf (jb_info a) \<and> (losspct_ok (jb_info a) \<longrightarrow> losspct_ok i))"

lemma info_onlyI:
  "ji_frames_cur i = ji_frames_cur (jb_info a) \<Longrightarrow> ji_conf i = ji_conf (jb_info a) \<Longrightarrow>
   (losspct_ok (jb_info a) \<Longrightarrow> losspct_ok i) \<Longrightarrow> info_only a (a\<lparr>jb_info := i\<rparr>)"
  by (auto simp: info_only_def)

lemma info_only_refl [simp]: "info_only a a"
  using info_onlyI[of "jb_info a" a] by simp

lemma info_only_trans: "info_only a b \<Longrightarrow> info_only b c \<Longrightarrow> info_only a c"
  by (auto simp: info_only_def)

lemma info_only_wf: "info_only a b \<Longrightarrow> jb_wf a \<Longrightarrow> jb_wf b"
  by (auto simp: info_only_def jb_wf_def queue_wf_def jb_inv)

lemma info_only_frames: "info_only a b \<Longrightarrow> jb_frames b = jb_frames a"
  by (auto simp: info_only_def)

lemma losspct_range:
  "losspct_ok i \<Longrightarrow> losspct_ok (increment_losspct i)"
  "losspct_ok i \<Longrightarrow> losspct_ok (decrement_losspct i)"
  by (auto simp: losspct_ok_def increment_losspct_def decrement_losspct_def sdiv_nonneg)

lemma losspct_fields [simp]:
  "ji_frames_cur (increment_losspct i) = ji_frames_cur i" "ji_conf (increment_losspct i) = ji_conf i"
  "ji_frames_cur (decrement_losspct i) = ji_frames_cur i" "ji_conf (decrement_losspct i) = ji_conf i"
  "ji_frames_cur (assume_silence i) = ji_frames_cur i" "ji_conf (assume_silence i) = ji_conf i"
  "ji_losspct (assume_silence i) = ji_losspct i"
  by (simp_all add: increment_losspct_def decrement_losspct_def assume_silence_def)

lemma losspct_ok_upd [simp]:
  "losspct_ok (i\<lparr>ji_cnt_contig_interp := a\<rparr>) = losspct_ok i"
  "losspct_ok (i\<lparr>ji_frames_out := a\<rparr>) = losspct_ok i"
  "losspct_ok (i\<lparr>ji_frames_late := a\<rparr>) = losspct_ok i"
  "losspct_ok (i\<lparr>ji_frames_lost := a\<rparr>) = losspct_ok i"
  "losspct_ok (i\<lparr>ji_frames_dropped := a\<rparr>) = losspct_ok i"
  "losspct_ok (i\<lparr>ji_next_voice_ts := a\<rparr>) = losspct_ok i"
  "losspct_ok (i\<lparr>ji_last_voice_ms := a\<rparr>) = losspct_ok i"
  "losspct_ok (i\<lparr>ji_last_adjustment := a\<rparr>) = losspct_ok i"
  "losspct_ok (i\<lparr>ji_current := a\<rparr>) = losspct_ok i"
  "losspct_ok (i\<lparr>ji_target := a\<rparr>) = losspct_ok i"
  "losspct_ok (i\<lparr>ji_silence_begin_ts := a\<rparr>) = losspct_ok i"
  "losspct_ok (i\<lparr>ji_frames_cur := a\<rparr>) = losspct_ok i"
  "losspct_ok (i\<lparr>ji_frames_ooo := a\<rparr>) = losspct_ok i"
  "losspct_ok (i\<lparr>ji_frames_in := a\<rparr>) = losspct_ok i"
  "losspct_ok (i\<lparr>ji_min := a\<rparr>) = losspct_ok i"
  "losspct_ok (i\<lparr>ji_jitter := a\<rparr>) = losspct_ok i"
  "losspct_ok (i\<lparr>ji_last_delay := a\<rparr>) = losspct_ok i"
  "losspct_ok (i\<lparr>ji_cnt_delay_discont := a\<rparr>) = losspct_ok i"
  "losspct_ok (i\<lparr>ji_resync_offset := a\<rparr>) = losspct_ok i"
  "losspct_ok (assume_silence i) = losspct_ok i"
  by (simp_all add: losspct_ok_def)

section \<open>One delivery\<close>

lemma jb_get_noframe_effect:
  assumes "jb_get_noframe diff now interpl jb = (r, fo, jb')"
  shows "fo = None \<and> r \<in> {JB_NOFRAME, JB_INTERP} \<and> info_only jb jb'"
  using assms by (auto simp: jb_get_noframe_def Let_def losspct_range intro!: info_onlyI split: if_splits)

lemma jb_get_frame_effect:
  assumes "jb_get_frame diff now f jb = (r, fo, jb')"
  shows "fo = Some f \<and> r \<in> {JB_OK, JB_DROP} \<and> info_only jb jb'"
  using assms
  by (auto simp: jb_get_frame_def Let_def losspct_range intro!: info_onlyI split: if_splits)

lemma queue_get_effect:
  assumes "queue_get t jb = (fo, jb')"
  shows "(case fo of None \<Rightarrow> jb' = jb | Some f \<Rightarrow> jf_ts f \<le> t \<and> jb_frames jb = f # jb_frames jb')"
    and "jb_wf jb \<Longrightarrow> jb_wf jb'"
  using assms
  by (auto simp: queue_get_def queue_get_any_def jb_wf_def queue_wf_def jb_inv
      split: list.splits if_splits)

definition delivery_ok :: "int \<Rightarrow> 'd jitterbuf \<Rightarrow> jb_ret \<times> 'd jb_frame option \<times> 'd jitterbuf \<Rightarrow> bool" where
  "delivery_ok t jb res = (case res of
      (r, None, jb') \<Rightarrow> r \<in> {JB_NOFRAME, JB_INTERP} \<and> jb_frames jb' = jb_frames jb
    | (r, Some f, jb') \<Rightarrow> r \<in> {JB_OK, JB_DROP} \<and> jf_ts f \<le> t \<and> jb_frames jb = f # jb_frames jb')"

lemma jb_get_voice_effect:
  "delivery_ok (ji_next_voice_ts (jb_info jb) - ji_current (jb_info jb)) jb (jb_get_voice diff now interpl jb)"
  "jb_wf jb \<Longrightarrow> jb_wf (snd (snd (jb_get_voice diff now interpl jb)))"
proof -
  let ?i = "jb_info jb"
  let ?t = "ji_next_voice_ts ?i - ji_current ?i"
  obtain fo jb1 where q: "queue_get ?t jb = (fo, jb1)" by fastforce
  note q1 = queue_get_effect[OF q]
  let ?grow = "diff > 0 \<and> (ji_last_adjustment ?i + JB_ADJUST_DELAY < now \<or> diff > queue_last jb - queue_next jb)"
  obtain r1 fo1 b1 where n: "jb_get_noframe diff now interpl jb1 = (r1, fo1, b1)" by (metis prod_cases3)
  obtain r2 fo2 b2 where f: "jb_get_frame diff now (the fo) jb1 = (r2, fo2, b2)" by (metis prod_cases3)
  note e = jb_get_noframe_effect[OF n] jb_get_frame_effect[OF f]
  have fr: "jb_frames b1 = jb_frames jb1" "jb_frames b2 = jb_frames jb1"
    using e by (auto dest: info_only_frames)
  show "delivery_ok ?t jb (jb_get_voice diff now interpl jb)"
    using q q1(1) n f e fr
    by (cases fo; cases ?grow) (auto simp: jb_get_voice_def Let_def delivery_ok_def)
  have grow: "info_only jb (upd_info (\<lambda>i. assume_silence
      (i\<lparr>ji_current := ji_current i + interpl, ji_next_voice_ts := ji_next_voice_ts i + interpl,
         ji_last_voice_ms := interpl, ji_last_adjustment := now,
         ji_cnt_contig_interp := ji_cnt_contig_interp i + 1\<rparr>)) jb)"
    by (rule info_onlyI) simp_all
  show "jb_wf jb \<Longrightarrow> jb_wf (snd (snd (jb_get_voice diff now interpl jb)))"
    using q q1(2) n f e info_only_wf[OF grow]
    by (cases fo; cases ?grow) (auto simp: jb_get_voice_def Let_def intro: info_only_wf)
qed


lemma jb_get_silence_effect:
  "\<exists>t \<le> max (now - ji_current (jb_info jb)) (now - ji_current (jb_info jb) + interpl).
     delivery_ok t jb (jb_get_silence diff now interpl jb)"
  "jb_wf jb \<Longrightarrow> jb_wf (snd (snd (jb_get_silence diff now interpl jb)))"
proof -
  define jb1 where "jb1 = (if diff < - jc_target_extra (ji_conf (jb_info jb)) \<and>
      ji_last_adjustment (jb_info jb) + 10 \<le> now
    then upd_info (\<lambda>i. i\<lparr>ji_current := ji_current i - interpl, ji_last_adjustment := now\<rparr>) jb else jb)"
  define t where "t = now - ji_current (jb_info jb1)"
  obtain fo jb2 where q: "queue_get t jb1 = (fo, jb2)" by fastforce
  have i1: "info_only jb jb1" by (auto simp: jb1_def intro: info_onlyI)
  note q1 = queue_get_effect[OF q]
  have unfold: "jb_get_silence diff now interpl jb =
     (case fo of None \<Rightarrow> (JB_NOFRAME, None, jb2)
      | Some frame \<Rightarrow>
         if jf_type frame \<noteq> JB_TYPE_VOICE then
           (JB_OK, Some frame, upd_info (\<lambda>i. i\<lparr>ji_frames_out := ji_frames_out i + 1\<rparr>) jb2)
         else if jf_ts frame < ji_silence_begin_ts (jb_info jb2) then
           (JB_DROP, Some frame,
            upd_info (\<lambda>i. (decrement_losspct (i\<lparr>ji_frames_out := ji_frames_out i + 1\<rparr>))
               \<lparr>ji_frames_late := ji_frames_late i + 1, ji_frames_lost := ji_frames_lost i - 1\<rparr>) jb2)
         else
           (JB_OK, Some frame,
            upd_info (\<lambda>i. decrement_losspct
               (i\<lparr>ji_current := ji_target i, ji_silence_begin_ts := 0,
                  ji_next_voice_ts := jf_ts frame + ji_target i + jf_ms frame,
                  ji_last_voice_ms := jf_ms frame, ji_frames_out := ji_frames_out i + 1\<rparr>)) jb2))"
    using q by (simp add: jb_get_silence_def Let_def jb1_def[symmetric] t_def split: option.split)
  have "delivery_ok t jb (jb_get_silence diff now interpl jb)"
    using q1(1) info_only_frames[OF i1]
    by (auto simp: unfold delivery_ok_def split: option.splits)
  moreover have "t \<le> max (now - ji_current (jb_info jb)) (now - ji_current (jb_info jb) + interpl)"
    by (auto simp: t_def jb1_def)
  ultimately show "\<exists>t \<le> max (now - ji_current (jb_info jb)) (now - ji_current (jb_info jb) + interpl).
     delivery_ok t jb (jb_get_silence diff now interpl jb)" by blast
  show "jb_wf (snd (snd (jb_get_silence diff now interpl jb)))" if "jb_wf jb"
  proof -
    from that have w2: "jb_wf jb2" using q1(2) info_only_wf[OF i1] by blast
    have "info_only jb2 (snd (snd (jb_get_silence diff now interpl jb)))"
      by (auto simp: unfold losspct_range intro!: info_onlyI split: option.split)
    then show ?thesis using w2 by (rule info_only_wf)
  qed
qed

lemma history_get_effect:
  "jb_frames (history_get jb) = jb_frames jb" "ji_conf (jb_info (history_get jb)) = ji_conf (jb_info jb)"
  "ji_current (jb_info (history_get jb)) = ji_current (jb_info jb)"
  "ji_frames_cur (jb_info (history_get jb)) = ji_frames_cur (jb_info jb)"
  "losspct_ok (jb_info (history_get jb)) = losspct_ok (jb_info jb)"
  "ji_silence_begin_ts (jb_info (history_get jb)) = ji_silence_begin_ts (jb_info jb)"
  "ji_next_voice_ts (jb_info (history_get jb)) = ji_next_voice_ts (jb_info jb)"
  by (cases "jb_hist_ptr jb = 0";
      simp add: history_get_def Let_def history_calc_maxbuf_0 history_calc_maxbuf_extremes)+

lemma history_get_jb_wf: "jb_wf jb \<Longrightarrow> jb_wf (history_get jb)"
  by (simp add: jb_wf_def queue_wf_def history_get_wf history_get_effect)

lemma jb_retarget_effect:
  "jb_frames (jb_retarget jb) = jb_frames jb" "ji_conf (jb_info (jb_retarget jb)) = ji_conf (jb_info jb)"
  "ji_current (jb_info (jb_retarget jb)) = ji_current (jb_info jb)"
  "ji_silence_begin_ts (jb_info (jb_retarget jb)) = ji_silence_begin_ts (jb_info jb)"
  "ji_next_voice_ts (jb_info (jb_retarget jb)) = ji_next_voice_ts (jb_info jb)"
  "jb_wf jb \<Longrightarrow> jb_wf (jb_retarget jb)"
proof -
  have "info_only (history_get jb) (jb_retarget jb)"
    by (auto simp: jb_retarget_def Let_def intro: info_onlyI)
  then show "jb_wf jb \<Longrightarrow> jb_wf (jb_retarget jb)"
    by (blast intro: info_only_wf history_get_jb_wf)
qed (simp_all add: jb_retarget_def Let_def history_get_effect)

lemma jb_get_wf: "jb_wf jb \<Longrightarrow> jb_wf (snd (snd (jb_get now interpl jb)))"
  by (simp add: jb_get_def Let_def jb_get_voice_effect jb_get_silence_effect jb_retarget_effect)

text \<open>The latest time of delivery of a frame that \<open>jb_get\<close> may hand out.\<close>

definition due_time :: "int \<Rightarrow> int \<Rightarrow> 'd jitterbuf \<Rightarrow> int" where
  "due_time now interpl jb =
     (let i = jb_info jb in
      if ji_silence_begin_ts i = 0 then ji_next_voice_ts i - ji_current i
      else max (now - ji_current i) (now - ji_current i + interpl))"

lemma delivery_ok_mono: "delivery_ok t jb res \<Longrightarrow> t \<le> u \<Longrightarrow> delivery_ok u jb res"
  by (auto simp: delivery_ok_def split: prod.splits option.splits)

lemma jb_get_delivery: "delivery_ok (due_time now interpl jb) jb (jb_get now interpl jb)"
proof -
  let ?jb = "jb_retarget jb"
  let ?d = "ji_target (jb_info ?jb) - ji_current (jb_info ?jb)"
  have "delivery_ok (due_time now interpl jb) ?jb (jb_get now interpl jb)"
    using jb_get_voice_effect(1)[of ?jb ?d now interpl] jb_get_silence_effect(1)[of now ?jb interpl ?d]
    by (auto simp: jb_get_def Let_def due_time_def jb_retarget_effect intro: delivery_ok_mono)
  then show ?thesis
    by (auto simp: delivery_ok_def jb_retarget_effect split: prod.splits option.splits)
qed


text \<open>
  The clamp: with \<open>max_jitterbuf\<close> set, the target that \<open>jb_get\<close> works towards is never more
  than \<open>max_jitterbuf\<close> above the minimum delay; without it, or below it, the target is jitter
  plus minimum plus the configured extra.
\<close>

theorem jb_retarget_clamps:
  "let i = jb_info (jb_retarget jb); c = ji_conf (jb_info jb);
       wanted = ji_jitter i + jc_target_extra c
   in ji_target i - ji_min i =
      (if jc_max_jitterbuf c \<noteq> 0 then min wanted (jc_max_jitterbuf c) else wanted)"
  by (simp add: jb_retarget_def Let_def history_get_effect)

section \<open>Putting a frame\<close>

lemma jb_reset_wf: "jb_wf (jb_reset jb)"
  by (simp add: jb_wf_def queue_wf_def hist_wf_def cache_ok_def losspct_ok_def jb_reset_def Let_def
      zero_info_def)

lemma history_store_effect [simp]:
  "jb_frames (history_store d jb) = jb_frames jb" "jb_info (history_store d jb) = jb_info jb"
  "jb_free (history_store d jb) = jb_free jb"
  by (simp_all add: history_store_def Let_def)

lemma history_resync_effect:
  assumes "history_resync jb ts now delay th = (jb', r)"
  shows "jb_frames jb' = jb_frames jb" "ji_frames_cur (jb_info jb') = ji_frames_cur (jb_info jb)"
    "losspct_ok (jb_info jb') = losspct_ok (jb_info jb)" "jb_free jb' = jb_free jb"
  using assms by (auto simp: history_resync_def Let_def split: if_splits)

lemma history_put_effect:
  assumes "history_put ts now jb = (d, jb')"
  shows "jb_frames jb' = jb_frames jb" "ji_frames_cur (jb_info jb') = ji_frames_cur (jb_info jb)"
    "losspct_ok (jb_info jb') = losspct_ok (jb_info jb)" "jb_free jb' = jb_free jb"
  using assms
  by (auto simp: history_put_def Let_def split: if_splits option.splits prod.splits
      dest: history_resync_effect)

lemma history_put_jb_wf: "jb_wf jb \<Longrightarrow> jb_wf (snd (history_put ts now jb))"
  using history_put_effect[of ts now jb "fst (history_put ts now jb)" "snd (history_put ts now jb)"]
  by (simp add: jb_wf_def queue_wf_def history_put_wf)

lemma queue_link_cur:
  "jb_wf (jb\<lparr>jb_info := (jb_info jb)\<lparr>ji_frames_cur := ji_frames_cur (jb_info jb) - 1\<rparr>\<rparr>) \<Longrightarrow>
   jb_wf (snd (queue_link f ts jb))"
proof -
  assume w: "jb_wf (jb\<lparr>jb_info := (jb_info jb)\<lparr>ji_frames_cur := ji_frames_cur (jb_info jb) - 1\<rparr>\<rparr>)"
  then have s: "sorted_by jf_ts (jb_frames jb)" by (simp add: jb_wf_def queue_wf_def)
  have "jb_info (snd (queue_link f ts jb)) \<in>
      {jb_info jb, (jb_info jb)\<lparr>ji_frames_ooo := ji_frames_ooo (jb_info jb) + 1\<rparr>}"
    by (auto simp: queue_link_def split: list.split)
  moreover have "hist_wf (snd (queue_link f ts jb)) = hist_wf jb"
    by (auto simp: queue_link_def jb_inv split: list.split)
  ultimately show ?thesis
    using w s by (auto simp: jb_wf_def queue_wf_def queue_link_frames jb_inv)
qed

lemma queue_put_wf:
  assumes "jb_wf jb"
  shows "jb_wf (snd (queue_put alloc d ty ms ts jb))"
proof -
  let ?j = "upd_info (\<lambda>i. i\<lparr>ji_frames_cur := ji_frames_cur i + 1\<rparr>) (jb\<lparr>jb_free := jb_free jb - 1\<rparr>)"
  have "jb_wf (?j\<lparr>jb_info := (jb_info ?j)\<lparr>ji_frames_cur := ji_frames_cur (jb_info ?j) - 1\<rparr>\<rparr>)"
    using assms by (simp add: jb_wf_def queue_wf_def jb_inv)
  from queue_link_cur[OF this] assms show ?thesis by (simp add: queue_put_def Let_def)
qed

lemma queue_put_frames:
  assumes "sorted_by jf_ts (jb_frames jb)" "alloc \<or> 0 < jb_free jb"
  shows "jb_frames (snd (queue_put alloc d ty ms ts jb)) =
     insert_after jf_ts \<lparr>jf_data = d, jf_ts = ts - ji_resync_offset (jb_info jb), jf_ms = ms, jf_type = ty\<rparr>
       (jb_frames jb)"
  using assms by (auto simp: queue_put_def Let_def queue_link_frames)

lemma queue_put_nospace: "\<not> alloc \<Longrightarrow> jb_free jb = 0 \<Longrightarrow> queue_put alloc d ty ms ts jb = (False, jb)"
  by (simp add: queue_put_def)

lemma jb_put_parts:
  obtains dr jb2 where
    "(if ty = JB_TYPE_VOICE then history_put ts now (upd_info (\<lambda>i. i\<lparr>ji_frames_in := ji_frames_in i + 1\<rparr>) jb)
      else (False, upd_info (\<lambda>i. i\<lparr>ji_frames_in := ji_frames_in i + 1\<rparr>) jb)) = (dr, jb2)"
    and "jb_put alloc d ty ms ts now jb =
      (if dr then (JB_DROP, jb2)
       else let (head, jb3) = queue_put alloc d ty ms ts jb2 in (if head then JB_SCHED else JB_OK, jb3))"
    and "jb_frames jb2 = jb_frames jb" "jb_free jb2 = jb_free jb" "jb_wf jb \<Longrightarrow> jb_wf jb2"
proof -
  let ?jb1 = "upd_info (\<lambda>i. i\<lparr>ji_frames_in := ji_frames_in i + 1\<rparr>) jb"
  let ?h = "if ty = JB_TYPE_VOICE then history_put ts now ?jb1 else (False, ?jb1)"
  obtain dr jb2 where h: "?h = (dr, jb2)" by fastforce
  have w1: "jb_wf jb \<Longrightarrow> jb_wf ?jb1" by (rule info_only_wf[OF info_onlyI]) simp_all
  have "jb_frames jb2 = jb_frames jb" "jb_free jb2 = jb_free jb"
    using h history_put_effect[of ts now ?jb1 dr jb2] by (auto split: if_splits)
  moreover have "jb_wf jb2" if "jb_wf jb"
    using h w1[OF that] history_put_jb_wf[of ?jb1 ts now] by (auto split: if_splits)
  moreover have "jb_put alloc d ty ms ts now jb =
      (if dr then (JB_DROP, jb2)
       else let (head, jb3) = queue_put alloc d ty ms ts jb2 in (if head then JB_SCHED else JB_OK, jb3))"
    using h by (simp add: jb_put_def Let_def split: prod.split)
  ultimately show thesis using h that by blast
qed

lemma jb_put_wf:
  assumes "jb_wf jb"
  shows "jb_wf (snd (jb_put alloc d ty ms ts now jb))"
proof -
  obtain dr jb2 where "jb_put alloc d ty ms ts now jb =
      (if dr then (JB_DROP, jb2)
       else let (head, jb3) = queue_put alloc d ty ms ts jb2 in (if head then JB_SCHED else JB_OK, jb3))"
    "jb_wf jb2"
    using assms jb_put_parts[of ty ts now jb alloc d ms thesis] by blast
  then show ?thesis using queue_put_wf[of jb2 alloc d ty ms ts] by (simp add: split_beta)
qed

text \<open>Everything queued before is still queued; a frame that is not dropped is queued once.\<close>

lemma jb_put_data:
  assumes "jb_wf jb" "alloc \<or> 0 < jb_free jb" "jb_put alloc d ty ms ts now jb = (r, jb')"
  shows "mset (map jf_data (jb_frames jb')) =
         (if r = JB_DROP then {#} else {#d#}) + mset (map jf_data (jb_frames jb))"
proof -
  obtain dr jb2 where p: "jb_put alloc d ty ms ts now jb =
      (if dr then (JB_DROP, jb2)
       else let (head, jb3) = queue_put alloc d ty ms ts jb2 in (if head then JB_SCHED else JB_OK, jb3))"
    "jb_frames jb2 = jb_frames jb" "jb_free jb2 = jb_free jb" "jb_wf jb2"
    using assms(1) jb_put_parts[of ty ts now jb alloc d ms thesis] by blast
  have "jb_frames (snd (queue_put alloc d ty ms ts jb2)) =
     insert_after jf_ts \<lparr>jf_data = d, jf_ts = ts - ji_resync_offset (jb_info jb2), jf_ms = ms, jf_type = ty\<rparr>
       (jb_frames jb2)"
    by (rule queue_put_frames) (use p assms(2) in \<open>auto simp: jb_wf_def queue_wf_def\<close>)
  then show ?thesis
    using p assms(3) by (auto simp: split_beta mset_map split: if_splits)
qed


text \<open>
  C12. A \<open>jb_put\<close> whose allocation succeeds keeps the queue in timestamp order: unless it
  returns \<open>JB_DROP\<close>, the queue afterwards is the queue before with the new frame inserted
  behind the frames that are not later, its timestamp shifted by the resynchronisation offset;
  with \<open>JB_DROP\<close> the queue is unchanged. \<open>JB_SCHED\<close> says that it is earlier than all the others.
\<close>

theorem jb_put_inserts_in_order:
  assumes "jb_wf jb" "if alloc then True else 0 < jb_free jb"
  shows "case jb_put alloc d ty ms ts now jb of (r, jb') \<Rightarrow> sorted_by jf_ts (jb_frames jb') \<and>
     (if r = JB_DROP then jb_frames jb' = jb_frames jb
      else r \<in> {JB_OK, JB_SCHED} \<and> (\<exists>f. jf_data f = d \<and> jf_ms f = ms \<and> jf_type f = ty \<and>
        jf_ts f = ts - ji_resync_offset (jb_info jb') \<and>
        jb_frames jb' = insert_after jf_ts f (jb_frames jb) \<and>
        (r = JB_SCHED) = list_all (\<lambda>g. jf_ts f < jf_ts g) (jb_frames jb)))"
proof -
  obtain r jb' where put: "jb_put alloc d ty ms ts now jb = (r, jb')" by fastforce
  have space: "alloc \<or> 0 < jb_free jb" using assms(2) by (simp split: if_splits)
  obtain dr jb2 where p: "jb_put alloc d ty ms ts now jb =
      (if dr then (JB_DROP, jb2)
       else let (head, jb3) = queue_put alloc d ty ms ts jb2 in (if head then JB_SCHED else JB_OK, jb3))"
    "jb_frames jb2 = jb_frames jb" "jb_free jb2 = jb_free jb" "jb_wf jb2"
    using assms(1) jb_put_parts[of ty ts now jb alloc d ms thesis] by blast
  have srt: "sorted_by jf_ts (jb_frames jb')"
    using jb_put_wf[OF assms(1), of alloc d ty ms ts now] put by (simp add: jb_wf_def queue_wf_def)
  let ?f = "\<lparr>jf_data = d, jf_ts = ts - ji_resync_offset (jb_info jb2), jf_ms = ms, jf_type = ty\<rparr>"
  let ?q = "queue_put alloc d ty ms ts jb2"
  have sp: "alloc \<or> 0 < jb_free jb2" using space p(3) by simp
  have fr: "jb_frames (snd ?q) = insert_after jf_ts ?f (jb_frames jb)"
    using queue_put_frames[OF _ sp, of d ty ms ts] p(2,4) by (simp add: jb_wf_def queue_wf_def)
  have off: "ji_resync_offset (jb_info (snd ?q)) = ji_resync_offset (jb_info jb2)"
    using sp by (auto simp: queue_put_def queue_link_def Let_def split: list.split)
  have head: "fst ?q = (\<forall>g \<in> set (jb_frames jb). jf_ts ?f < jf_ts g)"
  proof (cases "jb_frames jb")
    case Nil
    then show ?thesis using sp p(2) by (auto simp: queue_put_def queue_link_def Let_def)
  next
    case (Cons h t)
    then have "\<forall>g \<in> set t. jf_ts h \<le> jf_ts g" using assms(1) by (simp add: jb_wf_def queue_wf_def)
    then show ?thesis using Cons sp p(2)
      by (auto simp: queue_put_def queue_link_def Let_def)
  qed
  show ?thesis
  proof (cases dr)
    case True
    then show ?thesis using srt p(1,2) put by simp
  next
    case False
    then have "r = (if fst ?q then JB_SCHED else JB_OK)" "jb' = snd ?q"
      using p(1) put by (simp_all add: split_beta)
    then show ?thesis using srt fr off head put by (auto simp: list_all_iff intro!: exI[of _ ?f])
  qed
qed

lemma jb_put_inserts_in_order_witness:
  "case jb_put True 7 JB_TYPE_VOICE 20 20 25 jb_example of (r, jb') \<Rightarrow>
     sorted_by jf_ts (jb_frames jb') \<and>
     (if r = JB_DROP then jb_frames jb' = jb_frames jb_example
      else r \<in> {JB_OK, JB_SCHED} \<and> (\<exists>f. jf_data f = 7 \<and> jf_ms f = 20 \<and> jf_type f = JB_TYPE_VOICE \<and>
        jf_ts f = 20 - ji_resync_offset (jb_info jb') \<and>
        jb_frames jb' = insert_after jf_ts f (jb_frames jb_example) \<and>
        (r = JB_SCHED) = list_all (\<lambda>g. jf_ts f < jf_ts g) (jb_frames jb_example)))"
  by (rule jb_put_inserts_in_order) (simp_all add: jb_example_def jb_reset_wf)

text \<open>
  When \<open>malloc\<close> fails, \<open>queue_put\<close> loses the frame but \<open>jb_put\<close> still reports \<open>JB_OK\<close>: the
  caller keeps no reference and frees nothing.
\<close>

lemma jb_put_alloc_failure_reports_ok:
  assumes "jb_free jb = 0" "ty \<noteq> JB_TYPE_VOICE"
  shows "fst (jb_put False d ty ms ts now jb) = JB_OK"
    "jb_frames (snd (jb_put False d ty ms ts now jb)) = jb_frames jb"
  using assms by (simp_all add: jb_put_def queue_put_def)

section \<open>Runs\<close>

datatype 'd jb_op =
    OpPut 'd jb_type int int int
  | OpGet int int
  | OpGetAll
  | OpGetInfo
  | OpSetConf jb_conf

text \<open>One operation: the data accepted into the queue, the data handed out, the buffer after.\<close>

fun jb_exec :: "'d jb_op \<Rightarrow> 'd jitterbuf \<Rightarrow> 'd list \<times> 'd list \<times> 'd jitterbuf" where
  "jb_exec (OpPut d ty ms ts now) jb =
     (let (r, jb') = jb_put True d ty ms ts now jb in (if r = JB_DROP then [] else [d], [], jb'))"
| "jb_exec (OpGet now interpl) jb =
     (let (r, fo, jb') = jb_get now interpl jb
      in ([], (case fo of None \<Rightarrow> [] | Some f \<Rightarrow> [jf_data f]), jb'))"
| "jb_exec OpGetAll jb =
     (let (r, fo, jb') = jb_getall jb
      in ([], (case fo of None \<Rightarrow> [] | Some f \<Rightarrow> [jf_data f]), jb'))"
| "jb_exec OpGetInfo jb = ([], [], snd (jb_getinfo jb))"
| "jb_exec (OpSetConf c) jb = ([], [], snd (jb_setconf c jb))"

fun jb_run :: "'d jb_op list \<Rightarrow> 'd jitterbuf \<Rightarrow> 'd list \<times> 'd list \<times> 'd jitterbuf" where
  "jb_run [] jb = ([], [], jb)"
| "jb_run (op # ops) jb =
     (let (a, d, jb1) = jb_exec op jb; (a', d', jb2) = jb_run ops jb1 in (a @ a', d @ d', jb2))"

lemma jb_getall_effect:
  "jb_getall jb = (case jb_frames jb of [] \<Rightarrow> (JB_NOFRAME, None, jb)
     | h # t \<Rightarrow> (JB_OK, Some h, upd_info (\<lambda>i. i\<lparr>ji_frames_cur := ji_frames_cur i - 1\<rparr>)
                       (jb\<lparr>jb_frames := t, jb_free := jb_free jb + 1\<rparr>)))"
  by (auto simp: jb_getall_def queue_getall_def queue_get_any_def split: list.split)

lemma jb_getall_wf: "jb_wf jb \<Longrightarrow> jb_wf (snd (snd (jb_getall jb)))"
  by (auto simp: jb_getall_effect jb_wf_def queue_wf_def jb_inv split: list.split)

lemma jb_setconf_wf: "jb_wf jb \<Longrightarrow> jb_wf (snd (jb_setconf c jb))"
  by (auto simp: jb_setconf_def Let_def jb_wf_def queue_wf_def jb_inv losspct_ok_def)

lemma jb_exec_wf: "jb_wf jb \<Longrightarrow> jb_wf (snd (snd (jb_exec op jb)))"
  by (cases op) (auto simp: split_beta jb_put_wf jb_get_wf jb_getall_wf jb_setconf_wf jb_getinfo_def
      Let_def history_get_jb_wf)

lemma jb_exec_conserve:
  assumes "jb_wf jb" "jb_exec op jb = (a, d, jb')"
  shows "mset (map jf_data (jb_frames jb)) + mset a = mset d + mset (map jf_data (jb_frames jb'))"
proof (cases op)
  case (OpPut x ty ms ts now)
  obtain r jb1 where "jb_put True x ty ms ts now jb = (r, jb1)" by fastforce
  with jb_put_data[OF assms(1) _ this] assms(2) OpPut show ?thesis by (auto simp: split_beta)
next
  case (OpGet now interpl)
  with assms(2) jb_get_delivery[of now interpl jb] show ?thesis
    by (auto simp: delivery_ok_def split_beta split: option.splits)
next
  case OpGetAll
  with assms(2) show ?thesis by (auto simp: jb_getall_effect split: list.splits)
next
  case OpGetInfo
  with assms(2) show ?thesis by (auto simp: jb_getinfo_def Let_def history_get_effect)
next
  case (OpSetConf c)
  with assms(2) show ?thesis by (auto simp: jb_setconf_def Let_def)
qed

lemma jb_run_wf: "jb_wf jb \<Longrightarrow> jb_wf (snd (snd (jb_run ops jb)))"
  by (induction ops arbitrary: jb) (auto simp: split_beta jb_exec_wf)

lemma jb_run_conserve:
  assumes "jb_wf jb" "jb_run ops jb = (a, d, jb')"
  shows "mset (map jf_data (jb_frames jb)) + mset a = mset d + mset (map jf_data (jb_frames jb'))"
  using assms
proof (induction ops arbitrary: jb a d jb')
  case (Cons op ops)
  obtain a1 d1 jb1 where 1: "jb_exec op jb = (a1, d1, jb1)" by (metis prod_cases3)
  obtain a2 d2 jb2 where 2: "jb_run ops jb1 = (a2, d2, jb2)" by (metis prod_cases3)
  have "jb_wf jb1" using jb_exec_wf[OF Cons.prems(1), of op] 1 by simp
  from Cons.IH[OF this 2] jb_exec_conserve[OF Cons.prems(1) 1] show ?case
    using Cons.prems(2) 1 2 by (auto simp: algebra_simps) (metis add.assoc add.commute)
qed simp

text \<open>
  C13. No frame is lost or duplicated. Over any sequence of operations on a buffer that was
  just reset (with \<open>malloc\<close> succeeding), the frames accepted by \<open>jb_put\<close> are exactly the frames
  handed out by \<open>jb_get\<close> and \<open>jb_getall\<close> together with those still queued, as multisets; and the
  buffer satisfies its invariant: coherent cache, queue in order, \<open>frames_cur\<close> equal to the
  length of the queue, loss percentage between 0 and 100000.
\<close>

theorem jb_run_conserves_frames:
  "case jb_run ops (jb_reset jb) of (accepted, delivered, jb') \<Rightarrow>
     mset accepted = mset delivered + mset (map jf_data (jb_frames jb')) \<and> jb_wf jb'"
proof -
  obtain accepted delivered jb' where run: "jb_run ops (jb_reset jb) = (accepted, delivered, jb')"
    by (metis prod_cases3)
  have "jb_frames (jb_reset jb) = []" by (simp add: jb_reset_def Let_def)
  with jb_run_conserve[OF jb_reset_wf run] jb_run_wf[OF jb_reset_wf, of ops jb] run
  show ?thesis by simp
qed

section \<open>Draining\<close>

text \<open>The loop \<open>while (jb_getall(jb, &frame) == JB_OK)\<close> of \<open>complete_transfer\<close> and \<open>destroy_session\<close>.\<close>

function jb_drain :: "'d jitterbuf \<Rightarrow> 'd jb_frame list \<times> 'd jitterbuf" where
  "jb_drain jb =
     (case jb_getall jb of
        (JB_OK, Some f, jb1) \<Rightarrow> (let (fs, jb2) = jb_drain jb1 in (f # fs, jb2))
      | (_, _, jb1) \<Rightarrow> ([], jb1))"
  by pat_completeness auto
termination
  by (relation "measure (\<lambda>jb. length (jb_frames jb))")
    (auto simp: jb_getall_effect split: list.splits)

declare jb_drain.simps [simp del]

lemma jb_drain_unfold:
  "jb_drain jb = (case jb_frames jb of [] \<Rightarrow> ([], jb)
     | h # t \<Rightarrow> (let (fs, jb2) = jb_drain (snd (snd (jb_getall jb))) in (h # fs, jb2)))"
  by (subst jb_drain.simps) (simp add: jb_getall_effect split: list.split)

lemma jb_drain_all:
  "jb_wf jb \<Longrightarrow> jb_frames jb = fs \<Longrightarrow> fst (jb_drain jb) = fs \<and> jb_frames (snd (jb_drain jb)) = [] \<and>
     jb_wf (snd (jb_drain jb))"
proof (induction fs arbitrary: jb)
  case Nil
  then show ?case by (simp add: jb_drain_unfold[of jb])
next
  case (Cons h t)
  let ?jb1 = "snd (snd (jb_getall jb))"
  have "jb_frames ?jb1 = t" using Cons.prems(2) by (simp add: jb_getall_effect)
  moreover have "jb_wf ?jb1" using Cons.prems(1) by (rule jb_getall_wf)
  ultimately have "fst (jb_drain ?jb1) = t \<and> jb_frames (snd (jb_drain ?jb1)) = [] \<and> jb_wf (snd (jb_drain ?jb1))"
    by (intro Cons.IH)
  then show ?case using Cons.prems(2) by (simp add: jb_drain_unfold[of jb] split_beta)
qed

text \<open>
  Draining terminates, frees every queued frame in timestamp order, and leaves an empty
  queue, so the \<open>jb_reset\<close> or \<open>jb_destroy\<close> that follows leaks nothing.
\<close>

theorem jb_drain_frees_all:
  assumes "jb_wf jb"
  shows "fst (jb_drain jb) = jb_frames jb \<and> jb_frames (snd (jb_drain jb)) = [] \<and>
         ji_frames_cur (jb_info (snd (jb_drain jb))) = 0"
  using jb_drain_all[OF assms refl] by (simp add: jb_wf_def queue_wf_def)

lemma jb_drain_frees_all_witness:
  "fst (jb_drain (snd (jb_put True 7 JB_TYPE_CONTROL 0 20 25 jb_example))) =
     jb_frames (snd (jb_put True 7 JB_TYPE_CONTROL 0 20 25 jb_example)) \<and>
   jb_frames (snd (jb_drain (snd (jb_put True 7 JB_TYPE_CONTROL 0 20 25 jb_example)))) = [] \<and>
   ji_frames_cur (jb_info (snd (jb_drain (snd (jb_put True 7 JB_TYPE_CONTROL 0 20 25 jb_example))))) = 0"
  by (rule jb_drain_frees_all) (simp add: jb_put_wf jb_example_def jb_reset_wf)

section \<open>Where the code departs from its intent\<close>

text \<open>
  The out-of-order counter of \<open>queue_put\<close> compares the raw timestamp with the shifted
  timestamps of the queue, where the insertion itself compares the shifted one. With a negative
  resynchronisation offset a frame that arrives in order is counted as out of order.
\<close>

lemma queue_put_counts_in_order_frame_as_ooo:
  "let j0 = jb_example\<lparr>jb_info := (jb_info jb_example)\<lparr>ji_resync_offset := - 100\<rparr>\<rparr>;
       j1 = snd (queue_put True 1 JB_TYPE_VOICE 20 20 j0);
       j2 = snd (queue_put True 2 JB_TYPE_VOICE 20 40 j1)
   in map jf_data (jb_frames j2) = [1, 2] \<and> map jf_ts (jb_frames j2) = [120, 140] \<and>
      ji_frames_ooo (jb_info j2) = 1"
  by (simp add: jb_example_def jb_reset_def Let_def zero_info_def queue_put_def queue_link_def)

text \<open>
  \<open>jb_next\<close> is documented to return 0 for an empty buffer. It never distinguishes an empty buffer
  that way: in silence it returns \<open>JB_LONGMAX\<close>, otherwise the next voice timestamp.
\<close>

lemma jb_next_empty:
  assumes "jb_frames jb = []"
  shows "jb_next jb = (if ji_silence_begin_ts (jb_info jb) \<noteq> 0 then JB_LONGMAX
                       else ji_next_voice_ts (jb_info jb))"
  using assms by (simp add: jb_next_def queue_next_def Let_def)

end
