(* ===== verification/Iax_Ies.thy ===== *)
theory Iax_Ies
  imports Prelude
begin

text \<open>
  Information elements of the IAX2 protocol: \<open>iaxclient/lib/libiax2/src/iax2-parser.c\<close>,
  \<open>iax2-parser.h\<close> and the element numbers of \<open>iax2.h\<close>. The bytes of a message are a list of
  \<open>u8\<close>; a \<open>char *\<close> into the message is the offset it points to (\<open>None\<close> for \<open>NULL\<close>). A write
  outside its buffer, which the code does not check, is the result \<open>None\<close> of the operation.
\<close>

section \<open>Element numbers\<close>

abbreviation (input) "IAX_IE_CALLED_NUMBER \<equiv> 1 :: u8"
abbreviation (input) "IAX_IE_CALLING_NUMBER \<equiv> 2 :: u8"
abbreviation (input) "IAX_IE_CALLING_ANI \<equiv> 3 :: u8"
abbreviation (input) "IAX_IE_CALLING_NAME \<equiv> 4 :: u8"
abbreviation (input) "IAX_IE_CALLED_CONTEXT \<equiv> 5 :: u8"
abbreviation (input) "IAX_IE_USERNAME \<equiv> 6 :: u8"
abbreviation (input) "IAX_IE_PASSWORD \<equiv> 7 :: u8"
abbreviation (input) "IAX_IE_CAPABILITY \<equiv> 8 :: u8"
abbreviation (input) "IAX_IE_FORMAT \<equiv> 9 :: u8"
abbreviation (input) "IAX_IE_LANGUAGE \<equiv> 10 :: u8"
abbreviation (input) "IAX_IE_VERSION \<equiv> 11 :: u8"
abbreviation (input) "IAX_IE_ADSICPE \<equiv> 12 :: u8"
abbreviation (input) "IAX_IE_DNID \<equiv> 13 :: u8"
abbreviation (input) "IAX_IE_AUTHMETHODS \<equiv> 14 :: u8"
abbreviation (input) "IAX_IE_CHALLENGE \<equiv> 15 :: u8"
abbreviation (input) "IAX_IE_MD5_RESULT \<equiv> 16 :: u8"
abbreviation (input) "IAX_IE_RSA_RESULT \<equiv> 17 :: u8"
abbreviation (input) "IAX_IE_APPARENT_ADDR \<equiv> 18 :: u8"
abbreviation (input) "IAX_IE_REFRESH \<equiv> 19 :: u8"
abbreviation (input) "IAX_IE_DPSTATUS \<equiv> 20 :: u8"
abbreviation (input) "IAX_IE_CALLNO \<equiv> 21 :: u8"
abbreviation (input) "IAX_IE_CAUSE \<equiv> 22 :: u8"
abbreviation (input) "IAX_IE_IAX_UNKNOWN \<equiv> 23 :: u8"
abbreviation (input) "IAX_IE_MSGCOUNT \<equiv> 24 :: u8"
abbreviation (input) "IAX_IE_AUTOANSWER \<equiv> 25 :: u8"
abbreviation (input) "IAX_IE_MUSICONHOLD \<equiv> 26 :: u8"
abbreviation (input) "IAX_IE_TRANSFERID \<equiv> 27 :: u8"
abbreviation (input) "IAX_IE_RDNIS \<equiv> 28 :: u8"
abbreviation (input) "IAX_IE_PROVISIONING \<equiv> 29 :: u8"
abbreviation (input) "IAX_IE_AESPROVISIONING \<equiv> 30 :: u8"
abbreviation (input) "IAX_IE_DATETIME \<equiv> 31 :: u8"
abbreviation (input) "IAX_IE_DEVICETYPE \<equiv> 32 :: u8"
abbreviation (input) "IAX_IE_SERVICEIDENT \<equiv> 33 :: u8"
abbreviation (input) "IAX_IE_FIRMWAREVER \<equiv> 34 :: u8"
abbreviation (input) "IAX_IE_FWBLOCKDESC \<equiv> 35 :: u8"
abbreviation (input) "IAX_IE_FWBLOCKDATA \<equiv> 36 :: u8"
abbreviation (input) "IAX_IE_PROVVER \<equiv> 37 :: u8"
abbreviation (input) "IAX_IE_CALLINGPRES \<equiv> 38 :: u8"
abbreviation (input) "IAX_IE_CALLINGTON \<equiv> 39 :: u8"
abbreviation (input) "IAX_IE_CALLINGTNS \<equiv> 40 :: u8"
abbreviation (input) "IAX_IE_SAMPLINGRATE \<equiv> 41 :: u8"
abbreviation (input) "IAX_IE_CAUSECODE \<equiv> 42 :: u8"
abbreviation (input) "IAX_IE_CODEC_PREFS \<equiv> 45 :: u8"
abbreviation (input) "IAX_IE_RR_JITTER \<equiv> 46 :: u8"
abbreviation (input) "IAX_IE_RR_LOSS \<equiv> 47 :: u8"
abbreviation (input) "IAX_IE_RR_PKTS \<equiv> 48 :: u8"
abbreviation (input) "IAX_IE_RR_DELAY \<equiv> 49 :: u8"
abbreviation (input) "IAX_IE_RR_DROPPED \<equiv> 50 :: u8"
abbreviation (input) "IAX_IE_RR_OOO \<equiv> 51 :: u8"
abbreviation (input) "IAX_IE_FORMAT2 \<equiv> 56 :: u8"

section \<open>Building a message\<close>

text \<open>\<open>unsigned char buf[1024]\<close> and the number of bytes used.\<close>

record iax_ie_data =
  ied_buf :: "u8 list"
  ied_pos :: nat

definition ied_empty :: iax_ie_data where
  "ied_empty = \<lparr>ied_buf = replicate 1024 0, ied_pos = 0\<rparr>"

definition write_bytes :: "u8 list \<Rightarrow> nat \<Rightarrow> u8 list \<Rightarrow> u8 list" where
  "write_bytes buf pos bs = take pos buf @ bs @ drop (pos + length bs) buf"

text \<open>
  The return value and the buffer after the call. The space test of the code compares only the
  payload with the space left; the two header bytes are not counted, and then the writes run
  over the end of \<open>buf\<close>. The length byte is the low byte of \<open>datalen\<close>.
\<close>

definition iax_ie_append_raw ::
    "iax_ie_data \<Rightarrow> u8 \<Rightarrow> u8 list \<Rightarrow> (int \<times> iax_ie_data) option" where
  "iax_ie_append_raw ied ie bs =
     (if int (length bs) > 1024 - int (ied_pos ied) then Some (- 1, ied)
      else if ied_pos ied + 2 + length bs > 1024 then None
      else Some (0, \<lparr>ied_buf = write_bytes (ied_buf ied) (ied_pos ied) (ie # of_nat (length bs) # bs),
                     ied_pos = ied_pos ied + 2 + length bs\<rparr>))"

text \<open>\<open>sockaddr_in\<close> is copied as its 16 bytes.\<close>

definition iax_ie_append_addr :: "iax_ie_data \<Rightarrow> u8 \<Rightarrow> u8 list \<Rightarrow> (int \<times> iax_ie_data) option" where
  "iax_ie_append_addr ied ie sin = iax_ie_append_raw ied ie (take 16 sin)"

definition iax_ie_append_int :: "iax_ie_data \<Rightarrow> u8 \<Rightarrow> u32 \<Rightarrow> (int \<times> iax_ie_data) option" where
  "iax_ie_append_int ied ie v = iax_ie_append_raw ied ie (be32 v)"

definition iax_ie_append_short :: "iax_ie_data \<Rightarrow> u8 \<Rightarrow> u16 \<Rightarrow> (int \<times> iax_ie_data) option" where
  "iax_ie_append_short ied ie v = iax_ie_append_raw ied ie (be16 v)"

text \<open>A C string: the bytes before the first zero (\<open>strlen\<close> stops there).\<close>

definition cstr :: "u8 list \<Rightarrow> u8 list" where
  "cstr bs = takeWhile (\<lambda>b. b \<noteq> 0) bs"

definition iax_ie_append_str :: "iax_ie_data \<Rightarrow> u8 \<Rightarrow> u8 list \<Rightarrow> (int \<times> iax_ie_data) option" where
  "iax_ie_append_str ied ie s = iax_ie_append_raw ied ie (cstr s)"

definition iax_ie_append_byte :: "iax_ie_data \<Rightarrow> u8 \<Rightarrow> u8 \<Rightarrow> (int \<times> iax_ie_data) option" where
  "iax_ie_append_byte ied ie b = iax_ie_append_raw ied ie [b]"

definition iax_ie_append :: "iax_ie_data \<Rightarrow> u8 \<Rightarrow> (int \<times> iax_ie_data) option" where
  "iax_ie_append ied ie = iax_ie_append_raw ied ie []"

section \<open>Parsing a message\<close>

record iax_ies =
  ies_called_number :: "nat option"
  ies_calling_number :: "nat option"
  ies_calling_ani :: "nat option"
  ies_calling_name :: "nat option"
  ies_calling_ton :: int
  ies_calling_tns :: int
  ies_calling_pres :: int
  ies_called_context :: "nat option"
  ies_username :: "nat option"
  ies_password :: "nat option"
  ies_capability :: u32
  ies_format :: u32
  ies_codec_prefs :: "nat option"
  ies_language :: "nat option"
  ies_version :: int
  ies_adsicpe :: u16
  ies_dnid :: "nat option"
  ies_rdnis :: "nat option"
  ies_authmethods :: u32
  ies_challenge :: "nat option"
  ies_md5_result :: "nat option"
  ies_rsa_result :: "nat option"
  ies_apparent_addr :: "nat option"
  ies_refresh :: u16
  ies_dpstatus :: u16
  ies_callno :: u16
  ies_cause :: "nat option"
  ies_causecode :: u8
  ies_iax_unknown :: u8
  ies_msgcount :: int
  ies_autoanswer :: int
  ies_musiconhold :: int
  ies_transferid :: u32
  ies_datetime :: u32
  ies_devicetype :: "nat option"
  ies_serviceident :: "nat option"
  ies_firmwarever :: int
  ies_fwdesc :: u32
  ies_fwdata :: "nat option"
  ies_fwdatalen :: u8
  ies_provver :: u32
  ies_samprate :: u16
  ies_provverpres :: u32
  ies_rr_jitter :: u32
  ies_rr_loss :: u32
  ies_rr_pkts :: u32
  ies_rr_delay :: u16
  ies_rr_dropped :: u32
  ies_rr_ooo :: u32

text \<open>The state after \<open>memset\<close> and the six defaults.\<close>

definition ies_init :: iax_ies where
  "ies_init = \<lparr>ies_called_number = None, ies_calling_number = None, ies_calling_ani = None,
     ies_calling_name = None, ies_calling_ton = - 1, ies_calling_tns = - 1,
     ies_calling_pres = - 1, ies_called_context = None, ies_username = None,
     ies_password = None, ies_capability = 0, ies_format = 0, ies_codec_prefs = None,
     ies_language = None, ies_version = 0, ies_adsicpe = 0, ies_dnid = None, ies_rdnis = None,
     ies_authmethods = 0, ies_challenge = None, ies_md5_result = None, ies_rsa_result = None,
     ies_apparent_addr = None, ies_refresh = 0, ies_dpstatus = 0, ies_callno = 0,
     ies_cause = None, ies_causecode = 0, ies_iax_unknown = 0, ies_msgcount = - 1,
     ies_autoanswer = 0, ies_musiconhold = 0, ies_transferid = 0, ies_datetime = 0,
     ies_devicetype = None, ies_serviceident = None, ies_firmwarever = - 1, ies_fwdesc = 0,
     ies_fwdata = None, ies_fwdatalen = 0, ies_provver = 0, ies_samprate = 1,
     ies_provverpres = 0, ies_rr_jitter = 0, ies_rr_loss = 0, ies_rr_pkts = 0,
     ies_rr_delay = 0, ies_rr_dropped = 0, ies_rr_ooo = 0\<rparr>"

text \<open>What is reported through \<open>errorf\<close> and \<open>outputf\<close>.\<close>

datatype ie_diag =
    BadLength u8 nat
  | UnknownElement u8 nat
  | LengthExceedsMessage
  | StrangeBoundary


text \<open>
  The cases of the switch. \<open>p\<close> holds the \<open>len\<close> bytes of the element and \<open>at\<close> is the offset
  \<open>data + 2\<close> of the first. A number of the wrong size is reported and skipped.
\<close>

definition store_int ::
    "u8 \<Rightarrow> u8 list \<Rightarrow> (u32 \<Rightarrow> iax_ies \<Rightarrow> iax_ies) \<Rightarrow> iax_ies \<Rightarrow> iax_ies \<times> ie_diag list" where
  "store_int ie p f ies =
     (if length p \<noteq> 4 then (ies, [BadLength ie (length p)]) else (f (rd32 p) ies, []))"

definition store_short ::
    "u8 \<Rightarrow> u8 list \<Rightarrow> (u16 \<Rightarrow> iax_ies \<Rightarrow> iax_ies) \<Rightarrow> iax_ies \<Rightarrow> iax_ies \<times> ie_diag list" where
  "store_short ie p f ies =
     (if length p \<noteq> 2 then (ies, [BadLength ie (length p)]) else (f (rd16 p) ies, []))"

definition store_byte ::
    "u8 \<Rightarrow> u8 list \<Rightarrow> (u8 \<Rightarrow> iax_ies \<Rightarrow> iax_ies) \<Rightarrow> iax_ies \<Rightarrow> iax_ies \<times> ie_diag list" where
  "store_byte ie p f ies =
     (if length p \<noteq> 1 then (ies, [BadLength ie (length p)]) else (f (p ! 0) ies, []))"

definition ie_store3 :: "u8 \<Rightarrow> u8 list \<Rightarrow> nat \<Rightarrow> iax_ies \<Rightarrow> iax_ies \<times> ie_diag list" where
  "ie_store3 ie p at ies =
     (if ie = IAX_IE_CALLINGPRES then store_byte ie p (\<lambda>v. ies_calling_pres_update (\<lambda>_. uint v)) ies
      else if ie = IAX_IE_CALLINGTON then store_byte ie p (\<lambda>v. ies_calling_ton_update (\<lambda>_. uint v)) ies
      else if ie = IAX_IE_CALLINGTNS then store_short ie p (\<lambda>v. ies_calling_tns_update (\<lambda>_. uint v)) ies
      else if ie = IAX_IE_RR_JITTER then store_int ie p (\<lambda>v. ies_rr_jitter_update (\<lambda>_. v)) ies
      else if ie = IAX_IE_RR_LOSS then store_int ie p (\<lambda>v. ies_rr_loss_update (\<lambda>_. v)) ies
      else if ie = IAX_IE_RR_PKTS then store_int ie p (\<lambda>v. ies_rr_pkts_update (\<lambda>_. v)) ies
      else if ie = IAX_IE_RR_DELAY then store_short ie p (\<lambda>v. ies_rr_delay_update (\<lambda>_. v)) ies
      else if ie = IAX_IE_RR_DROPPED then store_int ie p (\<lambda>v. ies_rr_dropped_update (\<lambda>_. v)) ies
      else if ie = IAX_IE_RR_OOO then store_int ie p (\<lambda>v. ies_rr_ooo_update (\<lambda>_. v)) ies
      else if ie = IAX_IE_FORMAT2 then (ies, [])
      else (ies, [UnknownElement ie (length p)]))"

definition ie_store2 :: "u8 \<Rightarrow> u8 list \<Rightarrow> nat \<Rightarrow> iax_ies \<Rightarrow> iax_ies \<times> ie_diag list" where
  "ie_store2 ie p at ies =
     (if ie = IAX_IE_REFRESH then store_short ie p (\<lambda>v. ies_refresh_update (\<lambda>_. v)) ies
      else if ie = IAX_IE_DPSTATUS then store_short ie p (\<lambda>v. ies_dpstatus_update (\<lambda>_. v)) ies
      else if ie = IAX_IE_CALLNO then store_short ie p (\<lambda>v. ies_callno_update (\<lambda>_. v)) ies
      else if ie = IAX_IE_CAUSE then (ies\<lparr>ies_cause := Some at\<rparr>, [])
      else if ie = IAX_IE_CAUSECODE then store_byte ie p (\<lambda>v. ies_causecode_update (\<lambda>_. v)) ies
      else if ie = IAX_IE_IAX_UNKNOWN then store_byte ie p (\<lambda>v. ies_iax_unknown_update (\<lambda>_. v)) ies
      else if ie = IAX_IE_MSGCOUNT then store_short ie p (\<lambda>v. ies_msgcount_update (\<lambda>_. uint v)) ies
      else if ie = IAX_IE_AUTOANSWER then (ies\<lparr>ies_autoanswer := 1\<rparr>, [])
      else if ie = IAX_IE_MUSICONHOLD then (ies\<lparr>ies_musiconhold := 1\<rparr>, [])
      else if ie = IAX_IE_TRANSFERID then store_int ie p (\<lambda>v. ies_transferid_update (\<lambda>_. v)) ies
      else if ie = IAX_IE_DATETIME then store_int ie p (\<lambda>v. ies_datetime_update (\<lambda>_. v)) ies
      else if ie = IAX_IE_FIRMWAREVER then store_short ie p (\<lambda>v. ies_firmwarever_update (\<lambda>_. uint v)) ies
      else if ie = IAX_IE_DEVICETYPE then (ies\<lparr>ies_devicetype := Some at\<rparr>, [])
      else if ie = IAX_IE_SERVICEIDENT then (ies\<lparr>ies_serviceident := Some at\<rparr>, [])
      else if ie = IAX_IE_FWBLOCKDESC then store_int ie p (\<lambda>v. ies_fwdesc_update (\<lambda>_. v)) ies
      else if ie = IAX_IE_FWBLOCKDATA then
        (ies\<lparr>ies_fwdata := Some at, ies_fwdatalen := of_nat (length p)\<rparr>, [])
      else if ie = IAX_IE_PROVVER then
        store_int ie p (\<lambda>v. ies_provver_update (\<lambda>_. v) \<circ> ies_provverpres_update (\<lambda>_. 1)) ies
      else ie_store3 ie p at ies)"

definition ie_store :: "u8 \<Rightarrow> u8 list \<Rightarrow> nat \<Rightarrow> iax_ies \<Rightarrow> iax_ies \<times> ie_diag list" where
  "ie_store ie p at ies =
     (if ie = IAX_IE_CALLED_NUMBER then (ies\<lparr>ies_called_number := Some at\<rparr>, [])
      else if ie = IAX_IE_CALLING_NUMBER then (ies\<lparr>ies_calling_number := Some at\<rparr>, [])
      else if ie = IAX_IE_CALLING_ANI then (ies\<lparr>ies_calling_ani := Some at\<rparr>, [])
      else if ie = IAX_IE_CALLING_NAME then (ies\<lparr>ies_calling_name := Some at\<rparr>, [])
      else if ie = IAX_IE_CALLED_CONTEXT then (ies\<lparr>ies_called_context := Some at\<rparr>, [])
      else if ie = IAX_IE_USERNAME then (ies\<lparr>ies_username := Some at\<rparr>, [])
      else if ie = IAX_IE_PASSWORD then (ies\<lparr>ies_password := Some at\<rparr>, [])
      else if ie = IAX_IE_CAPABILITY then store_int ie p (\<lambda>v. ies_capability_update (\<lambda>_. v)) ies
      else if ie = IAX_IE_FORMAT then store_int ie p (\<lambda>v. ies_format_update (\<lambda>_. v)) ies
      else if ie = IAX_IE_LANGUAGE then (ies\<lparr>ies_language := Some at\<rparr>, [])
      else if ie = IAX_IE_CODEC_PREFS then (ies\<lparr>ies_codec_prefs := Some at\<rparr>, [])
      else if ie = IAX_IE_VERSION then store_short ie p (\<lambda>v. ies_version_update (\<lambda>_. uint v)) ies
      else if ie = IAX_IE_ADSICPE then store_short ie p (\<lambda>v. ies_adsicpe_update (\<lambda>_. v)) ies
      else if ie = IAX_IE_SAMPLINGRATE then store_short ie p (\<lambda>v. ies_samprate_update (\<lambda>_. v)) ies
      else if ie = IAX_IE_DNID then (ies\<lparr>ies_dnid := Some at\<rparr>, [])
      else if ie = IAX_IE_RDNIS then (ies\<lparr>ies_rdnis := Some at\<rparr>, [])
      else if ie = IAX_IE_AUTHMETHODS then store_short ie p (\<lambda>v. ies_authmethods_update (\<lambda>_. ucast v)) ies
      else if ie = IAX_IE_CHALLENGE then (ies\<lparr>ies_challenge := Some at\<rparr>, [])
      else if ie = IAX_IE_MD5_RESULT then (ies\<lparr>ies_md5_result := Some at\<rparr>, [])
      else if ie = IAX_IE_RSA_RESULT then (ies\<lparr>ies_rsa_result := Some at\<rparr>, [])
      else if ie = IAX_IE_APPARENT_ADDR then (ies\<lparr>ies_apparent_addr := Some at\<rparr>, [])
      else ie_store2 ie p at ies)"

text \<open>
  The loop: \<open>at\<close> is the position of \<open>data\<close> in the memory block \<open>mem\<close> and \<open>n\<close> the remaining
  \<open>datalen\<close>. The element number is overwritten by 0, which ends the string before it. The
  result is the return value, the elements, the memory afterwards and what was reported;
  \<open>None\<close> if the terminating zero is written behind the block.
\<close>

function parse_loop ::
    "iax_ies \<Rightarrow> u8 list \<Rightarrow> nat \<Rightarrow> nat \<Rightarrow> (int \<times> iax_ies \<times> u8 list \<times> ie_diag list) option" where
  "parse_loop ies mem at n =
     (if 2 \<le> n then
        (let ie = mem ! at; len = unat (mem ! (at + 1)) in
         if len > n - 2 then Some (- 1, ies, mem, [LengthExceedsMessage])
         else let (ies', ds) = ie_store ie (take len (drop (at + 2) mem)) (at + 2) ies
              in map_option (\<lambda>(r, i, m, ds'). (r, i, m, ds @ ds'))
                   (parse_loop ies' (mem[at := 0]) (at + (len + 2)) (n - (len + 2))))
      else if length mem \<le> at then None
      else if n \<noteq> 0 then Some (- 1, ies, mem[at := 0], [StrangeBoundary])
      else Some (0, ies, mem[at := 0], []))"
  by pat_completeness auto
termination
  by (relation "measure (\<lambda>(ies, mem, at, n). n)") auto

declare parse_loop.simps [simp del]

definition iax_parse_ies ::
    "u8 list \<Rightarrow> nat \<Rightarrow> (int \<times> iax_ies \<times> u8 list \<times> ie_diag list) option" where
  "iax_parse_ies mem datalen = parse_loop ies_init mem 0 datalen"

section \<open>Messages as lists of elements\<close>

text \<open>
  The wire format that both sides mean: number, length, payload for every element. An element
  fits when its length is the value of one byte.
\<close>

type_synonym element = "u8 \<times> u8 list"

definition enc_ie :: "element \<Rightarrow> u8 list" where
  "enc_ie e = fst e # of_nat (length (snd e)) # snd e"

definition enc :: "element list \<Rightarrow> u8 list" where
  "enc es = concat (map enc_ie es)"

definition fits :: "element \<Rightarrow> bool" where
  "fits e \<longleftrightarrow> length (snd e) < 256"

lemma length_enc_ie [simp]: "length (enc_ie e) = length (snd e) + 2"
  by (simp add: enc_ie_def)

lemma enc_simps [simp]: "enc [] = []" "enc (e # es) = enc_ie e @ enc es" "enc (es @ fs) = enc es @ enc fs"
  by (simp_all add: enc_def)

text \<open>The elements of a message stored one after the other, each at its offset.\<close>

fun store_all :: "element list \<Rightarrow> nat \<Rightarrow> iax_ies \<Rightarrow> iax_ies \<times> ie_diag list" where
  "store_all [] at ies = (ies, [])"
| "store_all ((ie, p) # es) at ies =
     (let (ies', ds) = ie_store ie p (at + 2) ies;
          (ies'', ds') = store_all es (at + (length p + 2)) ies'
      in (ies'', ds @ ds'))"

text \<open>The message after parsing: every element number replaced by the terminating zero.\<close>

definition zeroed :: "element list \<Rightarrow> u8 list" where
  "zeroed es = concat (map (\<lambda>e. 0 # of_nat (length (snd e)) # snd e) es)"

lemma zeroed_simps [simp]:
  "zeroed [] = []" "zeroed (e # es) = 0 # of_nat (length (snd e)) # snd e @ zeroed es"
  by (simp_all add: zeroed_def)

lemma length_zeroed [simp]: "length (zeroed es) = length (enc es)"
  by (induction es) (simp_all add: enc_ie_def)

text \<open>Where the elements start in the encoded message.\<close>

lemma parse_loop_enc:
  assumes "list_all fits es"
  shows "parse_loop ies (pre @ enc es @ z # post) (length pre) (length (enc es)) =
     (let (ies', ds) = store_all es (length pre) ies in Some (0, ies', pre @ zeroed es @ 0 # post, ds))"
  using assms
proof (induction es arbitrary: ies pre)
  case Nil
  then show ?case by (subst parse_loop.simps) simp
next
  case (Cons e es)
  obtain ie p where e: "e = (ie, p)" by fastforce
  let ?pre' = "pre @ 0 # of_nat (length p) # p"
  have fit: "length p < 256" using Cons.prems by (simp add: fits_def e)
  have rest: "list_all fits es" using Cons.prems by simp
  have len: "unat (of_nat (length p) :: u8) = length p"
    using fit by (simp add: unat_of_nat)
  obtain ies1 ds1 where st: "ie_store ie p (length pre + 2) ies = (ies1, ds1)" by fastforce
  then have st': "ie_store ie p (Suc (Suc (length pre))) ies = (ies1, ds1)" by simp
  have "parse_loop ies (pre @ enc (e # es) @ z # post) (length pre) (length (enc (e # es))) =
     map_option (\<lambda>(r, i, m, ds'). (r, i, m, ds1 @ ds'))
       (parse_loop ies1 (?pre' @ enc es @ z # post) (length ?pre') (length (enc es)))"
    by (subst parse_loop.simps) (simp add: e enc_ie_def nth_append len st' list_update_append Let_def)
  also have "\<dots> = (let (ies', ds) = store_all (e # es) (length pre) ies
      in Some (0, ies', pre @ zeroed (e # es) @ 0 # post, ds))"
    by (simp only: Cons.IH[OF rest]) (simp add: e st' Let_def split: prod.split)
  finally show ?case .
qed

end
