(* ===== verification/Iax_Ies_Props.thy ===== *)
theory Iax_Ies_Props
  imports Iax_Ies
begin

text \<open>
  Correctness of the information elements: what an append does to the buffer, that a message
  built by appends is parsed back, that parsing arbitrary bytes stays inside the message, and
  where the space test of the append is wrong.
\<close>

section \<open>Appending\<close>

text \<open>The buffer holds exactly the elements \<open>es\<close>.\<close>

definition holds :: "iax_ie_data \<Rightarrow> element list \<Rightarrow> bool" where
  "holds ied es \<longleftrightarrow> length (ied_buf ied) = 1024 \<and> ied_pos ied = length (enc es) \<and>
     ied_pos ied \<le> 1024 \<and> take (ied_pos ied) (ied_buf ied) = enc es"

lemma holds_empty [simp]: "holds ied_empty []"
  by (simp add: holds_def ied_empty_def)

lemma length_write_bytes: "pos + length bs \<le> length buf \<Longrightarrow> length (write_bytes buf pos bs) = length buf"
  by (simp add: write_bytes_def)

lemma take_write_bytes: "pos \<le> length buf \<Longrightarrow>
    take (pos + length bs) (write_bytes buf pos bs) = take pos buf @ bs"
  by (simp add: write_bytes_def)

lemma append_raw_holds:
  assumes "holds ied es" "length (enc (es @ [(ie, p)])) \<le> 1024"
  shows "\<exists>ied'. iax_ie_append_raw ied ie p = Some (0, ied') \<and> holds ied' (es @ [(ie, p)])"
proof -
  let ?bs = "ie # of_nat (length p) # p"
  have pos: "ied_pos ied + 2 + length p \<le> 1024" "length (ied_buf ied) = 1024"
    using assms by (auto simp: holds_def)
  then have "iax_ie_append_raw ied ie p =
      Some (0, \<lparr>ied_buf = write_bytes (ied_buf ied) (ied_pos ied) ?bs, ied_pos = ied_pos ied + 2 + length p\<rparr>)"
    by (simp add: iax_ie_append_raw_def)
  moreover have "take (ied_pos ied + length ?bs) (write_bytes (ied_buf ied) (ied_pos ied) ?bs) =
      enc es @ ?bs"
    using take_write_bytes[of "ied_pos ied" "ied_buf ied" ?bs] pos assms(1) by (auto simp: holds_def)
  ultimately show ?thesis
    using assms(1) pos by (simp add: holds_def enc_ie_def length_write_bytes)
qed

text \<open>A sequence of appends, as the senders of \<open>iax.c\<close> make them; it ends at the first refusal.\<close>

fun ie_build :: "element list \<Rightarrow> iax_ie_data \<Rightarrow> (int \<times> iax_ie_data) option" where
  "ie_build [] ied = Some (0, ied)"
| "ie_build ((ie, p) # es) ied =
     (case iax_ie_append_raw ied ie p of
        None \<Rightarrow> None
      | Some (r, ied') \<Rightarrow> if r = 0 then ie_build es ied' else Some (r, ied'))"

lemma ie_build_holds:
  assumes "holds ied es" "length (enc (es @ fs)) \<le> 1024"
  shows "\<exists>ied'. ie_build fs ied = Some (0, ied') \<and> holds ied' (es @ fs)"
  using assms
proof (induction fs arbitrary: ied es)
  case (Cons f fs)
  obtain ie p where f: "f = (ie, p)" by fastforce
  from append_raw_holds[OF Cons.prems(1), of ie p] Cons.prems(2)
  obtain ied1 where 1: "iax_ie_append_raw ied ie p = Some (0, ied1)" "holds ied1 (es @ [(ie, p)])"
    by (auto simp: f)
  from Cons.IH[OF 1(2)] Cons.prems(2) 1(1) show ?case by (simp add: f)
qed auto



text \<open>
  A string element read back through its pointer, as a C string in the parsed message, is
  the string that was appended: the zero written over the next element, or over the byte behind
  the message, ends it exactly there.
\<close>

theorem ie_string_roundtrip:
  assumes "list_all fits (es @ (ie, s) # fs)" "0 \<notin> set s"
  shows "\<exists>ies m ds. iax_parse_ies (enc (es @ (ie, s) # fs) @ [z]) (length (enc (es @ (ie, s) # fs))) =
       Some (0, ies, m, ds) \<and> cstr (drop (length (enc es) + 2) m) = s"
proof -
  let ?es = "es @ (ie, s) # fs"
  obtain ies ds where st: "store_all ?es 0 ies_init = (ies, ds)" by fastforce
  have "iax_parse_ies (enc ?es @ [z]) (length (enc ?es)) = Some (0, ies, zeroed ?es @ [0], ds)"
    using parse_loop_enc[OF assms(1), of ies_init "[]" z "[]"] st
    by (simp add: iax_parse_ies_def)
  moreover have "zeroed ?es = zeroed es @ 0 # of_nat (length s) # s @ zeroed fs"
    by (simp add: zeroed_def)
  then have "drop (length (enc es) + 2) (zeroed ?es @ [0]) = s @ zeroed fs @ [0]"
    by (simp add: drop_Suc_Cons flip: length_zeroed) 
  moreover have "cstr (s @ zeroed fs @ [0]) = s"
  proof -
    have "\<exists>t. zeroed fs @ [0] = 0 # t" by (cases fs) simp_all
    then obtain t where "zeroed fs @ [0] = 0 # t" ..
    then show ?thesis using assms(2) by (auto simp: cstr_def takeWhile_append)
  qed
  ultimately show ?thesis by simp
qed

lemma ie_string_roundtrip_witness:
  "\<exists>ies m ds. iax_parse_ies (enc ([(IAX_IE_CALLNO, be16 7)] @ (IAX_IE_CAUSE, [66, 121, 101]) # []) @ [99])
     (length (enc ([(IAX_IE_CALLNO, be16 7)] @ (IAX_IE_CAUSE, [66, 121, 101]) # []))) = Some (0, ies, m, ds) \<and>
   cstr (drop (length (enc [(IAX_IE_CALLNO, be16 7)]) + 2) m) = [66, 121, 101]"
  by (rule ie_string_roundtrip) (simp_all add: fits_def)

section \<open>The space test\<close>

text \<open>
  C15. Exactly when is an append safe? With a buffer filled up to \<open>pos\<close>, the call writes outside
  \<open>buf\<close> if and only if the payload fits the space left but the payload with its two header
  bytes does not; otherwise it either refuses and changes nothing, or appends the element.
\<close>

theorem iax_ie_append_raw_safety:
  assumes "ied_pos ied \<le> 1024"
  shows "(iax_ie_append_raw ied ie p = None) =
           (ied_pos ied + length p \<in> {1023, 1024}) \<and>
         (iax_ie_append_raw ied ie p = Some (- 1, ied)) = (1024 < ied_pos ied + length p)"
proof -
  have "(int (length p) > 1024 - int (ied_pos ied)) = (1024 < ied_pos ied + length p)" by arith
  then show ?thesis by (auto simp: iax_ie_append_raw_def)
qed

lemma iax_ie_append_raw_safety_witness:
  "iax_ie_append_raw (ied_empty\<lparr>ied_pos := 1020\<rparr>) IAX_IE_FORMAT (be32 4) = None"
  using iax_ie_append_raw_safety[of "ied_empty\<lparr>ied_pos := 1020\<rparr>" IAX_IE_FORMAT "be32 4"] by simp

text \<open>
  The length byte of a payload of 256 bytes or more is only its low byte: what is sent is a
  different message. Here a string of 256 bytes is sent as an element of length 0 followed by
  its own bytes as further elements.
\<close>

lemma append_raw_length_wraps:
  "take 2 (ied_buf (snd (the (iax_ie_append_raw ied_empty IAX_IE_CALLING_NAME (replicate 256 65))))) = [4, 0]"
  by (simp add: iax_ie_append_raw_def ied_empty_def write_bytes_def)

section \<open>Parsing arbitrary bytes\<close>

text \<open>Every pointer that the parser stores.\<close>

definition ies_ptrs :: "iax_ies \<Rightarrow> nat list" where
  "ies_ptrs ies = List.map_filter (\<lambda>f. f ies)
     [ies_called_number, ies_calling_number, ies_calling_ani, ies_calling_name, ies_called_context,
      ies_username, ies_password, ies_codec_prefs, ies_language, ies_dnid, ies_rdnis, ies_challenge,
      ies_md5_result, ies_rsa_result, ies_apparent_addr, ies_cause, ies_devicetype,
      ies_serviceident, ies_fwdata]"

lemma ies_ptrs_init [simp]: "ies_ptrs ies_init = []"
  by (simp add: ies_ptrs_def ies_init_def List.map_filter_simps)

definition ptr_step :: "nat \<Rightarrow> iax_ies \<Rightarrow> iax_ies \<Rightarrow> bool" where
  "ptr_step a ies ies' \<longleftrightarrow> set (ies_ptrs ies') \<subseteq> insert a (set (ies_ptrs ies))"

lemma set_map_filter: "set (List.map_filter f xs) = {y. \<exists>x\<in>set xs. f x = Some y}"
  by (induction xs) (auto simp: List.map_filter_simps split: option.splits)

lemma ptr_step_if:
  "ptr_step a s (fst x) \<Longrightarrow> ptr_step a s (fst y) \<Longrightarrow> ptr_step a s (fst (if c then x else y))"
  by simp

lemma ptr_step_num:
  "(\<And>v. ptr_step a s (f v s)) \<Longrightarrow> ptr_step a s s \<Longrightarrow> ptr_step a s (fst (store_int ie p f s))"
  "(\<And>v. ptr_step a s (g v s)) \<Longrightarrow> ptr_step a s s \<Longrightarrow> ptr_step a s (fst (store_short ie p g s))"
  "(\<And>v. ptr_step a s (h v s)) \<Longrightarrow> ptr_step a s s \<Longrightarrow> ptr_step a s (fst (store_byte ie p h s))"
  by (simp_all add: store_int_def store_short_def store_byte_def)

lemma ptr_step3: "ptr_step at ies (fst (ie_store3 ie p at ies))"
  unfolding ie_store3_def
  by (intro ptr_step_if ptr_step_num) (auto simp: ptr_step_def ies_ptrs_def set_map_filter simp del: List.map_filter_simps)

lemma ptr_step2: "ptr_step at ies (fst (ie_store2 ie p at ies))"
  unfolding ie_store2_def
  by (intro ptr_step_if ptr_step_num ptr_step3) (auto simp: ptr_step_def ies_ptrs_def set_map_filter simp del: List.map_filter_simps)

lemma ie_store_ptrs: "ptr_step at ies (fst (ie_store ie p at ies))"
  unfolding ie_store_def
  by (intro ptr_step_if ptr_step_num ptr_step2) (auto simp: ptr_step_def ies_ptrs_def set_map_filter simp del: List.map_filter_simps)

definition parse_safe ::
  "nat \<Rightarrow> u8 list \<Rightarrow> (int \<times> iax_ies \<times> u8 list \<times> ie_diag list) option \<Rightarrow> bool" where
  "parse_safe d mem res \<longleftrightarrow>
     (case res of None \<Rightarrow> False
      | Some (r, ies, m, ds) \<Rightarrow>
          (r = 0 \<or> r = - 1) \<and> length m = length mem \<and> drop (Suc d) m = drop (Suc d) mem \<and>
          list_all (\<lambda>q. q \<le> d) (ies_ptrs ies) \<and> (r = 0 \<longrightarrow> m ! d = 0))"

lemma parse_loop_safe:
  "at + n < length mem \<Longrightarrow> list_all (\<lambda>q. q \<le> at + n) (ies_ptrs ies) \<Longrightarrow>
   parse_safe (at + n) mem (parse_loop ies mem at n)"
proof (induction ies mem "at" n rule: parse_loop.induct)
  case (1 ies mem "at" n)
  define len where "len = unat (mem ! (at + 1))"
  show ?case
  proof (cases "2 \<le> n \<and> len \<le> n - 2")
    case False
    with "1.prems" show ?thesis
      by (subst parse_loop.simps) (auto simp: parse_safe_def len_def Let_def)
  next
    case True
    obtain ies' ds where st: "ie_store (mem ! at) (take len (drop (at + 2) mem)) (at + 2) ies = (ies', ds)"
      by fastforce
    then have "ptr_step (at + 2) ies ies'"
      using ie_store_ptrs[of "at + 2" ies "mem ! at" "take len (drop (at + 2) mem)"] by (simp only: fst_conv)
    then have "list_all (\<lambda>q. q \<le> at + n) (ies_ptrs ies')"
      using "1.prems"(2) True by (fastforce simp: ptr_step_def list_all_iff)
    moreover have fin: "at + (len + 2) + (n - (len + 2)) = at + n" using True by arith
    ultimately have "parse_safe (at + n) (mem[at := 0]) (parse_loop ies' (mem[at := 0]) (at + (len + 2)) (n - (len + 2)))"
      using "1.IH"[OF _ refl refl _ st[unfolded len_def, symmetric] refl] True "1.prems"
      unfolding len_def[symmetric] fin by simp
    moreover have "parse_loop ies mem at n = map_option (\<lambda>(r, i, m, ds'). (r, i, m, ds @ ds'))
        (parse_loop ies' (mem[at := 0]) (at + (len + 2)) (n - (len + 2)))"
      using True st by (subst parse_loop.simps) (simp add: Let_def len_def)
    ultimately show ?thesis by (auto simp: parse_safe_def split: option.splits)
  qed
qed



end
