(* ===== verification/Iax_Show.thy ===== *)
theory Iax_Show
  imports Iax_Ies
begin

text \<open>
  The rest of \<open>iax2-parser.c\<close>: the frame counters and the debug output of frames and information
  elements (\<open>iax_showframe\<close>, \<open>dump_ies\<close>), which runs on every packet received while debugging is
  enabled. Text is a list of characters. A read outside an array, or of bytes of a text buffer
  that were never written, is the result \<open>None\<close>.
\<close>

section \<open>Formatted output\<close>

text \<open>\<open>%d\<close> and \<open>%u\<close>; \<open>%0wd\<close> and \<open>%w.wd\<close> pad with zeros.\<close>

fun dec :: "nat \<Rightarrow> string" where
  "dec n = (if n < 10 then [char_of (48 + n)] else dec (n div 10) @ [char_of (48 + n mod 10)])"

declare dec.simps [simp del]

definition pad0 :: "nat \<Rightarrow> nat \<Rightarrow> string" where
  "pad0 w n = replicate (w - length (dec n)) CHR ''0'' @ dec n"

definition pad0_int :: "nat \<Rightarrow> int \<Rightarrow> string" where
  "pad0_int w i = (if i < 0 then CHR ''-'' # pad0 (w - 1) (nat (- i)) else pad0 w (nat i))"

text \<open>\<open>%-15.15s\<close>\<close>

definition fmt15 :: "string \<Rightarrow> string" where
  "fmt15 s = take 15 s @ replicate (15 - length s) CHR '' ''"

text \<open>\<open>snprintf\<close> given a size \<open>n\<close> keeps at most \<open>n - 1\<close> characters.\<close>

definition snprintf :: "nat \<Rightarrow> string \<Rightarrow> string" where
  "snprintf n s = take (n - 1) s"

definition nl :: string where
  "nl = [CHR 0x0A]"

definition chars :: "u8 list \<Rightarrow> string" where
  "chars bs = map (\<lambda>b. char_of (unat b)) bs"

definition inet_ntoa :: "u8 list \<Rightarrow> string" where
  "inet_ntoa a = dec (unat (a ! 0)) @ ''.'' @ dec (unat (a ! 1)) @ ''.'' @
                 dec (unat (a ! 2)) @ ''.'' @ dec (unat (a ! 3))"

section \<open>Dumping one element\<close>

text \<open>A \<open>sockaddr_in\<close>: family, port and address, the last two in network order, and padding.\<close>

definition dump_addr :: "u8 list \<Rightarrow> string" where
  "dump_addr v =
     (if length v = 16
      then ''IPV4 '' @ inet_ntoa (drop 4 v) @ '':'' @ dec (unat (rd16 (drop 2 v)))
      else ''Invalid Address'')"

definition dump_string :: "nat \<Rightarrow> u8 list \<Rightarrow> string" where
  "dump_string maxlen v = chars (cstr (take (min (maxlen - 1) (length v)) v))"

definition dump_int :: "u8 list \<Rightarrow> string" where
  "dump_int v = (if length v = 4 then dec (unat (rd32 v)) else ''Invalid INT'')"

definition dump_short :: "u8 list \<Rightarrow> string" where
  "dump_short v = (if length v = 2 then dec (unat (rd16 v)) else ''Invalid SHORT'')"

definition dump_byte :: "u8 list \<Rightarrow> string" where
  "dump_byte v = (if length v = 1 then dec (unat (v ! 0)) else ''Invalid BYTE'')"

definition dump_samprate :: "u8 list \<Rightarrow> string" where
  "dump_samprate v =
     (if length v = 2 then
        (let sr = rd16 v;
             tmp = (if bit sr 0 then '',8khz'' else []) @ (if bit sr 1 then '',11.025khz'' else []) @
                   (if bit sr 2 then '',16khz'' else []) @ (if bit sr 3 then '',22.05khz'' else []) @
                   (if bit sr 4 then '',44.1khz'' else []) @ (if bit sr 5 then '',48khz'' else [])
         in if tmp \<noteq> [] then tl tmp else ''None specified!'' @ nl)
      else ''Invalid SHORT'')"

text \<open>
  The provisioning data is dumped into the rest of the text buffer: \<open>strncpy (output, tmp,
  maxlen - 1)\<close> terminates the text only when \<open>tmp\<close> is shorter than that, and the \<open>strlen\<close> after
  it then reads what was never written.
\<close>

definition prov_put :: "string \<Rightarrow> nat \<Rightarrow> string \<Rightarrow> (string \<times> nat) option" where
  "prov_put output maxlen tmp =
     (if length tmp + 1 < maxlen then Some (output @ tmp, maxlen - length tmp) else None)"

function prov_loop :: "string \<Rightarrow> nat \<Rightarrow> u8 list \<Rightarrow> string option" where
  "prov_loop output maxlen iedata =
     (if length iedata > 2 then
        (let ie = unat (iedata ! 0); ielen = unat (iedata ! 1) in
         if ielen + 2 > length iedata then
           map_option fst (prov_put output maxlen (snprintf 256
             (''Total Prov IE length of '' @ dec (ielen + 2) @
              '' bytes exceeds remaining prov frame length of '' @ dec (length iedata) @ '' bytes'' @ nl)))
         else case prov_put output maxlen (snprintf 256
                     (''       Unknown Prov IE '' @ pad0 3 ie @ ''  : Present'' @ nl)) of
                None \<Rightarrow> None
              | Some (output', maxlen') \<Rightarrow> prov_loop output' maxlen' (drop (2 + ielen) iedata))
      else Some output)"
  by pat_completeness auto
termination by (relation "measure (\<lambda>(output, maxlen, iedata). length iedata)") auto

declare prov_loop.simps [simp del]

text \<open>With less than two bytes nothing is written, and the caller prints the buffer as it was.\<close>

definition dump_prov_ies :: "nat \<Rightarrow> u8 list \<Rightarrow> string option" where
  "dump_prov_ies maxlen iedata =
     (if length iedata < 2 then None else prov_loop nl (maxlen - 1) iedata)"

section \<open>The table of elements\<close>

datatype ie_dump = Dump_addr | Dump_string | Dump_int | Dump_short | Dump_byte | Dump_samprate | Dump_prov

definition ies_table :: "(u8 \<times> string \<times> ie_dump option) list" where
  "ies_table =
     [(IAX_IE_CALLED_NUMBER, ''CALLED NUMBER'', Some Dump_string),
      (IAX_IE_CALLING_NUMBER, ''CALLING NUMBER'', Some Dump_string),
      (IAX_IE_CALLING_ANI, ''ANI'', Some Dump_string),
      (IAX_IE_CALLING_NAME, ''CALLING NAME'', Some Dump_string),
      (IAX_IE_CALLED_CONTEXT, ''CALLED CONTEXT'', Some Dump_string),
      (IAX_IE_USERNAME, ''USERNAME'', Some Dump_string),
      (IAX_IE_PASSWORD, ''PASSWORD'', Some Dump_string),
      (IAX_IE_CAPABILITY, ''CAPABILITY'', Some Dump_int),
      (IAX_IE_FORMAT, ''FORMAT'', Some Dump_int),
      (IAX_IE_LANGUAGE, ''LANGUAGE'', Some Dump_string),
      (IAX_IE_CODEC_PREFS, ''CODEC_PREFS'', Some Dump_string),
      (IAX_IE_VERSION, ''VERSION'', Some Dump_short),
      (IAX_IE_ADSICPE, ''ADSICPE'', Some Dump_short),
      (IAX_IE_DNID, ''DNID'', Some Dump_string),
      (IAX_IE_AUTHMETHODS, ''AUTHMETHODS'', Some Dump_short),
      (IAX_IE_CHALLENGE, ''CHALLENGE'', Some Dump_string),
      (IAX_IE_MD5_RESULT, ''MD5 RESULT'', Some Dump_string),
      (IAX_IE_RSA_RESULT, ''RSA RESULT'', Some Dump_string),
      (IAX_IE_APPARENT_ADDR, ''APPARENT ADDRESS'', Some Dump_addr),
      (IAX_IE_REFRESH, ''REFRESH'', Some Dump_short),
      (IAX_IE_DPSTATUS, ''DIALPLAN STATUS'', Some Dump_short),
      (IAX_IE_CALLNO, ''CALL NUMBER'', Some Dump_short),
      (IAX_IE_CAUSE, ''CAUSE'', Some Dump_string),
      (IAX_IE_IAX_UNKNOWN, ''UNKNOWN IAX CMD'', Some Dump_byte),
      (IAX_IE_MSGCOUNT, ''MESSAGE COUNT'', Some Dump_short),
      (IAX_IE_AUTOANSWER, ''AUTO ANSWER REQ'', None),
      (IAX_IE_TRANSFERID, ''TRANSFER ID'', Some Dump_int),
      (IAX_IE_RDNIS, ''REFERRING DNIS'', Some Dump_string),
      (IAX_IE_PROVISIONING, ''PROVISIONING'', Some Dump_prov),
      (IAX_IE_AESPROVISIONING, ''AES PROVISIONG'', None),
      (IAX_IE_DATETIME, ''DATE TIME'', Some Dump_int),
      (IAX_IE_DEVICETYPE, ''DEVICE TYPE'', Some Dump_string),
      (IAX_IE_SERVICEIDENT, ''SERVICE IDENT'', Some Dump_string),
      (IAX_IE_FIRMWAREVER, ''FIRMWARE VER'', Some Dump_short),
      (IAX_IE_FWBLOCKDESC, ''FW BLOCK DESC'', Some Dump_int),
      (IAX_IE_FWBLOCKDATA, ''FW BLOCK DATA'', None),
      (IAX_IE_PROVVER, ''PROVISIONG VER'', Some Dump_int),
      (IAX_IE_CALLINGPRES, ''CALLING PRESNTN'', Some Dump_byte),
      (IAX_IE_CALLINGTON, ''CALLING TYPEOFNUM'', Some Dump_byte),
      (IAX_IE_CALLINGTNS, ''CALLING TRANSITNET'', Some Dump_short),
      (IAX_IE_SAMPLINGRATE, ''SAMPLINGRATE'', Some Dump_samprate),
      (IAX_IE_CODEC_PREFS, ''CODEC_PREFS'', Some Dump_string),
      (IAX_IE_RR_JITTER, ''RR_JITTER'', Some Dump_int),
      (IAX_IE_RR_LOSS, ''RR_LOSS'', Some Dump_int),
      (IAX_IE_RR_PKTS, ''RR_PKTS'', Some Dump_int),
      (IAX_IE_RR_DELAY, ''RR_DELAY'', Some Dump_short),
      (IAX_IE_RR_DROPPED, ''RR_DROPPED'', Some Dump_int),
      (IAX_IE_RR_OOO, ''RR_OOO'', Some Dump_int),
      (IAX_IE_FORMAT2, ''FORMAT2'', Some Dump_int)]"

fun ie2str_scan :: "(u8 \<times> string \<times> ie_dump option) list \<Rightarrow> u8 \<Rightarrow> string" where
  "ie2str_scan [] ie = ''Unknown IE''"
| "ie2str_scan ((i, name, d) # xs) ie = (if i = ie then name else ie2str_scan xs ie)"

definition iax_ie2str :: "u8 \<Rightarrow> string" where
  "iax_ie2str ie = ie2str_scan ies_table ie"

section \<open>Dumping a message\<close>

text \<open>\<open>interp\<close> after the dump function of the entry, or the text of an entry without one.\<close>

fun run_dump :: "ie_dump option \<Rightarrow> u8 list \<Rightarrow> string option" where
  "run_dump (Some Dump_addr) v = Some (dump_addr v)"
| "run_dump (Some Dump_string) v = Some (dump_string 1024 v)"
| "run_dump (Some Dump_int) v = Some (dump_int v)"
| "run_dump (Some Dump_short) v = Some (dump_short v)"
| "run_dump (Some Dump_byte) v = Some (dump_byte v)"
| "run_dump (Some Dump_samprate) v = Some (dump_samprate v)"
| "run_dump (Some Dump_prov) v = dump_prov_ies 1024 v"
| "run_dump None v = Some (if v \<noteq> [] then dec (length v) @ '' bytes'' else ''Present'')"

text \<open>The lines of all entries of the table for one element, in the order of the table.\<close>

fun table_lines :: "(u8 \<times> string \<times> ie_dump option) list \<Rightarrow> u8 \<Rightarrow> u8 list \<Rightarrow> string list option" where
  "table_lines [] ie v = Some []"
| "table_lines ((i, name, d) # xs) ie v =
     (if i = ie then
        (case run_dump d v of
           None \<Rightarrow> None
         | Some interp \<Rightarrow>
             map_option (Cons (snprintf 1024 (''   '' @ fmt15 name @ '' : '' @ interp @ nl)))
               (table_lines xs ie v))
      else table_lines xs ie v)"

definition ie_lines :: "u8 \<Rightarrow> u8 list \<Rightarrow> string list option" where
  "ie_lines ie v =
     map_option (\<lambda>ls. if ls = [] then [''   Unknown IE '' @ pad0 3 (unat ie) @ ''  : Present'' @ nl] else ls)
       (table_lines ies_table ie v)"

function dump_loop :: "u8 list \<Rightarrow> string list option" where
  "dump_loop iedata =
     (if length iedata > 2 then
        (let ie = iedata ! 0; ielen = unat (iedata ! 1) in
         if ielen + 2 > length iedata then
           Some [''Total IE length of '' @ dec (ielen + 2) @
                 '' bytes exceeds remaining frame length of '' @ dec (length iedata) @ '' bytes'' @ nl]
         else case ie_lines ie (take ielen (drop 2 iedata)) of
                None \<Rightarrow> None
              | Some ls \<Rightarrow> map_option ((@) ls) (dump_loop (drop (2 + ielen) iedata)))
      else Some [nl])"
  by pat_completeness auto
termination by (relation "measure length") auto

declare dump_loop.simps [simp del]

definition dump_ies :: "u8 list \<Rightarrow> string list option" where
  "dump_ies iedata = (if length iedata < 2 then Some [] else dump_loop iedata)"

section \<open>Showing a frame\<close>

text \<open>
  \<open>ast_iax2_full_hdr\<close>. The member \<open>type\<close> is a plain \<open>char\<close>, which is signed on the platforms of
  the program, so it is read as \<open>sint\<close>.
\<close>

record full_hdr =
  fh_scallno :: u16
  fh_dcallno :: u16
  fh_ts :: u32
  fh_oseqno :: u8
  fh_iseqno :: u8
  fh_type :: u8
  fh_csub :: u8
  fh_iedata :: "u8 list"

definition frame_names :: "string list" where
  "frame_names = [''(0?)'', ''DTMF   '', ''VOICE  '', ''VIDEO  '', ''CONTROL'', ''NULL   '',
     ''IAX    '', ''TEXT   '', ''IMAGE  '']"

definition iax_names :: "string list" where
  "iax_names = [''(0?)'', ''NEW    '', ''PING   '', ''PONG   '', ''ACK    '', ''HANGUP '',
     ''REJECT '', ''ACCEPT '', ''AUTHREQ'', ''AUTHREP'', ''INVAL  '', ''LAGRQ  '', ''LAGRP  '',
     ''REGREQ '', ''REGAUTH'', ''REGACK '', ''REGREJ '', ''REGREL '', ''VNAK   '', ''DPREQ  '',
     ''DPREP  '', ''DIAL   '', ''TXREQ  '', ''TXCNT  '', ''TXACC  '', ''TXREADY'', ''TXREL  '',
     ''TXREJ  '', ''QUELCH '', ''UNQULCH'', ''POKE'', ''PAGE'', ''MWI'', ''UNSUPPORTED'',
     ''TRANSFER'', ''PROVISION'', ''FWDOWNLD'', ''FWDATA'']"

definition cmd_names :: "string list" where
  "cmd_names = [''(0?)'', ''HANGUP '', ''RING   '', ''RINGING'', ''ANSWER '', ''BUSY   '',
     ''TKOFFHK '', ''OFFHOOK'']"

definition frame_class :: "u8 \<Rightarrow> string option" where
  "frame_class ty =
     (if sint ty > int (length frame_names) then Some (''('' @ dec (nat (sint ty)) @ ''?)'')
      else if 0 \<le> sint ty \<and> sint ty < int (length frame_names) then Some (frame_names ! nat (sint ty))
      else None)"

definition frame_subclass :: "u8 \<Rightarrow> u8 \<Rightarrow> string option" where
  "frame_subclass ty csub =
     (if ty = 1 then Some [char_of (unat csub)]
      else if ty = 6 then
        (if unat csub \<ge> length iax_names then Some (''('' @ dec (unat csub) @ ''?)'')
         else Some (iax_names ! unat csub))
      else if ty = 4 then
        (if unat csub > length cmd_names then Some (''('' @ dec (unat csub) @ ''?)'')
         else if unat csub < length cmd_names then Some (cmd_names ! unat csub)
         else None)
      else Some (dec (unat csub)))"

text \<open>The two header lines: retries, sequence numbers, type and subclass; time, calls and peer.\<close>

definition show_header :: "string \<Rightarrow> full_hdr \<Rightarrow> bool \<Rightarrow> string \<Rightarrow> string \<Rightarrow> string" where
  "show_header retries fh rx cls sub =
     snprintf 256 ((if rx then ''Rx'' else ''Tx'') @ ''-Frame Retry['' @ retries @
       ''] -- OSeqno: '' @ pad0 3 (unat (fh_oseqno fh)) @ '' ISeqno: '' @
       pad0 3 (unat (fh_iseqno fh)) @ '' Type: '' @ cls @ '' Subclass: '' @ sub @ nl)"

definition show_call :: "full_hdr \<Rightarrow> u8 list \<Rightarrow> u16 \<Rightarrow> string" where
  "show_call fh addr port =
     snprintf 256 (''   Timestamp: '' @ pad0 5 (unat (fh_ts fh)) @ ''ms  SCall: '' @
       pad0 5 (unat (fh_scallno fh AND 0x7FFF)) @ ''  DCall: '' @
       pad0 5 (unat (fh_dcallno fh AND 0x7FFF)) @ '' ['' @ inet_ntoa addr @ '':'' @
       dec (unat port) @ '']'' @ nl)"

text \<open>
  \<open>retries\<close> is \<open>Some\<close> of the member of the frame, or \<open>None\<close> when only a header is given; \<open>addr\<close>
  and \<open>port\<close> are the peer. What is shown is the list of texts handed to \<open>outputf\<close>.
\<close>

definition iax_showframe ::
    "int option \<Rightarrow> full_hdr \<Rightarrow> bool \<Rightarrow> u8 list \<Rightarrow> u16 \<Rightarrow> nat \<Rightarrow> string list option" where
  "iax_showframe retr fh rx addr port datalen =
     (let retries = (case retr of Some n \<Rightarrow> pad0_int 3 n
                     | None \<Rightarrow> if bit (fh_dcallno fh) 15 then ''Yes'' else '' No'')
      in if \<not> bit (fh_scallno fh) 15 then Some []
         else case (frame_class (fh_type fh), frame_subclass (fh_type fh) (fh_csub fh)) of
             (Some cls, Some sub) \<Rightarrow>
               (let ls = [show_header retries fh rx cls sub, show_call fh addr port]
                in if fh_type fh = 6 then map_option ((@) ls) (dump_ies (take datalen (fh_iedata fh)))
                   else Some ls)
           | _ \<Rightarrow> None)"

section \<open>The frame counters\<close>

record frame_counts =
  fc_frames :: int
  fc_iframes :: int
  fc_oframes :: int

definition DIRECTION_INGRESS :: int where "DIRECTION_INGRESS = 1"
definition DIRECTION_OUTGRESS :: int where "DIRECTION_OUTGRESS = 2"

text \<open>\<open>alloc\<close> says whether \<open>malloc\<close> succeeds; the frame is represented by its direction.\<close>

definition iax_frame_new :: "bool \<Rightarrow> int \<Rightarrow> frame_counts \<Rightarrow> int option \<times> frame_counts" where
  "iax_frame_new alloc direction c =
     (if alloc then
        (let c1 = c\<lparr>fc_frames := fc_frames c + 1\<rparr>
         in (Some direction,
             if direction = DIRECTION_INGRESS then c1\<lparr>fc_iframes := fc_iframes c1 + 1\<rparr>
             else c1\<lparr>fc_oframes := fc_oframes c1 + 1\<rparr>))
      else (None, c))"

text \<open>The direction left in the freed frame, and whether a double free was reported.\<close>

definition iax_frame_free :: "int \<Rightarrow> frame_counts \<Rightarrow> bool \<times> int \<times> frame_counts" where
  "iax_frame_free direction c =
     (if direction = DIRECTION_INGRESS
      then (False, 0, c\<lparr>fc_iframes := fc_iframes c - 1, fc_frames := fc_frames c - 1\<rparr>)
      else if direction = DIRECTION_OUTGRESS
      then (False, 0, c\<lparr>fc_oframes := fc_oframes c - 1, fc_frames := fc_frames c - 1\<rparr>)
      else (True, direction, c))"

section \<open>What is shown\<close>

text \<open>
  The debug output of a received frame is undefined (an array is indexed out of range, or
  unwritten memory is printed) exactly for a full frame whose type is negative as a \<open>char\<close> or 9,
  for the control subclass 8, and for IAX frames whose elements cannot be dumped. The tests
  against the table sizes in the code, off by one, let these through.
\<close>

theorem iax_showframe_undefined:
  "iax_showframe retr fh rx addr port datalen = None \<longleftrightarrow>
     bit (fh_scallno fh) 15 \<and>
     (sint (fh_type fh) < 0 \<or> fh_type fh = 9 \<or> fh_type fh = 4 \<and> fh_csub fh = 8 \<or>
      fh_type fh = 6 \<and> dump_ies (take datalen (fh_iedata fh)) = None)"
proof -
  have cls: "frame_class ty = None \<longleftrightarrow> sint ty < 0 \<or> ty = 9" for ty
  proof -
    have "sint ty = 9 \<longleftrightarrow> ty = 9" using word_eq_iff_signed[where 'a = int, of ty 9] by simp
    then show ?thesis by (auto simp: frame_class_def frame_names_def)
  qed
  have sub: "frame_subclass ty c = None \<longleftrightarrow> ty = 4 \<and> c = 8" for ty c
  proof -
    have "unat c = 8 \<longleftrightarrow> c = 8" using word_eq_iff_unsigned[where 'a = nat, of c 8] by simp
    then show ?thesis by (auto simp: frame_subclass_def cmd_names_def)
  qed
  show ?thesis
    using cls[of "fh_type fh"] sub[of "fh_type fh" "fh_csub fh"]
    by (cases "frame_class (fh_type fh)"; cases "frame_subclass (fh_type fh) (fh_csub fh)")
      (auto simp: iax_showframe_def Let_def)
qed

section \<open>The dump of a whole message\<close>

lemma table_lines_Some:
  "list_all (\<lambda>(i, name, d). i \<noteq> ie \<or> d \<noteq> Some Dump_prov) xs \<Longrightarrow> \<exists>ls. table_lines xs ie v = Some ls"
proof (induction xs)
  case (Cons x xs)
  obtain i name d where x: "x = (i, name, d)" by (cases x)
  show ?case
  proof (cases "i = ie")
    case True
    with Cons.prems x have "d \<noteq> Some Dump_prov" by simp
    then have "\<exists>t. run_dump d v = Some t"
      by (induction d v rule: run_dump.induct) simp_all
    with Cons x show ?thesis by auto
  qed (use Cons x in simp)
qed simp

lemma ie_lines_Some: "ie \<noteq> IAX_IE_PROVISIONING \<Longrightarrow> \<exists>ls. ie_lines ie v = Some ls"
  using table_lines_Some[of ie ies_table v] by (auto simp: ie_lines_def ies_table_def)

text \<open>The elements that the loop reaches: one of two bytes at the end is not among them.\<close>

definition shown :: "element list \<Rightarrow> element list" where
  "shown es = (if es \<noteq> [] \<and> snd (last es) = [] then butlast es else es)"

lemma length_enc_ge: "es \<noteq> [] \<Longrightarrow> 2 \<le> length (enc es)"
  by (cases es) simp_all

lemma dump_loop_short: "length bs \<le> 2 \<Longrightarrow> dump_loop bs = Some [nl]"
  by (subst dump_loop.simps) simp

lemma dump_loop_cons:
  assumes "fits (ie, p)" "2 < length (enc_ie (ie, p) @ rest)" "ie_lines ie p = Some ls"
  shows "dump_loop (enc_ie (ie, p) @ rest) = map_option ((@) ls) (dump_loop rest)"
proof -
  have "unat (of_nat (length p) :: u8) = length p"
    using assms(1) by (simp add: fits_def unat_of_nat)
  with assms(2,3) show ?thesis
    by (subst dump_loop.simps) (simp add: enc_ie_def Let_def)
qed

lemma dump_loop_enc:
  assumes "list_all fits es" "list_all (\<lambda>e. fst e \<noteq> IAX_IE_PROVISIONING) es"
  shows "dump_loop (enc es) = Some (concat (map (\<lambda>e. the (ie_lines (fst e) (snd e))) (shown es)) @ [nl])"
  using assms
proof (induction es)
  case Nil
  then show ?case by (simp add: dump_loop_short shown_def)
next
  case (Cons e es)
  obtain ie p where e: "e = (ie, p)" by fastforce
  from Cons.prems ie_lines_Some obtain ls where ls: "ie_lines ie p = Some ls" by (auto simp: e)
  show ?case
  proof (cases "es = [] \<and> p = []")
    case True
    then show ?thesis by (simp add: e dump_loop_short shown_def)
  next
    case False
    then have len: "2 < length (enc_ie (ie, p) @ enc es)"
      using length_enc_ge[of es] by (cases "es = []") auto
    have fit: "fits (ie, p)" using Cons.prems by (simp add: e)
    have "shown (e # es) = e # shown es" using False by (auto simp: shown_def e)
    then show ?thesis
      using Cons dump_loop_cons[OF fit len ls] by (simp add: e ls)
  qed
qed

text \<open>
  The dump of a message without provisioning data prints, for every element in order, the
  lines of the table entries that match it, and a final newline. It leaves out a last element
  without payload: the loop runs while more than two bytes are left.
\<close>

theorem dump_ies_shows:
  assumes "list_all fits es" "list_all (\<lambda>e. fst e \<noteq> IAX_IE_PROVISIONING) es" "es \<noteq> []"
  shows "dump_ies (enc es) = Some (concat (map (\<lambda>e. the (ie_lines (fst e) (snd e))) (shown es)) @ [nl])"
  using dump_loop_enc[OF assms(1,2)] length_enc_ge[OF assms(3)] by (simp add: dump_ies_def)

lemma dump_ies_shows_witness:
  "dump_ies [21, 2, 0, 7, 25, 0] = Some [''   CALL NUMBER     : 7'' @ nl, nl]"
proof -
  have "enc [(IAX_IE_CALLNO, be16 7), (IAX_IE_AUTOANSWER, [])] = [21, 2, 0, 7, 25, 0]"
    by (simp add: enc_ie_def be16_def)
  moreover have "shown [(IAX_IE_CALLNO, be16 7), (IAX_IE_AUTOANSWER, [])] = [(IAX_IE_CALLNO, be16 7)]"
    by (simp add: shown_def)
  moreover have "ie_lines IAX_IE_CALLNO (be16 7) = Some [''   CALL NUMBER     : 7'' @ nl]"
  proof -
    have "dec 7 = ''7''" by code_simp
    moreover have "fmt15 ''CALL NUMBER'' = ''CALL NUMBER    ''" by code_simp
    ultimately show ?thesis
      using rd16_be16[of 7 "[]"] by (simp add: ie_lines_def ies_table_def dump_short_def snprintf_def nl_def)
  qed
  ultimately show ?thesis
    using dump_ies_shows[of "[(IAX_IE_CALLNO, be16 7), (IAX_IE_AUTOANSWER, [])]"] by (simp add: fits_def)
qed

section \<open>Provisioning data\<close>

lemma length_dec3: "n < 256 \<Longrightarrow> length (pad0 3 n) = 3"
  by (simp add: pad0_def dec.simps[of n] dec.simps[of "n div 10"] dec.simps[of "n div 10 div 10"])

lemma length_prov_line:
  "length (snprintf 256 (''       Unknown Prov IE '' @ pad0 3 (unat (a :: u8)) @ ''  : Present'' @ nl)) = 38"
  using length_dec3[of "unat a"] unsigned_less[where 'a = nat, of a] by (simp add: snprintf_def nl_def)

lemma prov_loop_step:
  "(prov_loop out m (a # 0 # b # bs) = None) =
   (39 < m \<longrightarrow> prov_loop (out @ snprintf 256 (''       Unknown Prov IE '' @ pad0 3 (unat a) @ ''  : Present'' @ nl))
                 (m - 38) (b # bs) = None)"
  by (subst prov_loop.simps) (simp add: prov_put_def Let_def length_prov_line del: append_Cons append_assoc)

lemma prov_loop_empty_elements:
  "prov_loop out m (concat (replicate (Suc k) [a, 0])) = None \<longleftrightarrow> 0 < k \<and> m \<le> 1 + 38 * k"
proof (induction k arbitrary: out m)
  case 0
  then show ?case by (simp add: prov_loop.simps)
next
  case (Suc k)
  have "concat (replicate (Suc (Suc k)) [a, 0]) = a # 0 # a # (0 # concat (replicate k [a, 0]))"
    by simp
  moreover have "concat (replicate (Suc k) [a, 0]) = a # (0 # concat (replicate k [a, 0]))" by simp
  ultimately show ?case using Suc[of _ "m - 38"] prov_loop_step[of out m a a] by auto
qed

text \<open>
  Provisioning data runs over the 1024 bytes of the text buffer: for a block of \<open>k\<close> elements
  of two bytes the dump is defined only for \<open>1 \<le> k < 28\<close>; a block of 56 bytes or more, as well as
  an empty one, makes the code read what was never written, and the space it computes from that is
  wrong.
\<close>

theorem dump_prov_ies_overruns:
  "dump_prov_ies 1024 (concat (replicate k [a, 0])) = None \<longleftrightarrow> k = 0 \<or> 28 \<le> k"
proof (cases k)
  case (Suc n)
  have "dump_prov_ies 1024 (concat (replicate k [a, 0])) = prov_loop nl 1023 (concat (replicate (Suc n) [a, 0]))"
    by (simp add: dump_prov_ies_def Suc)
  then show ?thesis using prov_loop_empty_elements[of nl 1023 n a] Suc by auto
qed (simp add: dump_prov_ies_def)

end
