(* ===== verification/Iax_Sched.thy ===== *)
theory Iax_Sched
  imports Prelude
begin

text \<open>
  The event scheduler of \<open>libiax2/src/iax.c\<close>: \<open>iax_sched_add\<close>, \<open>iax_sched_del\<close>,
  \<open>iax_time_to_next_event\<close>, \<open>iax_get_sched\<close>, and the \<open>timeval\<close> arithmetic they share with the
  timestamps. The linked list \<open>schedq\<close> is a list; an entry carries an event, a frame, or a
  function with its argument, whose types are left open here.
\<close>

section \<open>Time\<close>

datatype timeval = Timeval (tv_sec: int) (tv_usec: int)

text \<open>The comparisons of the code are lexicographic.\<close>

instantiation timeval :: linorder
begin

definition less_eq_timeval :: "timeval \<Rightarrow> timeval \<Rightarrow> bool" where
  "less_eq_timeval a b \<longleftrightarrow> tv_sec a < tv_sec b \<or> tv_usec a \<le> tv_usec b \<and> tv_sec a = tv_sec b"

definition less_timeval :: "timeval \<Rightarrow> timeval \<Rightarrow> bool" where
  "less_timeval a b \<longleftrightarrow> tv_sec a < tv_sec b \<or> tv_usec a < tv_usec b \<and> tv_sec a = tv_sec b"

instance
  by standard (auto simp: less_eq_timeval_def less_timeval_def intro: timeval.expand)

end

text \<open>The time in microseconds.\<close>

definition usecs :: "timeval \<Rightarrow> int" where
  "usecs t = 1000000 * tv_sec t + tv_usec t"

text \<open>
  The carry of the code tests \<open>> 1000000\<close>, so exactly one second of microseconds is left as it is.
\<close>

definition add_when :: "int \<Rightarrow> timeval \<Rightarrow> timeval" where
  "add_when ms now =
     (let sec = tv_sec now + ms sdiv 1000;
          usec = tv_usec now + (ms smod 1000) * 1000
      in if usec > 1000000 then Timeval (sec + 1) (usec - 1000000) else Timeval sec usec)"

definition add_ms :: "timeval \<Rightarrow> int \<Rightarrow> timeval" where
  "add_ms tv ms =
     (let usec = tv_usec tv + ms * 1000;
          (sec1, usec1) = (if usec > 1000000 then (tv_sec tv + 1, usec - 1000000) else (tv_sec tv, usec))
      in if usec1 < 0 then Timeval (sec1 - 1) (usec1 + 1000000) else Timeval sec1 usec1)"

text \<open>The difference in milliseconds, as the code computes it everywhere.\<close>

definition ms_between :: "timeval \<Rightarrow> timeval \<Rightarrow> int" where
  "ms_between a b = (tv_sec a - tv_sec b) * 1000 + (tv_usec a - tv_usec b) sdiv 1000"

section \<open>The queue\<close>

record ('e, 'f, 'g) iax_sched =
  sc_when :: timeval
  sc_event :: "'e option"
  sc_frame :: "'f option"
  sc_func :: "'g option"

type_synonym ('e, 'f, 'g) schedq = "('e, 'f, 'g) iax_sched list"

text \<open>The loop that links the entry in.\<close>

fun sched_walk :: "('e, 'f, 'g) iax_sched \<Rightarrow> ('e, 'f, 'g) schedq \<Rightarrow> ('e, 'f, 'g) schedq" where
  "sched_walk sched [] = [sched]"
| "sched_walk sched (cur # q) =
     (if tv_sec (sc_when cur) < tv_sec (sc_when sched) \<or>
         tv_usec (sc_when cur) \<le> tv_usec (sc_when sched) \<and> tv_sec (sc_when cur) = tv_sec (sc_when sched)
      then cur # sched_walk sched q else sched # cur # q)"

definition iax_sched_add ::
    "bool \<Rightarrow> timeval \<Rightarrow> 'e option \<Rightarrow> 'f option \<Rightarrow> 'g option \<Rightarrow> int \<Rightarrow> ('e, 'f, 'g) schedq \<Rightarrow>
     int \<times> ('e, 'f, 'g) schedq" where
  "iax_sched_add alloc now event frame func ms q =
     (if event = None \<and> frame = None \<and> func = None then (- 1, q)
      else if \<not> alloc then (- 1, q)
      else (0, sched_walk \<lparr>sc_when = add_when ms now, sc_event = event, sc_frame = frame,
                           sc_func = func\<rparr> q))"

text \<open>Deletes the first match, or all of them; \<open>-1\<close> says that the first was deleted.\<close>

fun iax_sched_del ::
    "'e option \<Rightarrow> 'f option \<Rightarrow> 'g option \<Rightarrow> bool \<Rightarrow> ('e, 'f, 'g) schedq \<Rightarrow> int \<times> ('e, 'f, 'g) schedq" where
  "iax_sched_del event frame func all [] = (0, [])"
| "iax_sched_del event frame func all (cur # q) =
     (if sc_event cur = event \<and> sc_frame cur = frame \<and> sc_func cur = func then
        (if all then iax_sched_del event frame func all q else (- 1, q))
      else (let (r, q') = iax_sched_del event frame func all q in (r, cur # q')))"

fun min_ms :: "timeval \<Rightarrow> int \<Rightarrow> ('e, 'f, 'g) schedq \<Rightarrow> int" where
  "min_ms tv mn [] = mn"
| "min_ms tv mn (cur # q) =
     min_ms tv (if ms_between (sc_when cur) tv < mn then ms_between (sc_when cur) tv else mn) q"

definition iax_time_to_next_event :: "timeval \<Rightarrow> ('e, 'f, 'g) schedq \<Rightarrow> int" where
  "iax_time_to_next_event tv q =
     (if q = [] then - 1
      else (let mn = min_ms tv 999999999 q in if mn < 0 then 0 else mn))"

text \<open>
  The first due entry. The loop never sets \<open>prev\<close>, so the entries before the one it returns
  leave the queue with it.
\<close>

fun iax_get_sched :: "timeval \<Rightarrow> ('e, 'f, 'g) schedq \<Rightarrow> ('e, 'f, 'g) iax_sched option \<times> ('e, 'f, 'g) schedq" where
  "iax_get_sched tv [] = (None, [])"
| "iax_get_sched tv (cur # q) =
     (if tv_sec tv > tv_sec (sc_when cur) \<or>
         tv_sec tv = tv_sec (sc_when cur) \<and> tv_usec tv \<ge> tv_usec (sc_when cur)
      then (Some cur, q)
      else case iax_get_sched tv q of
             (None, _) \<Rightarrow> (None, cur # q)
           | (Some c, q') \<Rightarrow> (Some c, q'))"

section \<open>The queue is ordered by time\<close>

lemma sched_walk_insert: "sched_walk s q = insert_after sc_when s q"
  by (induction q) (auto simp: less_eq_timeval_def)

lemma due_iff: "(tv_sec tv > tv_sec w \<or> tv_sec tv = tv_sec w \<and> tv_usec tv \<ge> tv_usec w) \<longleftrightarrow> w \<le> tv"
  by (auto simp: less_eq_timeval_def)

lemma iax_get_sched_Nil: "\<forall>c \<in> set q. tv < sc_when c \<Longrightarrow> iax_get_sched tv q = (None, q)"
  by (induction q) (auto simp: due_iff)

interpretation sq: timed_queue "\<lambda>q. q" sc_when sched_walk iax_get_sched
proof
  fix q :: "('a, 'b, 'c) schedq" and a as t
  assume "sorted_by sc_when q" "q = a # as" "t < sc_when a"
  then have "\<forall>c \<in> set q. t < sc_when c" by auto
  then show "fst (iax_get_sched t q) = None \<and> snd (iax_get_sched t q) = a # as"
    using iax_get_sched_Nil \<open>q = a # as\<close> by fastforce
qed (auto simp: sched_walk_insert due_iff)

text \<open>
  Microseconds stay within one second, the end included. Within these bounds the order of the
  queue is the order of time.
\<close>

definition tv_ok :: "timeval \<Rightarrow> bool" where
  "tv_ok t \<longleftrightarrow> 0 \<le> tv_usec t \<and> tv_usec t \<le> 1000000"

lemma usecs_mono: "tv_ok a \<Longrightarrow> tv_ok b \<Longrightarrow> a \<le> b \<Longrightarrow> usecs a \<le> usecs b"
  by (cases "tv_sec a < tv_sec b") (auto simp: tv_ok_def usecs_def less_eq_timeval_def)

lemma add_when_usecs: "usecs (add_when ms t) = usecs t + 1000 * ms"
  using mult_sdiv_smod_eq[of 1000 ms] by (auto simp: add_when_def Let_def usecs_def)

lemma add_when_ok:
  assumes "tv_ok t" "tv_usec t < 1000000" "0 \<le> ms"
  shows "tv_ok (add_when ms t)"
proof -
  have "0 \<le> ms smod 1000" "ms smod 1000 < 1000"
    using assms(3) by (auto simp: smod_mod_positive)
  with assms(1,2) show ?thesis by (auto simp: add_when_def Let_def tv_ok_def)
qed

lemma sorted_usecs:
  assumes "sorted_by sc_when q" "list_all (\<lambda>c. tv_ok (sc_when c)) q"
  shows "sorted_by (\<lambda>c. usecs (sc_when c)) q"
  using assms by (induction q) (auto simp: list_all_iff intro: usecs_mono)

text \<open>
  Scheduling is exact and in order. For a clock reading within the second and a
  non-negative delay, the entry is due exactly that delay from now, the queue stays ordered by
  time, nothing else changes, and entries due at the same time keep their order of arrival.
\<close>

theorem iax_sched_add_in_order:
  assumes "sorted_by sc_when q" "list_all (\<lambda>c. tv_ok (sc_when c)) q"
    and "tv_ok now" "tv_usec now < 1000000" "0 \<le> ms" "(event, frame, func) \<noteq> (None, None, None)"
  shows "\<exists>c q'. iax_sched_add True now event frame func ms q = (0, q') \<and>
     sc_event c = event \<and> sc_frame c = frame \<and> sc_func c = func \<and>
     usecs (sc_when c) = usecs now + 1000 * ms \<and>
     mset q' = add_mset c (mset q) \<and>
     sorted_by sc_when q' \<and> list_all (\<lambda>c. tv_ok (sc_when c)) q' \<and>
     sorted_by (\<lambda>c. usecs (sc_when c)) q' \<and>
     filter (\<lambda>d. sc_when d = sc_when c) q' = filter (\<lambda>d. sc_when d = sc_when c) q @ [c]"
proof -
  let ?c = "\<lparr>sc_when = add_when ms now, sc_event = event, sc_frame = frame, sc_func = func\<rparr>"
  let ?q = "sched_walk ?c q"
  have ok: "list_all (\<lambda>c. tv_ok (sc_when c)) ?q"
    using assms(2) add_when_ok[OF assms(3-5)] by (auto simp: sched_walk_insert list_all_iff)
  have "iax_sched_add True now event frame func ms q = (0, ?q)"
    using assms(6) by (simp add: iax_sched_add_def)
  moreover have "sorted_by sc_when ?q" using assms(1) by (rule sq.put_sorted)
  ultimately show ?thesis
    using ok sorted_usecs[OF _ ok] sq.put_fifo[OF assms(1), of "sc_when ?c" ?c]
    by (intro exI[of _ ?c] exI[of _ ?q])
      (simp add: sched_walk_insert add_when_usecs)
qed

lemma iax_sched_add_in_order_witness:
  "\<exists>c q'. iax_sched_add True (Timeval 5 400000) (Some (8 :: nat)) (None :: nat option) (None :: nat option) 1600 [] = (0, q') \<and>
     sc_event c = Some (8 :: nat) \<and> sc_frame c = None \<and> sc_func c = None \<and>
     usecs (sc_when c) = usecs (Timeval 5 400000) + 1000 * 1600 \<and> mset q' = add_mset c (mset []) \<and>
     sorted_by sc_when q' \<and> list_all (\<lambda>c. tv_ok (sc_when c)) q' \<and>
     sorted_by (\<lambda>c. usecs (sc_when c)) q' \<and>
     filter (\<lambda>d. sc_when d = sc_when c) q' = filter (\<lambda>d. sc_when d = sc_when c) [] @ [c]"
  by (rule iax_sched_add_in_order) (simp_all add: tv_ok_def)

text \<open>The time left in microseconds may be a whole second: it is not carried.\<close>

lemma add_when_not_normal: "add_when 600 (Timeval 5 400000) = Timeval 5 1000000"
  by (simp add: add_when_def)

text \<open>
  On an ordered queue, \<open>iax_get_sched\<close> takes the head if it is due and otherwise leaves the
  queue alone, in which case no entry is due: nothing is lost and nothing is delivered early or
  out of order.
\<close>

theorem iax_get_sched_takes_head:
  assumes "sorted_by sc_when q"
  shows "case iax_get_sched tv q of
     (None, q') \<Rightarrow> q' = q \<and> list_all (\<lambda>c. tv < sc_when c) q
   | (Some c, q') \<Rightarrow> q = c # q' \<and> sc_when c \<le> tv \<and> list_all (\<lambda>d. sc_when c \<le> sc_when d) q'"
  using sq.pop_cases[OF assms, of tv] assms by (auto simp: list_all_iff)

lemma iax_get_sched_takes_head_witness:
  "case iax_get_sched (Timeval 2 0) [\<lparr>sc_when = Timeval 1 7, sc_event = Some (), sc_frame = Some (), sc_func = Some ()\<rparr>] of
     (None, q') \<Rightarrow> q' = [\<lparr>sc_when = Timeval 1 7, sc_event = Some (), sc_frame = Some (), sc_func = Some ()\<rparr>] \<and>
        list_all (\<lambda>c. Timeval 2 0 < sc_when c)
          [\<lparr>sc_when = Timeval 1 7, sc_event = Some (), sc_frame = Some (), sc_func = Some ()\<rparr>]
   | (Some c, q') \<Rightarrow> [\<lparr>sc_when = Timeval 1 7, sc_event = Some (), sc_frame = Some (), sc_func = Some ()\<rparr>] = c # q' \<and>
        sc_when c \<le> Timeval 2 0 \<and> list_all (\<lambda>d. sc_when c \<le> sc_when d) q'"
  by (rule iax_get_sched_takes_head) simp

text \<open>The order is needed: of an unordered queue the entries before the due one are dropped.\<close>

lemma iax_get_sched_drops_earlier:
  "snd (iax_get_sched (Timeval 2 0)
     [\<lparr>sc_when = Timeval 9 0, sc_event = Some (1 :: nat), sc_frame = None :: unit option, sc_func = None :: unit option\<rparr>,
      \<lparr>sc_when = Timeval 1 0, sc_event = Some 2, sc_frame = None, sc_func = None\<rparr>]) = []"
  by simp

section \<open>Deleting\<close>

lemma iax_sched_del_all:
  "iax_sched_del e f g True q =
     (0, filter (\<lambda>c. \<not> (sc_event c = e \<and> sc_frame c = f \<and> sc_func c = g)) q)"
  by (induction q) auto

lemma iax_sched_del_sorted:
  "sorted_by sc_when q \<Longrightarrow> sorted_by sc_when (snd (iax_sched_del e f g all q)) \<and>
     set (snd (iax_sched_del e f g all q)) \<subseteq> set q"
  by (induction q) (auto split: prod.split)

section \<open>How long to wait\<close>

lemma sdiv_bounds:
  fixes x :: int
  shows "1000 * (x sdiv 1000) < x + 1000" "x - 1000 < 1000 * (x sdiv 1000)"
proof -
  have "x = 1000 * (x sdiv 1000) + x smod 1000" by (simp add: mult_sdiv_smod_eq)
  moreover have "\<bar>x smod 1000\<bar> < 1000" using smod_int_range[of 1000 x] by auto
  ultimately show "1000 * (x sdiv 1000) < x + 1000" "x - 1000 < 1000 * (x sdiv 1000)"
    by linarith+
qed

lemma ms_between_bounds:
  "1000 * ms_between a b < usecs a - usecs b + 1000" "usecs a - usecs b - 1000 < 1000 * ms_between a b"
  using sdiv_bounds[of "tv_usec a - tv_usec b"] by (simp_all add: ms_between_def usecs_def algebra_simps)

lemma min_ms_cases:
  "min_ms tv mn q \<le> mn \<and> (\<forall>c \<in> set q. min_ms tv mn q \<le> ms_between (sc_when c) tv) \<and>
   (min_ms tv mn q = mn \<or> (\<exists>c \<in> set q. min_ms tv mn q = ms_between (sc_when c) tv))"
proof (induction q arbitrary: mn)
  case (Cons c q)
  let ?b = "ms_between (sc_when c) tv"
  let ?m = "if ?b < mn then ?b else mn"
  have "?m \<le> mn" "?m \<le> ?b" "?m = mn \<or> ?m = ?b" by auto
  moreover have "min_ms tv mn (c # q) = min_ms tv ?m q" by simp
  ultimately show ?case using Cons[of ?m] by (fastforce simp del: min_ms.simps)
qed simp

text \<open>
  \<open>iax_time_to_next_event\<close> is right to the millisecond: with the queue in order it neither
  lets the caller oversleep the next entry by a millisecond nor wakes it a full millisecond early
  (except for the cap of 999999999 ms).
\<close>

theorem iax_time_to_next_event_accurate:
  assumes "sorted_by sc_when (c # q)" "list_all (\<lambda>c. tv_ok (sc_when c)) (c # q)"
  shows "let r = iax_time_to_next_event tv (c # q); d = usecs (sc_when c) - usecs tv
         in 0 \<le> r \<and> 1000 * r < max 0 d + 1000 \<and> min (1000 * 999999999) d < 1000 * r + 1000"
proof -
  let ?m = "min_ms tv 999999999 (c # q)" and ?d = "usecs (sc_when c) - usecs tv"
  have upper: "1000 * ?m < ?d + 1000"
    using min_ms_cases[of tv 999999999 "c # q"] ms_between_bounds(1)[of "sc_when c" tv] by force
  have least: "usecs (sc_when c) \<le> usecs (sc_when e)" if "e \<in> set (c # q)" for e
    using sorted_usecs[OF assms] that by auto
  have lower: "min (1000 * 999999999) ?d < 1000 * ?m + 1000"
  proof (cases "?m = 999999999")
    case False
    then obtain e where "e \<in> set (c # q)" "?m = ms_between (sc_when e) tv"
      using min_ms_cases[of tv 999999999 "c # q"] by blast
    with least[of e] ms_between_bounds(2)[of "sc_when e" tv] show ?thesis by linarith
  qed simp
  from upper lower show ?thesis by (auto simp: iax_time_to_next_event_def Let_def simp del: min_ms.simps)
qed

lemma iax_time_to_next_event_accurate_witness:
  "iax_time_to_next_event (Timeval 3 999900)
     [\<lparr>sc_when = Timeval 4 600, sc_event = Some (), sc_frame = Some (), sc_func = Some ()\<rparr>] \<in> {0, 1}"
  using iax_time_to_next_event_accurate[of
     "\<lparr>sc_when = Timeval 4 600, sc_event = Some (), sc_frame = Some (), sc_func = Some ()\<rparr>" "[]" "Timeval 3 999900"]
  by (simp add: tv_ok_def usecs_def Let_def) linarith

end
