(* ===== verification/Iax_Util.thy ===== *)
theory Iax_Util
  imports Prelude
begin

text \<open>
  The pure functions of \<open>libiax2/src/iax.c\<close>: subclass compression, codec preferences, the
  length in samples of an encoded packet (with the bit reader and the Speex frame walker), and
  the unwrapping of 16-bit timestamps. Reads and writes outside an array are the result \<open>None\<close>.
\<close>

section \<open>Subclass compression\<close>

text \<open>
  A subclass that is a power of two is sent as its logarithm with the high bit set. \<open>pw\<close> is
  \<open>-1\<close> until a bit is found; \<open>n\<close> counts the remaining rounds of the loop.
\<close>

fun compress_loop :: "int \<Rightarrow> nat \<Rightarrow> int \<Rightarrow> nat \<Rightarrow> u8" where
  "compress_loop subclass x pw 0 = of_int pw OR 0x80"
| "compress_loop subclass x pw (Suc n) =
     (if bit subclass x then
        (if pw > - 1 then 0 else compress_loop subclass (Suc x) (int x) n)
      else compress_loop subclass (Suc x) pw n)"

definition compress_subclass :: "int \<Rightarrow> u8" where
  "compress_subclass subclass =
     (if subclass < 0x80 then of_int subclass else compress_loop subclass 0 (- 1) 31)"

text \<open>\<open>1 << 31\<close> overflows the \<open>int\<close> and is read as the least \<open>int\<close>.\<close>

definition uncompress_subclass :: "u8 \<Rightarrow> int" where
  "uncompress_subclass csub =
     (if bit csub 7 then signed_take_bit 31 (2 ^ unat (csub AND 0x1F)) else uint csub)"

section \<open>Codec preferences\<close>

fun which_bit_loop :: "u32 \<Rightarrow> nat \<Rightarrow> nat \<Rightarrow> nat" where
  "which_bit_loop i x 0 = 0"
| "which_bit_loop i x (Suc n) = (if push_bit x 1 = i then x + 1 else which_bit_loop i (Suc x) n)"

definition which_bit :: "u32 \<Rightarrow> nat" where
  "which_bit i = which_bit_loop i 0 32"

text \<open>
  \<open>codec_order\<close> is the string in a buffer of 32 characters, \<open>codec_order_len\<close> its length. The
  result of adding is the character, and the string; the terminating zero must fit too.
\<close>

definition iax_pref_codec_add :: "u8 list \<Rightarrow> u32 \<Rightarrow> (u8 \<times> u8 list) option" where
  "iax_pref_codec_add order format =
     (if length order + 1 < 32 then (let c = of_nat (which_bit format + 65) in Some (c, order @ [c]))
      else None)"

definition iax_pref_codec_del :: "u8 list \<Rightarrow> u32 \<Rightarrow> u8 list" where
  "iax_pref_codec_del order format = filter (\<lambda>c. c \<noteq> of_nat (which_bit format + 65)) order"

text \<open>A shift by a negative number, as for the letter of an unknown format, or by 32 and more is undefined.\<close>

fun pref_codes :: "u8 list \<Rightarrow> nat \<Rightarrow> u32 list option" where
  "pref_codes (c # cs) (Suc n) =
     (if sint c - 65 - 1 < 0 \<or> 32 \<le> sint c - 65 - 1 then None
      else map_option (Cons (push_bit (unat c - 66) 1)) (pref_codes cs n))"
| "pref_codes _ _ = Some []"

definition iax_pref_codec_get :: "u8 list \<Rightarrow> nat \<Rightarrow> (nat \<times> u32 list) option" where
  "iax_pref_codec_get order n = map_option (\<lambda>a. (length a, a)) (pref_codes order n)"

section \<open>Reading bits\<close>

text \<open>
  The \<open>n\<close> bits from bit number \<open>pos\<close> on, most significant first; shifts of an \<open>unsigned char\<close>
  keep the low eight bits.
\<close>

definition get_n_bits_at :: "u8 list \<Rightarrow> nat \<Rightarrow> nat \<Rightarrow> u8 option" where
  "get_n_bits_at data n pos =
     (let byte = pos div 8; rem = 8 - pos mod 8 in
      if n = 0 \<or> n > 8 then Some 0
      else if rem < n then
        (if byte + 1 < length data then
           Some ((push_bit (n - rem) (data ! byte) OR drop_bit (8 - n + rem) (data ! (byte + 1)))
                 AND mask n)
         else None)
      else if byte < length data then Some (drop_bit (rem - n) (data ! byte) AND mask n)
      else None)"

section \<open>Speex\<close>

definition SpeexWBSubModeSz :: "nat list" where
  "SpeexWBSubModeSz = [0, 36, 112, 192, 352, 0, 0, 0]"

definition SpeexSubModeSz :: "nat list" where
  "SpeexSubModeSz = [0, 43, 119, 160, 220, 300, 364, 492, 79, 0, 0, 0, 0, 0, 0, 0]"

definition SpeexInBandSz :: "nat list" where
  "SpeexInBandSz = [1, 1, 4, 4, 4, 4, 4, 4, 8, 8, 16, 16, 32, 32, 64, 64]"

text \<open>Is there a wideband frame at \<open>off\<close>, and if so, how many bits are skipped for it?\<close>

definition wb_at :: "u8 list \<Rightarrow> nat \<Rightarrow> nat option option" where
  "wb_at data off =
     (if off + 5 \<le> 8 * length data then
        (case get_n_bits_at data 1 off of
           None \<Rightarrow> None
         | Some b \<Rightarrow>
             if b = 0 then Some None
             else map_option (\<lambda>c. Some (SpeexWBSubModeSz ! unat c)) (get_n_bits_at data 3 (off + 1)))
      else Some None)"

text \<open>\<open>Some (- 1)\<close> is the error of a third wideband frame in a row.\<close>

definition speex_get_wb_sz_at :: "u8 list \<Rightarrow> nat \<Rightarrow> int option" where
  "speex_get_wb_sz_at data pos =
     (case wb_at data pos of
        None \<Rightarrow> None
      | Some None \<Rightarrow> Some 0
      | Some (Some s1) \<Rightarrow>
          (case wb_at data (pos + s1) of
             None \<Rightarrow> None
           | Some None \<Rightarrow> Some (int s1)
           | Some (Some s2) \<Rightarrow>
               (if pos + s1 + s2 + 5 \<le> 8 * length data then
                  map_option (\<lambda>b. if b \<noteq> 0 then - 1 else int (s1 + s2))
                    (get_n_bits_at data 1 (pos + s1 + s2))
                else Some (int (s1 + s2)))))"

text \<open>
  One round of the loop: it stops, continues at a bit with a number of new samples, or reads
  outside the packet.
\<close>

datatype speex_step = Stop | Next nat nat | Bad_Read

definition speex_round :: "u8 list \<Rightarrow> nat \<Rightarrow> speex_step" where
  "speex_round data pos =
     (case speex_get_wb_sz_at data pos of
        None \<Rightarrow> Bad_Read
      | Some off \<Rightarrow>
          if off < 0 then Stop
          else (let pos = pos + nat off in
            if 8 * length data < pos + 5 then Stop
            else case get_n_bits_at data 5 pos of
                None \<Rightarrow> Bad_Read
              | Some c \<Rightarrow>
                  (let pos = pos + 5 in
                   if c = 15 then Stop
                   else if c = 14 then
                     (case get_n_bits_at data 4 pos of
                        None \<Rightarrow> Bad_Read
                      | Some c \<Rightarrow> Next (pos + 4 + SpeexInBandSz ! unat c) 0)
                   else if c = 13 then
                     (case get_n_bits_at data 5 pos of
                        None \<Rightarrow> Bad_Read
                      | Some c \<Rightarrow> Next (pos + 5 + unat c * 8) 0)
                   else if c > 8 then Stop
                   else Next (pos + SpeexSubModeSz ! unat c - 5) 160)))"

datatype speex_result = Samples nat | Out_Of_Bounds | Out_Of_Fuel

text \<open>The loop with a bound on its rounds.\<close>

fun speex_loop :: "nat \<Rightarrow> u8 list \<Rightarrow> nat \<Rightarrow> nat \<Rightarrow> speex_result" where
  "speex_loop 0 data pos cnt = Out_Of_Fuel"
| "speex_loop (Suc fuel) data pos cnt =
     (if pos + 5 \<le> 8 * length data then
        (case speex_round data pos of
           Stop \<Rightarrow> Samples cnt
         | Next pos' k \<Rightarrow> speex_loop fuel data pos' (cnt + k)
         | Bad_Read \<Rightarrow> Out_Of_Bounds)
      else Samples cnt)"

definition speex_get_samples :: "nat \<Rightarrow> u8 list \<Rightarrow> speex_result" where
  "speex_get_samples fuel data = speex_loop fuel data 0 0"

section \<open>Samples in a packet\<close>

definition get_interp_len :: "int \<Rightarrow> int" where
  "get_interp_len format = (if format = 2 ^ 10 then 30 else 20)"

text \<open>\<open>subclass\<close> is the format of the voice event; \<open>data\<close> its \<open>datalen\<close> bytes.\<close>

definition get_sample_cnt :: "nat \<Rightarrow> int \<Rightarrow> u8 list \<Rightarrow> speex_result" where
  "get_sample_cnt fuel subclass data =
     (let n = length data in
      if n = 0 then Samples (nat (get_interp_len subclass * 8))
      else if subclass = 2 ^ 9 then speex_get_samples fuel data
      else if subclass = 2 ^ 0 then Samples 240
      else if subclass = 2 ^ 10 then Samples (240 * (n div 50))
      else if subclass = 2 ^ 1 then Samples (160 * (n div 33))
      else if subclass = 2 ^ 8 then Samples (160 * (n div 20))
      else if subclass = 2 ^ 6 then Samples (n div 2)
      else if subclass = 2 ^ 7 then
        (if 7 < n then Samples (22 * 8 + unat (data ! 7 AND 1) * 8) else Out_Of_Bounds)
      else if subclass = 2 ^ 2 \<or> subclass = 2 ^ 3 then Samples n
      else if subclass = 2 ^ 5 \<or> subclass = 2 ^ 4 then Samples (n * 2)
      else Samples 0)"

section \<open>Timestamps of 16 bits\<close>

text \<open>\<open>long\<close> is 64 bits wide; \<open>x\<close> is an \<open>int\<close>, which the difference fits when it is used.\<close>

definition unwrap_timestamp :: "int \<Rightarrow> int \<Rightarrow> int" where
  "unwrap_timestamp ts lst =
     (if ts AND 0xFFFF0000 = lst AND 0xFFFF0000 then
        (let x = int_of_long (ts - lst);
             ts1 = (if x < - 50000 then ((lst AND 0xFFFF0000) + 0x10000) OR (ts AND 0xFFFF) else ts)
         in if x > 50000 then ((lst AND 0xFFFF0000) - 0x10000) OR (ts1 AND 0xFFFF) else ts1)
      else ts)"

text \<open>The digest as 32 hexadecimal digits (\<open>%2.2x\<close>).\<close>

definition hex_digit :: "nat \<Rightarrow> u8" where
  "hex_digit d = of_nat (if d < 10 then 48 + d else 87 + d)"

definition convert_reply :: "u8 list \<Rightarrow> u8 list" where
  "convert_reply digest = concat (map (\<lambda>b. [hex_digit (unat b div 16), hex_digit (unat b mod 16)]) digest)"

end
