(* ===== verification/Iax_Util_Props.thy ===== *)
theory Iax_Util_Props
  imports Iax_Util
begin

text \<open>
  Correctness of the pure functions: the round trips of subclasses and codec preferences, the bit
  reader against the bits of the packet, when the Speex walker returns, and what the unwrapped
  timestamp is.
\<close>

section \<open>Subclasses\<close>

lemma compress_loop_none:
  "(\<forall>y. x \<le> y \<and> y < x + n \<longrightarrow> \<not> bit s y) \<Longrightarrow> compress_loop s x pw n = of_int pw OR 0x80"
  by (induction s x pw n rule: compress_loop.induct) (auto simp: Suc_le_eq)

lemma compress_loop_second:
  "pw > - 1 \<Longrightarrow> x \<le> y \<Longrightarrow> y < x + n \<Longrightarrow> bit s y \<Longrightarrow> compress_loop s x pw n = 0"
proof (induction s x pw n rule: compress_loop.induct)
  case (2 s x pw n)
  then show ?case by (cases "x = y") auto
qed simp

lemma compress_loop_first:
  "(\<forall>z. x \<le> z \<and> z < y \<longrightarrow> \<not> bit s z) \<Longrightarrow> x \<le> y \<Longrightarrow> y < x + n \<Longrightarrow> bit s y \<Longrightarrow>
   compress_loop s x (- 1) n = compress_loop s (Suc y) (int y) (x + n - Suc y)"
proof (induction n arbitrary: x)
  case (Suc n)
  show ?case
  proof (cases "x = y")
    case True
    with Suc.prems show ?thesis by simp
  next
    case False
    with Suc.prems have "\<not> bit s x" "Suc x \<le> y" by auto
    with Suc.prems Suc.IH[of "Suc x"] show ?thesis by simp
  qed
qed simp

lemma uncompress_power:
  assumes "k < 31"
  shows "uncompress_subclass (of_int (int k) OR 0x80) = 2 ^ k"
proof -
  have "list_all (\<lambda>k. uncompress_subclass (of_int (int k) OR 0x80) = 2 ^ k) [0..<31]"
    by code_simp
  with assms show ?thesis by (simp add: list_all_iff)
qed

definition is_power :: "int \<Rightarrow> bool" where
  "is_power s = list_ex (\<lambda>k. s = 2 ^ k) [0..<31]"

lemma bit_lt_31: "0 \<le> s \<Longrightarrow> s < 2 ^ 31 \<Longrightarrow> bit s n \<Longrightarrow> n < 31" for s :: int
  using take_bit_int_eq_self[of s 31] bit_take_bit_iff[of 31 s n] by simp

text \<open>
  Subclasses survive the wire exactly when they can be compressed: a subclass below 128 or
  a power of two is read back as it was sent, and every other one as 0.
\<close>

theorem subclass_roundtrip:
  assumes "0 \<le> s" "s < 2 ^ 31"
  shows "uncompress_subclass (compress_subclass s) = (if s < 128 \<or> is_power s then s else 0)"
proof (cases "s < 128")
  case True
  have "list_all (\<lambda>i. uncompress_subclass (compress_subclass (int i)) = int i) [0..<128]"
    by code_simp
  moreover have "nat s \<in> set [0..<128]" using True assms(1) by auto
  ultimately have "uncompress_subclass (compress_subclass (int (nat s))) = int (nat s)"
    by (simp only: list_all_iff)
  with True assms(1) show ?thesis by simp
next
  case False
  then have "s \<noteq> 0" by simp
  then obtain b where b: "bit s b" by (auto simp: bit_eq_iff)
  define y where "y = (LEAST b. bit s b)"
  have y: "bit s y" "\<forall>z. bit s z \<longrightarrow> y \<le> z" using b by (auto simp: y_def intro: LeastI Least_le)
  have y31: "y < 31" using bit_lt_31[OF assms] y(1) .
  have c: "compress_subclass s = compress_loop s (Suc y) (int y) (31 - Suc y)"
  proof -
    have "\<forall>z. 0 \<le> z \<and> z < y \<longrightarrow> \<not> bit s z" using y(2) by (auto simp: not_less[symmetric])
    with compress_loop_first[of 0 y s 31] y(1) y31 False show ?thesis
      by (simp add: compress_subclass_def)
  qed
  show ?thesis
  proof (cases "\<exists>z > y. bit s z")
    case True
    then obtain z where z: "y < z" "bit s z" by blast
    then have "compress_subclass s = 0"
      using compress_loop_second[of "int y" "Suc y" z "31 - Suc y" s] bit_lt_31[OF assms z(2)] c by simp
    moreover have "\<not> is_power s"
      using z y(1) by (auto simp: is_power_def list_ex_iff bit_exp_iff)
    ultimately show ?thesis using False by (simp add: uncompress_subclass_def)
  next
    case no: False
    then have "s = 2 ^ y"
      using y by (intro bit_eqI) (auto simp: bit_exp_iff le_less)
    moreover have "compress_subclass s = of_int (int y) OR 0x80"
      using no c compress_loop_none[of "Suc y" "31 - Suc y" s "int y"] by (auto simp: Suc_le_eq)
    ultimately show ?thesis
      using uncompress_power[OF y31] y31 False by (auto simp: is_power_def list_ex_iff)
  qed
qed

lemma subclass_roundtrip_witness:
  "uncompress_subclass (compress_subclass 512) = 512 \<and> uncompress_subclass (compress_subclass 514) = 0"
proof -
  have "is_power 512" "\<not> is_power 514" by code_simp+
  then show ?thesis using subclass_roundtrip[of 512] subclass_roundtrip[of 514] by simp
qed

section \<open>Codec preferences\<close>

text \<open>Formats are the powers of two of an \<open>unsigned int\<close>.\<close>

definition is_format :: "u32 \<Rightarrow> bool" where
  "is_format f = list_ex (\<lambda>k. f = push_bit k 1) [0..<32]"

fun pref_add_all :: "u32 list \<Rightarrow> u8 list \<Rightarrow> u8 list option" where
  "pref_add_all [] order = Some order"
| "pref_add_all (f # fs) order =
     (case iax_pref_codec_add order f of None \<Rightarrow> None | Some (c, order') \<Rightarrow> pref_add_all fs order')"

definition pref_letter :: "u32 \<Rightarrow> u8" where
  "pref_letter f = of_nat (which_bit f + 65)"

lemma push_bit_1_inj: "x < 32 \<Longrightarrow> k < 32 \<Longrightarrow> push_bit x (1 :: u32) = push_bit k 1 \<longleftrightarrow> x = k"
  by (auto simp: bit_eq_iff bit_simps)

lemma which_bit_loop_power:
  "x \<le> k \<Longrightarrow> k < x + n \<Longrightarrow> x + n \<le> 32 \<Longrightarrow> which_bit_loop (push_bit k 1) x n = k + 1"
proof (induction n arbitrary: x)
  case (Suc n)
  show ?case
  proof (cases "x = k")
    case False
    with Suc.prems have "push_bit x (1 :: u32) \<noteq> push_bit k 1" using push_bit_1_inj[of x k] by simp
    with False Suc.prems Suc.IH[of "Suc x"] show ?thesis by simp
  qed simp
qed simp

lemma letter_ok:
  assumes "is_format f"
  shows "\<not> (sint (pref_letter f) - 65 - 1 < 0 \<or> 32 \<le> sint (pref_letter f) - 65 - 1)"
    and "push_bit (unat (pref_letter f) - 66) 1 = f"
proof -
  from assms obtain k where k: "k < 32" "f = push_bit k 1" by (auto simp: is_format_def list_ex_iff)
  then have letter: "pref_letter f = of_nat (k + 66)"
    using which_bit_loop_power[of 0 k 32] by (simp add: pref_letter_def which_bit_def)
  have "sint (pref_letter f) = int k + 66"
    unfolding letter using k(1) by (simp only: signed_of_nat) (simp add: signed_take_bit_int_eq_self)
  then show "\<not> (sint (pref_letter f) - 65 - 1 < 0 \<or> 32 \<le> sint (pref_letter f) - 65 - 1)"
    using k(1) by simp
  show "push_bit (unat (pref_letter f) - 66) 1 = f"
    unfolding letter using k by (simp only: unsigned_of_nat) (simp add: take_bit_nat_eq_self)
qed

lemma letter_inj: "is_format f \<Longrightarrow> is_format g \<Longrightarrow> pref_letter f = pref_letter g \<longleftrightarrow> f = g"
  using letter_ok(2)[of f] letter_ok(2)[of g] by metis

lemma pref_add_all_map:
  "length order + length fs \<le> 31 \<Longrightarrow> pref_add_all fs order = Some (order @ map pref_letter fs)"
  by (induction fs arbitrary: order) (simp_all add: iax_pref_codec_add_def pref_letter_def Let_def)

lemma pref_codes_map: "list_all is_format fs \<Longrightarrow> pref_codes (map pref_letter fs) n = Some (take n fs)"
proof (induction fs arbitrary: n)
  case (Cons f fs)
  then show ?case using letter_ok[of f] by (cases n) simp_all
qed simp

text \<open>
  Codec preferences: up to 31 formats can be added; they are read back in the order of
  addition, and after a deletion those are left that were not deleted.
\<close>

theorem codec_pref_roundtrip:
  assumes "list_all is_format (f # fs)" "length fs \<le> 31"
  shows "\<exists>order. pref_add_all fs [] = Some order \<and>
     iax_pref_codec_get order n = Some (min (length fs) n, take n fs) \<and>
     iax_pref_codec_get (iax_pref_codec_del order f) n =
       Some (min (length (filter (\<lambda>g. g \<noteq> f) fs)) n, take n (filter (\<lambda>g. g \<noteq> f) fs))"
proof -
  have "filter (\<lambda>c. c \<noteq> pref_letter f) (map pref_letter fs) = map pref_letter (filter (\<lambda>g. g \<noteq> f) fs)"
    using assms(1) by (induction fs) (auto simp: letter_inj)
  moreover have "list_all is_format (filter (\<lambda>g. g \<noteq> f) fs)"
    using assms(1) by (simp add: list_all_iff)
  ultimately show ?thesis
    using pref_add_all_map[of "[]" fs] assms
    unfolding iax_pref_codec_get_def iax_pref_codec_del_def pref_letter_def[symmetric]
    by (simp add: pref_codes_map)
qed

lemma codec_pref_roundtrip_witness:
  "\<exists>order. pref_add_all [4, 2] [] = Some order \<and>
     iax_pref_codec_get order 5 = Some (min (length [4, 2 :: u32]) 5, take 5 [4, 2]) \<and>
     iax_pref_codec_get (iax_pref_codec_del order 4) 5 =
       Some (min (length (filter (\<lambda>g. g \<noteq> 4) [4, 2 :: u32])) 5, take 5 (filter (\<lambda>g. g \<noteq> 4) [4, 2]))"
proof (rule codec_pref_roundtrip)
  have "is_format 4" "is_format 2" by code_simp+
  then show "list_all is_format [4, 4, 2]" by simp
qed simp

section \<open>The bit reader\<close>

text \<open>Bit number \<open>i\<close> of the packet, counted from the most significant bit of the first byte.\<close>

definition data_bit :: "u8 list \<Rightarrow> nat \<Rightarrow> bool" where
  "data_bit data i = bit (data ! (i div 8)) (7 - i mod 8)"

text \<open>
  \<open>get_n_bits_at\<close> reads what it says: for up to eight bits inside the packet it never reads
  outside, and bit \<open>j\<close> of the result is bit \<open>pos + n - 1 - j\<close> of the packet.
\<close>

theorem get_n_bits_at_reads:
  assumes "0 < n" "n \<le> 8" "pos + n \<le> 8 * length data"
  shows "\<exists>w. get_n_bits_at data n pos = Some w \<and>
     (\<forall>j. bit w j = (j < n \<and> data_bit data (pos + n - 1 - j)))"
proof -
  define q r where "q = pos div 8" and "r = pos mod 8"
  have pos: "pos = 8 * q + r" "r < 8" by (simp_all add: q_def r_def)
  have idx: "data_bit data (pos + n - 1 - j) =
      (if r + n - 1 - j < 8 then bit (data ! q) (7 - (r + n - 1 - j))
       else bit (data ! (q + 1)) (7 - (r + n - 1 - j - 8)))" if "j < n" for j
  proof -
    define m where "m = r + n - 1 - j"
    have "pos + n - 1 - j = 8 * q + m" using pos that by (simp add: m_def)
    moreover have "(8 * q + m) div 8 = q \<and> (8 * q + m) mod 8 = m" if "m < 8" using that by simp
    moreover have "(8 * q + m) div 8 = q + 1 \<and> (8 * q + m) mod 8 = m - 8" if "\<not> m < 8"
    proof -
      have "8 * q + m = 8 * (q + 1) + (m - 8)" "m - 8 < 8"
        using that pos(2) assms(2) by (simp_all add: m_def)
      then show ?thesis by (simp only: div_mult_self4 mod_mult_self4) simp
    qed
    ultimately show ?thesis
      unfolding data_bit_def m_def[symmetric] by (cases "m < 8") (simp_all only: if_True if_False simp_thms)
  qed
  show ?thesis
  proof (cases "8 - r < n")
    case True
    then have "q + 1 < length data" using assms(3) pos by simp
    then have "get_n_bits_at data n pos =
        Some ((push_bit (n - (8 - r)) (data ! q) OR drop_bit (8 - n + (8 - r)) (data ! (q + 1))) AND mask n)"
      using True assms by (simp add: get_n_bits_at_def Let_def flip: q_def r_def)
    moreover have "bit ((push_bit (n - (8 - r)) (data ! q) OR drop_bit (8 - n + (8 - r)) (data ! (q + 1))) AND mask n) j
        = (j < n \<and> data_bit data (pos + n - 1 - j))" for j
    proof (cases "j < n")
      case j: True
      note eq = bit_simps bit_mask_iff
      show ?thesis
      proof (cases "r + n - 1 - j < 8")
        case lo: True
        then have "j - (n - (8 - r)) = 7 - (r + n - 1 - j)" "n - (8 - r) \<le> j" "8 \<le> 8 - n + (8 - r) + j"
          using True pos(2) assms(2) j by arith+
        then show ?thesis
          using idx[OF j] lo j assms(2) by (simp add: eq del: diff_diff_left) (auto dest: bit_imp_le_length)
      next
        case hi: False
        then have "8 - n + (8 - r) + j = 7 - (r + n - 1 - j - 8)" "\<not> n - (8 - r) \<le> j"
          using True pos(2) assms(2) j by arith+
        then show ?thesis
          using idx[OF j] hi j assms(2) by (simp add: eq del: diff_diff_left)
      qed
    qed (simp add: bit_simps)
    ultimately show ?thesis by blast
  next
    case False
    then have "q < length data" using assms(1,3) pos by simp
    then have "get_n_bits_at data n pos = Some (drop_bit (8 - r - n) (data ! q) AND mask n)"
      using False assms by (simp add: get_n_bits_at_def Let_def flip: q_def r_def)
    moreover have "bit (drop_bit (8 - r - n) (data ! q) AND mask n) j
        = (j < n \<and> data_bit data (pos + n - 1 - j))" for j
    proof (cases "j < n")
      case True
      then have "8 - r - n + j = 7 - (r + n - 1 - j)" "r + n - 1 - j < 8"
        using False pos(2) by arith+
      then show ?thesis
        using idx[OF True] True assms(2) by (auto simp: bit_simps bit_mask_iff simp del: diff_diff_left)
    qed (simp add: bit_simps)
    ultimately show ?thesis by blast
  qed
qed

lemma get_n_bits_at_reads_witness:
  "\<exists>w. get_n_bits_at [0xAB, 0xCD] 6 5 = Some w \<and> bit w 0 = data_bit [0xAB, 0xCD] 10"
  using get_n_bits_at_reads[of 6 5 "[0xAB, 0xCD]"] by auto

lemma get_n_bits_at_lt: "get_n_bits_at data n pos = Some w \<Longrightarrow> unat w < 2 ^ n"
proof -
  have "unat (v AND mask n) < 2 ^ n" for v :: u8
    by (simp add: unsigned_take_bit_eq flip: take_bit_eq_mask)
  then show "get_n_bits_at data n pos = Some w \<Longrightarrow> unat w < 2 ^ n"
    by (auto simp: get_n_bits_at_def Let_def split: if_splits)
qed

section \<open>The Speex walker\<close>

lemma speex_round_progress: "speex_round data pos = Next pos' k \<Longrightarrow> pos \<le> pos'"
  by (auto simp: speex_round_def Let_def split: option.splits if_splits)

lemma speex_stuck:
  assumes "speex_round data pos = Next pos k" "pos + 5 \<le> 8 * length data"
  shows "speex_loop fuel data pos cnt = Out_Of_Fuel"
  by (induction fuel arbitrary: cnt) (use assms in auto)

lemma speex_more_fuel:
  "speex_loop fuel data pos cnt \<noteq> Out_Of_Fuel \<Longrightarrow> speex_loop (fuel + m) data pos cnt = speex_loop fuel data pos cnt"
  by (induction fuel data pos cnt rule: speex_loop.induct) (auto split: speex_step.splits)

lemma speex_fuel_enough:
  assumes "8 * length data < pos + fuel" "0 < fuel" "speex_loop fuel data pos cnt = Out_Of_Fuel"
  shows "speex_loop m data pos cnt = Out_Of_Fuel"
  using assms
proof (induction fuel data pos cnt arbitrary: m rule: speex_loop.induct)
  case (1 data pos cnt)
  then show ?case by simp
next
  case (2 fuel data pos cnt)
  from "2.prems"(3) have in_data: "pos + 5 \<le> 8 * length data"
    by (simp split: if_splits)
  with "2.prems"(3) obtain pos' k where nxt: "speex_round data pos = Next pos' k"
    and rest: "speex_loop fuel data pos' (cnt + k) = Out_Of_Fuel"
    by (auto split: speex_step.splits)
  show ?case
  proof (cases "pos' = pos")
    case True
    with nxt in_data show ?thesis by (simp add: speex_stuck)
  next
    case False
    then have "8 * length data < pos' + fuel"
      using speex_round_progress[OF nxt] "2.prems"(1) by simp
    moreover have "0 < fuel" using "2.prems"(1) in_data by simp
    ultimately have "speex_loop m data pos' (cnt + k) = Out_Of_Fuel" for m
      using "2.IH"[OF in_data nxt] rest by blast
    then show ?thesis
      using in_data nxt by (cases m) auto
  qed
qed

text \<open>
  The Speex walker advances by at least one bit per round or is stuck for ever, so a bound of
  one more round than there are bits decides whether it returns: if that bound is not enough, no
  bound is.
\<close>

theorem speex_get_samples_fuel_decides:
  "speex_get_samples (8 * length data + 1) data = Out_Of_Fuel \<longleftrightarrow>
   (\<forall>fuel. speex_get_samples fuel data = Out_Of_Fuel)"
proof
  assume "speex_get_samples (8 * length data + 1) data = Out_Of_Fuel"
  then show "\<forall>fuel. speex_get_samples fuel data = Out_Of_Fuel"
    using speex_fuel_enough[of data 0 "8 * length data + 1" 0] unfolding speex_get_samples_def by simp
qed blast

text \<open>
  A packet whose first five bits are zero (no wideband frame, submode 0) stops the client:
  submode 0 has size 0 in the table, less the five control bits that are already counted, so the
  position does not move and the walker never returns.
\<close>

theorem speex_submode_0_never_returns:
  "speex_get_samples fuel ((b AND 7) # rest) = Out_Of_Fuel"
proof -
  let ?data = "(b AND 7) # rest"
  have hi: "drop_bit 7 (b AND 7) AND 1 = (0 :: u8)" "drop_bit 3 (b AND 7) AND 31 = (0 :: u8)" for b
    by (rule bit_word_eqI; auto simp: bit_simps numeral_eq_Suc less_Suc_eq)+
  have "get_n_bits_at ?data 1 0 = Some 0" "get_n_bits_at ?data 5 0 = Some 0"
    using hi[of b] by (simp_all add: get_n_bits_at_def mask_eq_exp_minus_1)
  then have "speex_round ?data 0 = Next 0 160"
    by (simp add: speex_round_def speex_get_wb_sz_at_def wb_at_def SpeexSubModeSz_def Let_def)
  then show ?thesis unfolding speex_get_samples_def by (rule speex_stuck) simp
qed

section \<open>Timestamps\<close>

lemma high_half:
  fixes x :: int
  assumes "0 \<le> x" "x < 2 ^ 32"
  shows "x AND 0xFFFF0000 = 65536 * (x div 65536)"
proof -
  have "x AND push_bit 16 (mask 16) = push_bit 16 (drop_bit 16 x)"
  proof (rule bit_eqI)
    fix n
    have "bit x n \<Longrightarrow> n < 32"
      using take_bit_int_eq_self[OF assms] bit_take_bit_iff[of 32 x n] by simp
    then show "bit (x AND push_bit 16 (mask 16)) n = bit (push_bit 16 (drop_bit 16 x)) n"
      by (auto simp: bit_simps)
  qed
  moreover have "push_bit 16 (mask 16) = (0xFFFF0000 :: int)"
    by (simp add: mask_eq_exp_minus_1 push_bit_eq_mult)
  ultimately show ?thesis by (simp add: push_bit_eq_mult drop_bit_eq_div)
qed

lemma join_halves: "(65536 * a) OR (ts AND 0xFFFF) = 65536 * a + ts mod 65536" for a ts :: int
proof -
  have ts: "ts AND 0xFFFF = take_bit 16 ts"
    by (simp add: take_bit_eq_mask mask_eq_exp_minus_1)
  have "push_bit 16 a AND take_bit 16 ts = 0"
    by (rule bit_eqI) (auto simp: bit_simps)
  then have "push_bit 16 a OR take_bit 16 ts = push_bit 16 a + take_bit 16 ts"
    by (simp add: disjunctive_add_eq_or)
  then show ?thesis unfolding ts by (simp add: push_bit_eq_mult take_bit_eq_mod mult.commute)
qed

text \<open>
  Where the high halves of a timestamp and of the last one agree, unwrapping changes only the
  high half, and brings the timestamp within 50000 ms of the last one; other timestamps are left
  alone. The result is negative, and then an enormous \<open>unsigned int\<close>, exactly when a packet seems
  to be from before the first 65536 ms.
\<close>

theorem unwrap_timestamp_near:
  assumes "0 \<le> ts" "ts < 2 ^ 32" "0 \<le> lst" "lst < 2 ^ 32"
  shows "let r = unwrap_timestamp ts lst
     in if ts div 65536 = lst div 65536
        then r mod 65536 = ts mod 65536 \<and> \<bar>r - lst\<bar> \<le> 50000 \<and>
             (r < 0 \<longleftrightarrow> lst < 65536 \<and> 50000 < ts - lst)
        else r = ts"
proof -
  define a l m where "a = lst div 65536" and "l = lst mod 65536" and "m = ts mod 65536"
  have lst: "lst = 65536 * a + l" "0 \<le> l" "l < 65536" "0 \<le> a"
    using assms(3) by (simp_all add: a_def l_def)
  have m: "0 \<le> m" "m < 65536" by (simp_all add: m_def)
  show ?thesis
  proof (cases "ts div 65536 = a")
    case True
    then have ts: "ts = 65536 * a + m" by (auto simp: m_def)
    have x: "int_of_long (ts - lst) = ts - lst"
      using lst ts m by (intro int_of_long_id) simp_all
    have up: "(65536 * a + 65536) OR (ts AND 0xFFFF) = 65536 * (a + 1) + m"
      using join_halves[of "a + 1" ts] by (simp add: algebra_simps m_def)
    have down: "(65536 * a - 65536) OR (ts AND 0xFFFF) = 65536 * (a - 1) + m"
      using join_halves[of "a - 1" ts] by (simp add: algebra_simps m_def)
    have r: "unwrap_timestamp ts lst =
      (if ts - lst < - 50000 then 65536 * (a + 1) + m
       else if ts - lst > 50000 then 65536 * (a - 1) + m else ts)"
      using high_half[OF assms(1,2)] high_half[OF assms(3,4)] True up down
      by (simp add: unwrap_timestamp_def x Let_def a_def[symmetric])
    define u where "u = unwrap_timestamp ts lst"
    have u: "u = 65536 * (a + 1) + m \<and> ts - lst < - 50000 \<or>
        u = 65536 * (a - 1) + m \<and> 50000 < ts - lst \<or>
        u = 65536 * a + m \<and> - 50000 \<le> ts - lst \<and> ts - lst \<le> 50000"
      unfolding u_def r using ts by auto
    then obtain c where "u = 65536 * c + m" by blast
    then have "u mod 65536 = m" using m by simp
    moreover from u have "\<bar>u - lst\<bar> \<le> 50000" using ts lst m by (elim disjE conjE) auto
    moreover have "lst < 65536 \<longleftrightarrow> a = 0" "a = 0 \<or> 1 \<le> a" using lst by auto
    with u have "u < 0 \<longleftrightarrow> lst < 65536 \<and> 50000 < ts - lst" using ts lst m by (elim disjE conjE) auto
    ultimately show ?thesis using True by (simp add: Let_def a_def[symmetric] m_def[symmetric] u_def)
  next
    case False
    then show ?thesis
      using high_half[OF assms(1,2)] high_half[OF assms(3,4)] by (simp add: unwrap_timestamp_def a_def)
  qed
qed

lemma unwrap_timestamp_near_witness:
  "unwrap_timestamp 131080 196600 = 196616 \<and> unwrap_timestamp 60000 40 < 0"
proof -
  have "unwrap_timestamp 131080 196600 = 196616" by code_simp
  then show ?thesis using unwrap_timestamp_near[of 60000 40] by (simp add: Let_def)
qed

end
