(* ===== verification/Md5.thy ===== *)
theory Md5
  imports Prelude
begin

text \<open>
  The message digest of \<open>libiax2/src/md5.c\<close>, with which \<open>iax.c\<close> answers an authentication
  challenge: the compression function, the context with its 64-byte buffer and 64-bit counter, and
  the three operations on it. Then the digest as RFC 1321 defines it, on the whole message at
  once, and the refinement between the two.
\<close>

section \<open>The compression function\<close>

definition F1 :: "u32 \<Rightarrow> u32 \<Rightarrow> u32 \<Rightarrow> u32" where
  "F1 x y z = z XOR (x AND (y XOR z))"

definition F2 :: "u32 \<Rightarrow> u32 \<Rightarrow> u32 \<Rightarrow> u32" where
  "F2 x y z = F1 z x y"

definition F3 :: "u32 \<Rightarrow> u32 \<Rightarrow> u32 \<Rightarrow> u32" where
  "F3 x y z = x XOR y XOR z"

definition F4 :: "u32 \<Rightarrow> u32 \<Rightarrow> u32 \<Rightarrow> u32" where
  "F4 x y z = y XOR (x OR NOT z)"

type_synonym md5_state = "u32 \<times> u32 \<times> u32 \<times> u32"

text \<open>
  \<open>MD5STEP\<close> on the registers \<open>w, x, y, z\<close>. The calls name the registers in turn as \<open>a, b, c, d\<close>,
  \<open>d, a, b, c\<close>, \<open>c, d, a, b\<close> and \<open>b, c, d, a\<close>: here the tuple rotates instead.
\<close>

definition MD5STEP ::
    "(u32 \<Rightarrow> u32 \<Rightarrow> u32 \<Rightarrow> u32) \<Rightarrow> u32 list \<Rightarrow> nat \<times> u32 \<times> nat \<Rightarrow> md5_state \<Rightarrow> md5_state" where
  "MD5STEP f inp = (\<lambda>(k, t, s) (w, x, y, z).
     (let w1 = w + (f x y z + (inp ! k + t));
          w2 = push_bit s w1 OR drop_bit (32 - s) w1
      in (z, w2 + x, x, y)))"

text \<open>Word, constant and shift of the sixteen steps of each round.\<close>

definition md5_round1 :: "(nat \<times> u32 \<times> nat) list" where
  "md5_round1 =
     [(0, 0xD76AA478, 7), (1, 0xE8C7B756, 12), (2, 0x242070DB, 17), (3, 0xC1BDCEEE, 22),
      (4, 0xF57C0FAF, 7), (5, 0x4787C62A, 12), (6, 0xA8304613, 17), (7, 0xFD469501, 22),
      (8, 0x698098D8, 7), (9, 0x8B44F7AF, 12), (10, 0xFFFF5BB1, 17), (11, 0x895CD7BE, 22),
      (12, 0x6B901122, 7), (13, 0xFD987193, 12), (14, 0xA679438E, 17), (15, 0x49B40821, 22)]"

definition md5_round2 :: "(nat \<times> u32 \<times> nat) list" where
  "md5_round2 =
     [(1, 0xF61E2562, 5), (6, 0xC040B340, 9), (11, 0x265E5A51, 14), (0, 0xE9B6C7AA, 20),
      (5, 0xD62F105D, 5), (10, 0x02441453, 9), (15, 0xD8A1E681, 14), (4, 0xE7D3FBC8, 20),
      (9, 0x21E1CDE6, 5), (14, 0xC33707D6, 9), (3, 0xF4D50D87, 14), (8, 0x455A14ED, 20),
      (13, 0xA9E3E905, 5), (2, 0xFCEFA3F8, 9), (7, 0x676F02D9, 14), (12, 0x8D2A4C8A, 20)]"

definition md5_round3 :: "(nat \<times> u32 \<times> nat) list" where
  "md5_round3 =
     [(5, 0xFFFA3942, 4), (8, 0x8771F681, 11), (11, 0x6D9D6122, 16), (14, 0xFDE5380C, 23),
      (1, 0xA4BEEA44, 4), (4, 0x4BDECFA9, 11), (7, 0xF6BB4B60, 16), (10, 0xBEBFBC70, 23),
      (13, 0x289B7EC6, 4), (0, 0xEAA127FA, 11), (3, 0xD4EF3085, 16), (6, 0x04881D05, 23),
      (9, 0xD9D4D039, 4), (12, 0xE6DB99E5, 11), (15, 0x1FA27CF8, 16), (2, 0xC4AC5665, 23)]"

definition md5_round4 :: "(nat \<times> u32 \<times> nat) list" where
  "md5_round4 =
     [(0, 0xF4292244, 6), (7, 0x432AFF97, 10), (14, 0xAB9423A7, 15), (5, 0xFC93A039, 21),
      (12, 0x655B59C3, 6), (3, 0x8F0CCC92, 10), (10, 0xFFEFF47D, 15), (1, 0x85845DD1, 21),
      (8, 0x6FA87E4F, 6), (15, 0xFE2CE6E0, 10), (6, 0xA3014314, 15), (13, 0x4E0811A1, 21),
      (4, 0xF7537E82, 6), (11, 0xBD3AF235, 10), (2, 0x2AD7D2BB, 15), (9, 0xEB86D391, 21)]"

definition MD5Transform :: "md5_state \<Rightarrow> u32 list \<Rightarrow> md5_state" where
  "MD5Transform buf inp =
     (let (a, b, c, d) = (fold (MD5STEP F4 inp) md5_round4 \<circ> fold (MD5STEP F3 inp) md5_round3 \<circ>
                          fold (MD5STEP F2 inp) md5_round2 \<circ> fold (MD5STEP F1 inp) md5_round1) buf;
          (a0, b0, c0, d0) = buf
      in (a0 + a, b0 + b, c0 + c, d0 + d))"

section \<open>The context\<close>

text \<open>
  Words are read from and written to byte arrays in little-endian order: directly on a
  little-endian machine, through \<open>byteReverse\<close> on the others.
\<close>

definition le_word :: "u8 list \<Rightarrow> u32" where
  "le_word bs = push_bit 16 (push_bit 8 (ucast (bs ! 3)) OR ucast (bs ! 2)) OR
                (push_bit 8 (ucast (bs ! 1)) OR ucast (bs ! 0))"

definition le_bytes :: "u32 \<Rightarrow> u8 list" where
  "le_bytes w = [ucast w, ucast (drop_bit 8 w), ucast (drop_bit 16 w), ucast (drop_bit 24 w)]"

definition le_words :: "u8 list \<Rightarrow> u32 list" where
  "le_words bs = map (\<lambda>i. le_word (drop (4 * i) bs)) [0..<16]"

record md5_context =
  md_buf :: md5_state
  md_bits0 :: u32
  md_bits1 :: u32
  md_in :: "u8 list"

text \<open>\<open>MD5Init\<close> leaves the buffer as it was.\<close>

definition MD5Init :: "md5_context \<Rightarrow> md5_context" where
  "MD5Init ctx = ctx\<lparr>md_buf := (0x67452301, 0xEFCDAB89, 0x98BADCFE, 0x10325476),
                     md_bits0 := 0, md_bits1 := 0\<rparr>"

text \<open>\<open>memcpy\<close> into the buffer at an offset.\<close>

definition md5_fill :: "nat \<Rightarrow> u8 list \<Rightarrow> md5_context \<Rightarrow> md5_context" where
  "md5_fill at bs ctx =
     ctx\<lparr>md_in := take at (md_in ctx) @ bs @ drop (at + length bs) (md_in ctx)\<rparr>"

definition md5_block :: "md5_context \<Rightarrow> md5_context" where
  "md5_block ctx = ctx\<lparr>md_buf := MD5Transform (md_buf ctx) (le_words (md_in ctx))\<rparr>"

text \<open>The loop over whole blocks, and the bytes that are left.\<close>

function md5_blocks :: "u8 list \<Rightarrow> md5_context \<Rightarrow> md5_context" where
  "md5_blocks bs ctx =
     (if 64 \<le> length bs then md5_blocks (drop 64 bs) (md5_block (md5_fill 0 (take 64 bs) ctx))
      else md5_fill 0 bs ctx)"
  by pat_completeness auto
termination by (relation "measure (\<lambda>(bs, ctx). length bs)") auto

declare md5_blocks.simps [simp del]

definition MD5Update :: "md5_context \<Rightarrow> u8 list \<Rightarrow> md5_context" where
  "MD5Update ctx bs =
     (let len = of_nat (length bs) :: u32;
          t0 = md_bits0 ctx;
          bits0 = t0 + push_bit 3 len;
          ctx1 = ctx\<lparr>md_bits0 := bits0,
                     md_bits1 := (if bits0 < t0 then md_bits1 ctx + 1 else md_bits1 ctx) + drop_bit 29 len\<rparr>;
          t = unat (drop_bit 3 t0 AND 0x3F)
      in if t \<noteq> 0 then
           (if length bs < 64 - t then md5_fill t bs ctx1
            else md5_blocks (drop (64 - t) bs) (md5_block (md5_fill t (take (64 - t) bs) ctx1)))
         else md5_blocks bs ctx1)"

text \<open>The last block: padding, after one more block if it does not fit, and the length.\<close>

definition md5_last :: "md5_context \<Rightarrow> md5_context" where
  "md5_last ctx =
     (let n = unat (drop_bit 3 (md_bits0 ctx) AND 0x3F);
          ctx1 = md5_fill n [0x80] ctx;
          count = 64 - 1 - n;
          ctx2 = (if count < 8
                  then md5_fill 0 (replicate 56 0) (md5_block (md5_fill (n + 1) (replicate count 0) ctx1))
                  else md5_fill (n + 1) (replicate (count - 8) 0) ctx1)
      in md5_fill 56 (le_bytes (md_bits0 ctx) @ le_bytes (md_bits1 ctx)) ctx2)"

text \<open>
  The digest, and the context afterwards: \<open>memset (ctx, 0, sizeof (ctx))\<close> clears as many bytes as
  a pointer has (8), that is the first two words of the state.
\<close>

definition MD5Final :: "md5_context \<Rightarrow> u8 list \<times> md5_context" where
  "MD5Final ctx =
     (let ctx1 = md5_block (md5_last ctx);
          (a, b, c, d) = md_buf ctx1
      in (le_bytes a @ le_bytes b @ le_bytes c @ le_bytes d, ctx1\<lparr>md_buf := (0, 0, c, d)\<rparr>))"

text \<open>The digest of two strings one after the other, as \<open>iax_auth_reply\<close> computes it.\<close>

definition md5_of :: "u8 list list \<Rightarrow> u8 list" where
  "md5_of parts =
     fst (MD5Final (foldl MD5Update
       (MD5Init \<lparr>md_buf = (0, 0, 0, 0), md_bits0 = 0, md_bits1 = 0, md_in = replicate 64 0\<rparr>) parts))"

lemma md5_test: "md5_of [[97], [98, 99]] =
   [0x90, 0x01, 0x50, 0x98, 0x3C, 0xD2, 0x4F, 0xB0, 0xD6, 0x96, 0x3F, 0x7D, 0x28, 0xE1, 0x7F, 0x72]"
  by code_simp

section \<open>The digest of a message\<close>

text \<open>All whole blocks of a message, one after the other.\<close>

function md5_run :: "md5_state \<Rightarrow> u8 list \<Rightarrow> md5_state" where
  "md5_run st m =
     (if 64 \<le> length m then md5_run (MD5Transform st (le_words (take 64 m))) (drop 64 m) else st)"
  by pat_completeness auto
termination by (relation "measure (\<lambda>(st, m). length m)") auto

declare md5_run.simps [simp del]

text \<open>
  Padding: a one bit, zeros up to eight bytes before the end of a block, and the length in bits as a
  little-endian 64-bit number.
\<close>

definition md5_pad :: "u8 list \<Rightarrow> u8 list" where
  "md5_pad m = m @ [0x80] @ replicate ((119 - length m mod 64) mod 64) 0 @
     le_bytes (of_nat (8 * length m)) @ le_bytes (of_nat (8 * length m div 2 ^ 32))"

definition md5_start :: md5_state where
  "md5_start = (0x67452301, 0xEFCDAB89, 0x98BADCFE, 0x10325476)"

definition md5_digest :: "u8 list \<Rightarrow> u8 list" where
  "md5_digest m =
     (let (a, b, c, d) = md5_run md5_start (md5_pad m)
      in le_bytes a @ le_bytes b @ le_bytes c @ le_bytes d)"

section \<open>Refinement\<close>

lemma md5_run_short: "length m < 64 \<Longrightarrow> md5_run st m = st"
  by (subst md5_run.simps) simp

lemma md5_run_append: "64 dvd length m \<Longrightarrow> md5_run st (m @ m') = md5_run (md5_run st m) m'"
proof (induction st m rule: md5_run.induct)
  case (1 st m)
  show ?case
  proof (cases "64 \<le> length m")
    case True
    with 1 show ?thesis
      by (subst md5_run.simps, subst (2) md5_run.simps) (auto simp: dvd_diff_nat)
  next
    case False
    with "1.prems" have "m = []" by (auto dest: dvd_imp_le)
    then show ?thesis by (simp add: md5_run_short)
  qed
qed

lemma md5_run_block: "64 dvd length m \<Longrightarrow> length b = 64 \<Longrightarrow>
    md5_run st (m @ b) = MD5Transform (md5_run st m) (le_words b)"
  by (simp add: md5_run_append) (subst md5_run.simps, simp add: md5_run_short)

text \<open>The bytes of the last, incomplete block.\<close>

definition md5_rest :: "u8 list \<Rightarrow> u8 list" where
  "md5_rest m = drop (64 * (length m div 64)) m"

lemma length_md5_rest: "length (md5_rest m) = length m mod 64"
  by (simp add: md5_rest_def minus_mult_div_eq_mod)

lemma md5_split: "\<exists>w. m = w @ md5_rest m \<and> 64 dvd length w"
proof -
  have "64 * (length m div 64) \<le> length m" by simp
  then show ?thesis
    by (intro exI[of _ "take (64 * (length m div 64)) m"]) (simp add: md5_rest_def min_absorb2)
qed

lemma md5_rest_append: "64 dvd length w \<Longrightarrow> md5_rest (w @ m) = md5_rest m"
  by (auto simp: md5_rest_def dvd_def)

lemma md5_run_rest: "64 dvd length w \<Longrightarrow> md5_run st (w @ md5_rest m) = md5_run st w"
  by (simp add: md5_run_append md5_run_short length_md5_rest)

text \<open>What the buffer and the state say of the bytes so far.\<close>

definition md5_data :: "md5_context \<Rightarrow> u8 list \<Rightarrow> bool" where
  "md5_data ctx m \<longleftrightarrow> length (md_in ctx) = 64 \<and> md_buf ctx = md5_run md5_start m \<and>
     take (length m mod 64) (md_in ctx) = md5_rest m"

definition md5_rep :: "md5_context \<Rightarrow> u8 list \<Rightarrow> bool" where
  "md5_rep ctx m \<longleftrightarrow> md5_data ctx m \<and> md_bits0 ctx = of_nat (8 * length m) \<and>
     md_bits1 ctx = of_nat (8 * length m div 2 ^ 32)"

lemma md5_fill_simps [simp]:
  "md_buf (md5_fill i bs ctx) = md_buf ctx" "md_bits0 (md5_fill i bs ctx) = md_bits0 ctx"
  "md_bits1 (md5_fill i bs ctx) = md_bits1 ctx"
  "md_in (md5_fill i bs ctx) = take i (md_in ctx) @ bs @ drop (i + length bs) (md_in ctx)"
  "md_in (md5_block ctx) = md_in ctx" "md_bits0 (md5_block ctx) = md_bits0 ctx"
  "md_bits1 (md5_block ctx) = md_bits1 ctx"
  "md_buf (md5_block ctx) = MD5Transform (md_buf ctx) (le_words (md_in ctx))"
  by (simp_all add: md5_fill_def md5_block_def)

lemma md5_blocks_data:
  assumes "64 dvd length m" "length (md_in ctx) = 64" "md_buf ctx = md5_run md5_start m"
  shows "md5_data (md5_blocks bs ctx) (m @ bs) \<and>
     md_bits0 (md5_blocks bs ctx) = md_bits0 ctx \<and> md_bits1 (md5_blocks bs ctx) = md_bits1 ctx"
  using assms
proof (induction bs ctx arbitrary: m rule: md5_blocks.induct)
  case (1 bs ctx)
  show ?case
  proof (cases "64 \<le> length bs")
    case True
    let ?ctx = "md5_block (md5_fill 0 (take 64 bs) ctx)"
    have "md_buf ?ctx = md5_run md5_start (m @ take 64 bs)"
      using True "1.prems" by (simp add: md5_run_block)
    then have "md5_data (md5_blocks (drop 64 bs) ?ctx) ((m @ take 64 bs) @ drop 64 bs) \<and>
        md_bits0 (md5_blocks (drop 64 bs) ?ctx) = md_bits0 ?ctx \<and>
        md_bits1 (md5_blocks (drop 64 bs) ?ctx) = md_bits1 ?ctx"
      using True "1.prems" by (intro "1.IH") simp_all
    then show ?thesis using True by (subst (1 2 3) md5_blocks.simps) simp
  next
    case False
    moreover have "length (m @ bs) mod 64 = length bs" "md5_rest (m @ bs) = bs"
      using False "1.prems"(1) by (auto simp: dvd_def md5_rest_append) (simp add: md5_rest_def)
    moreover have "md5_run md5_start (m @ bs) = md5_run md5_start m"
      using False "1.prems"(1) by (simp add: md5_run_append md5_run_short)
    ultimately show ?thesis
      using "1.prems" by (subst (1 2 3) md5_blocks.simps) (simp add: md5_data_def)
  qed
qed

text \<open>The counter: 64 bits in two words, with the carry found by comparing.\<close>

lemma md5_bits0: "of_nat (8 * k) + push_bit 3 (of_nat n) = (of_nat (8 * (k + n)) :: u32)"
  by (simp add: push_bit_eq_mult algebra_simps)

lemma md5_bits1:
  assumes "n < 2 ^ 32"
  shows "(if (of_nat (8 * (k + n)) :: u32) < of_nat (8 * k) then of_nat (8 * k div 2 ^ 32) + 1
          else of_nat (8 * k div 2 ^ 32)) + drop_bit 29 (of_nat n) = (of_nat (8 * (k + n) div 2 ^ 32) :: u32)"
proof -
  define l h l' h' where "l = 8 * k mod 2 ^ 32" and "h = 8 * k div 2 ^ 32"
    and "l' = 8 * n mod 2 ^ 32" and "h' = 8 * n div 2 ^ 32"
  have eq: "8 * k = 2 ^ 32 * h + l" "8 * n = 2 ^ 32 * h' + l'"
    unfolding l_def h_def l'_def h'_def by (rule mult_div_mod_eq[symmetric])+
  have lt: "l < 2 ^ 32" "l' < 2 ^ 32" by (simp_all add: l_def l'_def)
  have un: "unat (of_nat (8 * k) :: u32) = l" "unat (of_nat (8 * (k + n)) :: u32) = (l + l') mod 2 ^ 32"
  proof -
    have "unat (of_nat m :: u32) = m mod 2 ^ 32" for m
      by (simp add: unsigned_of_nat take_bit_eq_mod)
    then show "unat (of_nat (8 * k) :: u32) = l" "unat (of_nat (8 * (k + n)) :: u32) = (l + l') mod 2 ^ 32"
      unfolding l_def l'_def by (simp_all only: mod_add_eq add_mult_distrib2)
  qed
  have dr: "drop_bit 29 (of_nat n :: u32) = of_nat h'"
  proof -
    have "drop_bit 29 (of_nat n :: u32) = of_nat (unat (drop_bit 29 (of_nat n :: u32)))" by simp
    also have "unat (drop_bit 29 (of_nat n :: u32)) = n div 2 ^ 29"
      using assms by (simp only: unsigned_drop_bit_eq unsigned_of_nat)
        (simp add: take_bit_nat_eq_self drop_bit_eq_div)
    also have "n div 2 ^ 29 = h'" by (simp add: h'_def)
    finally show ?thesis .
  qed
  have sum: "8 * (k + n) = 2 ^ 32 * (h + h') + (l + l')" using eq(1,2) by (simp add: algebra_simps)
  show ?thesis
  proof (cases "l + l' < 2 ^ 32")
    case True
    then have c: "((of_nat (8 * (k + n)) :: u32) < of_nat (8 * k)) = False"
      unfolding word_less_nat_alt un using True by simp
    have s: "8 * (k + n) div 2 ^ 32 = h + h'" unfolding sum using True by simp
    show ?thesis unfolding c if_False dr s h_def[symmetric] by simp
  next
    case False
    then have m: "(l + l') mod 2 ^ 32 = l + l' - 2 ^ 32" using lt by (simp add: mod_if)
    then have c: "((of_nat (8 * (k + n)) :: u32) < of_nat (8 * k)) = True"
      unfolding word_less_nat_alt un m using lt False by simp
    have s: "8 * (k + n) div 2 ^ 32 = h + h' + 1"
    proof -
      have "8 * (k + n) = 2 ^ 32 * (h + h' + 1) + (l + l' - 2 ^ 32)" unfolding sum using False by simp
      moreover have "l + l' - 2 ^ 32 < 2 ^ 32" using lt by simp
      ultimately show ?thesis by simp
    qed
    show ?thesis unfolding c if_True dr s h_def[symmetric] by simp
  qed
qed

lemma md5_offset: "unat (drop_bit 3 (of_nat (8 * k) :: u32) AND 0x3F) = k mod 64"
proof -
  have m: "0x3F = (mask 6 :: u32)" by (simp add: mask_eq_exp_minus_1)
  have "unat (drop_bit 3 (of_nat (8 * k) :: u32) AND 0x3F) =
      take_bit 6 (drop_bit 3 (take_bit 32 (take_bit 32 (8 * k))))"
    unfolding m take_bit_eq_mask[symmetric]
    by (simp only: unsigned_take_bit_eq unsigned_drop_bit_eq unsigned_of_nat) simp
  also have "\<dots> = (8 * k mod 2 ^ 32 div 8) mod 64"
    by (simp add: take_bit_eq_mod drop_bit_eq_div)
  also have "8 * k mod 2 ^ 32 div 8 = k mod 2 ^ 29" by (simp add: mult_mod_right[of 8 k "2 ^ 29", simplified, symmetric])
  also have "k mod 2 ^ 29 mod 64 = k mod 64" by (rule mod_mod_cancel) simp
  finally show ?thesis .
qed

lemma md5_rest_short: "length (md5_rest m @ bs) < 64 \<Longrightarrow> md5_rest (m @ bs) = md5_rest m @ bs"
proof -
  obtain w where w: "m = w @ md5_rest m" "64 dvd length w" using md5_split by blast
  assume "length (md5_rest m @ bs) < 64"
  then have "md5_rest (md5_rest m @ bs) = md5_rest m @ bs" by (simp add: md5_rest_def[of "md5_rest m @ bs"])
  then show ?thesis using md5_rest_append[OF w(2), of "md5_rest m @ bs"] w(1) by (metis append.assoc)
qed

lemma md5_run_whole: "64 dvd length w \<Longrightarrow> length r < 64 \<Longrightarrow> md5_run st (w @ r) = md5_run st w"
  by (simp add: md5_run_append md5_run_short)

lemma MD5Update_rep:
  assumes rep: "md5_rep ctx m" and len: "length bs < 2 ^ 32"
  shows "md5_rep (MD5Update ctx bs) (m @ bs)"
proof -
  obtain w where w: "m = w @ md5_rest m" "64 dvd length w" using md5_split by blast
  define t where "t = length m mod 64"
  have lr: "length (md5_rest m) = t" by (simp add: length_md5_rest t_def)
  define ctx1 where "ctx1 = ctx\<lparr>md_bits0 := of_nat (8 * length (m @ bs)),
      md_bits1 := of_nat (8 * length (m @ bs) div 2 ^ 32)\<rparr>"
  have lw: "length m = length w + t" "t < 64"
    using w(1) length_md5_rest[of m] by (metis length_append t_def) (simp add: t_def)
  have data: "length (md_in ctx1) = 64" "md_buf ctx1 = md5_run md5_start w" "take t (md_in ctx1) = md5_rest m"
    using rep md5_run_rest[OF w(2), of md5_start m] w(1)
    by (simp_all add: md5_rep_def md5_data_def ctx1_def t_def)
  have upd: "MD5Update ctx bs =
     (if t \<noteq> 0 then
        (if length bs < 64 - t then md5_fill t bs ctx1
         else md5_blocks (drop (64 - t) bs) (md5_block (md5_fill t (take (64 - t) bs) ctx1)))
      else md5_blocks bs ctx1)"
  proof -
    have b: "md_bits0 ctx = of_nat (8 * length m)" "md_bits1 ctx = of_nat (8 * length m div 2 ^ 32)"
      using rep by (simp_all only: md5_rep_def)
    have 0: "md_bits0 ctx + push_bit 3 (of_nat (length bs)) = of_nat (8 * length (m @ bs))"
      unfolding b length_append by (rule md5_bits0)
    have 1: "(if of_nat (8 * length (m @ bs)) < md_bits0 ctx then md_bits1 ctx + 1 else md_bits1 ctx) +
        drop_bit 29 (of_nat (length bs)) = of_nat (8 * length (m @ bs) div 2 ^ 32)"
      unfolding b length_append by (rule md5_bits1[OF len])
    have 2: "unat (drop_bit 3 (md_bits0 ctx) AND 0x3F) = t"
      unfolding b t_def by (rule md5_offset)
    show ?thesis unfolding MD5Update_def Let_def 0 1 2 ctx1_def ..
  qed
  have "md5_data (MD5Update ctx bs) (m @ bs) \<and> md_bits0 (MD5Update ctx bs) = md_bits0 ctx1 \<and>
      md_bits1 (MD5Update ctx bs) = md_bits1 ctx1"
  proof (cases "t = 0")
    case True
    then have "64 dvd length m" by (auto simp: t_def)
    moreover have "md5_run md5_start w = md5_run md5_start m"
      using md5_run_rest[OF w(2), of md5_start m] w(1) by simp
    ultimately show ?thesis
      using md5_blocks_data[of m ctx1 bs] data True by (simp add: upd)
  next
    case False
    show ?thesis
    proof (cases "length bs < 64 - t")
      case True
      have short: "length (md5_rest m @ bs) < 64" using True by (simp add: length_md5_rest t_def[symmetric])
      have "md5_run md5_start (m @ bs) = md5_run md5_start w"
        using md5_run_whole[OF w(2) short, of md5_start] w(1) by (metis append.assoc)
      moreover have "length (m @ bs) mod 64 = t + length bs"
      proof -
        obtain j where "length w = 64 * j" using w(2) by blast
        then have "length (m @ bs) = (t + length bs) + 64 * j" using lw by simp
        then show ?thesis using True by (simp only: mod_mult_self2) simp
      qed
      ultimately show ?thesis
        using True False data md5_rest_short[OF short] lr by (simp add: upd md5_data_def)
    next
      case long: False
      let ?b = "take (64 - t) bs"
      let ?ctx = "md5_block (md5_fill t ?b ctx1)"
      have blk: "md_in (md5_fill t ?b ctx1) = md5_rest m @ ?b" "length (md5_rest m @ ?b) = 64"
        using long data lw(2) lr by simp_all
      have "md_buf ?ctx = md5_run md5_start (w @ md5_rest m @ ?b)"
        using md5_run_block[OF w(2) blk(2), of md5_start] data blk(1) by simp
      moreover have "length (md_in ?ctx) = 64" using blk by simp
      moreover have "64 dvd length (w @ md5_rest m @ ?b)" using w(2) blk(2) by simp
      ultimately have "md5_data (md5_blocks (drop (64 - t) bs) ?ctx) ((w @ md5_rest m @ ?b) @ drop (64 - t) bs) \<and>
          md_bits0 (md5_blocks (drop (64 - t) bs) ?ctx) = md_bits0 ?ctx \<and>
          md_bits1 (md5_blocks (drop (64 - t) bs) ?ctx) = md_bits1 ?ctx"
        by (intro md5_blocks_data)
      moreover have "(w @ md5_rest m @ ?b) @ drop (64 - t) bs = m @ bs"
        using w(1) by (metis append.assoc append_take_drop_id)
      ultimately show ?thesis using False long by (simp only: upd if_True if_False not_False_eq_True) simp
    qed
  qed
  then show ?thesis by (simp add: md5_rep_def ctx1_def)
qed

text \<open>Finishing: one or two more blocks, which are what the padding adds.\<close>

lemma MD5Final_rep:
  assumes rep: "md5_rep ctx m"
  shows "fst (MD5Final ctx) = md5_digest m"
proof -
  obtain w where w: "m = w @ md5_rest m" "64 dvd length w" using md5_split by blast
  define n where "n = length m mod 64"
  have n: "n < 64" "length (md5_rest m) = n" by (simp_all add: n_def length_md5_rest)
  define cnt where "cnt = le_bytes (md_bits0 ctx) @ le_bytes (md_bits1 ctx)"
  have lc: "length cnt = 8" by (simp add: cnt_def le_bytes_def)
  have off: "unat (drop_bit 3 (md_bits0 ctx) AND 0x3F) = n"
    using rep md5_offset[of "length m"] by (simp only: md5_rep_def n_def)
  have data: "length (md_in ctx) = 64" "md_buf ctx = md5_run md5_start w" "take n (md_in ctx) = md5_rest m"
    using rep md5_run_rest[OF w(2), of md5_start m] w(1)
    by (simp_all add: md5_rep_def md5_data_def n_def)
  define ctx4 where "ctx4 =
     md5_block (md5_fill 56 cnt
       (if 64 - 1 - n < 8
        then md5_fill 0 (replicate 56 0)
               (md5_block (md5_fill (n + 1) (replicate (64 - 1 - n) 0) (md5_fill n [0x80] ctx)))
        else md5_fill (n + 1) (replicate (64 - 1 - n - 8) 0) (md5_fill n [0x80] ctx)))"
  have pad: "md5_pad m = w @ md5_rest m @ [0x80] @ replicate ((119 - n) mod 64) 0 @ cnt"
    using w(1) rep by (simp only: md5_pad_def md5_rep_def cnt_def n_def) (metis append.assoc)
  have "md_buf ctx4 = md5_run md5_start (md5_pad m)"
  proof (cases "64 - 1 - n < 8")
    case True
    let ?b1 = "md5_rest m @ [0x80] @ replicate (63 - n) 0" and ?b2 = "replicate 56 0 @ cnt"
    have k: "(119 - n) mod 64 = (63 - n) + 56" using True n(1) by (simp add: mod_if)
    have "md_buf ctx4 = MD5Transform (MD5Transform (md5_run md5_start w) (le_words ?b1)) (le_words ?b2)"
      using True n data lc by (simp add: ctx4_def)
    also have "\<dots> = md5_run md5_start ((w @ ?b1) @ ?b2)"
      using n lc w(2) by (simp add: md5_run_block del: append_assoc)
    also have "(w @ ?b1) @ ?b2 = md5_pad m"
      unfolding pad k by (simp add: replicate_add)
    finally show ?thesis .
  next
    case False
    let ?b = "md5_rest m @ [0x80] @ replicate (55 - n) 0 @ cnt"
    have k: "(119 - n) mod 64 = 55 - n" using False n(1) by (simp add: mod_if)
    have "md_buf ctx4 = MD5Transform (md5_run md5_start w) (le_words ?b)"
    proof -
      have "56 - n = Suc (55 - n)" using False n(1) by simp
      then show ?thesis using False n data lc by (simp add: ctx4_def)
    qed
    also have "\<dots> = md5_run md5_start (w @ ?b)"
      using False n lc w(2) by (simp add: md5_run_block)
    also have "w @ ?b = md5_pad m" unfolding pad k by simp
    finally show ?thesis .
  qed
  moreover have "fst (MD5Final ctx) =
      (let (a, b, c, d) = md_buf ctx4 in le_bytes a @ le_bytes b @ le_bytes c @ le_bytes d)"
  proof -
    have "ctx4 = md5_block (md5_last ctx)"
      unfolding ctx4_def cnt_def md5_last_def Let_def off ..
    then show ?thesis by (simp add: MD5Final_def Let_def split_beta)
  qed
  ultimately show ?thesis by (simp add: md5_digest_def)
qed

lemma MD5Init_rep: "length (md_in ctx) = 64 \<Longrightarrow> md5_rep (MD5Init ctx) []"
  by (simp add: md5_rep_def md5_data_def MD5Init_def md5_start_def md5_run_short md5_rest_def)

lemma MD5Updates_rep:
  "md5_rep ctx m \<Longrightarrow> list_all (\<lambda>p. length p < 2 ^ 32) parts \<Longrightarrow>
   md5_rep (foldl MD5Update ctx parts) (m @ concat parts)"
proof (induction parts arbitrary: ctx m)
  case (Cons p parts)
  then show ?case using Cons.IH[OF MD5Update_rep[OF Cons.prems(1), of p]] by simp
qed simp

text \<open>
  C17. The incremental digest is the digest of RFC 1321: whatever the pieces a message is fed in
  (each shorter than 4 GiB, which is what the length argument can say), the result is the padded
  message run through the compression function block by block.
\<close>

theorem md5_of_refines:
  assumes "list_all (\<lambda>p. length p < 2 ^ 32) parts"
  shows "md5_of parts = md5_digest (concat parts)"
  unfolding md5_of_def
  using MD5Final_rep[OF MD5Updates_rep[OF MD5Init_rep assms]] by simp

lemma md5_of_refines_witness: "md5_of [[97], [98, 99]] = md5_digest [97, 98, 99]"
  using md5_of_refines[of "[[97], [98, 99]]"] by simp

text \<open>What the clearing at the end leaves: the second half of the digest stays in memory.\<close>

lemma MD5Final_leaves_state:
  "case MD5Final ctx of (digest, ctx') \<Rightarrow>
     drop 8 digest = le_bytes (fst (snd (snd (md_buf ctx')))) @ le_bytes (snd (snd (snd (md_buf ctx'))))"
  unfolding MD5Final_def Let_def by (simp add: split_beta le_bytes_def del: md5_fill_simps)

end
