(* ===== verification/Iax_State.thy ===== *)
theory Iax_State
  imports Jitterbuf Iax_Ies Iax_Sched Iax_Util Md5 "HOL-Library.Monad_Syntax"
begin

text \<open>
  The state of \<open>libiax2/src/iax.c\<close> and its sending half: sessions, timestamps, \<open>iax_send\<close> and the
  commands built on it, transfers, and the destruction of sessions.

  A session is known by its address (\<open>s_id\<close>), and the operations take that address: using an
  address that is not in the list of sessions is a use of freed memory, the result \<open>None\<close>, as is
  every other undefined behaviour (a write outside a buffer, a division by zero, the deliberate
  crash of \<open>iax_reliable_xmit\<close>). The clock is constant during one operation, \<open>sendto\<close> is a function
  of the environment, and \<open>malloc\<close> succeeds. The library is built with \<open>NEWJB\<close>, \<open>LIBIAX\<close> and
  \<open>USE_VOICE_TS_PREDICTION\<close>; then the entries of the scheduler carry frames or pings, never events.
\<close>

section \<open>Data\<close>

text \<open>\<open>struct sockaddr_in\<close> as its sixteen bytes: family, port, address, padding.\<close>

type_synonym sockaddr_in = "u8 list"

definition sin_port :: "sockaddr_in \<Rightarrow> u8 list" where
  "sin_port a = take 2 (drop 2 a)"

definition sin_addr :: "sockaddr_in \<Rightarrow> u8 list" where
  "sin_addr a = take 4 (drop 4 a)"

definition sin_make :: "u8 list \<Rightarrow> u8 list \<Rightarrow> sockaddr_in \<Rightarrow> sockaddr_in" where
  "sin_make port addr a = [2, 0] @ port @ addr @ drop 8 a"

definition sin_zero :: sockaddr_in where
  "sin_zero = replicate 16 0"

text \<open>0 when address and port agree.\<close>

definition inaddrcmp :: "sockaddr_in \<Rightarrow> sockaddr_in \<Rightarrow> bool" where
  "inaddrcmp a b \<longleftrightarrow> sin_addr a \<noteq> sin_addr b \<or> sin_port a \<noteq> sin_port b"

datatype transfer_state = TRANSFER_NONE | TRANSFER_BEGIN | TRANSFER_READY | TRANSFER_REL

record iax_event =
  ev_etype :: int
  ev_subclass :: int
  ev_ts :: u32
  ev_session :: nat
  ev_datalen :: nat
  ev_ies :: iax_ies
  ev_data :: "u8 list"

record iax_netstat =
  ns_jitter :: u32
  ns_losspct :: u32
  ns_losscnt :: u32
  ns_packets :: u32
  ns_delay :: u32
  ns_dropped :: u32
  ns_ooo :: u32

text \<open>The members of \<open>struct iax_session\<close> that the code reads. Strings are without their zero.\<close>

record iax_session =
  s_id :: nat
  s_quelch :: bool
  s_codec_order :: "u8 list"
  s_voiceformat :: int
  s_svoiceformat :: int
  s_capability :: u32
  s_last_ts :: u32
  s_lastsent :: u32
  s_lastvoicets :: u32
  s_nextpred :: u32
  s_notsilenttx :: bool
  s_pingtime :: u32
  s_peeraddr :: sockaddr_in
  s_callno :: int
  s_peercallno :: int
  s_oseqno :: u8
  s_rseqno :: u8
  s_iseqno :: u8
  s_aseqno :: u8
  s_offset :: timeval
  s_rxcore :: timeval
  s_jitterbuffer :: int
  s_jitter :: int
  s_lag :: int
  s_username :: "u8 list"
  s_secret :: "u8 list"
  s_refresh :: int
  s_pingid :: int
  s_transfer :: sockaddr_in
  s_transferring :: transfer_state
  s_transfercallno :: int
  s_transferid :: int
  s_transferpeer :: int
  s_transfer_moh :: bool
  s_jb :: "iax_event jitterbuf"
  s_remote_netstats :: iax_netstat

text \<open>
  A frame waiting for its acknowledgement: \<open>fr_data\<close> is the packet as sent, \<open>fr_retries\<close> is negative
  once it is acknowledged.
\<close>

record iax_frame =
  fr_session :: nat
  fr_callno :: u16
  fr_dcallno :: u16
  fr_data :: "u8 list"
  fr_retries :: int
  fr_ts :: u32
  fr_retrytime :: int
  fr_oseqno :: int
  fr_iseqno :: int
  fr_transfer :: bool
  fr_final :: bool

text \<open>An \<open>ast_frame\<close> on its way out.\<close>

record ast_frame =
  af_frametype :: int
  af_subclass :: int
  af_samples :: int
  af_data :: "u8 list"

definition AST_FRAME_DTMF :: int where "AST_FRAME_DTMF = 1"
definition AST_FRAME_VOICE :: int where "AST_FRAME_VOICE = 2"
definition AST_FRAME_CONTROL :: int where "AST_FRAME_CONTROL = 4"
definition AST_FRAME_IAX :: int where "AST_FRAME_IAX = 6"
definition AST_FRAME_TEXT :: int where "AST_FRAME_TEXT = 7"
definition AST_FRAME_IMAGE :: int where "AST_FRAME_IMAGE = 8"
definition AST_FRAME_HTML :: int where "AST_FRAME_HTML = 9"
definition AST_FRAME_CNG :: int where "AST_FRAME_CNG = 10"

definition IAX_COMMAND_ACK :: int where "IAX_COMMAND_ACK = 4"

text \<open>
  The global variables. \<open>st_wire\<close> is what was handed to \<open>sendto\<close>, with the address; a scheduled
  function is always \<open>send_ping\<close>, with its session.
\<close>

record iax_state =
  st_sched :: "(unit, iax_frame, nat) schedq"
  st_sessions :: "iax_session list"
  st_callnums :: int
  st_transfer_id :: int
  st_jb_target_extra :: int
  st_now :: timeval
  st_sendto :: "u8 list \<Rightarrow> int"
  st_wire :: "(sockaddr_in \<times> u8 list) list"

section \<open>Sessions\<close>

definition find_id :: "nat \<Rightarrow> iax_state \<Rightarrow> iax_session option" where
  "find_id i st = find (\<lambda>s. s_id s = i) (st_sessions st)"

definition upd_session :: "nat \<Rightarrow> (iax_session \<Rightarrow> iax_session) \<Rightarrow> iax_state \<Rightarrow> iax_state" where
  "upd_session i f st =
     st\<lparr>st_sessions := map (\<lambda>s. if s_id s = i then f s else s) (st_sessions st)\<rparr>"

text \<open>A write through a session pointer.\<close>

definition set_session :: "nat \<Rightarrow> (iax_session \<Rightarrow> iax_session) \<Rightarrow> iax_state \<Rightarrow> iax_state option" where
  "set_session i f st = map_option (\<lambda>s. upd_session i f st) (find_id i st)"

definition iax_session_valid :: "nat \<Rightarrow> iax_state \<Rightarrow> bool" where
  "iax_session_valid i st \<longleftrightarrow> find_id i st \<noteq> None"

definition netstat_zero :: iax_netstat where
  "netstat_zero = \<lparr>ns_jitter = 0, ns_losspct = 0, ns_losscnt = 0, ns_packets = 0, ns_delay = 0,
                   ns_dropped = 0, ns_ooo = 0\<rparr>"

text \<open>
  A new session at the address that the allocator returns; \<open>garbage\<close> is what the allocated jitter
  buffer contains. The configuration sets all four settings.
\<close>

definition new_session_record :: "nat \<Rightarrow> iax_event jitterbuf \<Rightarrow> iax_state \<Rightarrow> iax_session" where
  "new_session_record addr garbage st =
     \<lparr>s_id = addr, s_quelch = False, s_codec_order = [], s_voiceformat = - 1, s_svoiceformat = - 1,
      s_capability = 0, s_last_ts = 0, s_lastsent = 0, s_lastvoicets = 0, s_nextpred = 0,
      s_notsilenttx = False, s_pingtime = 100, s_peeraddr = sin_zero, s_callno = st_callnums st,
      s_peercallno = 0, s_oseqno = 0, s_rseqno = 0, s_iseqno = 0, s_aseqno = 0,
      s_offset = Timeval 0 0, s_rxcore = Timeval 0 0, s_jitterbuffer = 0, s_jitter = 0, s_lag = 0,
      s_username = [], s_secret = [], s_refresh = 0, s_pingid = - 1, s_transfer = sin_zero,
      s_transferring = TRANSFER_NONE, s_transfercallno = 0, s_transferid = 0, s_transferpeer = 0,
      s_transfer_moh = False,
      s_jb = snd (jb_setconf \<lparr>jc_max_jitterbuf = 0, jc_resync_threshold = 1000,
                              jc_max_contig_interp = 0, jc_target_extra = st_jb_target_extra st\<rparr>
                    (jb_reset garbage)),
      s_remote_netstats = netstat_zero\<rparr>"

definition iax_session_new :: "nat \<Rightarrow> iax_event jitterbuf \<Rightarrow> iax_state \<Rightarrow> iax_state" where
  "iax_session_new addr garbage st =
     st\<lparr>st_callnums := (if st_callnums st + 1 > 32767 then 1 else st_callnums st + 1),
        st_sessions := new_session_record addr garbage st # st_sessions st\<rparr>"

text \<open>Round-trip time, local and remote statistics; \<open>None\<close> for an invalid session.\<close>

definition local_netstat :: "jb_info \<Rightarrow> iax_netstat" where
  "local_netstat i =
     \<lparr>ns_jitter = of_int (ji_jitter i), ns_losspct = of_int (ji_losspct i sdiv 1000),
      ns_losscnt = of_int (ji_frames_lost i),
      ns_packets = of_int (if ji_frames_in i = 0 then 1 else ji_frames_in i),
      ns_delay = of_int (ji_current i - ji_min i), ns_dropped = of_int (ji_frames_dropped i),
      ns_ooo = of_int (ji_frames_ooo i)\<rparr>"

definition iax_get_netstats ::
    "nat \<Rightarrow> iax_state \<Rightarrow> (u32 \<times> iax_netstat \<times> iax_netstat) option \<times> iax_state" where
  "iax_get_netstats i st =
     (case find_id i st of
        None \<Rightarrow> (None, st)
      | Some s \<Rightarrow>
          (let (info, jb) = jb_getinfo (s_jb s)
           in (Some (s_pingtime s, local_netstat info, s_remote_netstats s),
               upd_session i (\<lambda>s. s\<lparr>s_jb := jb\<rparr>) st)))"

section \<open>Timestamps\<close>

text \<open>
  \<open>f = None\<close> asks for the time of a genuine packet. The mixed comparisons of the code are made
  between unsigned numbers, whose difference \<open>abs\<close> reads as an \<open>int\<close>.
\<close>

definition ts_diff :: "int \<Rightarrow> u32 \<Rightarrow> int" where
  "ts_diff ms t = sint (of_int ms - t)"

definition voice_ts :: "int \<Rightarrow> int \<Rightarrow> iax_session \<Rightarrow> (int \<times> iax_session) option" where
  "voice_ts samples ms s =
     (if s_notsilenttx s \<and> c_abs (ts_diff ms (s_nextpred s)) \<le> 240 then
        (let s1 = s\<lparr>s_offset := add_ms (s_offset s) (ts_diff ms (s_nextpred s) sdiv 10),
                   s_nextpred := (if s_nextpred s = 0 then of_int ms else s_nextpred s)\<rparr>
         in Some (sint (s_nextpred s1), s1\<lparr>s_notsilenttx := True\<rparr>))
      else
        (let n = samples sdiv 8 in
         if n = 0 then None
         else (let diff = ms smod n;
                   ms1 = (if diff \<noteq> 0 then ms + n - diff else ms)
               in Some (ms1, s\<lparr>s_nextpred := of_int ms1, s_notsilenttx := True\<rparr>))))"

definition data_ts :: "bool \<Rightarrow> int \<Rightarrow> iax_session \<Rightarrow> int" where
  "data_ts genuine ms s =
     (if genuine then (if ms \<le> sint (s_lastsent s) then sint (s_lastsent s + 3) else ms)
      else if c_abs (ts_diff ms (s_lastsent s)) \<le> 240 then sint (s_lastsent s + 3) else ms)"

definition calc_timestamp ::
    "timeval \<Rightarrow> u32 \<Rightarrow> ast_frame option \<Rightarrow> iax_session \<Rightarrow> (u32 \<times> iax_session) option" where
  "calc_timestamp now ts f s =
     (let voice = (case f of Some fr \<Rightarrow> af_frametype fr = AST_FRAME_VOICE | None \<Rightarrow> False);
          genuine = (case f of Some fr \<Rightarrow> af_frametype fr = AST_FRAME_IAX | None \<Rightarrow> True);
          s1 = (if s_offset s = Timeval 0 0 then s\<lparr>s_offset := now\<rparr> else s);
          ms0 = int_of_long (ms_between now (s_offset s1));
          ms = (if ms0 < 0 then 0 else ms0)
      in if ts \<noteq> 0 then Some (ts, s1)
         else if voice then
           map_option (\<lambda>(ms1, s2).
               (of_int ms1, s2\<lparr>s_lastsent := of_int ms1,
                               s_nextpred := s_nextpred s2 + of_int (af_samples (the f) sdiv 8)\<rparr>))
             (voice_ts (af_samples (the f)) ms s1)
         else (let ms1 = data_ts genuine ms s1
               in Some (of_int ms1, if genuine then s1 else s1\<lparr>s_lastsent := of_int ms1\<rparr>)))"

section \<open>Sending a frame\<close>

definition full_bytes :: "u16 \<Rightarrow> u16 \<Rightarrow> u32 \<Rightarrow> u8 \<Rightarrow> u8 \<Rightarrow> u8 \<Rightarrow> u8 \<Rightarrow> u8 list \<Rightarrow> u8 list" where
  "full_bytes scallno dcallno ts oseq iseq ty csub payload =
     be16 (scallno OR 0x8000) @ be16 dcallno @ be32 ts @ [oseq, iseq, ty, csub] @ payload"

definition mini_bytes :: "u16 \<Rightarrow> u32 \<Rightarrow> u8 list \<Rightarrow> u8 list" where
  "mini_bytes callno ts payload = be16 callno @ be16 (ucast ts) @ payload"

definition iax_xmit_frame :: "iax_frame \<Rightarrow> iax_state \<Rightarrow> (int \<times> iax_state) option" where
  "iax_xmit_frame f st =
     map_option (\<lambda>s.
         (st_sendto st (fr_data f),
          st\<lparr>st_wire := st_wire st @ [(if fr_transfer f then s_transfer s else s_peeraddr s, fr_data f)]\<rparr>))
       (find_id (fr_session f) st)"

text \<open>Byte 10 of a full frame is its type.\<close>

definition iax_reliable_xmit :: "iax_frame \<Rightarrow> iax_state \<Rightarrow> (int \<times> iax_state) option" where
  "iax_reliable_xmit f st =
     (if fr_data f ! 10 = 0 then None
      else iax_xmit_frame f
             (st\<lparr>st_sched := snd (iax_sched_add True (st_now st) None (Some f) None
                                   (fr_retrytime f) (st_sched st))\<rparr>))"

definition clamp_retry :: "u32 \<Rightarrow> int" where
  "clamp_retry pingtime =
     (let r = sint (pingtime * 2); r1 = (if r < 10 then 10 else r)
      in if r1 > 4000 then 4000 else r1)"

definition is_ack :: "ast_frame \<Rightarrow> bool" where
  "is_ack f \<longleftrightarrow> af_frametype f = AST_FRAME_IAX \<and> af_subclass f = IAX_COMMAND_ACK"

text \<open>The full frame for \<open>f\<close>, and the session after it.\<close>

definition full_frame ::
    "nat \<Rightarrow> ast_frame \<Rightarrow> u32 \<Rightarrow> int \<Rightarrow> bool \<Rightarrow> bool \<Rightarrow> iax_session \<Rightarrow> iax_frame \<times> iax_session" where
  "full_frame i f fts seqno transfer final s =
     (let oseq = (if seqno > - 1 then seqno else uint (s_oseqno s));
          s1 = (if seqno > - 1 then s else s\<lparr>s_oseqno := s_oseqno s + 1\<rparr>);
          dcallno = of_int (if transfer then s_transfercallno s else s_peercallno s);
          s2 = s1\<lparr>s_aseqno := s_iseqno s1\<rparr>;
          s3 = (if af_frametype f = AST_FRAME_VOICE then s2\<lparr>s_svoiceformat := af_subclass f\<rparr> else s2)
      in (\<lparr>fr_session = i, fr_callno = of_int (s_callno s), fr_dcallno = dcallno,
           fr_data = full_bytes (of_int (s_callno s)) dcallno fts (of_int oseq)
                       (if transfer then 0 else s_iseqno s1) (of_int (af_frametype f))
                       (compress_subclass (af_subclass f)) (af_data f),
           fr_retries = (if is_ack f then - 1 else 10), fr_ts = fts,
           fr_retrytime = clamp_retry (s_pingtime s), fr_oseqno = oseq,
           fr_iseqno = uint (s_iseqno s1), fr_transfer = transfer, fr_final = final\<rparr>, s3))"

definition mini_frame :: "nat \<Rightarrow> ast_frame \<Rightarrow> u32 \<Rightarrow> bool \<Rightarrow> bool \<Rightarrow> iax_session \<Rightarrow> iax_frame" where
  "mini_frame i f fts transfer final s =
     \<lparr>fr_session = i, fr_callno = of_int (s_callno s), fr_dcallno = 0,
      fr_data = mini_bytes (of_int (s_callno s)) fts (af_data f), fr_retries = - 1, fr_ts = fts,
      fr_retrytime = 0, fr_oseqno = - 1, fr_iseqno = - 1, fr_transfer = transfer, fr_final = final\<rparr>"

definition send_mini :: "ast_frame \<Rightarrow> u32 \<Rightarrow> iax_session \<Rightarrow> bool" where
  "send_mini f fts s \<longleftrightarrow>
     fts AND 0xFFFF0000 = s_lastsent s AND 0xFFFF0000 \<and> af_frametype f = AST_FRAME_VOICE \<and>
     af_subclass f = s_svoiceformat s"

definition iax_send ::
    "nat \<Rightarrow> ast_frame \<Rightarrow> u32 \<Rightarrow> int \<Rightarrow> bool \<Rightarrow> bool \<Rightarrow> bool \<Rightarrow> iax_state \<Rightarrow> (int \<times> iax_state) option" where
  "iax_send i f ts seqno now transfer final st =
     do { s \<leftarrow> find_id i st;
          (fts, s1) \<leftarrow> calc_timestamp (st_now st) ts (Some f) s;
          (if fts = 0 then Some (- 1, upd_session i (\<lambda>_. s1) st)
           else if send_mini f fts s then
             iax_xmit_frame (mini_frame i f fts transfer final s1) (upd_session i (\<lambda>_. s1) st)
           else
             (let (fr, s2) = full_frame i f fts seqno transfer final s1;
                  st1 = upd_session i (\<lambda>_. s2) st
              in if now then iax_xmit_frame fr st1 else iax_reliable_xmit fr st1)) }"

section \<open>Commands\<close>

definition send_command_gen ::
    "nat \<Rightarrow> int \<Rightarrow> int \<Rightarrow> u32 \<Rightarrow> u8 list \<Rightarrow> int \<Rightarrow> bool \<Rightarrow> bool \<Rightarrow> bool \<Rightarrow> int \<Rightarrow> iax_state \<Rightarrow> (int \<times> iax_state) option" where
  "send_command_gen i ty command ts data seqno now transfer final samples st =
     iax_send i \<lparr>af_frametype = ty, af_subclass = command, af_samples = samples, af_data = data\<rparr>
       ts seqno now transfer final st"

definition send_command ::
    "nat \<Rightarrow> int \<Rightarrow> int \<Rightarrow> u32 \<Rightarrow> u8 list \<Rightarrow> int \<Rightarrow> iax_state \<Rightarrow> (int \<times> iax_state) option" where
  "send_command i ty command ts data seqno st =
     send_command_gen i ty command ts data seqno False False False 0 st"

definition send_command_immediate ::
    "nat \<Rightarrow> int \<Rightarrow> int \<Rightarrow> u32 \<Rightarrow> u8 list \<Rightarrow> int \<Rightarrow> iax_state \<Rightarrow> (int \<times> iax_state) option" where
  "send_command_immediate i ty command ts data seqno st =
     send_command_gen i ty command ts data seqno True False False 0 st"

definition send_command_transfer ::
    "nat \<Rightarrow> int \<Rightarrow> int \<Rightarrow> u32 \<Rightarrow> u8 list \<Rightarrow> iax_state \<Rightarrow> (int \<times> iax_state) option" where
  "send_command_transfer i ty command ts data st =
     send_command_gen i ty command ts data 0 False True False 0 st"

definition send_command_samples ::
    "nat \<Rightarrow> int \<Rightarrow> int \<Rightarrow> u32 \<Rightarrow> u8 list \<Rightarrow> int \<Rightarrow> int \<Rightarrow> iax_state \<Rightarrow> (int \<times> iax_state) option" where
  "send_command_samples i ty command ts data seqno samples st =
     send_command_gen i ty command ts data seqno False False False samples st"

subsection \<open>Destroying a session\<close>

text \<open>
  Frames of the session are marked as if acknowledged; they keep the address of the session. Events
  still queued in its jitter buffer are freed; they belong to the session, which is already unlinked
  then, so that freeing a HANGUP among them only marks the frames once more.
\<close>

definition mark_frames :: "(iax_frame \<Rightarrow> bool) \<Rightarrow> (unit, iax_frame, nat) schedq \<Rightarrow> (unit, iax_frame, nat) schedq" where
  "mark_frames P q =
     map (\<lambda>c. c\<lparr>sc_frame := map_option (\<lambda>f. if P f then f\<lparr>fr_retries := - 1\<rparr> else f) (sc_frame c)\<rparr>) q"

definition stop_transfer :: "nat \<Rightarrow> iax_state \<Rightarrow> iax_state" where
  "stop_transfer i st = st\<lparr>st_sched := mark_frames (\<lambda>f. fr_session f = i) (st_sched st)\<rparr>"

fun unlink_session :: "nat \<Rightarrow> iax_session list \<Rightarrow> iax_session list" where
  "unlink_session i [] = []"
| "unlink_session i (s # ss) = (if s_id s = i then ss else s # unlink_session i ss)"

definition destroy_session :: "nat \<Rightarrow> iax_state \<Rightarrow> iax_state" where
  "destroy_session i st =
     st\<lparr>st_sched := mark_frames (\<lambda>f. fr_session f = i) (st_sched st),
        st_sessions := unlink_session i (st_sessions st)\<rparr>"

definition IAX_EVENT_HANGUP :: int where "IAX_EVENT_HANGUP = 2"
definition IAX_EVENT_REJECT :: int where "IAX_EVENT_REJECT = 3"

definition iax_event_free :: "iax_event \<Rightarrow> iax_state \<Rightarrow> iax_state" where
  "iax_event_free e st =
     (if ev_etype e = IAX_EVENT_REJECT \<or> ev_etype e = IAX_EVENT_HANGUP
      then destroy_session (ev_session e) st else st)"

definition send_command_final ::
    "nat \<Rightarrow> int \<Rightarrow> int \<Rightarrow> u32 \<Rightarrow> u8 list \<Rightarrow> int \<Rightarrow> iax_state \<Rightarrow> (int \<times> iax_state) option" where
  "send_command_final i ty command ts data seqno st =
     do { (r, st1) \<leftarrow> send_command_gen i ty command ts data seqno False False True 0 st;
          Some (r, if r \<ge> 0 then destroy_session i st1 else st1) }"

subsection \<open>Messages with information elements\<close>

text \<open>The elements of a message are appended to an empty buffer; refusals are not looked at.\<close>

type_synonym ie_step = "iax_ie_data \<Rightarrow> (int \<times> iax_ie_data) option"

fun ie_message :: "ie_step list \<Rightarrow> iax_ie_data \<Rightarrow> u8 list option" where
  "ie_message [] ied = Some (take (ied_pos ied) (ied_buf ied))"
| "ie_message (f # fs) ied = do { (r, ied1) \<leftarrow> f ied; ie_message fs ied1 }"

definition ie_str :: "u8 \<Rightarrow> u8 list \<Rightarrow> ie_step" where "ie_str ie v = (\<lambda>ied. iax_ie_append_str ied ie v)"
definition ie_int :: "u8 \<Rightarrow> u32 \<Rightarrow> ie_step" where "ie_int ie v = (\<lambda>ied. iax_ie_append_int ied ie v)"
definition ie_short :: "u8 \<Rightarrow> u16 \<Rightarrow> ie_step" where "ie_short ie v = (\<lambda>ied. iax_ie_append_short ied ie v)"
definition ie_addr :: "u8 \<Rightarrow> sockaddr_in \<Rightarrow> ie_step" where "ie_addr ie v = (\<lambda>ied. iax_ie_append_addr ied ie v)"
definition ie_flag :: "u8 \<Rightarrow> ie_step" where "ie_flag ie = (\<lambda>ied. iax_ie_append ied ie)"

definition bytes_of :: "string \<Rightarrow> u8 list" where
  "bytes_of s = map (\<lambda>c. of_nat (of_char c)) s"

definition send_ies ::
    "nat \<Rightarrow> int \<Rightarrow> u32 \<Rightarrow> ie_step list \<Rightarrow> iax_state \<Rightarrow> (int \<times> iax_state) option" where
  "send_ies i command ts ies st =
     do { m \<leftarrow> ie_message ies ied_empty; send_command i AST_FRAME_IAX command ts m (- 1) st }"

definition iax_transfer :: "nat \<Rightarrow> u8 list \<Rightarrow> iax_state \<Rightarrow> (int \<times> iax_state) option" where
  "iax_transfer i number st =
     do { (r, st1) \<leftarrow> send_ies i 34 0 [ie_str IAX_IE_CALLED_NUMBER number] st; Some (0, st1) }"

definition iax_send_dtmf :: "nat \<Rightarrow> int \<Rightarrow> iax_state \<Rightarrow> (int \<times> iax_state) option" where
  "iax_send_dtmf i digit st = send_command i AST_FRAME_DTMF digit 0 [] (- 1) st"

definition iax_send_voice :: "nat \<Rightarrow> int \<Rightarrow> u8 list \<Rightarrow> int \<Rightarrow> iax_state \<Rightarrow> (int \<times> iax_state) option" where
  "iax_send_voice i format data samples st =
     do { s \<leftarrow> find_id i st;
          if \<not> s_quelch s then send_command_samples i AST_FRAME_VOICE format 0 data (- 1) samples st
          else Some (0, st) }"

definition iax_send_cng :: "nat \<Rightarrow> int \<Rightarrow> u8 list \<Rightarrow> iax_state \<Rightarrow> (int \<times> iax_state) option" where
  "iax_send_cng i level data st =
     do { st1 \<leftarrow> set_session i (\<lambda>s. s\<lparr>s_notsilenttx := False\<rparr>) st;
          send_command i AST_FRAME_CNG level 0 data (- 1) st1 }"

definition iax_send_image :: "nat \<Rightarrow> int \<Rightarrow> u8 list \<Rightarrow> iax_state \<Rightarrow> (int \<times> iax_state) option" where
  "iax_send_image i format data st = send_command i AST_FRAME_IMAGE format 0 data (- 1) st"

definition iax_reject :: "nat \<Rightarrow> u8 list option \<Rightarrow> iax_state \<Rightarrow> (int \<times> iax_state) option" where
  "iax_reject i reason st =
     do { m \<leftarrow> ie_message [ie_str IAX_IE_CAUSE (case reason of Some r \<Rightarrow> r | None \<Rightarrow> bytes_of ''Unspecified'')]
                ied_empty;
          send_command_final i AST_FRAME_IAX 6 0 m (- 1) st }"

definition iax_hangup :: "nat \<Rightarrow> u8 list option \<Rightarrow> iax_state \<Rightarrow> (int \<times> iax_state) option" where
  "iax_hangup i byemsg st =
     (let st1 = st\<lparr>st_sched := snd (iax_sched_del None None (Some i) True (st_sched st))\<rparr>
      in do { m \<leftarrow> ie_message [ie_str IAX_IE_CAUSE
                    (case byemsg of Some r \<Rightarrow> r | None \<Rightarrow> bytes_of ''Normal clearing'')] ied_empty;
              send_command_final i AST_FRAME_IAX 5 0 m (- 1) st1 })"

definition iax_ring_announce :: "nat \<Rightarrow> iax_state \<Rightarrow> (int \<times> iax_state) option" where
  "iax_ring_announce i st = send_command i AST_FRAME_CONTROL 3 0 [] (- 1) st"

definition iax_lag_request :: "nat \<Rightarrow> iax_state \<Rightarrow> (int \<times> iax_state) option" where
  "iax_lag_request i st = send_command i AST_FRAME_IAX 11 0 [] (- 1) st"

definition iax_busy :: "nat \<Rightarrow> iax_state \<Rightarrow> (int \<times> iax_state) option" where
  "iax_busy i st = send_command i AST_FRAME_CONTROL 5 0 [] (- 1) st"

definition iax_congestion :: "nat \<Rightarrow> iax_state \<Rightarrow> (int \<times> iax_state) option" where
  "iax_congestion i st = send_command i AST_FRAME_CONTROL 8 0 [] (- 1) st"

definition iax_accept :: "nat \<Rightarrow> u32 \<Rightarrow> iax_state \<Rightarrow> (int \<times> iax_state) option" where
  "iax_accept i format st = send_ies i 7 0 [ie_int IAX_IE_FORMAT format] st"

definition iax_answer :: "nat \<Rightarrow> iax_state \<Rightarrow> (int \<times> iax_state) option" where
  "iax_answer i st = send_command i AST_FRAME_CONTROL 4 0 [] (- 1) st"

definition iax_load_complete :: "nat \<Rightarrow> iax_state \<Rightarrow> (int \<times> iax_state) option" where
  "iax_load_complete i st = send_command i AST_FRAME_HTML 16 0 [] (- 1) st"

definition iax_sendurl :: "nat \<Rightarrow> u8 list \<Rightarrow> iax_state \<Rightarrow> (int \<times> iax_state) option" where
  "iax_sendurl i url st = send_command i AST_FRAME_HTML 1 0 (cstr url) (- 1) st"

definition iax_send_url :: "nat \<Rightarrow> u8 list \<Rightarrow> bool \<Rightarrow> iax_state \<Rightarrow> (int \<times> iax_state) option" where
  "iax_send_url i url link st = send_command i AST_FRAME_HTML (if link then 18 else 1) 0 (cstr url) (- 1) st"

text \<open>A text is sent with its terminating zero.\<close>

definition iax_send_text :: "nat \<Rightarrow> u8 list \<Rightarrow> iax_state \<Rightarrow> (int \<times> iax_state) option" where
  "iax_send_text i text st = send_command i AST_FRAME_TEXT 0 0 (cstr text @ [0]) (- 1) st"

definition iax_send_unlink :: "nat \<Rightarrow> iax_state \<Rightarrow> (int \<times> iax_state) option" where
  "iax_send_unlink i st = send_command i AST_FRAME_HTML 19 0 [] (- 1) st"

definition iax_send_link_reject :: "nat \<Rightarrow> iax_state \<Rightarrow> (int \<times> iax_state) option" where
  "iax_send_link_reject i st = send_command i AST_FRAME_HTML 20 0 [] (- 1) st"

text \<open>The elements that report the jitter buffer's statistics; all but the delay are 32 bits wide.\<close>

definition pong_ies :: "jb_info \<Rightarrow> ie_step list" where
  "pong_ies i =
     (let frames_in = (if ji_frames_in i = 0 then 1 else ji_frames_in i);
          loss = ((0xFF AND of_int (ji_losspct i sdiv 1000)) * 2 ^ 24) OR
                 (of_int (ji_frames_lost i) AND 0x00FFFFFF)
      in [ie_int IAX_IE_RR_JITTER (of_int (ji_jitter i)), ie_int IAX_IE_RR_LOSS loss,
          ie_int IAX_IE_RR_PKTS (of_int frames_in),
          ie_short IAX_IE_RR_DELAY (of_int (ji_current i - ji_min i)),
          ie_int IAX_IE_RR_DROPPED (of_int (ji_frames_dropped i)),
          ie_int IAX_IE_RR_OOO (of_int (ji_frames_ooo i))])"

definition iax_send_pong :: "nat \<Rightarrow> u32 \<Rightarrow> iax_state \<Rightarrow> (int \<times> iax_state) option" where
  "iax_send_pong i ts st =
     do { s \<leftarrow> find_id i st;
          (let (info, jb) = jb_getinfo (s_jb s)
           in send_ies i 3 ts (pong_ies info) (upd_session i (\<lambda>s. s\<lparr>s_jb := jb\<rparr>) st)) }"

definition iax_send_ping :: "nat \<Rightarrow> iax_state \<Rightarrow> (int \<times> iax_state) option" where
  "iax_send_ping i st = send_command i AST_FRAME_IAX 2 0 [] (- 1) st"

text \<open>The scheduled ping: nothing for a session that is gone, else a ping and the next one in 10 s.\<close>

definition send_ping :: "nat \<Rightarrow> iax_state \<Rightarrow> iax_state option" where
  "send_ping i st =
     (if \<not> iax_session_valid i st then Some st
      else do { (r, st1) \<leftarrow> send_command i AST_FRAME_IAX 2 0 [] (- 1) st;
                let (pid, q) = iax_sched_add True (st_now st1) None None (Some i) 10000 (st_sched st1);
                set_session i (\<lambda>s. s\<lparr>s_pingid := pid\<rparr>) (st1\<lparr>st_sched := q\<rparr>) })"

definition iax_send_lagrp :: "nat \<Rightarrow> u32 \<Rightarrow> iax_state \<Rightarrow> (int \<times> iax_state) option" where
  "iax_send_lagrp i ts st = send_command i AST_FRAME_IAX 12 ts [] (- 1) st"

definition send_transfer_id :: "nat \<Rightarrow> int \<Rightarrow> iax_state \<Rightarrow> (int \<times> iax_state) option" where
  "send_transfer_id i command st =
     do { s \<leftarrow> find_id i st;
          m \<leftarrow> ie_message [ie_int IAX_IE_TRANSFERID (of_int (s_transferid s))] ied_empty;
          send_command_transfer i AST_FRAME_IAX command 0 m st }"

definition iax_send_txcnt :: "nat \<Rightarrow> iax_state \<Rightarrow> (int \<times> iax_state) option" where
  "iax_send_txcnt i st = send_transfer_id i 23 st"

definition iax_send_txrej :: "nat \<Rightarrow> iax_state \<Rightarrow> (int \<times> iax_state) option" where
  "iax_send_txrej i st = send_transfer_id i 27 st"

definition iax_send_txaccept :: "nat \<Rightarrow> iax_state \<Rightarrow> (int \<times> iax_state) option" where
  "iax_send_txaccept i st = send_transfer_id i 24 st"

definition iax_send_txready :: "nat \<Rightarrow> iax_state \<Rightarrow> (int \<times> iax_state) option" where
  "iax_send_txready i st =
     do { s \<leftarrow> find_id i st; send_ies i 25 0 [ie_short IAX_IE_CALLNO (of_int (s_callno s))] st }"

subsection \<open>Authentication\<close>

text \<open>The answer to a challenge: the digest of challenge and password, or the password itself.\<close>

definition auth_answer :: "u8 list \<Rightarrow> u8 list option \<Rightarrow> u32 \<Rightarrow> u8 list" where
  "auth_answer password challenge methods =
     (case challenge of
        Some c \<Rightarrow> if bit methods 1 then convert_reply (md5_of [cstr c, cstr password]) else password
      | None \<Rightarrow> password)"

definition iax_auth_reply ::
    "nat \<Rightarrow> u8 list \<Rightarrow> u8 list option \<Rightarrow> u32 \<Rightarrow> iax_state \<Rightarrow> (int \<times> iax_state) option" where
  "iax_auth_reply i password challenge methods st =
     send_ies i 9 0 [ie_str IAX_IE_MD5_RESULT (auth_answer password challenge methods)] st"

definition iax_regauth_reply ::
    "nat \<Rightarrow> u8 list \<Rightarrow> u8 list option \<Rightarrow> u32 \<Rightarrow> iax_state \<Rightarrow> (int \<times> iax_state) option" where
  "iax_regauth_reply i password challenge methods st =
     do { s \<leftarrow> find_id i st;
          send_ies i 13 0
            [ie_str IAX_IE_USERNAME (s_username s), ie_short IAX_IE_REFRESH (of_int (s_refresh s)),
             ie_str IAX_IE_MD5_RESULT (auth_answer password challenge methods)] st }"

definition iax_dial :: "nat \<Rightarrow> u8 list \<Rightarrow> iax_state \<Rightarrow> (int \<times> iax_state) option" where
  "iax_dial i number st = send_ies i 21 0 [ie_str IAX_IE_CALLED_NUMBER number] st"

definition iax_quelch :: "nat \<Rightarrow> iax_state \<Rightarrow> (int \<times> iax_state) option" where
  "iax_quelch i st = send_command i AST_FRAME_IAX 28 0 [] (- 1) st"

definition iax_unquelch :: "nat \<Rightarrow> iax_state \<Rightarrow> (int \<times> iax_state) option" where
  "iax_unquelch i st = send_command i AST_FRAME_IAX 29 0 [] (- 1) st"

definition iax_dialplan_request :: "nat \<Rightarrow> u8 list \<Rightarrow> iax_state \<Rightarrow> (int \<times> iax_state) option" where
  "iax_dialplan_request i number st = send_ies i 19 0 [ie_str IAX_IE_CALLED_NUMBER number] st"

text \<open>The session's \<open>quelch\<close> is the peer's wish; a quelched session is not quelched again.\<close>

definition iax_quelch_moh :: "nat \<Rightarrow> bool \<Rightarrow> iax_state \<Rightarrow> (int \<times> iax_state) option" where
  "iax_quelch_moh i moh st =
     do { s \<leftarrow> find_id i st;
          (if s_quelch s then Some (- 1, st)
           else if moh then send_ies i 28 0 [ie_flag IAX_IE_MUSICONHOLD]
                              (upd_session i (\<lambda>s. s\<lparr>s_transfer_moh := True\<rparr>) st)
           else send_ies i 28 0 [] st) }"

subsection \<open>Registering and calling\<close>

text \<open>\<open>atoi\<close>: white space, a sign, digits.\<close>

fun digits :: "u8 list \<Rightarrow> int \<Rightarrow> int" where
  "digits [] n = n"
| "digits (c # cs) n = (if 48 \<le> c \<and> c \<le> 57 then digits cs (10 * n + uint c - 48) else n)"

definition atoi :: "u8 list \<Rightarrow> int" where
  "atoi s =
     (case dropWhile (\<lambda>c. c = 32 \<or> 9 \<le> c \<and> c \<le> 13) s of
        [] \<Rightarrow> 0
      | c # cs \<Rightarrow> if c = 45 then - digits cs 0 else if c = 43 then digits cs 0 else digits (c # cs) 0)"

text \<open>\<open>strtok\<close> with one delimiter: the token, and where the next call goes on.\<close>

definition strtok :: "u8 \<Rightarrow> u8 list \<Rightarrow> (u8 list \<times> u8 list) option" where
  "strtok d s =
     (let t = dropWhile (\<lambda>c. c = d) s in
      if t = [] then None
      else Some (takeWhile (\<lambda>c. c \<noteq> d) t, tl (dropWhile (\<lambda>c. c \<noteq> d) t)))"

definition strtok_next :: "u8 \<Rightarrow> (u8 list \<times> u8 list) option \<Rightarrow> u8 list option" where
  "strtok_next d r = (case r of None \<Rightarrow> None | Some (t, rest) \<Rightarrow> map_option fst (strtok d rest))"

text \<open>
  \<open>gethostbyname\<close> is a function of the environment, from a name to an address. The port of the
  server is what follows its first colon.
\<close>

definition set_peer :: "u8 list \<Rightarrow> int \<Rightarrow> iax_session \<Rightarrow> iax_session" where
  "set_peer addr port s =
     s\<lparr>s_peeraddr := sin_make (be16 (of_int port)) (take 4 addr) (s_peeraddr s)\<rparr>"

definition iax_register ::
    "(u8 list \<Rightarrow> u8 list option) \<Rightarrow> nat \<Rightarrow> u8 list \<Rightarrow> u8 list \<Rightarrow> u8 list option \<Rightarrow> int \<Rightarrow>
     iax_state \<Rightarrow> (int \<times> iax_state) option" where
  "iax_register gethostbyname i server peer secret refresh st =
     (let tmp = take 255 (cstr server);
          host = takeWhile (\<lambda>c. c \<noteq> 58) tmp;
          portno = (if 58 \<in> set tmp then atoi (tl (dropWhile (\<lambda>c. c \<noteq> 58) tmp)) else 4569)
      in do { st1 \<leftarrow> set_session i (\<lambda>s. s\<lparr>s_secret :=
                       (case secret of Some x \<Rightarrow> take 79 (cstr x) | None \<Rightarrow> [])\<rparr>) st;
              (case gethostbyname host of
                 None \<Rightarrow> Some (- 1, st1)
               | Some addr \<Rightarrow>
                   send_ies i 13 0 [ie_str IAX_IE_USERNAME peer, ie_short IAX_IE_REFRESH (of_int refresh)]
                     (upd_session i (\<lambda>s. (set_peer addr portno s)
                        \<lparr>s_username := take 79 (cstr peer), s_refresh := refresh\<rparr>) st1)) })"

text \<open>
  The parts of a call handle \<open>[user[:password]@]peer[:port][/exten[@context]]\<close>, by the \<open>strtok\<close>
  calls of \<open>iax_call\<close>; \<open>None\<close> where a null pointer is dereferenced.
\<close>

record call_handle =
  ch_username :: "u8 list option"
  ch_secret :: "u8 list option"
  ch_hostname :: "u8 list"
  ch_portno :: int
  ch_exten :: "u8 list option"
  ch_context :: "u8 list option"

definition split_host :: "u8 list \<Rightarrow> (u8 list \<times> int) option" where
  "split_host host =
     (if 58 \<in> set host then
        (case strtok 58 host of
           None \<Rightarrow> None
         | Some (t, rest) \<Rightarrow>
             map_option (\<lambda>(p, _). (takeWhile (\<lambda>c. c = 58) host @ t, atoi p)) (strtok 58 rest))
      else Some (host, 4569))"

definition split_user :: "u8 list \<Rightarrow> u8 list option \<times> u8 list option" where
  "split_user u =
     (if 58 \<in> set u then (map_option fst (strtok 58 u), strtok_next 58 (strtok 58 u))
      else (Some u, None))"

definition parse_call_handle :: "u8 list \<Rightarrow> call_handle option" where
  "parse_call_handle tmp =
     do { (part1, rest) \<leftarrow> strtok 47 tmp;
          let part2 = map_option fst (strtok 47 rest);
          (user, host) \<leftarrow>
            (if 64 \<in> set part1
             then do { (u, r) \<leftarrow> strtok 64 part1; (h, _) \<leftarrow> strtok 64 r; Some (Some u, h) }
             else Some (None, part1));
          let (username, secret) = (case user of None \<Rightarrow> (None, None) | Some u \<Rightarrow> split_user u);
          (hostname, portno) \<leftarrow> split_host host;
          let ext = (case part2 of None \<Rightarrow> None | Some p \<Rightarrow> strtok 64 p);
          Some \<lparr>ch_username = username, ch_secret = secret, ch_hostname = hostname, ch_portno = portno,
                ch_exten = map_option fst ext, ch_context = strtok_next 64 ext\<rparr> }"

definition opt_ie :: "u8 \<Rightarrow> u8 list option \<Rightarrow> ie_step list" where
  "opt_ie ie v = (case v of None \<Rightarrow> [] | Some x \<Rightarrow> [ie_str ie x])"

definition iax_call ::
    "(u8 list \<Rightarrow> u8 list option) \<Rightarrow> nat \<Rightarrow> u8 list option \<Rightarrow> u8 list option \<Rightarrow> u8 list option \<Rightarrow>
     u8 list option \<Rightarrow> bool \<Rightarrow> u32 \<Rightarrow> u32 \<Rightarrow> iax_state \<Rightarrow> (int \<times> iax_state) option" where
  "iax_call gethostbyname i cidnum cidname ich lang wait formats capabilities st =
     (case ich of
        None \<Rightarrow> Some (- 1, st)
      | Some h \<Rightarrow>
          do { s \<leftarrow> find_id i st;
               let (pid, q) = iax_sched_add True (st_now st) None None (Some i) 2000 (st_sched st);
               let st1 = upd_session i (\<lambda>s. s\<lparr>s_capability := capabilities, s_pingid := pid\<rparr>)
                           (st\<lparr>st_sched := q\<rparr>);
               c \<leftarrow> parse_call_handle (take 255 (cstr h));
               m \<leftarrow> ie_message
                 ([ie_short IAX_IE_VERSION 2] @ opt_ie IAX_IE_CALLING_NUMBER cidnum @
                  opt_ie IAX_IE_CALLING_NAME cidname @
                  (if s_codec_order s \<noteq> [] then [ie_str IAX_IE_CODEC_PREFS (s_codec_order s)] else []) @
                  [ie_int IAX_IE_FORMAT formats, ie_int IAX_IE_CAPABILITY capabilities] @
                  opt_ie IAX_IE_LANGUAGE lang @ opt_ie IAX_IE_USERNAME (ch_username c) @
                  opt_ie IAX_IE_CALLED_NUMBER (ch_exten c) @ opt_ie IAX_IE_DNID (ch_exten c) @
                  opt_ie IAX_IE_CALLED_CONTEXT (ch_context c)) ied_empty;
               let st2 = upd_session i (\<lambda>s. s
                           \<lparr>s_username := (case ch_username c of Some u \<Rightarrow> take 79 u | None \<Rightarrow> s_username s),
                            s_secret := (case ch_secret c of Some x \<Rightarrow> take 79 x | None \<Rightarrow> s_secret s)\<rparr>) st1;
               (case gethostbyname (ch_hostname c) of
                  None \<Rightarrow> Some (- 1, st2)
                | Some addr \<Rightarrow>
                    do { (r, st3) \<leftarrow> send_command i AST_FRAME_IAX 1 0 m (- 1)
                                     (upd_session i (set_peer addr (ch_portno c)) st2);
                         Some (if r < 0 then r else if wait then - 1 else r, st3) }) })"

section \<open>Transfers\<close>

text \<open>
  After a transfer the session starts anew with its peer: timing, jitter buffer and, unless they
  are preserved, sequence numbers. A HANGUP or REJECT among the queued events destroys the session
  on the way, which is then used after it was freed.
\<close>

definition transfer_reset :: "bool \<Rightarrow> iax_session \<Rightarrow> iax_session" where
  "transfer_reset xfr2peer s =
     (if xfr2peer then
        s\<lparr>s_peeraddr := s_transfer s, s_transfer := sin_zero, s_transferring := TRANSFER_NONE,
          s_transferpeer := 0, s_transfer_moh := False, s_svoiceformat := - 1, s_voiceformat := 0\<rparr>
      else s)"

fun free_events :: "nat \<Rightarrow> iax_event jb_frame list \<Rightarrow> iax_state \<Rightarrow> iax_state option" where
  "free_events i [] st = Some st"
| "free_events i (f # fs) st =
     (let st1 = iax_event_free (jf_data f) st
      in if find_id i st1 = None then None else free_events i fs st1)"

definition complete_transfer :: "nat \<Rightarrow> int \<Rightarrow> bool \<Rightarrow> bool \<Rightarrow> iax_state \<Rightarrow> iax_state option" where
  "complete_transfer i peercallno xfr2peer preserveSeq st =
     do { st1 \<leftarrow> set_session i (\<lambda>s. (transfer_reset xfr2peer (s\<lparr>s_peercallno := peercallno\<rparr>))
                   \<lparr>s_rxcore := Timeval 0 0, s_offset := Timeval 0 0\<rparr>) st;
          s \<leftarrow> find_id i st1;
          st2 \<leftarrow> free_events i (jb_frames (s_jb s)) st1;
          st3 \<leftarrow> set_session i (\<lambda>s.
              (let s1 = s\<lparr>s_jb := jb_reset (s_jb s), s_jitterbuffer := 0, s_jitter := 0, s_lag := 0\<rparr>;
                   s2 = (if preserveSeq then s1
                         else s1\<lparr>s_aseqno := 0, s_oseqno := 0, s_iseqno := 0\<rparr>)
               in s2\<lparr>s_lastsent := 0, s_last_ts := 0, s_lastvoicets := 0, s_pingtime := 30\<rparr>)) st2;
          Some (stop_transfer i st3) }"

definition begin_transfer :: "iax_session \<Rightarrow> int \<Rightarrow> iax_session \<Rightarrow> iax_session" where
  "begin_transfer other tid s =
     s\<lparr>s_transfer := s_peeraddr other, s_transferid := tid, s_transfercallno := s_peercallno s,
       s_transferring := TRANSFER_BEGIN, s_transferpeer := s_callno other\<rparr>"

definition transfer_ies :: "iax_session \<Rightarrow> int \<Rightarrow> ie_step list" where
  "transfer_ies other tid =
     [ie_addr IAX_IE_APPARENT_ADDR (s_peeraddr other), ie_short IAX_IE_CALLNO (of_int (s_peercallno other)),
      ie_int IAX_IE_TRANSFERID (of_int tid)]"

definition iax_setup_transfer :: "nat \<Rightarrow> nat \<Rightarrow> iax_state \<Rightarrow> (int \<times> iax_state) option" where
  "iax_setup_transfer i0 i1 st =
     do { s0 \<leftarrow> find_id i0 st;
          s1 \<leftarrow> find_id i1 st;
          let tid = st_transfer_id st;
          let st1 = (upd_session i1 (begin_transfer s0 tid) (upd_session i0 (begin_transfer s1 tid) st))
                      \<lparr>st_transfer_id := (if tid + 1 > 32767 then 1 else tid + 1)\<rparr>;
          (r0, st2) \<leftarrow> send_ies i0 22 0 (transfer_ies s1 tid) st1;
          (if r0 < 0 then Some (- 1, st2)
           else do { (r1, st3) \<leftarrow> send_ies i1 22 0 (transfer_ies s0 tid) st2;
                     Some (if r1 < 0 then - 1 else 0, st3) }) }"

definition iax_finish_transfer :: "nat \<Rightarrow> int \<Rightarrow> iax_state \<Rightarrow> (int \<times> iax_state) option" where
  "iax_finish_transfer i new_peer st =
     do { (r, st1) \<leftarrow> send_ies i 26 0 [ie_short IAX_IE_CALLNO (of_int new_peer)] st;
          st2 \<leftarrow> complete_transfer i new_peer False True st1;
          Some (r, st2) }"

definition iax_find_session2 :: "int \<Rightarrow> iax_state \<Rightarrow> iax_session option" where
  "iax_find_session2 callno st = find (\<lambda>s. callno = s_callno s \<and> callno \<noteq> 0) (st_sessions st)"

text \<open>A \<open>short\<close> holds the low 16 bits of a call number.\<close>

definition short_of :: "int \<Rightarrow> int" where
  "short_of x = signed_take_bit 15 x"

definition iax_handle_txready :: "nat \<Rightarrow> iax_state \<Rightarrow> (bool \<times> iax_state) option" where
  "iax_handle_txready i st =
     do { s \<leftarrow> find_id i st;
          st1 \<leftarrow> (if s_transfer_moh s
                  then map_option snd (iax_unquelch i (upd_session i (\<lambda>s. s\<lparr>s_transfer_moh := False\<rparr>) st))
                  else Some st);
          st2 \<leftarrow> complete_transfer i (s_peercallno s) False True st1;
          st3 \<leftarrow> set_session i (\<lambda>s. s\<lparr>s_transferring := TRANSFER_REL\<rparr>) st2;
          s0 \<leftarrow> find_id i st3;
          (case iax_find_session2 (short_of (s_transferpeer s0)) st3 of
             None \<Rightarrow> Some (False, st3)
           | Some s1 \<Rightarrow>
               if s_callno s1 = s_transferpeer s0 \<and> s_transferring s1 = TRANSFER_REL then
                 do { (r0, st4) \<leftarrow> iax_finish_transfer i (short_of (s_peercallno s1)) st3;
                      (r1, st5) \<leftarrow> iax_finish_transfer (s_id s1) (short_of (s_peercallno s0)) st4;
                      Some (True, st5) }
               else Some (False, st3)) }"

definition unquelch_moh :: "nat \<Rightarrow> iax_state \<Rightarrow> iax_state option" where
  "unquelch_moh i st =
     do { s \<leftarrow> find_id i st;
          (if s_transfer_moh s then
             map_option snd (send_command_immediate i AST_FRAME_IAX 29 0 [] (uint (s_iseqno s))
               (upd_session i (\<lambda>s. s\<lparr>s_transfer_moh := False\<rparr>) st))
           else Some st) }"

definition iax_handle_txreject :: "nat \<Rightarrow> iax_state \<Rightarrow> iax_state option" where
  "iax_handle_txreject i st =
     do { s0 \<leftarrow> find_id i st;
          st1 \<leftarrow> (case iax_find_session2 (short_of (s_transferpeer s0)) st of
                   None \<Rightarrow> Some st
                 | Some s1 \<Rightarrow>
                     if s_transferpeer s0 = s_callno s1 \<and> s_transferring s1 \<noteq> TRANSFER_NONE
                     then unquelch_moh (s_id s1) st else Some st);
          st2 \<leftarrow> unquelch_moh i st1;
          set_session i (\<lambda>s. s\<lparr>s_transfer := sin_zero, s_transferring := TRANSFER_NONE,
                               s_transferpeer := 0, s_transfer_moh := False\<rparr>) st2 }"

section \<open>Events on their way to the client\<close>

definition IAX_EVENT_NULL :: int where "IAX_EVENT_NULL = 65535"

text \<open>
  Lag requests, pings and pokes are answered here; the events of dead sessions are freed. An answer
  to a poke destroys the session.
\<close>

definition handle_event :: "iax_event option \<Rightarrow> iax_state \<Rightarrow> (iax_event option \<times> iax_state) option" where
  "handle_event ev st =
     (case ev of
        None \<Rightarrow> Some (None, st)
      | Some e \<Rightarrow>
          if ev_etype e = IAX_EVENT_NULL then Some (Some e, st)
          else if \<not> iax_session_valid (ev_session e) st then Some (None, iax_event_free e st)
          else if ev_etype e = 7 then
            map_option (\<lambda>(r, st1). (None, st1)) (iax_send_lagrp (ev_session e) (ev_ts e) st)
          else if ev_etype e = 10 then
            map_option (\<lambda>(r, st1). (None, st1)) (iax_send_pong (ev_session e) (ev_ts e) st)
          else if ev_etype e = 33 then
            map_option (\<lambda>(r, st1). (None, destroy_session (ev_session e) st1))
              (iax_send_pong (ev_session e) (ev_ts e) st)
          else Some (Some e, st))"

definition iax2_vnak :: "nat \<Rightarrow> iax_state \<Rightarrow> (int \<times> iax_state) option" where
  "iax2_vnak i st =
     do { s \<leftarrow> find_id i st;
          send_command_immediate i AST_FRAME_IAX 18 0 [] (uint (s_iseqno s)) st }"

end
