(* ===== verification/Iax_Recv.thy ===== *)
theory Iax_Recv
  imports Iax_State Iax_Show
begin

text \<open>
  The receiving half of \<open>libiax2/src/iax.c\<close>: from a datagram to an event
  (\<open>iax_net_process\<close>, \<open>iax_find_session\<close>, \<open>iax_header_to_event\<close>, \<open>iax_miniheader_to_event\<close>), the
  jitter buffer in between (\<open>schedule_delivery\<close>), the acknowledgement window, retransmission on
  request (\<open>iax_handle_vnak\<close>) and on time (\<open>iax_get_event\<close>).
\<close>

section \<open>Finding the session of a packet\<close>

definition calc_rxstamp :: "timeval \<Rightarrow> iax_session \<Rightarrow> int \<times> iax_session" where
  "calc_rxstamp now s =
     (let s1 = (if s_rxcore s = Timeval 0 0 then s\<lparr>s_rxcore := now\<rparr> else s)
      in (int_of_long (ms_between now (s_rxcore s1)), s1))"

definition same_addr :: "sockaddr_in \<Rightarrow> sockaddr_in \<Rightarrow> bool" where
  "same_addr a b \<longleftrightarrow> sin_addr a = sin_addr b \<and> sin_port a = sin_port b"

text \<open>The match may fill in the peer's call number.\<close>

definition forward_match :: "sockaddr_in \<Rightarrow> int \<Rightarrow> int \<Rightarrow> iax_session \<Rightarrow> iax_session option" where
  "forward_match sin callno dcallno cur =
     (if same_addr (s_transfer cur) sin \<and> s_transferring cur \<noteq> TRANSFER_NONE \<and> dcallno = s_callno cur
      then Some cur
      else if same_addr (s_peeraddr cur) sin \<and> dcallno = s_callno cur \<and> dcallno \<noteq> 0
      then Some (if s_peercallno cur = 0 then cur\<lparr>s_peercallno := callno\<rparr> else cur)
      else None)"

definition reverse_match :: "sockaddr_in \<Rightarrow> int \<Rightarrow> iax_session \<Rightarrow> bool" where
  "reverse_match sin callno cur \<longleftrightarrow>
     same_addr (s_transfer cur) sin \<and> s_transferring cur \<noteq> TRANSFER_NONE \<and> callno = s_peercallno cur \<or>
     same_addr (s_peeraddr cur) sin \<and> callno = s_peercallno cur"

text \<open>
  The address of the session found or made, if any. \<open>addr\<close> and \<open>garbage\<close> are what the allocator
  returns for a new session.
\<close>

definition iax_find_session ::
    "nat \<Rightarrow> iax_event jitterbuf \<Rightarrow> sockaddr_in \<Rightarrow> int \<Rightarrow> int \<Rightarrow> bool \<Rightarrow> iax_state \<Rightarrow> nat option \<times> iax_state" where
  "iax_find_session addr garbage sin callno dcallno makenew st =
     (case find (\<lambda>s. forward_match sin callno dcallno s \<noteq> None) (st_sessions st) of
        Some s \<Rightarrow>
          (Some (s_id s), upd_session (s_id s) (\<lambda>_. the (forward_match sin callno dcallno s)) st)
      | None \<Rightarrow>
          (case find (reverse_match sin callno) (st_sessions st) of
             Some s \<Rightarrow> (Some (s_id s), st)
           | None \<Rightarrow>
               if makenew \<and> dcallno = 0 then
                 (let st1 = iax_session_new addr garbage st;
                      (pid, q) = iax_sched_add True (st_now st) None None (Some addr) 2000 (st_sched st1)
                  in (Some addr,
                      upd_session addr (\<lambda>s. s\<lparr>s_peercallno := callno,
                          s_peeraddr := sin_make (sin_port sin) (sin_addr sin) (s_peeraddr s),
                          s_pingid := pid\<rparr>) (st1\<lparr>st_sched := q\<rparr>)))
               else (None, st)))"

section \<open>Into the jitter buffer\<close>

definition IAX_EVENT_VOICE :: int where "IAX_EVENT_VOICE = 4"
definition IAX_EVENT_CNG :: int where "IAX_EVENT_CNG = 32"

text \<open>
  The Speex walker gets one round more than there are bits; if that is not enough it never
  returns, and neither does the caller.
\<close>

definition event_len :: "iax_event \<Rightarrow> int option" where
  "event_len e =
     (if ev_etype e = IAX_EVENT_VOICE then
        (case get_sample_cnt (8 * ev_datalen e + 1) (ev_subclass e) (take (ev_datalen e) (ev_data e)) of
           Samples n \<Rightarrow> Some (int n div 8) | Out_Of_Bounds \<Rightarrow> None | Out_Of_Fuel \<Rightarrow> None)
      else Some 0)"

definition event_jb_type :: "iax_event \<Rightarrow> jb_type" where
  "event_jb_type e =
     (if ev_etype e = IAX_EVENT_VOICE then JB_TYPE_VOICE
      else if ev_etype e = IAX_EVENT_CNG then JB_TYPE_SILENCE else JB_TYPE_CONTROL)"

definition schedule_delivery :: "iax_event \<Rightarrow> u32 \<Rightarrow> iax_state \<Rightarrow> iax_state option" where
  "schedule_delivery e ts st =
     do { len \<leftarrow> event_len e;
          s \<leftarrow> find_id (ev_session e) st;
          let uts = (of_int (unwrap_timestamp (uint ts) (uint (s_last_ts s))) :: u32);
          let s1 = (if uts > s_last_ts s then s\<lparr>s_last_ts := uts\<rparr> else s);
          let (now, s2) = calc_rxstamp (st_now st) s1;
          let (r, jb) = jb_put True e (event_jb_type e) len (uint uts) now (s_jb s2);
          let st1 = upd_session (ev_session e) (\<lambda>_. s2\<lparr>s_jb := jb\<rparr>) st;
          Some (if r = JB_DROP then iax_event_free e st1 else st1) }"

section \<open>Retransmission on request\<close>

definition frames_of :: "nat \<Rightarrow> iax_state \<Rightarrow> iax_frame list" where
  "frames_of i st =
     filter (\<lambda>f. fr_session f = i) (List.map_filter sc_frame (st_sched st))"

text \<open>The test is made on differences to the last acknowledged number, as unsigned bytes.\<close>

definition vnak_wanted :: "u8 \<Rightarrow> u8 \<Rightarrow> iax_frame \<Rightarrow> bool" where
  "vnak_wanted iseqno rseqno f \<longleftrightarrow> iseqno - rseqno \<le> of_int (fr_oseqno f) - rseqno"

text \<open>The list is kept in the order of the differences, which here are taken as \<open>int\<close>s.\<close>

definition vnak_key :: "u8 \<Rightarrow> iax_frame \<Rightarrow> int" where
  "vnak_key rseqno f = fr_oseqno f - uint rseqno"

fun vnak_link :: "u8 \<Rightarrow> iax_frame \<Rightarrow> iax_frame list \<Rightarrow> iax_frame list" where
  "vnak_link rseqno f [] = [f]"
| "vnak_link rseqno f (l # ls) =
     (if vnak_key rseqno l > vnak_key rseqno f then f # l # ls else l # vnak_link rseqno f ls)"

definition vnak_collect :: "u8 \<Rightarrow> u8 \<Rightarrow> iax_frame list \<Rightarrow> iax_frame list" where
  "vnak_collect iseqno rseqno fs =
     foldl (\<lambda>ls f. if vnak_wanted iseqno rseqno f then vnak_link rseqno f ls else ls) [] fs"

fun xmit_all :: "iax_frame list \<Rightarrow> iax_state \<Rightarrow> iax_state option" where
  "xmit_all [] st = Some st"
| "xmit_all (f # fs) st = do { (r, st1) \<leftarrow> iax_xmit_frame f st; xmit_all fs st1 }"

definition iax_handle_vnak :: "nat \<Rightarrow> u8 \<Rightarrow> iax_state \<Rightarrow> iax_state option" where
  "iax_handle_vnak i iseqno st =
     do { s \<leftarrow> find_id i st;
          xmit_all (vnak_collect iseqno (s_rseqno s) (frames_of i st)) st }"

section \<open>Acknowledgement and order\<close>

text \<open>\<open>for (x = from; x != to; x++)\<close> on unsigned bytes: the values of \<open>x\<close>.\<close>

function seq_range :: "u8 \<Rightarrow> u8 \<Rightarrow> u8 list" where
  "seq_range x to = (if x = to then [] else x # seq_range (x + 1) to)"
  by pat_completeness auto
termination
proof (relation "measure (\<lambda>(x, to). unat (to - x))")
  fix x to :: u8
  assume "x \<noteq> to"
  then have "to - x \<noteq> 0" by simp
  then have "unat (to - x - 1) < unat (to - x)" by (simp add: unat_gt_0 measure_unat)
  then show "((x + 1, to), x, to) \<in> measure (\<lambda>(x, to). unat (to - x))"
    by (simp add: algebra_simps)
qed simp

declare seq_range.simps [simp del]

definition ack_window :: "u8 \<Rightarrow> iax_session \<Rightarrow> bool" where
  "ack_window iseqno s \<longleftrightarrow> iseqno \<in> set (seq_range (s_rseqno s) (s_oseqno s)) \<or> s_oseqno s = iseqno"

definition cancel_frame :: "nat \<Rightarrow> u8 \<Rightarrow> iax_state \<Rightarrow> iax_state" where
  "cancel_frame i x st =
     st\<lparr>st_sched := mark_frames (\<lambda>f. fr_session f = i \<and> fr_oseqno f = uint x) (st_sched st)\<rparr>"

definition implicit_ack :: "nat \<Rightarrow> u8 \<Rightarrow> iax_state \<Rightarrow> iax_state option" where
  "implicit_ack i iseqno st =
     do { s \<leftarrow> find_id i st;
          (if ack_window iseqno s then
             Some (upd_session i (\<lambda>s. s\<lparr>s_rseqno := iseqno\<rparr>)
                    (fold (cancel_frame i) (seq_range (s_rseqno s) iseqno) st))
           else Some st) }"

text \<open>Frame types and IAX commands as the code compares them.\<close>

definition in_cmds :: "int \<Rightarrow> int \<Rightarrow> int list \<Rightarrow> bool" where
  "in_cmds ty subclass cmds \<longleftrightarrow> ty = AST_FRAME_IAX \<and> subclass \<in> set cmds"

text \<open>
  The check of the sequence number: the packet is processed (\<open>Accept\<close>, the expected number is
  counted on unless \<open>False\<close>), it was seen before and is acknowledged once more, or something
  before it is missing.
\<close>

datatype seq_check = Accept bool | Old bool | Missing

definition check_seqno :: "iax_session \<Rightarrow> u8 \<Rightarrow> int \<Rightarrow> int \<Rightarrow> seq_check" where
  "check_seqno s oseqno ty subclass =
     (if s_iseqno s \<noteq> oseqno \<and> (s_iseqno s \<noteq> 0 \<or> \<not> in_cmds ty subclass [25, 26, 23, 24]) then
        (if in_cmds ty subclass [4, 10, 25, 26, 23, 24, 18] then Accept False
         else if s_iseqno s - oseqno < 128 then Old (\<not> in_cmds ty subclass [4, 10])
         else Missing)
      else Accept (\<not> in_cmds ty subclass [4, 10, 23, 24, 18]))"

section \<open>A full frame\<close>

definition new_event :: "nat \<Rightarrow> int \<Rightarrow> int \<Rightarrow> nat \<Rightarrow> u8 list \<Rightarrow> iax_event" where
  "new_event i etype subclass datalen data =
     \<lparr>ev_etype = etype, ev_subclass = subclass, ev_ts = 0, ev_session = i, ev_datalen = datalen,
      ev_ies = ies_init, ev_data = data\<rparr>"

text \<open>A string element of an event: the C string at its offset in the event's data.\<close>

definition ies_string :: "iax_event \<Rightarrow> (iax_ies \<Rightarrow> nat option) \<Rightarrow> u8 list option" where
  "ies_string e field = map_option (\<lambda>off. cstr (drop off (ev_data e))) (field (ev_ies e))"

text \<open>
  What becomes of a packet: \<open>Some (Some e)\<close> is returned to the client, \<open>Some None\<close> was used up or
  waits in the jitter buffer, and \<open>None\<close> makes the code return at once, without the
  acknowledgement at the end.
\<close>

type_synonym outcome = "(iax_event option option \<times> iax_state) option"

definition deliver :: "iax_event \<Rightarrow> u32 \<Rightarrow> iax_state \<Rightarrow> outcome" where
  "deliver e ts st = map_option (Pair (Some None)) (schedule_delivery e ts st)"

definition hand_over :: "iax_event \<Rightarrow> iax_state \<Rightarrow> outcome" where
  "hand_over e st = Some (Some (Some e), st)"

definition used_up :: "iax_state option \<Rightarrow> outcome" where
  "used_up st = map_option (Pair (Some None)) st"

text \<open>
  NEW: \<open>strncpy\<close> fills all 32 bytes of \<open>codec_order\<close> without a terminating zero when the preferences
  are longer, and \<open>strlen\<close> then runs on.
\<close>

definition on_new :: "iax_event \<Rightarrow> u32 \<Rightarrow> iax_state \<Rightarrow> outcome" where
  "on_new e ts st =
     do { st1 \<leftarrow> set_session (ev_session e) (\<lambda>s. s\<lparr>s_capability := ies_capability (ev_ies e)\<rparr>) st;
          (case ies_string e ies_codec_prefs of
             None \<Rightarrow> deliver (e\<lparr>ev_etype := 0\<rparr>) ts st1
           | Some p \<Rightarrow>
               if 32 \<le> length p then None
               else deliver (e\<lparr>ev_etype := 0\<rparr>) ts
                      (upd_session (ev_session e) (\<lambda>s. s\<lparr>s_codec_order := p\<rparr>) st1)) }"

text \<open>AUTHREQ: \<open>strcmp\<close> with the user name of the request, which may be absent.\<close>

definition on_authreq :: "iax_event \<Rightarrow> u32 \<Rightarrow> iax_state \<Rightarrow> outcome" where
  "on_authreq e ts st =
     do { s \<leftarrow> find_id (ev_session e) st;
          known \<leftarrow> (if s_username s = [] then Some False
                     else map_option (\<lambda>u. u = s_username s) (ies_string e ies_username));
          (if known \<and> s_secret s \<noteq> [] then
             used_up (map_option snd (iax_auth_reply (ev_session e) (s_secret s)
               (ies_string e ies_challenge) (ies_authmethods (ev_ies e)) st))
           else deliver (e\<lparr>ev_etype := 15\<rparr>) ts st) }"

definition remote_stats :: "iax_ies \<Rightarrow> iax_netstat" where
  "remote_stats ies =
     \<lparr>ns_jitter = ies_rr_jitter ies, ns_losspct = drop_bit 24 (ies_rr_loss ies),
      ns_losscnt = ies_rr_loss ies AND 0xFFFFFF, ns_packets = ies_rr_pkts ies,
      ns_delay = ucast (ies_rr_delay ies), ns_dropped = ies_rr_dropped ies, ns_ooo = ies_rr_ooo ies\<rparr>"

definition on_pong :: "iax_event \<Rightarrow> u32 \<Rightarrow> iax_state \<Rightarrow> outcome" where
  "on_pong e ts st =
     do { s \<leftarrow> find_id (ev_session e) st;
          (t, s1) \<leftarrow> calc_timestamp (st_now st) 0 None s;
          hand_over (e\<lparr>ev_etype := 11\<rparr>)
            (upd_session (ev_session e) (\<lambda>_. s1\<lparr>s_pingtime := (2 * s_pingtime s1 + (t - ts)) div 3,
                                                 s_remote_netstats := remote_stats (ev_ies e)\<rparr>) st) }"

text \<open>
  ACCEPT: with no format in common the call is rejected, which destroys the session unless sending
  fails; the event is then delivered to it all the same.
\<close>

definition on_accept :: "iax_event \<Rightarrow> u32 \<Rightarrow> iax_state \<Rightarrow> outcome" where
  "on_accept e ts st =
     do { s \<leftarrow> find_id (ev_session e) st;
          (if ies_format (ev_ies e) AND s_capability s \<noteq> 0 then deliver (e\<lparr>ev_etype := 1\<rparr>) ts st
           else do { m \<leftarrow> ie_message [ie_str IAX_IE_CAUSE (bytes_of ''Unable to negotiate codec'')] ied_empty;
                     (r, st1) \<leftarrow> send_command_final (ev_session e) AST_FRAME_IAX 6 0 m (- 1) st;
                     deliver (e\<lparr>ev_etype := IAX_EVENT_REJECT\<rparr>) ts st1 }) }"

definition on_lagrp :: "iax_event \<Rightarrow> u32 \<Rightarrow> iax_state \<Rightarrow> outcome" where
  "on_lagrp e ts st =
     do { s \<leftarrow> find_id (ev_session e) st;
          (t, s1) \<leftarrow> calc_timestamp (st_now st) 0 None s;
          hand_over (e\<lparr>ev_etype := 8, ev_ts := t - ts, ev_subclass := s_jitter s1\<rparr>)
            (upd_session (ev_session e) (\<lambda>_. s1) st) }"

text \<open>TXREQ: sixteen bytes are read from the apparent address, however short the element is.\<close>

definition on_txreq :: "iax_event \<Rightarrow> iax_state \<Rightarrow> outcome" where
  "on_txreq e st =
     (case ies_apparent_addr (ev_ies e) of
        None \<Rightarrow> used_up (Some st)
      | Some off \<Rightarrow>
          if length (ev_data e) < off + 16 then None
          else do { st1 \<leftarrow> set_session (ev_session e) (\<lambda>s. s
                      \<lparr>s_svoiceformat := - 1, s_transfer := [2, 0] @ take 14 (drop (off + 2) (ev_data e)),
                       s_transfercallno := uint (ies_callno (ev_ies e)), s_transferring := TRANSFER_BEGIN,
                       s_transferid := sint (ies_transferid (ev_ies e))\<rparr>) st;
                    used_up (map_option snd (iax_send_txcnt (ev_session e) st1)) })"

definition on_txcnt :: "sockaddr_in \<Rightarrow> nat \<Rightarrow> iax_state \<Rightarrow> outcome" where
  "on_txcnt sin i st =
     do { s \<leftarrow> find_id i st;
          (if s_transferring s \<noteq> TRANSFER_NONE
           then used_up (map_option snd (iax_send_txaccept i (upd_session i (\<lambda>s. s\<lparr>s_transfer := sin\<rparr>) st)))
           else used_up (Some st)) }"

definition on_txacc :: "nat \<Rightarrow> iax_state \<Rightarrow> outcome" where
  "on_txacc i st =
     do { s \<leftarrow> find_id i st;
          (if s_transferring s \<noteq> TRANSFER_NONE
           then used_up (map_option snd (iax_send_txready i
                  (upd_session i (\<lambda>s. s\<lparr>s_transferring := TRANSFER_READY\<rparr>) (stop_transfer i st))))
           else used_up (Some st)) }"

definition send_ack :: "nat \<Rightarrow> u32 \<Rightarrow> u8 \<Rightarrow> iax_state \<Rightarrow> iax_state option" where
  "send_ack i ts seqno st =
     map_option snd (send_command_immediate i AST_FRAME_IAX IAX_COMMAND_ACK ts [] (uint seqno) st)"

definition on_txrel :: "iax_event \<Rightarrow> u32 \<Rightarrow> u8 \<Rightarrow> iax_state \<Rightarrow> outcome" where
  "on_txrel e ts iseqno st =
     do { st1 \<leftarrow> send_ack (ev_session e) ts iseqno st;
          s \<leftarrow> find_id (ev_session e) st1;
          st2 \<leftarrow> (if s_transferring s \<noteq> TRANSFER_NONE
                  then complete_transfer (ev_session e) (uint (ies_callno (ev_ies e))) True False st1
                  else complete_transfer (ev_session e) (s_peercallno s) False True st1);
          deliver (e\<lparr>ev_etype := 21\<rparr>) ts st2 }"

definition on_txready :: "iax_event \<Rightarrow> u32 \<Rightarrow> u8 \<Rightarrow> iax_state \<Rightarrow> outcome" where
  "on_txready e ts iseqno st =
     do { st1 \<leftarrow> send_ack (ev_session e) ts iseqno st;
          (r, st2) \<leftarrow> iax_handle_txready (ev_session e) st1;
          (if r then hand_over (e\<lparr>ev_etype := 1003\<rparr>) st2 else used_up (Some st2)) }"

text \<open>The commands of a call, without those of a transfer.\<close>

definition on_command ::
    "iax_event \<Rightarrow> int \<Rightarrow> u32 \<Rightarrow> u8 \<Rightarrow> sockaddr_in \<Rightarrow> iax_state \<Rightarrow> outcome" where
  "on_command e subclass ts iseqno sin st =
     (let i = ev_session e in
      if subclass = 1 then on_new e ts st
      else if subclass = 8 then on_authreq e ts st
      else if subclass = 5 \<or> subclass = 10 then deliver (e\<lparr>ev_etype := IAX_EVENT_HANGUP\<rparr>) ts st
      else if subclass = 6 then deliver (e\<lparr>ev_etype := IAX_EVENT_REJECT\<rparr>) ts st
      else if subclass = 4 then used_up (Some st)
      else if subclass = 18 then used_up (iax_handle_vnak i iseqno st)
      else if subclass = 11 then deliver (e\<lparr>ev_etype := 7, ev_ts := ts\<rparr>) ts st
      else if subclass = 30 then hand_over (e\<lparr>ev_etype := 33, ev_ts := ts\<rparr>) st
      else if subclass = 2 then hand_over (e\<lparr>ev_etype := 10, ev_ts := ts\<rparr>) st
      else if subclass = 3 then on_pong e ts st
      else if subclass = 7 then on_accept e ts st
      else if subclass = 15 then deliver (e\<lparr>ev_etype := 18\<rparr>) ts st
      else if subclass = 14 then
        do { s \<leftarrow> find_id i st;
             used_up (map_option snd (iax_regauth_reply i (s_secret s) (ies_string e ies_challenge)
               (ies_authmethods (ev_ies e)) st)) }
      else if subclass = 16 then deliver (e\<lparr>ev_etype := 30\<rparr>) ts st
      else if subclass = 12 then on_lagrp e ts st
      else if subclass = 22 then on_txreq e st
      else if subclass = 20 then hand_over (e\<lparr>ev_etype := 23\<rparr>) st
      else if subclass = 23 then on_txcnt sin i st
      else if subclass = 24 then on_txacc i st
      else if subclass = 26 then on_txrel e ts iseqno st
      else if subclass = 28 then
        hand_over (e\<lparr>ev_etype := 25\<rparr>) (upd_session i (\<lambda>s. s\<lparr>s_quelch := True\<rparr>) st)
      else if subclass = 29 then
        hand_over (e\<lparr>ev_etype := 26\<rparr>) (upd_session i (\<lambda>s. s\<lparr>s_quelch := False\<rparr>) st)
      else if subclass = 27 then
        do { st1 \<leftarrow> iax_handle_txreject i st; hand_over (e\<lparr>ev_etype := 1001\<rparr>) st1 }
      else if subclass = 25 then on_txready e ts iseqno st
      else used_up (Some st))"

definition on_control :: "nat \<Rightarrow> int \<Rightarrow> u32 \<Rightarrow> u8 list \<Rightarrow> iax_state \<Rightarrow> outcome" where
  "on_control i subclass ts data st =
     (if subclass = 4 then deliver (new_event i 13 0 0 data) ts st
      else if subclass = 8 \<or> subclass = 5 then deliver (new_event i 12 0 0 data) ts st
      else if subclass = 3 then deliver (new_event i 9 0 0 data) ts st
      else Some (None, st))"

definition on_html :: "nat \<Rightarrow> u8 \<Rightarrow> u32 \<Rightarrow> nat \<Rightarrow> u8 list \<Rightarrow> iax_state \<Rightarrow> outcome" where
  "on_html i csub ts datalen data st =
     (if csub = 18 then deliver (new_event i 31 18 datalen data) ts st
      else if csub = 1 then deliver (new_event i 19 1 datalen data) ts st
      else if csub = 16 then deliver (new_event i 20 0 0 data) ts st
      else if csub = 19 then deliver (new_event i 27 0 0 data) ts st
      else if csub = 20 then deliver (new_event i 28 0 0 data) ts st
      else Some (None, st))"

text \<open>
  The frame types. \<open>datalen\<close> of an image stays 0. The elements of an IAX frame are parsed in place,
  in the data of the event, which has one more byte.
\<close>

definition on_frame :: "nat \<Rightarrow> full_hdr \<Rightarrow> int \<Rightarrow> sockaddr_in \<Rightarrow> iax_state \<Rightarrow> outcome" where
  "on_frame i fh subclass sin st =
     (let ty = sint (fh_type fh); ts = fh_ts fh; n = length (fh_iedata fh); data = fh_iedata fh @ [0] in
      if ty = AST_FRAME_DTMF then hand_over (new_event i 5 subclass 0 data) st
      else if ty = AST_FRAME_VOICE then
        do { st1 \<leftarrow> set_session i (\<lambda>s. s\<lparr>s_voiceformat := subclass\<rparr>) st;
             deliver (new_event i IAX_EVENT_VOICE subclass n data) ts st1 }
      else if ty = AST_FRAME_CNG then deliver (new_event i IAX_EVENT_CNG subclass n data) ts st
      else if ty = AST_FRAME_IAX then
        (case iax_parse_ies data n of
           None \<Rightarrow> None
         | Some (r, ies, mem, ds) \<Rightarrow>
             if r \<noteq> 0 then used_up (Some st)
             else on_command ((new_event i (- 1) 0 n mem)\<lparr>ev_ies := ies\<rparr>) subclass ts (fh_iseqno fh) sin st)
      else if ty = AST_FRAME_CONTROL then on_control i subclass ts data st
      else if ty = AST_FRAME_IMAGE then deliver (new_event i 14 subclass 0 data) ts st
      else if ty = AST_FRAME_TEXT then deliver (new_event i 29 0 n data) ts st
      else if ty = AST_FRAME_HTML then on_html i (fh_csub fh) ts n data st
      else Some (None, st))"

definition note_ts :: "full_hdr \<Rightarrow> int \<Rightarrow> iax_session \<Rightarrow> iax_session" where
  "note_ts fh subclass s =
     (if fh_ts fh > s_last_ts s \<and> sint (fh_type fh) = AST_FRAME_IAX \<and> subclass \<notin> {4, 3, 12}
      then s\<lparr>s_last_ts := fh_ts fh\<rparr> else s)"

definition iax_header_to_event ::
    "nat \<Rightarrow> full_hdr \<Rightarrow> sockaddr_in \<Rightarrow> iax_state \<Rightarrow> (iax_event option \<times> iax_state) option" where
  "iax_header_to_event i fh sin st =
     (let subclass = uncompress_subclass (fh_csub fh); ty = sint (fh_type fh) in
      do { st1 \<leftarrow> set_session i (note_ts fh subclass) st;
           s1 \<leftarrow> find_id i st1;
           st2 \<leftarrow> (if \<not> inaddrcmp sin (s_peeraddr s1) \<and> \<not> in_cmds ty subclass [10]
                   then implicit_ack i (fh_iseqno fh) st1 else Some st1);
           s2 \<leftarrow> find_id i st2;
           (case check_seqno s2 (fh_oseqno fh) ty subclass of
              Old ack \<Rightarrow>
                map_option (Pair None) (if ack then send_ack i (fh_ts fh) (fh_iseqno fh) st2 else Some st2)
            | Missing \<Rightarrow> map_option (\<lambda>(r, st3). (None, st3)) (iax2_vnak i st2)
            | Accept inc \<Rightarrow>
                do { let st3 = (if inc then upd_session i (\<lambda>s. s\<lparr>s_iseqno := s_iseqno s + 1\<rparr>) st2 else st2);
                     (res, st4) \<leftarrow> on_frame i fh subclass sin st3;
                     (case res of
                        None \<Rightarrow> Some (None, st4)
                      | Some ev \<Rightarrow>
                          do { s4 \<leftarrow> find_id i st4;
                               st5 \<leftarrow> (if s_aseqno s4 \<noteq> s_iseqno s4
                                       then send_ack i (fh_ts fh) (fh_iseqno fh) st4 else Some st4);
                               Some (ev, st5) }) }) })"

section \<open>Datagrams\<close>

definition iax_miniheader_to_event ::
    "nat \<Rightarrow> u16 \<Rightarrow> u8 list \<Rightarrow> iax_state \<Rightarrow> (iax_event option \<times> iax_state) option" where
  "iax_miniheader_to_event i mts data st =
     do { s \<leftarrow> find_id i st;
          (if s_voiceformat s > 0 then
             map_option (Pair None)
               (schedule_delivery (new_event i IAX_EVENT_VOICE (s_voiceformat s) (length data) data)
                  ((s_last_ts s AND 0xFFFF0000) OR ucast mts) st)
           else Some (None, st)) }"

text \<open>A transfer connect from an unexpected address is matched by its transfer id.\<close>

definition txcnt_match :: "u32 \<Rightarrow> int \<Rightarrow> int \<Rightarrow> iax_session \<Rightarrow> bool" where
  "txcnt_match tid callno dcallno s \<longleftrightarrow>
     s_transferring s \<noteq> TRANSFER_NONE \<and> s_transferid s = sint tid \<and> s_callno s = dcallno \<and>
     s_transfercallno s = callno"

definition iax_txcnt_session ::
    "full_hdr \<Rightarrow> sockaddr_in \<Rightarrow> int \<Rightarrow> int \<Rightarrow> iax_state \<Rightarrow> (nat option \<times> iax_state)" where
  "iax_txcnt_session fh sin callno dcallno st =
     (if sint (fh_type fh) \<noteq> AST_FRAME_IAX \<or> uncompress_subclass (fh_csub fh) \<noteq> 23 \<or> fh_iedata fh = []
      then (None, st)
      else case iax_parse_ies (fh_iedata fh @ [0]) (length (fh_iedata fh)) of
             Some (r, ies, mem, ds) \<Rightarrow>
               if r \<noteq> 0 \<or> ies_transferid ies = 0 then (None, st)
               else (case find (txcnt_match (ies_transferid ies) callno dcallno) (st_sessions st) of
                       None \<Rightarrow> (None, st)
                     | Some s \<Rightarrow>
                         (Some (s_id s),
                          upd_session (s_id s) (\<lambda>s. s\<lparr>s_transfer :=
                            take 2 (s_transfer s) @ sin_port sin @ sin_addr sin @ drop 8 (s_transfer s)\<rparr>) st))
           | None \<Rightarrow> (None, st))"

definition read_full :: "u8 list \<Rightarrow> full_hdr" where
  "read_full buf =
     \<lparr>fh_scallno = rd16 buf, fh_dcallno = rd16 (drop 2 buf), fh_ts = rd32 (drop 4 buf),
      fh_oseqno = buf ! 8, fh_iseqno = buf ! 9, fh_type = buf ! 10, fh_csub = buf ! 11,
      fh_iedata = drop 12 buf\<rparr>"

text \<open>
  The first two bytes are looked at before the length is: with fewer they are what
  the uninitialised buffer of \<open>iax_net_read\<close> holds (\<open>stale\<close>).
\<close>

definition iax_net_process ::
    "nat \<Rightarrow> iax_event jitterbuf \<Rightarrow> u16 \<Rightarrow> u8 list \<Rightarrow> sockaddr_in \<Rightarrow> iax_state \<Rightarrow>
     (iax_event option \<times> iax_state) option" where
  "iax_net_process addr garbage stale buf sin st =
     (let scallno = (if 2 \<le> length buf then rd16 buf else stale) in
      if bit scallno 15 then
        (if length buf < 12 then Some (None, st)
         else let fh = read_full buf; callno = uint (scallno AND 0x7FFF);
                  dcallno = uint (fh_dcallno fh AND 0x7FFF);
                  (found, st1) = iax_find_session addr garbage sin callno dcallno True st;
                  (found', st2) = (case found of
                      Some i \<Rightarrow> (Some i, st1)
                    | None \<Rightarrow> iax_txcnt_session fh sin callno dcallno st1)
              in case found' of
                   None \<Rightarrow> Some (None, st2)
                 | Some i \<Rightarrow> iax_header_to_event i fh sin st2)
      else if length buf < 4 then Some (None, st)
      else case iax_find_session addr garbage sin (uint scallno) 0 False st of
             (None, st1) \<Rightarrow> Some (None, st1)
           | (Some i, st1) \<Rightarrow> iax_miniheader_to_event i (rd16 (drop 2 buf)) (drop 4 buf) st1)"

end
