(* ===== verification/Iax_Loop.thy ===== *)
theory Iax_Loop
  imports Iax_Recv
begin

text \<open>
  The event loop of \<open>libiax2/src/iax.c\<close>: \<open>iax_get_event\<close> runs the due entries of the scheduler
  (retransmissions, timeouts, pings), polls the jitter buffers, and reads one datagram
  (\<open>iax_net_read\<close>). Waiting in \<open>select\<close> is not modelled.
\<close>

section \<open>Due frames\<close>

text \<open>
  The loop goes on, stops, or returns an event. Three cases for a frame: it is acknowledged, its
  retries are used up, or it is sent once more with a longer delay.
\<close>

datatype loop_step = Go | Break | Return "iax_event option"

definition frame_acked :: "iax_frame \<Rightarrow> iax_state \<Rightarrow> iax_state" where
  "frame_acked f st = (if fr_final f then destroy_session (fr_session f) st else st)"

definition frame_timeout :: "iax_frame \<Rightarrow> iax_state \<Rightarrow> (loop_step \<times> iax_state) option" where
  "frame_timeout f st =
     (if fr_transfer f then map_option (\<lambda>(r, st1). (Break, st1)) (iax_send_txrej (fr_session f) st)
      else if fr_final f then Some (Go, destroy_session (fr_session f) st)
      else map_option (\<lambda>(ev, st1). (Return ev, st1))
             (handle_event (Some (new_event (fr_session f) 6 0 0 [])) st))"

text \<open>Bytes 2 and 3 of the packet are the peer's call number, with the retransmission flag.\<close>

definition retry_frame :: "iax_frame \<Rightarrow> iax_frame" where
  "retry_frame f =
     (let t = fr_retrytime f * 4;
          t1 = (if \<not> fr_transfer f then (if t > 4000 then 4000 else t) else if t > 1000 then 1000 else t)
      in f\<lparr>fr_retries := fr_retries f - 1, fr_retrytime := t1,
           fr_data := take 2 (fr_data f) @ be16 (0x8000 OR fr_dcallno f) @ drop 4 (fr_data f)\<rparr>)"

definition frame_retry :: "iax_frame \<Rightarrow> iax_state \<Rightarrow> iax_state option" where
  "frame_retry f st =
     (let f1 = retry_frame f in
      map_option (\<lambda>(r, st1). st1\<lparr>st_sched := snd (iax_sched_add True (st_now st1) None (Some f1) None
                                               (fr_retrytime f1) (st_sched st1))\<rparr>)
        (iax_xmit_frame f1 st))"

definition run_frame :: "iax_frame \<Rightarrow> iax_state \<Rightarrow> (loop_step \<times> iax_state) option" where
  "run_frame f st =
     (if fr_retries f < 0 then Some (Go, frame_acked f st)
      else if fr_retries f = 0 then frame_timeout f st
      else map_option (Pair Go) (frame_retry f st))"

definition run_entry :: "(unit, iax_frame, nat) iax_sched \<Rightarrow> iax_state \<Rightarrow> (loop_step \<times> iax_state) option" where
  "run_entry c st =
     (case sc_frame c of
        Some f \<Rightarrow> run_frame f st
      | None \<Rightarrow> (case sc_func c of
                   Some i \<Rightarrow> map_option (Pair Go) (send_ping i st)
                 | None \<Rightarrow> Some (Go, st)))"

text \<open>
  The loop over the due entries, with a bound on its rounds; \<open>Return\<close> is what it returns, \<open>Break\<close>
  that the polling goes on. Out of rounds is \<open>None\<close>.
\<close>

fun sched_loop :: "nat \<Rightarrow> timeval \<Rightarrow> iax_state \<Rightarrow> (loop_step \<times> iax_state) option" where
  "sched_loop 0 tv st = None"
| "sched_loop (Suc fuel) tv st =
     (case iax_get_sched tv (st_sched st) of
        (None, _) \<Rightarrow> Some (Break, st)
      | (Some c, q) \<Rightarrow>
          (case run_entry c (st\<lparr>st_sched := q\<rparr>) of
             None \<Rightarrow> None
           | Some (Go, st1) \<Rightarrow> sched_loop fuel tv st1
           | Some (r, st1) \<Rightarrow> Some (r, st1)))"

section \<open>Polling the jitter buffers\<close>

text \<open>One session: at most one event is taken, and returned unless it is used up.\<close>

definition jb_poll :: "timeval \<Rightarrow> iax_session \<Rightarrow> iax_state \<Rightarrow> (iax_event option \<times> iax_state) option" where
  "jb_poll tv s st =
     (let now = ms_between tv (s_rxcore s); i = s_id s in
      if now > jb_next (s_jb s) then
        (let (ret, fr, jb) = jb_get now (get_interp_len (s_voiceformat s)) (s_jb s);
             st1 = upd_session i (\<lambda>s. s\<lparr>s_jb := jb\<rparr>) st
         in case ret of
              JB_OK \<Rightarrow> (case fr of None \<Rightarrow> None | Some f \<Rightarrow> handle_event (Some (jf_data f)) st1)
            | JB_INTERP \<Rightarrow>
                handle_event (Some ((new_event i IAX_EVENT_VOICE (s_voiceformat s) 0 [])
                                      \<lparr>ev_ts := of_int now\<rparr>)) st1
            | JB_DROP \<Rightarrow> (case fr of None \<Rightarrow> None | Some f \<Rightarrow> Some (None, iax_event_free (jf_data f) st1))
            | _ \<Rightarrow> Some (None, st1))
      else Some (None, st))"

text \<open>
  The loop over the sessions reads \<open>cur->next\<close> after the call: a session destroyed in it is used
  after it was freed; others that were unlinked are passed over.
\<close>

fun poll_loop :: "timeval \<Rightarrow> nat list \<Rightarrow> iax_state \<Rightarrow> (iax_event option \<times> iax_state) option" where
  "poll_loop tv [] st = Some (None, st)"
| "poll_loop tv (i # is) st =
     (case find_id i st of
        None \<Rightarrow> poll_loop tv is st
      | Some s \<Rightarrow>
          (case jb_poll tv s st of
             None \<Rightarrow> None
           | Some (Some e, st1) \<Rightarrow> Some (Some e, st1)
           | Some (None, st1) \<Rightarrow> if find_id i st1 = None then None else poll_loop tv is st1))"

section \<open>The event loop\<close>

text \<open>A datagram that gives no event gives the null event; no datagram gives none.\<close>

definition null_event :: iax_event where
  "null_event = new_event 0 IAX_EVENT_NULL 0 0 []"

definition iax_net_read ::
    "nat \<Rightarrow> iax_event jitterbuf \<Rightarrow> u16 \<Rightarrow> (u8 list \<times> sockaddr_in) option \<Rightarrow> iax_state \<Rightarrow>
     (iax_event option \<times> iax_state) option" where
  "iax_net_read addr garbage stale recv st =
     (case recv of
        None \<Rightarrow> Some (None, st)
      | Some (buf, sin) \<Rightarrow>
          map_option (\<lambda>(e, st1). (Some (case e of Some ev \<Rightarrow> ev | None \<Rightarrow> null_event), st1))
            (iax_net_process addr garbage stale buf sin st))"

definition iax_get_event ::
    "nat \<Rightarrow> nat \<Rightarrow> iax_event jitterbuf \<Rightarrow> u16 \<Rightarrow> (u8 list \<times> sockaddr_in) option \<Rightarrow> iax_state \<Rightarrow>
     (iax_event option \<times> iax_state) option" where
  "iax_get_event fuel addr garbage stale recv st =
     do { (r, st1) \<leftarrow> sched_loop fuel (st_now st) st;
          (case r of
             Return ev \<Rightarrow> Some (ev, st1)
           | _ \<Rightarrow>
               do { (e, st2) \<leftarrow> poll_loop (st_now st) (map s_id (st_sessions st1)) st1;
                    (case e of
                       Some ev \<Rightarrow> Some (Some ev, st2)
                     | None \<Rightarrow>
                         do { (ev, st3) \<leftarrow> iax_net_read addr garbage stale recv st2;
                              handle_event ev st3 }) }) }"

end
