(* ===== verification/Iax_Session_Props.thy ===== *)
theory Iax_Session_Props
  imports Iax_Loop
begin

text \<open>
  Correctness of sessions: the acknowledgement window, retransmission, the wire format of full
  frames, timestamps, the parsing of call handles, and what happens to the frames and timers of a
  session that is gone.
\<close>

section \<open>Sequence numbers\<close>

text \<open>The position of a number after another one, counting round.\<close>

definition seq_dist :: "u8 \<Rightarrow> u8 \<Rightarrow> nat" where
  "seq_dist from x = unat (x - from)"

lemma set_seq_range: "x \<in> set (seq_range from to) \<longleftrightarrow> seq_dist from x < seq_dist from to"
proof (induction "from" to rule: seq_range.induct)
  case (1 a to)
  show ?case
  proof (cases "a = to")
    case True
    then show ?thesis by (subst seq_range.simps) (simp add: seq_dist_def)
  next
    case False
    then have pos: "to - a \<noteq> 0" by simp
    then have to: "seq_dist (a + 1) to = seq_dist a to - 1" "0 < seq_dist a to"
      using unat_minus_one[OF pos] by (simp_all add: seq_dist_def algebra_simps unat_gt_0)
    show ?thesis
    proof (cases "x = a")
      case True
      with False to(2) show ?thesis by (subst seq_range.simps) (simp add: seq_dist_def)
    next
      case x: False
      then have "x - a \<noteq> 0" by simp
      then have "seq_dist (a + 1) x = seq_dist a x - 1" "0 < seq_dist a x"
        using unat_minus_one[of "x - a"] by (simp_all add: seq_dist_def algebra_simps unat_gt_0)
      with 1[OF False] False x to show ?thesis by (subst seq_range.simps) auto
    qed
  qed
qed

lemma ack_window_iff: "ack_window q s \<longleftrightarrow> seq_dist (s_rseqno s) q \<le> seq_dist (s_rseqno s) (s_oseqno s)"
proof -
  have "q = s_oseqno s" if "seq_dist (s_rseqno s) q = seq_dist (s_rseqno s) (s_oseqno s)"
    using that by (auto simp: seq_dist_def dest: unsigned_word_eqI)
  then show ?thesis by (auto simp: ack_window_def set_seq_range le_less)
qed

section \<open>The acknowledgement window\<close>

lemma mark_frames_twice:
  "mark_frames (\<lambda>f. fr_session f = i \<and> Q (fr_oseqno f)) (mark_frames (\<lambda>f. fr_session f = i \<and> P (fr_oseqno f)) q) =
   mark_frames (\<lambda>f. fr_session f = i \<and> (P (fr_oseqno f) \<or> Q (fr_oseqno f))) q"
  by (auto simp: mark_frames_def option.map_comp comp_def intro!: arg_cong[where f = "\<lambda>g. sc_frame_update g _"]
        map_option_cong ext split: if_splits)

lemma mark_frames_none: "mark_frames (\<lambda>f. False) q = q"
  by (simp add: mark_frames_def option.map_ident)

lemma fold_cancel_frame:
  "fold (cancel_frame i) xs st =
     st\<lparr>st_sched := mark_frames (\<lambda>f. fr_session f = i \<and> fr_oseqno f \<in> uint ` set xs) (st_sched st)\<rparr>"
proof (induction xs arbitrary: st)
  case Nil
  then show ?case by (simp add: mark_frames_none)
next
  case (Cons x xs)
  show ?case
    using mark_frames_twice[of i "\<lambda>n. n \<in> uint ` set xs" "\<lambda>n. n = uint x" "st_sched st"]
    by (simp only: fold_simps o_apply Cons) (simp add: cancel_frame_def)
qed

lemma uint_image: "n \<in> uint ` {x :: u8. P x} \<longleftrightarrow> 0 \<le> n \<and> n < 256 \<and> P (of_int n)"
proof
  assume "n \<in> uint ` {x :: u8. P x}"
  then show "0 \<le> n \<and> n < 256 \<and> P (of_int n)"
    using unsigned_less[where 'a = int and 'b = 8] by force
next
  assume n: "0 \<le> n \<and> n < 256 \<and> P (of_int n)"
  then have "uint (of_int n :: u8) = n" by (simp add: unsigned_of_int take_bit_int_eq_self)
  with n show "n \<in> uint ` {x :: u8. P x}" by (metis (mono_tags) image_eqI mem_Collect_eq)
qed

text \<open>
  The implicit acknowledgement. A number inside the window from the last acknowledged to the
  next outgoing number, counted round, cancels exactly the waiting frames of the session before it
  and moves the window; a number outside changes nothing. No frame of another session and no
  unacknowledged frame is ever cancelled.
\<close>

theorem implicit_ack_effect:
  "implicit_ack i q st =
     (case find_id i st of
        None \<Rightarrow> None
      | Some s \<Rightarrow>
          Some (if seq_dist (s_rseqno s) q \<le> seq_dist (s_rseqno s) (s_oseqno s)
                then upd_session i (\<lambda>s. s\<lparr>s_rseqno := q\<rparr>)
                       (st\<lparr>st_sched := mark_frames (\<lambda>f. fr_session f = i \<and> 0 \<le> fr_oseqno f \<and> fr_oseqno f < 256 \<and>
                              seq_dist (s_rseqno s) (of_int (fr_oseqno f)) < seq_dist (s_rseqno s) q)
                            (st_sched st)\<rparr>)
                else st))"
proof (cases "find_id i st")
  case (Some s)
  have "set (seq_range (s_rseqno s) q) = {x. seq_dist (s_rseqno s) x < seq_dist (s_rseqno s) q}"
    by (auto simp: set_seq_range)
  then show ?thesis
    using Some by (simp add: implicit_ack_def ack_window_iff fold_cancel_frame uint_image)
qed (simp add: implicit_ack_def)

section \<open>Retransmission on request\<close>

lemma vnak_link_insert: "vnak_link r f ls = insert_after (vnak_key r) f ls"
  by (induction ls) auto

lemma vnak_collect_foldl:
  "sorted_by (vnak_key r) ls \<Longrightarrow>
   mset (foldl (\<lambda>ls f. if vnak_wanted q r f then vnak_link r f ls else ls) ls fs) =
     mset ls + mset (filter (vnak_wanted q r) fs) \<and>
   sorted_by (vnak_key r) (foldl (\<lambda>ls f. if vnak_wanted q r f then vnak_link r f ls else ls) ls fs)"
proof (induction fs arbitrary: ls)
  case (Cons f fs)
  show ?case
    using Cons.prems Cons.IH[of ls] Cons.IH[of "vnak_link r f ls"]
    by (auto simp: vnak_link_insert)
qed simp

lemma vnak_key_dist:
  assumes "uint r \<le> fr_oseqno f" "fr_oseqno f < 256"
  shows "vnak_key r f = int (seq_dist r (of_int (fr_oseqno f)))"
proof -
  have r: "0 \<le> uint r" by simp
  then have n: "0 \<le> fr_oseqno f" using assms(1) by (rule order_trans)
  then have "take_bit 8 (fr_oseqno f) = fr_oseqno f" using assms(2) by (intro take_bit_int_eq_self) simp_all
  with n have "uint (of_int (fr_oseqno f) - r) = (fr_oseqno f - uint r) mod 256"
    by (simp add: uint_word_ariths unsigned_of_int)
  also have "\<dots> = fr_oseqno f - uint r" by (intro mod_pos_pos_trivial; use assms r in linarith)
  finally have "uint (of_int (fr_oseqno f) - r) = fr_oseqno f - uint r" .
  then show ?thesis by (simp add: vnak_key_def seq_dist_def flip: uint_nat)
qed


text \<open>
  After the wrap the order is wrong: with 254 acknowledged last, the frames 255, 0 and 1 go out as
  0, 1, 255.
\<close>

definition frame_no :: "int \<Rightarrow> iax_frame" where
  "frame_no n = \<lparr>fr_session = 1, fr_callno = 1, fr_dcallno = 2, fr_data = [], fr_retries = 10, fr_ts = 5,
     fr_retrytime = 200, fr_oseqno = n, fr_iseqno = 0, fr_transfer = False, fr_final = False\<rparr>"

lemma vnak_wrap_disorder:
  "map fr_oseqno (vnak_collect 255 254 [frame_no 255, frame_no 0, frame_no 1]) = [0, 1, 255]"
  by code_simp

text \<open>Frames that are acknowledged but not yet due are sent again too: their distance is large.\<close>

lemma vnak_resends_acknowledged:
  "map fr_oseqno (vnak_collect 7 7 [(frame_no 6)\<lparr>fr_retries := - 1\<rparr>, frame_no 7]) = [6, 7]"
  by code_simp

section \<open>Sessions keep their addresses\<close>

definition ids :: "iax_state \<Rightarrow> nat list" where
  "ids st = map s_id (st_sessions st)"

lemma find_id_iff: "find_id i st \<noteq> None \<longleftrightarrow> i \<in> set (ids st)"
  by (auto simp: find_id_def ids_def find_None_iff)

lemma find_id_SomeD: "find_id i st = Some s \<Longrightarrow> s_id s = i \<and> s \<in> set (st_sessions st)"
  by (auto simp: find_id_def find_Some_iff)

lemma ids_upd [simp]: "(\<And>s. s_id s = i \<Longrightarrow> s_id (f s) = i) \<Longrightarrow> ids (upd_session i f st) = ids st"
  by (auto simp: ids_def upd_session_def)

lemma ids_simps [simp]:
  "ids (st_sched_update g st) = ids st" "ids (st_wire_update h st) = ids st"
  by (simp_all add: ids_def)

lemma calc_timestamp_id:
  "calc_timestamp now ts f s = Some (t, s') \<Longrightarrow> s_id s' = s_id s"
  by (auto simp: calc_timestamp_def voice_ts_def Let_def split: if_splits option.splits)

lemma full_frame_id: "full_frame i f fts seqno transfer final s = (fr, s') \<Longrightarrow> s_id s' = s_id s"
  by (auto simp: full_frame_def Let_def split: if_splits)

lemma xmit_ids: "iax_xmit_frame f st = Some (r, st') \<Longrightarrow> ids st' = ids st"
  by (auto simp: iax_xmit_frame_def)

lemma reliable_xmit_ids: "iax_reliable_xmit f st = Some (r, st') \<Longrightarrow> ids st' = ids st"
  by (auto simp: iax_reliable_xmit_def split: if_splits dest!: xmit_ids)

lemma iax_send_ids: "iax_send i f ts seqno now transfer final st = Some (r, st') \<Longrightarrow> ids st' = ids st"
proof -
  assume "iax_send i f ts seqno now transfer final st = Some (r, st')"
  then obtain s fts s1 where s: "find_id i st = Some s" "calc_timestamp (st_now st) ts (Some f) s = Some (fts, s1)"
    and cases: "(if fts = 0 then Some (- 1, upd_session i (\<lambda>_. s1) st)
           else if send_mini f fts s then
             iax_xmit_frame (mini_frame i f fts transfer final s1) (upd_session i (\<lambda>_. s1) st)
           else
             (let (fr, s2) = full_frame i f fts seqno transfer final s1;
                  st1 = upd_session i (\<lambda>_. s2) st
              in if now then iax_xmit_frame fr st1 else iax_reliable_xmit fr st1)) = Some (r, st')"
    by (auto simp: iax_send_def split: Option.bind_splits)
  have id1: "s_id s1 = i" using calc_timestamp_id[OF s(2)] find_id_SomeD[OF s(1)] by simp
  obtain fr s2 where ff: "full_frame i f fts seqno transfer final s1 = (fr, s2)" by fastforce
  have id2: "s_id s2 = i" using full_frame_id[OF ff] id1 by simp
  from cases id1 id2 ff show ?thesis
    by (auto simp: Let_def split: if_splits dest!: xmit_ids reliable_xmit_ids)
qed

lemma ids_destroy: "ids (destroy_session i st) = remove1 i (ids st)"
proof -
  have "map s_id (unlink_session i ss) = remove1 i (map s_id ss)" for ss
    by (induction ss) auto
  then show ?thesis by (simp add: ids_def destroy_session_def)
qed

section \<open>The end of a session\<close>

definition marked :: "nat \<Rightarrow> (unit, iax_frame, nat) iax_sched \<Rightarrow> bool" where
  "marked i c = (case sc_frame c of None \<Rightarrow> True | Some f \<Rightarrow> if fr_session f = i then fr_retries f = - 1 else True)"

lemma destroy_marks: "list_all (marked i) (st_sched (destroy_session i st))"
  by (auto simp: destroy_session_def mark_frames_def list_all_iff marked_def split: option.splits)

lemma final_cases:
  assumes "send_command_final i ty command ts data seqno st = Some (r, st')"
  obtains st1 where "ids st1 = ids st" "st' = (if 0 \<le> r then destroy_session i st1 else st1)"
  using assms
  by (auto simp: send_command_final_def send_command_gen_def split: Option.bind_splits dest!: iax_send_ids)

text \<open>
  The last message of a session is never retransmitted: when it could be sent, the session is
  destroyed at once, and that marks all its waiting frames, the one just sent included, as
  acknowledged. A HANGUP or REJECT that is lost is lost for good.
\<close>

theorem final_frame_not_retransmitted:
  "case send_command_final i ty command ts data seqno st of
     None \<Rightarrow> True
   | Some (r, st') \<Rightarrow>
       if 0 \<le> r then ids st' = remove1 i (ids st) \<and> list_all (marked i) (st_sched st') else ids st' = ids st"
  by (auto split: option.split simp: ids_destroy destroy_marks elim!: final_cases)

lemma iax_hangup_final:
  assumes "iax_hangup i byemsg st = Some (r, st1)" "0 \<le> r"
  shows "ids st1 = remove1 i (ids st) \<and> list_all (marked i) (st_sched st1)"
  using assms
  by (auto simp: iax_hangup_def Let_def ids_destroy destroy_marks split: Option.bind_splits elim!: final_cases)

text \<open>An idle client, and what a hangup in its first session schedules.\<close>

definition idle :: iax_state where
  "idle = \<lparr>st_sched = [], st_sessions = [], st_callnums = 1, st_transfer_id = 1,
     st_jb_target_extra = 40, st_now = Timeval 100 0, st_sendto = (\<lambda>b. int (length b)), st_wire = []\<rparr>"

lemma bye_ies: "ie_message [ie_str IAX_IE_CAUSE (bytes_of ''bye'')] ied_empty = Some [22, 3, 98, 121, 101]"
  by code_simp

lemmas evaluation = find_id_def calc_timestamp_def data_ts_def
   ms_between_def int_of_long_def AST_FRAME_IAX_def AST_FRAME_VOICE_def send_mini_def full_frame_def full_bytes_def
    iax_reliable_xmit_def be16_def be32_def iax_xmit_frame_def upd_session_def clamp_retry_def is_ack_def
      IAX_COMMAND_ACK_def compress_subclass_def destroy_session_def mark_frames_def

lemma hangup_eval: "\<exists>st1 c f. iax_hangup 7 (Some (bytes_of ''bye'')) (iax_session_new 7 g idle) = Some (17, st1)
   \<and> c \<in> set (st_sched st1) \<and> sc_frame c = Some f \<and> fr_session f = 7 \<and> fr_final f"
  by (auto simp: iax_hangup_def idle_def iax_session_new_def new_session_record_def Let_def bye_ies
    send_command_final_def send_command_gen_def iax_send_def evaluation
      iax_sched_add_def simp del: ie_message.simps)

text \<open>
  C19. The frame of that last message keeps the address of the session, and when its timer expires
  it destroys whatever session has this address then: a call made after hanging up, for which the
  allocator hands out the memory just freed, is torn down by the timer of the call before it.
\<close>

theorem stale_final_frame_destroys_new_session:
  assumes "iax_hangup i byemsg st = Some (r, st1)" "0 \<le> r" "distinct (ids st)"
    and "c \<in> set (st_sched st1)" "sc_frame c = Some f" "fr_session f = i" "fr_final f"
  shows "iax_session_valid i (iax_session_new i garbage st1) \<and>
     (\<exists>st2. run_entry c (iax_session_new i garbage st1) = Some (Go, st2) \<and> \<not> iax_session_valid i st2)"
proof -
  have h: "ids st1 = remove1 i (ids st)" "list_all (marked i) (st_sched st1)"
    using iax_hangup_final[OF assms(1,2)] by simp_all
  then have "fr_retries f = - 1" using assms(4-6) by (auto simp: list_all_iff marked_def)
  then have "run_entry c (iax_session_new i garbage st1) =
      Some (Go, destroy_session i (iax_session_new i garbage st1))"
    using assms(5-7) by (simp add: run_entry_def run_frame_def frame_acked_def)
  moreover have new: "ids (iax_session_new i garbage st1) = i # ids st1"
    by (simp add: ids_def iax_session_new_def new_session_record_def)
  moreover have "i \<notin> set (ids st1)" using h(1) assms(3) by simp
  ultimately show ?thesis
    by (auto simp: iax_session_valid_def find_id_iff ids_destroy simp del: not_None_eq)
qed

lemma stale_final_frame_destroys_new_session_witness:
  "\<forall>g. \<exists>st1 c st2. iax_hangup 7 (Some (bytes_of ''bye'')) (iax_session_new 7 g idle) = Some (17, st1) \<and>
      run_entry c (iax_session_new 7 g st1) = Some (Go, st2) \<and>
      iax_session_valid 7 (iax_session_new 7 g st1) \<and> \<not> iax_session_valid 7 st2"
proof
  fix g
  obtain st1 c f where h: "iax_hangup 7 (Some (bytes_of ''bye'')) (iax_session_new 7 g idle) = Some (17, st1)"
    "c \<in> set (st_sched st1)" "sc_frame c = Some f" "fr_session f = 7" "fr_final f"
    using hangup_eval by blast
  have "distinct (ids (iax_session_new 7 g idle))"
    by (simp add: ids_def iax_session_new_def idle_def)
  from stale_final_frame_destroys_new_session[OF h(1) _ this h(2-5), of g] h(1)
  show "\<exists>st1 c st2. iax_hangup 7 (Some (bytes_of ''bye'')) (iax_session_new 7 g idle) = Some (17, st1) \<and>
      run_entry c (iax_session_new 7 g st1) = Some (Go, st2) \<and>
      iax_session_valid 7 (iax_session_new 7 g st1) \<and> \<not> iax_session_valid 7 st2"
    by fastforce
qed

section \<open>Retransmission on time\<close>

lemma retry_frame_simps [simp]:
  "fr_transfer (retry_frame f) = fr_transfer f" "fr_retries (retry_frame f) = fr_retries f - 1"
  "fr_dcallno (retry_frame f) = fr_dcallno f"
  by (simp_all add: retry_frame_def Let_def)

lemma retry_data:
  "4 \<le> length (fr_data f) \<Longrightarrow> fr_data (retry_frame f) =
     take 2 (fr_data f) @ be16 (0x8000 OR fr_dcallno f) @ drop 4 (fr_data f)"
  by (simp add: retry_frame_def Let_def)

text \<open>
  C20. The schedule of retransmissions. After \<open>k\<close> of them (at least one) a frame has \<open>k\<close> retries
  less, and waits four times as long for each, up to 4 seconds (1 second for a transfer); the
  packet differs from the first transmission in the retransmission flag alone.
\<close>

theorem retry_schedule:
  assumes "0 \<le> fr_retrytime f" "4 \<le> length (fr_data f)"
  shows "let g = (retry_frame ^^ Suc k) f; cap = (if fr_transfer f then 1000 else 4000)
     in fr_retries g = fr_retries f - int (Suc k) \<and> fr_retrytime g = min cap (fr_retrytime f * 4 ^ Suc k) \<and>
        fr_data g = take 2 (fr_data f) @ be16 (0x8000 OR fr_dcallno f) @ drop 4 (fr_data f)"
proof -
  define cap :: int where "cap = (if fr_transfer f then 1000 else 4000)"
  let ?g = "\<lambda>k. (retry_frame ^^ k) f"
  have tr: "fr_transfer (?g k) = fr_transfer f \<and> fr_dcallno (?g k) = fr_dcallno f \<and>
      fr_retries (?g k) = fr_retries f - int k" for k
    by (induction k) simp_all
  have time: "fr_retrytime (?g (Suc k)) = min cap (fr_retrytime (?g k) * 4)" for k
    using tr[of k] by (auto simp: retry_frame_def Let_def cap_def)
  have "fr_retrytime (?g (Suc k)) = min cap (fr_retrytime f * 4 ^ Suc k)" for k
  proof (induction k)
    case (Suc k)
    have "min cap (min cap x * 4) = min cap (x * 4)" if "0 \<le> x" for x
      using that by (auto simp: cap_def min_def)
    from this[of "fr_retrytime f * 4 ^ Suc k"] Suc time[of "Suc k"] assms(1) show ?case
      by (simp add: mult.assoc mult.commute)
  qed (use time[of 0] in simp)
  moreover have "fr_data (?g (Suc k)) = take 2 (fr_data f) @ be16 (0x8000 OR fr_dcallno f) @ drop 4 (fr_data f)" for k
  proof (induction k)
    case (Suc k)
    then show ?case using tr[of "Suc k"] assms(2) retry_data[of "?g (Suc k)"] by simp
  qed (use assms(2) in \<open>simp add: retry_data\<close>)
  ultimately show ?thesis using tr[of "Suc k"] by (simp add: Let_def cap_def)
qed

lemma retry_schedule_witness:
  "fr_retrytime ((retry_frame ^^ Suc 1) ((frame_no 3)\<lparr>fr_data := [128, 1, 0, 2, 9]\<rparr>)) = 3200"
  using retry_schedule[of "(frame_no 3)\<lparr>fr_data := [128, 1, 0, 2, 9]\<rparr>" 1]
  by (simp add: Let_def frame_no_def del: funpow.simps)

section \<open>Full frames on the wire\<close>


end
