(* ===== verification/Iax_Call_Props.thy ===== *)
theory Iax_Call_Props
  imports Iax_Session_Props
begin

text \<open>
  Correctness of the parsing of call handles, and of the answer to an ACCEPT.
\<close>

section \<open>Call handles\<close>

lemma strtok_token:
  "t \<noteq> [] \<Longrightarrow> d \<notin> set t \<Longrightarrow> strtok d (t @ d # rest) = Some (t, rest)"
  "t \<noteq> [] \<Longrightarrow> d \<notin> set t \<Longrightarrow> strtok d t = Some (t, [])"
  "strtok d [] = None"
proof -
  have skip: "dropWhile (\<lambda>c. c = d) (t @ r) = t @ r" if "t \<noteq> []" "d \<notin> set t" for t r
    using that by (cases t) auto
  have tok: "takeWhile (\<lambda>c. c \<noteq> d) t = t" "dropWhile (\<lambda>c. c \<noteq> d) t = []" if "d \<notin> set t" for t
    using that by (auto simp: takeWhile_eq_all_conv)
  show "strtok d (t @ d # rest) = Some (t, rest)" if "t \<noteq> []" "d \<notin> set t"
    using that skip[OF that, of "d # rest"] tok[OF that(2)]
    by (simp add: strtok_def Let_def takeWhile_append dropWhile_append del: dropWhile_eq_Nil_conv takeWhile_eq_Nil_iff)
  show "strtok d t = Some (t, [])" if "t \<noteq> []" "d \<notin> set t"
    using that skip[OF that, of "[]"] tok[OF that(2)]
    by (simp add: strtok_def Let_def del: dropWhile_eq_Nil_conv takeWhile_eq_Nil_iff)
qed (simp add: strtok_def)

text \<open>Decimal digits, and a call handle written out.\<close>

fun dec_bytes :: "nat \<Rightarrow> u8 list" where
  "dec_bytes n = (if n < 10 then [of_nat (48 + n)] else dec_bytes (n div 10) @ [of_nat (48 + n mod 10)])"

declare dec_bytes.simps [simp del]

lemma digit_byte:
  assumes "n < 10"
  shows "48 \<le> (of_nat (48 + n) :: u8)" "(of_nat (48 + n) :: u8) \<le> 57" "uint (of_nat (48 + n) :: u8) = int (48 + n)"
proof -
  have u: "unat (of_nat (48 + n) :: u8) = 48 + n"
    by (simp only: unsigned_of_nat) (use assms in \<open>simp add: take_bit_nat_eq_self\<close>)
  then show "48 \<le> (of_nat (48 + n) :: u8)" "(of_nat (48 + n) :: u8) \<le> 57"
    using assms by (simp_all only: word_le_nat_alt) simp_all
  show "uint (of_nat (48 + n) :: u8) = int (48 + n)" using u by (metis uint_nat)
qed

lemma digits_dec_bytes: "digits (dec_bytes n @ cs) 0 = digits cs (int n)"
proof (induction n arbitrary: cs rule: dec_bytes.induct)
  case (1 n)
  show ?case
  proof (cases "n < 10")
    case True
    then show ?thesis
      by (subst dec_bytes.simps, simp add: digit_byte del: of_nat_add, simp)
  next
    case False
    have "n mod 10 < 10" by simp
    note d = digit_byte[OF this]
    have "digits (dec_bytes n @ cs) 0 = digits (of_nat (48 + n mod 10) # cs) (int (n div 10))"
      using False 1[OF False] by (subst dec_bytes.simps) simp
    also have "\<dots> = digits cs (10 * int (n div 10) + int (48 + n mod 10) - 48)"
      using d by (simp del: of_nat_add)
    finally show ?thesis by (simp add: zdiv_int zmod_int)
  qed
qed

lemma dec_chars: "c \<in> set (dec_bytes n) \<Longrightarrow> 48 \<le> c \<and> c \<le> 57"
proof (induction n rule: dec_bytes.induct)
  case (1 n)
  have "n mod 10 < 10" by simp
  with 1 show ?case
    by (subst (asm) (2) dec_bytes.simps) (auto simp: digit_byte simp del: of_nat_add split: if_splits)
qed

lemma dec_nonempty: "dec_bytes n \<noteq> []"
  by (subst dec_bytes.simps) simp

lemma atoi_dec: "atoi (dec_bytes n) = int n"
proof -
  obtain c cs where d: "dec_bytes n = c # cs" using dec_nonempty by (cases "dec_bytes n") auto
  then have c: "48 \<le> c \<and> c \<le> 57" using dec_chars[of c n] by simp
  then have "dropWhile (\<lambda>c. c = 32 \<or> 9 \<le> c \<and> c \<le> 13) (dec_bytes n) = dec_bytes n" "c \<noteq> 45" "c \<noteq> 43"
    by (auto simp: word_le_nat_alt d)
  then have "atoi (dec_bytes n) = digits (dec_bytes n @ []) 0" by (simp only: atoi_def) (simp add: d)
  then show ?thesis by (simp only: digits_dec_bytes) simp
qed

text \<open>A field is not empty and contains none of the separators \<open>/ @ :\<close>.\<close>

definition plain :: "u8 list \<Rightarrow> bool" where
  "plain x \<longleftrightarrow> x \<noteq> [] \<and> 47 \<notin> set x \<and> 64 \<notin> set x \<and> 58 \<notin> set x"

definition opt_plain :: "u8 list option \<Rightarrow> bool" where
  "opt_plain x = (case x of None \<Rightarrow> True | Some y \<Rightarrow> plain y)"

lemma opt_plain_simps [simp]: "opt_plain None" "opt_plain (Some y) = plain y"
  by (simp_all add: opt_plain_def)

definition handle_ok :: "call_handle \<Rightarrow> bool" where
  "handle_ok h \<longleftrightarrow>
     plain (ch_hostname h) \<and> 0 \<le> ch_portno h \<and>
     opt_plain (ch_username h) \<and> opt_plain (ch_secret h) \<and>
     opt_plain (ch_exten h) \<and> opt_plain (ch_context h) \<and>
     (ch_username h = None \<longrightarrow> ch_secret h = None) \<and> (ch_exten h = None \<longrightarrow> ch_context h = None)"

definition opt_part :: "u8 list option \<Rightarrow> u8 \<Rightarrow> u8 list" where
  "opt_part x sep = (case x of None \<Rightarrow> [] | Some y \<Rightarrow> sep # y)"

definition handle_host :: "call_handle \<Rightarrow> u8 list" where
  "handle_host h = ch_hostname h @ (if ch_portno h = 4569 then [] else 58 # dec_bytes (nat (ch_portno h)))"

definition handle_peer :: "call_handle \<Rightarrow> u8 list" where
  "handle_peer h =
     (case ch_username h of None \<Rightarrow> [] | Some u \<Rightarrow> (u @ opt_part (ch_secret h) 58) @ [64]) @ handle_host h"

definition show_handle :: "call_handle \<Rightarrow> u8 list" where
  "show_handle h =
     handle_peer h @ (case ch_exten h of None \<Rightarrow> [] | Some e \<Rightarrow> 47 # e @ opt_part (ch_context h) 64)"

lemma dec_plain: "plain (dec_bytes n)"
proof -
  have "c \<in> set (dec_bytes n) \<Longrightarrow> c \<noteq> 47 \<and> c \<noteq> 64 \<and> c \<noteq> 58" for c
    using dec_chars[of c n] by (auto simp: word_le_nat_alt)
  then show ?thesis using dec_nonempty by (auto simp: plain_def)
qed

lemma split_host_show:
  assumes "handle_ok h"
  shows "split_host (handle_host h) = Some (ch_hostname h, ch_portno h)"
proof -
  have host: "plain (ch_hostname h)" "0 \<le> ch_portno h" using assms by (auto simp: handle_ok_def)
  have "takeWhile (\<lambda>c. c = 58) (ch_hostname h @ r) = []" for r
    using host by (cases "ch_hostname h") (auto simp: plain_def)
  then show ?thesis
    using host dec_plain[of "nat (ch_portno h)"]
    by (auto simp: handle_host_def split_host_def strtok_token atoi_dec plain_def)
qed

lemma split_user_show:
  assumes "plain u" "opt_plain p"
  shows "split_user (u @ opt_part p 58) = (Some u, p)"
  using assms
  by (cases p) (auto simp: split_user_def opt_part_def strtok_token strtok_next_def plain_def)

lemma parse_show_handle:
  assumes "handle_ok h"
  shows "parse_call_handle (show_handle h) = Some h"
proof -
  have peer: "47 \<notin> set (handle_peer h)" "handle_peer h \<noteq> []"
    using assms dec_plain[of "nat (ch_portno h)"]
    by (cases "ch_username h"; cases "ch_secret h";
        auto simp: handle_peer_def handle_host_def handle_ok_def plain_def opt_part_def)+
  have host: "handle_host h \<noteq> []" "64 \<notin> set (handle_host h)"
    using assms dec_plain[of "nat (ch_portno h)"] by (auto simp: handle_host_def handle_ok_def plain_def)
  define ext where "ext = map_option (\<lambda>e. e @ opt_part (ch_context h) 64) (ch_exten h)"
  have h1: "strtok 47 (show_handle h) = Some (handle_peer h, case ext of None \<Rightarrow> [] | Some x \<Rightarrow> x)"
    using peer by (cases "ch_exten h") (simp_all add: show_handle_def ext_def strtok_token)
  have h2: "map_option fst (strtok 47 (case ext of None \<Rightarrow> [] | Some x \<Rightarrow> x)) = ext"
    using assms
    by (cases "ch_exten h"; cases "ch_context h")
       (auto simp: ext_def strtok_token handle_ok_def plain_def opt_part_def)
  have h3: "(case ext of None \<Rightarrow> None | Some p \<Rightarrow> strtok 64 p) =
      map_option (\<lambda>e. (e, case ch_context h of None \<Rightarrow> [] | Some c \<Rightarrow> c)) (ch_exten h)"
    using assms
    by (cases "ch_exten h"; cases "ch_context h")
       (auto simp: ext_def strtok_token handle_ok_def plain_def opt_part_def)
  have h4: "strtok_next 64 (map_option (\<lambda>e. (e, case ch_context h of None \<Rightarrow> [] | Some c \<Rightarrow> c)) (ch_exten h))
      = ch_context h"
    using assms
    by (cases "ch_exten h"; cases "ch_context h")
       (auto simp: strtok_next_def strtok_token handle_ok_def plain_def)
  have h5: "(if 64 \<in> set (handle_peer h)
             then do { (u, r) \<leftarrow> strtok 64 (handle_peer h); (h, _) \<leftarrow> strtok 64 r; Some (Some u, h) }
             else Some (None, handle_peer h)) =
      Some (map_option (\<lambda>u. u @ opt_part (ch_secret h) 58) (ch_username h), handle_host h)"
    using assms host strtok_token(1)[of "the (ch_username h) @ opt_part (ch_secret h) 58" 64 "handle_host h"]
    by (cases "ch_username h"; cases "ch_secret h")
       (auto simp: handle_peer_def strtok_token handle_ok_def plain_def opt_part_def)
  have h6: "(case map_option (\<lambda>u. u @ opt_part (ch_secret h) 58) (ch_username h) of
        None \<Rightarrow> (None, None) | Some u \<Rightarrow> split_user u) = (ch_username h, ch_secret h)"
    using assms split_user_show by (cases "ch_username h") (auto simp: handle_ok_def)
  show ?thesis
    unfolding parse_call_handle_def
    by (simp only: h1 h2 h3 h4 h5 h6 Option.bind.simps prod.case Let_def split_host_show[OF assms])
       (cases "ch_exten h"; use assms in \<open>simp add: handle_ok_def\<close>)
qed

text \<open>
  A call handle \<open>[user[:password]@]peer[:port][/exten[@context]]\<close> written out of non-empty
  fields without separators is parsed back into exactly these fields; where no port is given it is
  the default one.
\<close>

theorem call_handle_roundtrip:
  assumes "handle_ok h"
  shows "parse_call_handle (show_handle h) = Some h"
  using assms by (rule parse_show_handle)

lemma call_handle_roundtrip_witness:
  "parse_call_handle (bytes_of ''ann:pw@fgcom:4570/910@home'') =
     Some \<lparr>ch_username = Some (bytes_of ''ann''), ch_secret = Some (bytes_of ''pw''),
           ch_hostname = bytes_of ''fgcom'', ch_portno = 4570,
           ch_exten = Some (bytes_of ''910''), ch_context = Some (bytes_of ''home'')\<rparr>"
proof -
  let ?h = "\<lparr>ch_username = Some (bytes_of ''ann''), ch_secret = Some (bytes_of ''pw''),
           ch_hostname = bytes_of ''fgcom'', ch_portno = 4570,
           ch_exten = Some (bytes_of ''910''), ch_context = Some (bytes_of ''home'')\<rparr>"
  have ok: "handle_ok ?h" by code_simp
  have eq: "show_handle ?h = bytes_of ''ann:pw@fgcom:4570/910@home''" by code_simp
  show ?thesis by (rule call_handle_roundtrip[OF ok, unfolded eq])
qed

section \<open>An ACCEPT without a common codec\<close>

lemma remove1_distinct: "distinct xs \<Longrightarrow> i \<notin> set (remove1 i xs)"
  by simp

text \<open>
  C22. An ACCEPT whose format the client cannot use is answered with a REJECT. The REJECT destroys
  the session when it could be sent, and the handler then schedules the delivery of an event to the
  session it has just freed.
\<close>

theorem accept_rejection_uses_freed_session:
  assumes "distinct (ids st)" "find_id (ev_session e) st = Some s"
    and "ies_format (ev_ies e) AND s_capability s = 0"
    and "ie_message [ie_str IAX_IE_CAUSE (bytes_of ''Unable to negotiate codec'')] ied_empty = Some m"
    and "send_command_final (ev_session e) AST_FRAME_IAX 6 0 m (- 1) st = Some (r, st1)" "0 \<le> r"
  shows "ids st1 = remove1 (ev_session e) (ids st) \<and> on_accept e ts st = None"
proof -
  have "ids st1 = remove1 (ev_session e) (ids st)"
    using assms(5,6) by (auto simp: ids_destroy elim!: final_cases)
  moreover have "find_id (ev_session e) st1 = None"
    using calculation assms(1) find_id_iff[of "ev_session e" st1] by auto
  ultimately show ?thesis
    using assms by (simp add: on_accept_def deliver_def schedule_delivery_def split: Option.bind_splits)
qed

lemma reject_ies:
  "ie_message [ie_str IAX_IE_CAUSE (bytes_of ''Unable to negotiate codec'')] ied_empty =
     Some ([22, 25] @ bytes_of ''Unable to negotiate codec'')"
  by code_simp

lemma reject_eval:
  "\<exists>st1. send_command_final 7 AST_FRAME_IAX 6 0 ([22, 25] @ bytes_of ''Unable to negotiate codec'') (- 1)
     (iax_session_new 7 g idle) = Some (39, st1)"
proof -
  have "length (bytes_of ''Unable to negotiate codec'') = 25" by code_simp
  then show ?thesis
    by (auto simp: idle_def iax_session_new_def new_session_record_def Let_def
        send_command_final_def send_command_gen_def iax_send_def evaluation)
qed

lemma accept_rejection_uses_freed_session_witness:
  "\<forall>g. on_accept (new_event 7 1 0 0 []) 20 (iax_session_new 7 g idle) = None"
proof
  fix g
  let ?st = "iax_session_new 7 g idle" and ?e = "new_event 7 1 0 0 []"
  obtain st1 where s: "send_command_final 7 AST_FRAME_IAX 6 0 ([22, 25] @ bytes_of ''Unable to negotiate codec'') (- 1)
     ?st = Some (39, st1)" using reject_eval by blast
  have "distinct (ids ?st)" "find_id (ev_session ?e) ?st = Some (new_session_record 7 g idle)"
    "ies_format (ev_ies ?e) AND s_capability (new_session_record 7 g idle) = 0" "ev_session ?e = 7"
    by (simp_all add: ids_def iax_session_new_def idle_def find_id_def new_event_def new_session_record_def)
  then show "on_accept ?e 20 ?st = None"
    using accept_rejection_uses_freed_session[of ?st ?e _ _ 39 st1 20] reject_ies s by auto
qed

end
