(* ===== verification/Iax_Invariant.thy ===== *)
theory Iax_Invariant
  imports Iax_Session_Props Jitterbuf_Props
begin

text \<open>
  The invariant of the state of \<open>iax.c\<close>, and that every operation keeps it: addresses of sessions
  are distinct, the scheduler is ordered by time, a frame that may still be sent again belongs to a
  live session, has a whole header and waits for some time, and each jitter buffer is well formed.
  With it the loop over the due timers ends and never touches a session that is gone.
\<close>

section \<open>The invariant\<close>

definition frame_ok :: "nat set \<Rightarrow> iax_frame \<Rightarrow> bool" where
  "frame_ok live f \<longleftrightarrow>
     0 < fr_retrytime f \<and> 12 \<le> length (fr_data f) \<and> (fr_retries f < 0 \<or> fr_session f \<in> live)"

definition sched_ok :: "nat set \<Rightarrow> (unit, iax_frame, nat) schedq \<Rightarrow> bool" where
  "sched_ok live q \<longleftrightarrow> sorted_by sc_when q \<and> (\<forall>c \<in> set q. \<forall>f. sc_frame c = Some f \<longrightarrow> frame_ok live f)"

definition state_wf :: "iax_state \<Rightarrow> bool" where
  "state_wf st \<longleftrightarrow>
     distinct (ids st) \<and> sched_ok (set (ids st)) (st_sched st) \<and>
     (\<forall>s \<in> set (st_sessions st). jb_wf (s_jb s))"

text \<open>What every operation but the making of a session does to a state.\<close>

definition keeps :: "iax_state \<Rightarrow> iax_state \<Rightarrow> bool" where
  "keeps st st' \<longleftrightarrow>
     (state_wf st \<longrightarrow> state_wf st' \<and> set (ids st') \<subseteq> set (ids st) \<and> st_now st' = st_now st)"

lemma keeps_refl [simp]: "keeps st st"
  by (simp add: keeps_def)

lemma keeps_trans: "keeps a b \<Longrightarrow> keeps b c \<Longrightarrow> keeps a c"
  by (auto simp: keeps_def)

section \<open>The scheduler\<close>

lemma sched_ok_mono: "sched_ok A q \<Longrightarrow> A \<subseteq> B \<Longrightarrow> sched_ok B q"
  by (fastforce simp: sched_ok_def frame_ok_def)

lemma sched_ok_add:
  "sched_ok live q \<Longrightarrow> (\<And>x. f = Some x \<Longrightarrow> frame_ok live x) \<Longrightarrow> sched_ok live (snd (iax_sched_add a now e f g ms q))"
  by (auto simp: sched_ok_def iax_sched_add_def sched_walk_insert)

lemma sched_ok_del:
  "sched_ok live q \<Longrightarrow> sched_ok live (snd (iax_sched_del e f g all q))"
  using iax_sched_del_sorted[of q e f g all] by (auto simp: sched_ok_def)

lemma mark_frames_when: "map sc_when (mark_frames P q) = map sc_when q"
  by (simp add: mark_frames_def)

lemma sched_ok_frames:
  assumes "sched_ok live q" "map sc_when q' = map sc_when q"
    and "\<And>c f. c \<in> set q' \<Longrightarrow> sc_frame c = Some f \<Longrightarrow>
           \<exists>c0 f0. c0 \<in> set q \<and> sc_frame c0 = Some f0 \<and> (frame_ok live f0 \<longrightarrow> frame_ok live' f)"
  shows "sched_ok live' q'"
  using assms by (fastforce simp: sched_ok_def)

lemma in_mark_frames:
  assumes "c \<in> set (mark_frames P q)" "sc_frame c = Some f"
  obtains c0 f0 where "c0 \<in> set q" "sc_frame c0 = Some f0" "f = (if P f0 then f0\<lparr>fr_retries := - 1\<rparr> else f0)"
  using assms by (auto simp: mark_frames_def)

lemma sched_ok_mark:
  assumes "sched_ok live q"
  shows "sched_ok live (mark_frames P q)"
proof (rule sched_ok_frames[OF assms mark_frames_when])
  fix c f assume "c \<in> set (mark_frames P q)" "sc_frame c = Some f"
  then show "\<exists>c0 f0. c0 \<in> set q \<and> sc_frame c0 = Some f0 \<and> (frame_ok live f0 \<longrightarrow> frame_ok live f)"
    by (rule in_mark_frames) (auto simp: frame_ok_def)
qed

lemma sched_ok_kill:
  assumes "sched_ok live q"
  shows "sched_ok (live - {i}) (mark_frames (\<lambda>f. fr_session f = i) q)"
proof (rule sched_ok_frames[OF assms mark_frames_when])
  fix c f assume "c \<in> set (mark_frames (\<lambda>f. fr_session f = i) q)" "sc_frame c = Some f"
  then obtain c0 f0 where f0: "c0 \<in> set q" "sc_frame c0 = Some f0"
    "f = (if fr_session f0 = i then f0\<lparr>fr_retries := - 1\<rparr> else f0)"
    by (rule in_mark_frames)
  then have "frame_ok live f0 \<longrightarrow> frame_ok (live - {i}) f"
    by (cases "fr_session f0 = i") (auto simp: frame_ok_def)
  with f0 show "\<exists>c0 f0. c0 \<in> set q \<and> sc_frame c0 = Some f0 \<and> (frame_ok live f0 \<longrightarrow> frame_ok (live - {i}) f)"
    by blast
qed

lemma sched_ok_get:
  "sched_ok live q \<Longrightarrow> iax_get_sched tv q = (Some c, q') \<Longrightarrow>
   sched_ok live q' \<and> (\<forall>f. sc_frame c = Some f \<longrightarrow> frame_ok live f) \<and> q = c # q'"
  using sq.pop_cases[of q tv] by (auto simp: sched_ok_def)

lemma unlink_subset: "set (unlink_session i ss) \<subseteq> set ss"
  by (induction ss) auto

section \<open>Primitive changes\<close>

lemma state_wf_sched:
  "state_wf st \<Longrightarrow> sched_ok (set (ids st)) q \<Longrightarrow> state_wf (st\<lparr>st_sched := q\<rparr>)"
  by (simp add: state_wf_def)

lemma keeps_sched:
  "(sched_ok (set (ids st)) (st_sched st) \<Longrightarrow> sched_ok (set (ids st)) q) \<Longrightarrow> keeps st (st\<lparr>st_sched := q\<rparr>)"
  by (auto simp: keeps_def state_wf_def)

lemma keeps_wire [simp]: "keeps st (st\<lparr>st_wire := w\<rparr>)"
  by (auto simp: keeps_def state_wf_def ids_def)

lemma keeps_transfer_id [simp]: "keeps st (st\<lparr>st_transfer_id := w\<rparr>)"
  by (auto simp: keeps_def state_wf_def ids_def)

lemma find_id_unique:
  assumes "state_wf st" "find_id i st = Some s" "x \<in> set (st_sessions st)" "s_id x = i"
  shows "x = s"
  using assms(1,3,4) find_id_SomeD[OF assms(2)] by (auto simp: state_wf_def ids_def distinct_map inj_on_def)

lemma keeps_upd:
  assumes "\<And>s. find_id i st = Some s \<Longrightarrow> s_id (f s) = s_id s \<and> (jb_wf (s_jb s) \<longrightarrow> jb_wf (s_jb (f s)))"
  shows "keeps st (upd_session i f st)"
proof (cases "find_id i st")
  case None
  then have "\<forall>s \<in> set (st_sessions st). s_id s \<noteq> i"
    using find_id_iff[of i st] by (auto simp: ids_def)
  then have "upd_session i f st = st"
    by (simp add: upd_session_def map_idI)
  then show ?thesis by simp
next
  case (Some s)
  have "state_wf (upd_session i f st) \<and> ids (upd_session i f st) = ids st" if wf: "state_wf st"
  proof -
    note u = find_id_unique[OF wf Some]
    have "ids (upd_session i f st) = ids st"
      using u assms[OF Some] by (auto simp: ids_def upd_session_def)
    moreover have "\<forall>x \<in> set (st_sessions (upd_session i f st)). jb_wf (s_jb x)"
      using wf u assms[OF Some] by (auto simp: upd_session_def state_wf_def split: if_splits)
    ultimately show ?thesis using wf by (simp add: state_wf_def) (simp add: upd_session_def)
  qed
  then show ?thesis by (auto simp: keeps_def upd_session_def)
qed

lemma keeps_destroy [simp]: "keeps st (destroy_session i st)"
proof -
  have "set (st_sessions (destroy_session i st)) \<subseteq> set (st_sessions st)"
    "st_now (destroy_session i st) = st_now st"
    "st_sched (destroy_session i st) = mark_frames (\<lambda>f. fr_session f = i) (st_sched st)"
    by (auto simp: destroy_session_def unlink_subset[THEN subsetD])
  moreover have "sched_ok (set (remove1 i (ids st))) (mark_frames (\<lambda>f. fr_session f = i) (st_sched st))"
    if "state_wf st"
    using that sched_ok_kill[of "set (ids st)" "st_sched st" i] by (simp add: state_wf_def)
  ultimately show ?thesis
    using set_remove1_subset[of i "ids st"] by (auto simp: keeps_def state_wf_def ids_destroy)
qed

lemma keeps_event_free [simp]: "keeps st (iax_event_free e st)"
  by (simp add: iax_event_free_def)

lemma keeps_mark: "keeps st (st\<lparr>st_sched := mark_frames P (st_sched st)\<rparr>)"
  by (intro keeps_sched sched_ok_mark)

lemma keeps_stop_transfer [simp]: "keeps st (stop_transfer i st)"
  by (simp add: stop_transfer_def keeps_mark)

lemma keeps_set_session:
  assumes "set_session i f st = Some st'"
    and "\<And>s. s_id (f s) = s_id s \<and> (jb_wf (s_jb s) \<longrightarrow> jb_wf (s_jb (f s)))"
  shows "keeps st st'"
  using assms by (auto simp: set_session_def intro: keeps_upd)

lemma keeps_upd_trans:
  assumes "keeps (upd_session i f st) st'"
    and "\<And>s. s_id (f s) = s_id s \<and> (jb_wf (s_jb s) \<longrightarrow> jb_wf (s_jb (f s)))"
  shows "keeps st st'"
  by (rule keeps_trans[OF keeps_upd assms(1)]) (rule assms(2))

lemma keeps_add_func:
  assumes "iax_sched_add a now None None (Some i) ms (st_sched st) = (pid, q)"
  shows "keeps st (st\<lparr>st_sched := q\<rparr>)"
  using assms sched_ok_add[of _ "st_sched st" None a now None "Some i" ms] by (intro keeps_sched) simp

section \<open>Sending\<close>

lemma keeps_replace:
  assumes "find_id i st = Some s" "s_id s' = s_id s" "s_jb s' = s_jb s"
  shows "keeps st (upd_session i (\<lambda>_. s') st)"
  by (rule keeps_upd) (use assms in simp)

lemma calc_timestamp_jb:
  "calc_timestamp now ts f s = Some (t, s') \<Longrightarrow> s_jb s' = s_jb s"
  by (auto simp: calc_timestamp_def voice_ts_def Let_def split: if_splits option.splits)

lemma full_frame_jb: "full_frame i f fts seqno transfer final s = (fr, s') \<Longrightarrow> s_jb s' = s_jb s"
  by (auto simp: full_frame_def Let_def split: if_splits)

lemma full_bytes_length: "length (full_bytes sc dc ts oseq iseq ty cs payload) = 12 + length payload"
  by (simp add: full_bytes_def be16_def be32_def)

lemma full_frame_ok:
  "full_frame i f fts seqno transfer final s = (fr, s') \<Longrightarrow> i \<in> live \<Longrightarrow> frame_ok live fr"
  by (auto simp: full_frame_def Let_def frame_ok_def full_bytes_length clamp_retry_def split: if_splits)

lemma xmit_keeps: "iax_xmit_frame f st = Some (r, st') \<Longrightarrow> keeps st st'"
  by (auto simp: iax_xmit_frame_def)

lemma reliable_xmit_keeps:
  assumes "iax_reliable_xmit f st = Some (r, st')" "frame_ok (set (ids st)) f"
  shows "keeps st st'"
proof -
  have "iax_xmit_frame f (st\<lparr>st_sched := snd (iax_sched_add True (st_now st) None (Some f) None
          (fr_retrytime f) (st_sched st))\<rparr>) = Some (r, st')"
    using assms(1) by (simp add: iax_reliable_xmit_def split: if_splits)
  from xmit_keeps[OF this] show ?thesis
    by (rule keeps_trans[rotated]) (use assms(2) in \<open>auto intro: keeps_sched sched_ok_add\<close>)
qed

lemma iax_send_keeps:
  assumes "iax_send i f ts seqno now transfer final st = Some (r, st')"
  shows "keeps st st'"
proof -
  obtain s fts s1 where s: "find_id i st = Some s" "calc_timestamp (st_now st) ts (Some f) s = Some (fts, s1)"
    and cases: "(if fts = 0 then Some (- 1, upd_session i (\<lambda>_. s1) st)
           else if send_mini f fts s then
             iax_xmit_frame (mini_frame i f fts transfer final s1) (upd_session i (\<lambda>_. s1) st)
           else
             (let (fr, s2) = full_frame i f fts seqno transfer final s1;
                  st1 = upd_session i (\<lambda>_. s2) st
              in if now then iax_xmit_frame fr st1 else iax_reliable_xmit fr st1)) = Some (r, st')"
    using assms by (auto simp: iax_send_def split: Option.bind_splits)
  note s1 = calc_timestamp_id[OF s(2)] calc_timestamp_jb[OF s(2)] and id = find_id_SomeD[OF s(1)]
  obtain fr s2 where ff: "full_frame i f fts seqno transfer final s1 = (fr, s2)" by fastforce
  note s2 = full_frame_id[OF ff] full_frame_jb[OF ff]
  have k1: "keeps st (upd_session i (\<lambda>_. s1) st)" by (rule keeps_replace[OF s(1)]) (use s1 in simp_all)
  have k2: "keeps st (upd_session i (\<lambda>_. s2) st)" by (rule keeps_replace[OF s(1)]) (use s1 s2 in simp_all)
  have "i \<in> set (ids (upd_session i (\<lambda>_. s2) st))"
    using s(1) s1 s2 id find_id_iff[of i st] by simp
  then have "frame_ok (set (ids (upd_session i (\<lambda>_. s2) st))) fr" by (rule full_frame_ok[OF ff])
  with cases ff k1 k2 show ?thesis
    by (auto simp: Let_def split: if_splits intro: keeps_trans dest!: xmit_keeps reliable_xmit_keeps)
qed

lemmas send_defs = send_command_gen_def send_command_def send_command_immediate_def
  send_command_transfer_def send_command_samples_def

lemma send_command_keeps:
  "send_command_gen i ty c ts data seqno now transfer final samples st = Some (r, st') \<Longrightarrow> keeps st st'"
  "send_command i ty c ts data seqno st = Some (r, st') \<Longrightarrow> keeps st st'"
  "send_command_immediate i ty c ts data seqno st = Some (r, st') \<Longrightarrow> keeps st st'"
  "send_command_transfer i ty c ts data st = Some (r, st') \<Longrightarrow> keeps st st'"
  "send_command_samples i ty c ts data seqno samples st = Some (r, st') \<Longrightarrow> keeps st st'"
  by (auto simp: send_defs dest: iax_send_keeps)

lemma send_ies_keeps: "send_ies i c ts ies st = Some (r, st') \<Longrightarrow> keeps st st'"
  by (auto simp: send_ies_def split: Option.bind_splits dest: send_command_keeps)

lemma send_transfer_id_keeps: "send_transfer_id i c st = Some (r, st') \<Longrightarrow> keeps st st'"
  by (auto simp: send_transfer_id_def split: Option.bind_splits dest: send_command_keeps)

lemma send_command_final_keeps:
  assumes "send_command_final i ty c ts data seqno st = Some (r, st')"
  shows "keeps st st'"
  using assms
  by (auto simp: send_command_final_def split: Option.bind_splits if_splits dest!: send_command_keeps intro: keeps_trans)

lemmas sends_keep = send_command_keeps send_ies_keeps send_transfer_id_keeps send_command_final_keeps

section \<open>The operations of the client\<close>

lemmas client_defs = iax_transfer_def iax_send_dtmf_def iax_send_image_def iax_reject_def
  iax_ring_announce_def iax_lag_request_def iax_busy_def iax_congestion_def iax_accept_def
  iax_answer_def iax_load_complete_def iax_sendurl_def iax_send_url_def iax_send_text_def
  iax_send_unlink_def iax_send_link_reject_def iax_send_ping_def iax_send_lagrp_def
  iax_send_txcnt_def iax_send_txrej_def iax_send_txaccept_def iax_send_txready_def
  iax_auth_reply_def iax_regauth_reply_def iax_dial_def iax_quelch_def iax_unquelch_def
  iax_dialplan_request_def iax_send_voice_def iax2_vnak_def

lemma client_keeps:
  "iax_transfer i number st = Some (r, st') \<Longrightarrow> keeps st st'"
  "iax_send_dtmf i digit st = Some (r, st') \<Longrightarrow> keeps st st'"
  "iax_send_voice i format data samples st = Some (r, st') \<Longrightarrow> keeps st st'"
  "iax_send_image i format data st = Some (r, st') \<Longrightarrow> keeps st st'"
  "iax_reject i reason st = Some (r, st') \<Longrightarrow> keeps st st'"
  "iax_ring_announce i st = Some (r, st') \<Longrightarrow> keeps st st'"
  "iax_lag_request i st = Some (r, st') \<Longrightarrow> keeps st st'"
  "iax_busy i st = Some (r, st') \<Longrightarrow> keeps st st'"
  "iax_congestion i st = Some (r, st') \<Longrightarrow> keeps st st'"
  "iax_accept i fmt st = Some (r, st') \<Longrightarrow> keeps st st'"
  "iax_answer i st = Some (r, st') \<Longrightarrow> keeps st st'"
  "iax_load_complete i st = Some (r, st') \<Longrightarrow> keeps st st'"
  "iax_sendurl i url st = Some (r, st') \<Longrightarrow> keeps st st'"
  "iax_send_url i url link st = Some (r, st') \<Longrightarrow> keeps st st'"
  "iax_send_text i text st = Some (r, st') \<Longrightarrow> keeps st st'"
  "iax_send_unlink i st = Some (r, st') \<Longrightarrow> keeps st st'"
  "iax_send_link_reject i st = Some (r, st') \<Longrightarrow> keeps st st'"
  "iax_send_ping i st = Some (r, st') \<Longrightarrow> keeps st st'"
  "iax_send_lagrp i ts st = Some (r, st') \<Longrightarrow> keeps st st'"
  "iax_send_txcnt i st = Some (r, st') \<Longrightarrow> keeps st st'"
  "iax_send_txrej i st = Some (r, st') \<Longrightarrow> keeps st st'"
  "iax_send_txaccept i st = Some (r, st') \<Longrightarrow> keeps st st'"
  "iax_send_txready i st = Some (r, st') \<Longrightarrow> keeps st st'"
  "iax_auth_reply i pw ch ms st = Some (r, st') \<Longrightarrow> keeps st st'"
  "iax_regauth_reply i pw ch ms st = Some (r, st') \<Longrightarrow> keeps st st'"
  "iax_dial i number st = Some (r, st') \<Longrightarrow> keeps st st'"
  "iax_quelch i st = Some (r, st') \<Longrightarrow> keeps st st'"
  "iax_unquelch i st = Some (r, st') \<Longrightarrow> keeps st st'"
  "iax_dialplan_request i number st = Some (r, st') \<Longrightarrow> keeps st st'"
  "iax2_vnak i st = Some (r, st') \<Longrightarrow> keeps st st'"
  by (auto simp: client_defs split: Option.bind_splits if_splits dest: sends_keep)

lemma iax_send_cng_keeps: "iax_send_cng i level data st = Some (r, st') \<Longrightarrow> keeps st st'"
  by (auto simp: iax_send_cng_def split: Option.bind_splits dest!: sends_keep keeps_set_session intro: keeps_trans)

lemma iax_quelch_moh_keeps: "iax_quelch_moh i moh st = Some (r, st') \<Longrightarrow> keeps st st'"
  by (auto simp: iax_quelch_moh_def split: Option.bind_splits if_splits dest!: sends_keep
      intro: keeps_upd_trans)

lemma iax_hangup_keeps: "iax_hangup i byemsg st = Some (r, st') \<Longrightarrow> keeps st st'"
  by (auto simp: iax_hangup_def Let_def split: Option.bind_splits dest!: sends_keep
      intro: keeps_trans[OF keeps_sched] sched_ok_del)

lemma jb_getinfo_wf: "jb_getinfo jb = (info, jb') \<Longrightarrow> jb_wf jb \<Longrightarrow> jb_wf jb'"
  by (auto simp: jb_getinfo_def Let_def history_get_jb_wf)

lemma keeps_getinfo:
  assumes "find_id i st = Some s" "jb_getinfo (s_jb s) = (info, jb)"
  shows "keeps st (upd_session i (\<lambda>s. s\<lparr>s_jb := jb\<rparr>) st)"
  by (rule keeps_upd) (use assms in \<open>auto dest: jb_getinfo_wf\<close>)

lemma iax_send_pong_keeps: "iax_send_pong i ts st = Some (r, st') \<Longrightarrow> keeps st st'"
  by (auto simp: iax_send_pong_def split: Option.bind_splits prod.splits dest!: send_ies_keeps keeps_getinfo)
     (meson keeps_trans)

lemma iax_get_netstats_keeps: "keeps st (snd (iax_get_netstats i st))"
  by (auto simp: iax_get_netstats_def split: option.splits prod.splits dest: keeps_getinfo)

lemma send_ping_keeps: "send_ping i st = Some st' \<Longrightarrow> keeps st st'"
  by (auto simp: send_ping_def split: Option.bind_splits if_splits prod.splits
      dest!: send_command_keeps keeps_add_func keeps_set_session) (meson keeps_trans)

lemma set_peer_simps [simp]: "s_id (set_peer a p s) = s_id s" "s_jb (set_peer a p s) = s_jb s"
  by (simp_all add: set_peer_def)

lemma iax_register_keeps: "iax_register ghbn i server peer secret refresh st = Some (r, st') \<Longrightarrow> keeps st st'"
  by (auto simp: iax_register_def Let_def split: Option.bind_splits option.splits dest!: keeps_set_session;
      drule send_ies_keeps, drule keeps_upd_trans, simp, erule (1) keeps_trans)

lemma iax_call_keeps:
  assumes "iax_call ghbn i cidnum cidname ich lang wait formats caps st = Some (r, st')"
  shows "keeps st st'"
proof (cases ich)
  case (Some h)
  obtain pid q where a: "iax_sched_add True (st_now st) None None (Some i) 2000 (st_sched st) = (pid, q)"
    by fastforce
  define st1 where "st1 = upd_session i (\<lambda>s. s\<lparr>s_capability := caps, s_pingid := pid\<rparr>) (st\<lparr>st_sched := q\<rparr>)"
  define user :: "call_handle \<Rightarrow> iax_session \<Rightarrow> iax_session" where "user = (\<lambda>c s. s\<lparr>s_username := (case ch_username c of Some u \<Rightarrow> take 79 u | None \<Rightarrow> s_username s),
                   s_secret := (case ch_secret c of Some x \<Rightarrow> take 79 x | None \<Rightarrow> s_secret s)\<rparr>)"
  have user: "s_id (user c s) = s_id s" "s_jb (user c s) = s_jb s" for c s by (simp_all add: user_def)
  have k: "keeps st (upd_session i (user c) st1)" for c
    unfolding st1_def
    by (rule keeps_trans[OF keeps_trans[OF keeps_add_func[OF a] keeps_upd] keeps_upd]) (simp_all add: user)
  define fin where "fin = (\<lambda>c m. case ghbn (ch_hostname c) of
        None \<Rightarrow> Some (- 1 :: int, upd_session i (user c) st1)
      | Some addr \<Rightarrow>
          do { (r, st3) \<leftarrow> send_command i AST_FRAME_IAX 1 0 m (- 1)
                 (upd_session i (set_peer addr (ch_portno c)) (upd_session i (user c) st1));
               Some (if r < 0 then r else if wait then - 1 else r, st3) })"
  have k2: "keeps st (upd_session i (set_peer addr p) (upd_session i (user c) st1))" for addr p c
    by (rule keeps_trans[OF k keeps_upd]) simp
  have "fin c m = Some (r, st') \<Longrightarrow> keeps st st'" for c m
    by (auto simp: fin_def k split: option.splits Option.bind_splits
        dest!: send_command_keeps intro: keeps_trans[OF k2])
  note fin = this
  have ex: "\<exists>ies. iax_call ghbn i cidnum cidname ich lang wait formats caps st =
     do { s \<leftarrow> find_id i st; c \<leftarrow> parse_call_handle (take 255 (cstr h)); m \<leftarrow> ie_message (ies s c) ied_empty; fin c m }"
    unfolding iax_call_def Some option.case Let_def a prod.case st1_def user_def fin_def by (rule exI, rule refl)
  from ex[unfolded assms] show ?thesis
    by (auto simp: eq_commute[of "Some (r, st')"] Option.bind_eq_Some_conv intro: fin)
qed (use assms in \<open>simp add: iax_call_def\<close>)

section \<open>Transfers and the event filter\<close>

lemma transfer_reset_simps [simp]:
  "s_id (transfer_reset x s) = s_id s" "s_jb (transfer_reset x s) = s_jb s"
  by (simp_all add: transfer_reset_def)

lemma begin_transfer_simps [simp]:
  "s_id (begin_transfer other tid s) = s_id s" "s_jb (begin_transfer other tid s) = s_jb s"
  by (simp_all add: begin_transfer_def)

lemma free_events_keeps: "free_events i fs st = Some st' \<Longrightarrow> keeps st st'"
  by (induction fs arbitrary: st) (auto simp: Let_def split: if_splits intro: keeps_trans[OF keeps_event_free])

lemma complete_transfer_keeps: "complete_transfer i pc x p st = Some st' \<Longrightarrow> keeps st st'"
  by (auto simp: complete_transfer_def Let_def jb_reset_wf split: Option.bind_splits
      dest!: keeps_set_session free_events_keeps) (meson keeps_trans keeps_stop_transfer)

lemma keeps_transfer_id_trans: "keeps (st\<lparr>st_transfer_id := w\<rparr>) st' \<Longrightarrow> keeps st st'"
  by (rule keeps_trans[OF keeps_transfer_id])

lemma iax_setup_transfer_keeps: "iax_setup_transfer i0 i1 st = Some (r, st') \<Longrightarrow> keeps st st'"
  by (auto simp: iax_setup_transfer_def Let_def split: Option.bind_splits if_splits;
      ((drule send_ies_keeps)+, drule keeps_transfer_id_trans, (drule keeps_upd_trans, simp)+)?;
      (blast intro: keeps_trans)?)

lemma iax_finish_transfer_keeps: "iax_finish_transfer i np st = Some (r, st') \<Longrightarrow> keeps st st'"
  by (auto simp: iax_finish_transfer_def split: Option.bind_splits dest!: send_ies_keeps complete_transfer_keeps
      intro: keeps_trans)

lemma iax_handle_txready_keeps: "iax_handle_txready i st = Some (r, st') \<Longrightarrow> keeps st st'"
  by (auto simp: iax_handle_txready_def split: Option.bind_splits if_splits option.splits
       dest!: complete_transfer_keeps iax_finish_transfer_keeps keeps_set_session client_keeps)
     ((drule keeps_upd_trans, simp)?, meson keeps_trans)+

lemma unquelch_moh_keeps: "unquelch_moh i st = Some st' \<Longrightarrow> keeps st st'"
  by (auto simp: unquelch_moh_def split: Option.bind_splits if_splits dest!: send_command_keeps intro: keeps_upd_trans)

lemma iax_handle_txreject_keeps: "iax_handle_txreject i st = Some st' \<Longrightarrow> keeps st st'"
  by (auto simp: iax_handle_txreject_def split: Option.bind_splits if_splits option.splits
      dest!: unquelch_moh_keeps keeps_set_session intro: keeps_trans)

lemma handle_event_keeps: "handle_event ev st = Some (r, st') \<Longrightarrow> keeps st st'"
  by (auto simp: handle_event_def split: option.splits if_splits dest!: client_keeps iax_send_pong_keeps
      intro: keeps_trans)

section \<open>Reception\<close>

lemma calc_rxstamp_simps:
  "calc_rxstamp now s = (t, s') \<Longrightarrow> s_id s' = s_id s \<and> s_jb s' = s_jb s"
  by (auto simp: calc_rxstamp_def Let_def)

lemma schedule_delivery_keeps:
  assumes "schedule_delivery e ts st = Some st'"
  shows "keeps st st'"
proof -
  obtain len s uts now s2 r jb where s: "find_id (ev_session e) st = Some s"
    and n: "calc_rxstamp (st_now st) (if uts > s_last_ts s then s\<lparr>s_last_ts := uts\<rparr> else s) = (now, s2)"
    and j: "jb_put True e (event_jb_type e) len (uint uts) now (s_jb s2) = (r, jb)"
    and st': "st' = (let st1 = upd_session (ev_session e) (\<lambda>_. s2\<lparr>s_jb := jb\<rparr>) st
                     in if r = JB_DROP then iax_event_free e st1 else st1)"
    using assms by (auto simp: schedule_delivery_def Let_def split: Option.bind_splits prod.splits)
  have "s_id s2 = s_id s" "s_jb s2 = s_jb s" using calc_rxstamp_simps[OF n] by (auto split: if_splits)
  then have "keeps st (upd_session (ev_session e) (\<lambda>_. s2\<lparr>s_jb := jb\<rparr>) st)"
    by (intro keeps_upd) (use s j jb_put_wf[of "s_jb s2" True e "event_jb_type e" len "uint uts" now] in auto)
  then show ?thesis unfolding st' Let_def by (auto intro: keeps_trans)
qed

lemma xmit_all_keeps: "xmit_all fs st = Some st' \<Longrightarrow> keeps st st'"
  by (induction fs arbitrary: st) (auto split: Option.bind_splits dest!: xmit_keeps intro: keeps_trans)

lemma iax_handle_vnak_keeps: "iax_handle_vnak i q st = Some st' \<Longrightarrow> keeps st st'"
  by (auto simp: iax_handle_vnak_def split: Option.bind_splits dest: xmit_all_keeps)

lemma implicit_ack_keeps: "implicit_ack i q st = Some st' \<Longrightarrow> keeps st st'"
  by (auto simp: implicit_ack_def fold_cancel_frame split: Option.bind_splits if_splits)
     (rule keeps_trans[OF keeps_mark keeps_upd], simp)

lemma send_ack_keeps: "send_ack i ts q st = Some st' \<Longrightarrow> keeps st st'"
  by (auto simp: send_ack_def dest: send_command_keeps)

lemma outcome_keeps:
  "deliver e ts st = Some (r, st') \<Longrightarrow> keeps st st'"
  "hand_over e st = Some (r, st') \<Longrightarrow> keeps st st'"
  "used_up (Some st) = Some (r, st') \<Longrightarrow> keeps st st'"
  by (auto simp: deliver_def hand_over_def used_up_def dest: schedule_delivery_keeps)

lemma used_up_keeps:
  "used_up m = Some (r, st') \<Longrightarrow> m = Some st'"
  by (auto simp: used_up_def)

lemma on_new_keeps: "on_new e ts st = Some (r, st') \<Longrightarrow> keeps st st'"
  by (auto simp: on_new_def split: Option.bind_splits option.splits if_splits dest!: keeps_set_session outcome_keeps;
      (drule keeps_upd_trans, simp)?, erule (1) keeps_trans)

lemma on_authreq_keeps: "on_authreq e ts st = Some (r, st') \<Longrightarrow> keeps st st'"
  by (auto simp: on_authreq_def split: Option.bind_splits if_splits dest!: outcome_keeps used_up_keeps client_keeps)

lemma keeps_stamp:
  assumes "find_id i st = Some s" "calc_timestamp now ts f s = Some (t, s1)"
    and "s_id (g s1) = s_id s1" "s_jb (g s1) = s_jb s1"
  shows "keeps st (upd_session i (\<lambda>_. g s1) st)"
  by (rule keeps_replace[OF assms(1)]) (use assms calc_timestamp_id[OF assms(2)] calc_timestamp_jb[OF assms(2)] in simp_all)

lemma on_pong_keeps: "on_pong e ts st = Some (r, st') \<Longrightarrow> keeps st st'"
  by (auto simp: on_pong_def hand_over_def split: Option.bind_splits
      intro: keeps_stamp[where g = "\<lambda>s1. s1\<lparr>s_pingtime := _ s1, s_remote_netstats := _\<rparr>"])

lemma on_lagrp_keeps: "on_lagrp e ts st = Some (r, st') \<Longrightarrow> keeps st st'"
  by (auto simp: on_lagrp_def hand_over_def split: Option.bind_splits intro: keeps_stamp[where g = "\<lambda>s. s"])

lemma on_accept_keeps: "on_accept e ts st = Some (r, st') \<Longrightarrow> keeps st st'"
  by (auto simp: on_accept_def split: Option.bind_splits if_splits dest!: sends_keep outcome_keeps intro: keeps_trans)

lemma on_txreq_keeps: "on_txreq e st = Some (r, st') \<Longrightarrow> keeps st st'"
  by (auto simp: on_txreq_def split: Option.bind_splits option.splits if_splits
      dest!: used_up_keeps client_keeps keeps_set_session intro: keeps_trans)

lemma on_txcnt_keeps: "on_txcnt sin i st = Some (r, st') \<Longrightarrow> keeps st st'"
  by (auto simp: on_txcnt_def split: Option.bind_splits if_splits dest!: used_up_keeps client_keeps
      intro: keeps_upd_trans)

lemma on_txacc_keeps: "on_txacc i st = Some (r, st') \<Longrightarrow> keeps st st'"
  by (auto simp: on_txacc_def split: Option.bind_splits if_splits dest!: used_up_keeps client_keeps)
     (drule keeps_upd_trans, simp, erule keeps_trans[OF keeps_stop_transfer])

lemma on_txrel_keeps: "on_txrel e ts q st = Some (r, st') \<Longrightarrow> keeps st st'"
  by (auto simp: on_txrel_def split: Option.bind_splits if_splits
      dest!: send_ack_keeps complete_transfer_keeps outcome_keeps; meson keeps_trans)

lemma on_txready_keeps: "on_txready e ts q st = Some (r, st') \<Longrightarrow> keeps st st'"
  by (auto simp: on_txready_def split: Option.bind_splits if_splits
      dest!: send_ack_keeps iax_handle_txready_keeps outcome_keeps; meson keeps_trans)

lemmas commands_keep = on_new_keeps on_authreq_keeps on_pong_keeps on_lagrp_keeps on_accept_keeps
  on_txreq_keeps on_txcnt_keeps on_txacc_keeps on_txrel_keeps on_txready_keeps outcome_keeps

lemma on_command_keeps: "on_command e subclass ts q sin st = Some (r, st') \<Longrightarrow> keeps st st'"
  by (auto simp: on_command_def Let_def split: if_splits Option.bind_splits
      dest!: commands_keep used_up_keeps client_keeps iax_handle_vnak_keeps iax_handle_txreject_keeps
      intro: keeps_trans keeps_upd_trans)

lemma on_control_keeps: "on_control i subclass ts data st = Some (r, st') \<Longrightarrow> keeps st st'"
  by (auto simp: on_control_def split: if_splits dest: outcome_keeps)

lemma on_html_keeps: "on_html i c ts n data st = Some (r, st') \<Longrightarrow> keeps st st'"
  by (auto simp: on_html_def split: if_splits dest: outcome_keeps)

lemma on_frame_keeps: "on_frame i fh subclass sin st = Some (r, st') \<Longrightarrow> keeps st st'"
  by (auto simp: on_frame_def Let_def split: if_splits Option.bind_splits option.splits
      dest!: outcome_keeps used_up_keeps on_command_keeps on_control_keeps on_html_keeps keeps_set_session
      intro: keeps_trans)

lemma note_ts_simps [simp]:
  "s_id (note_ts fh c s) = s_id s" "s_jb (note_ts fh c s) = s_jb s"
  by (simp_all add: note_ts_def)

lemma iax_header_to_event_keeps:
  assumes "iax_header_to_event i fh sin st = Some (r, st')"
  shows "keeps st st'"
proof -
  obtain st1 st2 s2 where "set_session i (note_ts fh (uncompress_subclass (fh_csub fh))) st = Some st1"
    and 2: "st2 = st1 \<or> implicit_ack i (fh_iseqno fh) st1 = Some st2"
    and rest: "(case check_seqno s2 (fh_oseqno fh) (sint (fh_type fh)) (uncompress_subclass (fh_csub fh)) of
              Old ack \<Rightarrow>
                map_option (Pair None) (if ack then send_ack i (fh_ts fh) (fh_iseqno fh) st2 else Some st2)
            | Missing \<Rightarrow> map_option (\<lambda>(r, st3). (None, st3)) (iax2_vnak i st2)
            | Accept inc \<Rightarrow>
                do { let st3 = (if inc then upd_session i (\<lambda>s. s\<lparr>s_iseqno := s_iseqno s + 1\<rparr>) st2 else st2);
                     (res, st4) \<leftarrow> on_frame i fh (uncompress_subclass (fh_csub fh)) sin st3;
                     (case res of
                        None \<Rightarrow> Some (None, st4)
                      | Some ev \<Rightarrow>
                          do { s4 \<leftarrow> find_id i st4;
                               st5 \<leftarrow> (if s_aseqno s4 \<noteq> s_iseqno s4
                                       then send_ack i (fh_ts fh) (fh_iseqno fh) st4 else Some st4);
                               Some (ev, st5) }) }) = Some (r, st')"
    using assms by (auto simp: iax_header_to_event_def Let_def split: Option.bind_splits if_splits)
  then have "keeps st st1" by (auto dest: keeps_set_session)
  moreover have "keeps st1 st2" using 2 by (auto dest: implicit_ack_keeps)
  moreover have "keeps st2 st'"
    using rest
    by (auto simp: Let_def split: seq_check.splits if_splits Option.bind_splits option.splits
        dest!: send_ack_keeps client_keeps on_frame_keeps intro: keeps_trans)
       ((drule keeps_upd_trans, simp)?, (assumption | erule (1) keeps_trans))+
  ultimately show ?thesis by (meson keeps_trans)
qed

lemma iax_miniheader_to_event_keeps: "iax_miniheader_to_event i mts data st = Some (r, st') \<Longrightarrow> keeps st st'"
  by (auto simp: iax_miniheader_to_event_def split: Option.bind_splits if_splits dest: schedule_delivery_keeps)

section \<open>A new session\<close>

text \<open>The address of a new session is that of no other.\<close>

definition grows :: "nat \<Rightarrow> iax_state \<Rightarrow> iax_state \<Rightarrow> bool" where
  "grows addr st st' \<longleftrightarrow>
     (state_wf st \<and> addr \<notin> set (ids st) \<longrightarrow>
        state_wf st' \<and> set (ids st') \<subseteq> insert addr (set (ids st)) \<and> st_now st' = st_now st)"

lemma keeps_grows: "keeps st st' \<Longrightarrow> grows addr st st'"
  by (auto simp: keeps_def grows_def)

lemma grows_keeps: "grows addr a b \<Longrightarrow> keeps b c \<Longrightarrow> grows addr a c"
  by (auto simp: keeps_def grows_def)

lemma new_session_grows: "grows addr st (iax_session_new addr garbage st)"
proof -
  have "jb_wf (s_jb (new_session_record addr garbage st))"
    by (simp add: new_session_record_def jb_setconf_wf jb_reset_wf)
  moreover have "sched_ok (insert addr (set (ids st))) (st_sched st)" if "state_wf st"
    using that by (auto simp: state_wf_def intro: sched_ok_mono)
  ultimately show ?thesis
    by (auto simp: grows_def state_wf_def ids_def iax_session_new_def new_session_record_def)
qed

lemma forward_match_simps:
  "forward_match sin c d s = Some s' \<Longrightarrow> s_id s' = s_id s \<and> s_jb s' = s_jb s"
  by (auto simp: forward_match_def split: if_splits)

lemma find_id_in: "state_wf st \<Longrightarrow> s \<in> set (st_sessions st) \<Longrightarrow> find_id (s_id s) st = Some s"
  using find_id_unique[of st "s_id s"] find_id_iff[of "s_id s" st] by (fastforce simp: ids_def)

lemma keepsI: "(state_wf st \<Longrightarrow> keeps st st') \<Longrightarrow> keeps st st'"
  by (auto simp: keeps_def)

lemma find_SomeD: "find P xs = Some x \<Longrightarrow> P x \<and> x \<in> set xs"
  by (auto simp: find_Some_iff)

lemma find_session_grows:
  assumes "iax_find_session addr garbage sin callno dcallno makenew st = (found, st')"
  shows "grows addr st st'" and "\<not> makenew \<Longrightarrow> keeps st st'"
proof -
  have match: "keeps st (upd_session (s_id s) (\<lambda>_. the (forward_match sin callno dcallno s)) st)"
    if f: "find (\<lambda>s. forward_match sin callno dcallno s \<noteq> None) (st_sessions st) = Some s" for s
  proof (rule keepsI)
    assume "state_wf st"
    moreover have "s \<in> set (st_sessions st)" using find_SomeD[OF f] by simp
    ultimately have "find_id (s_id s) st = Some s" by (rule find_id_in)
    moreover obtain s' where "forward_match sin callno dcallno s = Some s'"
      using find_SomeD[OF f] by auto
    ultimately show "keeps st (upd_session (s_id s) (\<lambda>_. the (forward_match sin callno dcallno s)) st)"
      using forward_match_simps[of sin callno dcallno s s'] by (intro keeps_upd) simp
  qed
  have new: "grows addr st (upd_session addr (\<lambda>s. s\<lparr>s_peercallno := callno,
                s_peeraddr := sin_make (sin_port sin) (sin_addr sin) (s_peeraddr s), s_pingid := pid\<rparr>)
              (iax_session_new addr garbage st\<lparr>st_sched := q\<rparr>))"
    if "iax_sched_add True (st_now st) None None (Some addr) 2000 (st_sched (iax_session_new addr garbage st)) = (pid, q)"
    for pid q
    by (rule grows_keeps[OF grows_keeps[OF new_session_grows keeps_add_func[OF that]] keeps_upd]) simp
  from assms match new show "grows addr st st'"
    by (auto simp: iax_find_session_def Let_def split: option.splits if_splits prod.splits intro: keeps_grows)
  from assms match show "\<not> makenew \<Longrightarrow> keeps st st'"
    by (auto simp: iax_find_session_def split: option.splits if_splits)
qed

lemma iax_txcnt_session_keeps: "iax_txcnt_session fh sin callno dcallno st = (found, st') \<Longrightarrow> keeps st st'"
  by (auto simp: iax_txcnt_session_def split: if_splits option.splits prod.splits intro!: keeps_upd)

lemma iax_net_process_grows:
  assumes "iax_net_process addr garbage stale buf sin st = Some (r, st')"
  shows "grows addr st st'"
proof -
  note f = find_session_grows
  show ?thesis
    using assms
    by (auto simp: iax_net_process_def Let_def split: if_splits prod.splits option.splits
        dest!: f iax_txcnt_session_keeps iax_header_to_event_keeps iax_miniheader_to_event_keeps
        intro: grows_keeps keeps_grows)
qed

section \<open>The event loop\<close>

lemma frame_acked_keeps: "keeps st (frame_acked f st)"
  by (simp add: frame_acked_def)

lemma frame_timeout_keeps: "frame_timeout f st = Some (r, st') \<Longrightarrow> keeps st st'"
  by (auto simp: frame_timeout_def split: if_splits dest!: client_keeps handle_event_keeps)

lemma retry_frame_ok: "frame_ok live f \<Longrightarrow> frame_ok live (retry_frame f)"
  by (auto simp: frame_ok_def retry_frame_def Let_def be16_def)

lemma frame_retry_keeps:
  assumes "frame_retry f st = Some st'" "frame_ok (set (ids st)) f" "0 \<le> fr_retries f"
  shows "keeps st st'"
proof -
  obtain r st1 where x: "iax_xmit_frame (retry_frame f) st = Some (r, st1)"
    and st': "st' = st1\<lparr>st_sched := snd (iax_sched_add True (st_now st1) None (Some (retry_frame f)) None
                                     (fr_retrytime (retry_frame f)) (st_sched st1))\<rparr>"
    using assms(1) by (auto simp: frame_retry_def Let_def)
  have "keeps st1 st'"
    unfolding st' using retry_frame_ok[OF assms(2)] xmit_ids[OF x] by (intro keeps_sched sched_ok_add) auto
  with xmit_keeps[OF x] show ?thesis by (rule keeps_trans)
qed

lemma run_entry_keeps:
  assumes "run_entry c st = Some (r, st')" "\<And>f. sc_frame c = Some f \<Longrightarrow> frame_ok (set (ids st)) f"
  shows "keeps st st'"
  using assms
  by (auto simp: run_entry_def run_frame_def split: option.splits if_splits
      intro: frame_acked_keeps dest!: frame_timeout_keeps frame_retry_keeps send_ping_keeps)

lemma keeps_get:
  assumes "iax_get_sched tv (st_sched st) = (Some c, q)"
  shows "keeps st (st\<lparr>st_sched := q\<rparr>)"
  using sched_ok_get[OF _ assms] by (intro keeps_sched) auto

lemma sched_loop_keeps: "sched_loop fuel tv st = Some (r, st') \<Longrightarrow> keeps st st'"
proof (induction fuel arbitrary: st)
  case (Suc fuel)
  show ?case
  proof (cases "iax_get_sched tv (st_sched st)")
    case (Pair co q)
    show ?thesis
    proof (cases co)
      case (Some c)
      have g: "iax_get_sched tv (st_sched st) = (Some c, q)" using Pair Some by simp
      have "keeps st st'"  if "state_wf st"
      proof -
        have ok: "frame_ok (set (ids (st\<lparr>st_sched := q\<rparr>))) f" if "sc_frame c = Some f" for f
          using that sched_ok_get[OF _ g, of "set (ids st)"] \<open>state_wf st\<close> by (auto simp: state_wf_def)
        have "keeps (st\<lparr>st_sched := q\<rparr>) st'"
          using Suc.prems g Suc.IH
          by (auto split: option.splits prod.splits loop_step.splits
              dest!: run_entry_keeps[OF _ ok] intro: keeps_trans)
        then show ?thesis by (rule keeps_trans[OF keeps_get[OF g]])
      qed
      then show ?thesis by (rule keepsI)
    qed (use Suc.prems Pair in auto)
  qed
qed simp

lemma jb_poll_keeps:
  assumes "jb_poll tv s st = Some (r, st')" "find_id (s_id s) st = Some s"
  shows "keeps st st'"
proof -
  have upd: "keeps st (upd_session (s_id s) (\<lambda>s. s\<lparr>s_jb := jb\<rparr>) st)"
    if "jb_get now n (s_jb s) = (ret, fr, jb)" for now n ret fr jb
    by (rule keeps_upd) (use assms(2) that jb_get_wf[of "s_jb s" now n] in auto)
  show ?thesis
    using assms(1) upd
    by (auto simp: jb_poll_def Let_def split: if_splits prod.splits jb_ret.splits option.splits
        dest!: handle_event_keeps intro: keeps_trans[OF upd])
qed

lemma poll_loop_keeps: "poll_loop tv is st = Some (r, st') \<Longrightarrow> keeps st st'"
proof (induction "is" arbitrary: st)
  case (Cons i "is")
  then show ?case
    by (auto split: option.splits if_splits dest: find_id_SomeD dest!: jb_poll_keeps intro: keeps_trans)
qed simp

lemma iax_get_event_grows:
  assumes "iax_get_event fuel addr garbage stale recv st = Some (r, st')"
  shows "grows addr st st'"
proof -
  have g: "grows addr a c" if "keeps a b" "grows addr b c" for a b c
    using that by (auto simp: keeps_def grows_def)
  have read: "grows addr a b" if "iax_net_read addr garbage stale recv a = Some (ev, b)" for a b ev
    using that by (auto simp: iax_net_read_def split: option.splits prod.splits
        dest: iax_net_process_grows intro: keeps_grows)
  show ?thesis
    using assms
    by (auto simp: iax_get_event_def split: Option.bind_splits loop_step.splits option.splits
        dest!: sched_loop_keeps poll_loop_keeps read handle_event_keeps)
       (meson keeps_trans keeps_grows grows_keeps g)+
qed

section \<open>The loop over the timers ends\<close>

definition due :: "timeval \<Rightarrow> (unit, iax_frame, nat) schedq \<Rightarrow> nat" where
  "due tv q = length (filter (\<lambda>c. sc_when c \<le> tv) q)"

lemma add_when_after:
  assumes "0 < ms"
  shows "tv < add_when ms tv"
proof -
  have m: "ms sdiv 1000 = ms div 1000" "ms smod 1000 = ms mod 1000"
    using assms by (simp_all add: signed_divide_int_def smod_mod_positive)
  then show ?thesis
    using assms by (auto simp: add_when_def Let_def less_timeval_def)
qed

lemma due_add: "0 < ms \<Longrightarrow> due tv (snd (iax_sched_add a tv e f g ms q)) = due tv q"
  using add_when_after[of ms tv]
  by (auto simp: iax_sched_add_def due_def sched_walk_insert not_le
      size_mset[symmetric] mset_filter simp del: size_mset)

lemma due_mark [simp]: "due tv (mark_frames P q) = due tv q"
  by (simp add: due_def mark_frames_def filter_map comp_def)

lemma xmit_due: "iax_xmit_frame f st = Some (r, st') \<Longrightarrow> st_sched st' = st_sched st \<and> st_now st' = st_now st"
  by (auto simp: iax_xmit_frame_def)

lemma reliable_xmit_due:
  assumes "iax_reliable_xmit f st = Some (r, st')" "0 < fr_retrytime f"
  shows "due (st_now st) (st_sched st') = due (st_now st) (st_sched st)"
  using assms due_add[of "fr_retrytime f" "st_now st" True None "Some f" None "st_sched st"]
  by (auto simp: iax_reliable_xmit_def split: if_splits dest!: xmit_due)

lemma full_frame_time: "full_frame i f fts seqno transfer final s = (fr, s') \<Longrightarrow> 0 < fr_retrytime fr"
  using full_frame_ok[of i f fts seqno transfer final s fr s' UNIV] by (simp add: frame_ok_def)

lemma sched_upd [simp]: "st_sched (upd_session i f st) = st_sched st" "st_now (upd_session i f st) = st_now st"
  "st_sendto (upd_session i f st) = st_sendto st"
  by (simp_all add: upd_session_def)

lemma iax_send_due:
  assumes "iax_send i f ts seqno now transfer final st = Some (r, st')"
  shows "due (st_now st) (st_sched st') = due (st_now st) (st_sched st)"
  using assms
  by (auto simp: iax_send_def Let_def split: Option.bind_splits if_splits prod.splits
      dest: xmit_due dest!: reliable_xmit_due[OF _ full_frame_time])

lemma upd_find: "(\<And>s. s_id s = i \<Longrightarrow> s_id (f s) = i) \<Longrightarrow> find_id i (upd_session i f st) = None \<longleftrightarrow> find_id i st = None"
  using find_id_iff[of i "upd_session i f st"] find_id_iff[of i st] ids_upd[of i f st] by auto

lemma calc_timestamp_total:
  "af_frametype f \<noteq> AST_FRAME_VOICE \<Longrightarrow> calc_timestamp now ts (Some f) s \<noteq> None"
  by (simp add: calc_timestamp_def Let_def)

text \<open>A command to a live session is sent, whatever \<open>sendto\<close> says.\<close>

lemma iax_send_total:
  assumes "find_id i st \<noteq> None" "af_frametype f \<noteq> AST_FRAME_VOICE" "(of_int (af_frametype f) :: u8) \<noteq> 0"
  shows "\<exists>r st'. iax_send i f ts seqno now transfer final st = Some (r, st')"
proof -
  obtain s where s: "find_id i st = Some s" using assms(1) by auto
  obtain fts s1 where c: "calc_timestamp (st_now st) ts (Some f) s = Some (fts, s1)"
    using calc_timestamp_total[OF assms(2)] by (metis not_None_eq surj_pair)
  obtain fr s2 where ff: "full_frame i f fts seqno transfer final s1 = (fr, s2)" by fastforce
  have id: "s_id s2 = i"
    using find_id_SomeD[OF s] calc_timestamp_id[OF c] full_frame_id[OF ff] by simp
  have "fr_session fr = i" "fr_data fr ! 10 = of_int (af_frametype f)"
    using ff by (auto simp: full_frame_def Let_def full_bytes_def be16_def be32_def)
  moreover have "find_id i (upd_session i (\<lambda>_. s2) st) \<noteq> None"
    using s id by (simp add: upd_find)
  ultimately have "\<exists>r st'. iax_xmit_frame fr (upd_session i (\<lambda>_. s2) st) = Some (r, st')"
      "\<exists>r st'. iax_reliable_xmit fr (upd_session i (\<lambda>_. s2) st) = Some (r, st')"
    using assms(3) by (auto simp: iax_xmit_frame_def iax_reliable_xmit_def find_id_def)
  then show ?thesis
    using s c ff assms(2) by (auto simp: iax_send_def send_mini_def Let_def)
qed

lemma txrej_total:
  assumes "find_id i st \<noteq> None"
  shows "\<exists>r st'. iax_send_txrej i st = Some (r, st')"
proof -
  obtain s where s: "find_id i st = Some s" using assms by auto
  obtain m where "ie_message [ie_int IAX_IE_TRANSFERID (of_int (s_transferid s))] ied_empty = Some m"
    by (simp add: ie_int_def ied_empty_def iax_ie_append_int_def iax_ie_append_raw_def be32_def)
  then show ?thesis
    using s iax_send_total[OF assms, of "\<lparr>af_frametype = AST_FRAME_IAX, af_subclass = 27, af_samples = 0, af_data = m\<rparr>"]
    by (simp add: iax_send_txrej_def send_transfer_id_def send_defs AST_FRAME_IAX_def AST_FRAME_VOICE_def
        del: ie_message.simps)
qed

lemma ping_total:
  assumes "find_id i st \<noteq> None"
  shows "\<exists>r st'. send_command i AST_FRAME_IAX 2 0 [] (- 1) st = Some (r, st')"
  using iax_send_total[OF assms, of "\<lparr>af_frametype = AST_FRAME_IAX, af_subclass = 2, af_samples = 0, af_data = []\<rparr>"]
  by (simp add: send_defs AST_FRAME_IAX_def AST_FRAME_VOICE_def)

lemma iax_send_now:
  assumes "iax_send i f ts seqno now transfer final st = Some (r, st')"
  shows "st_now st' = st_now st"
  using assms
  by (auto simp: iax_send_def iax_reliable_xmit_def Let_def split: Option.bind_splits if_splits prod.splits dest!: xmit_due)

lemma send_ping_total:
  "\<exists>st'. send_ping i st = Some st' \<and> due (st_now st) (st_sched st') = due (st_now st) (st_sched st)"
proof (cases "find_id i st = None")
  case False
  obtain r st1 where s: "send_command i AST_FRAME_IAX 2 0 [] (- 1) st = Some (r, st1)"
    using ping_total[OF False] by blast
  have i1: "find_id i st1 \<noteq> None"
    using s False find_id_iff[of i st] find_id_iff[of i st1] by (simp add: send_defs iax_send_ids)
  have now: "st_now st1 = st_now st" using s by (simp add: send_defs iax_send_now)
  obtain pid q where a: "iax_sched_add True (st_now st1) None None (Some i) 10000 (st_sched st1) = (pid, q)"
    by fastforce
  have "due (st_now st) q = due (st_now st) (st_sched st1)"
    using a now due_add[of 10000 "st_now st" True None None "Some i" "st_sched st1"] by simp
  moreover have "due (st_now st) (st_sched st1) = due (st_now st) (st_sched st)"
    using s by (simp add: send_defs iax_send_due)
  moreover have "find_id i (st1\<lparr>st_sched := q\<rparr>) \<noteq> None" using i1 by (simp add: find_id_def)
  ultimately show ?thesis
    using False s a by (auto simp: send_ping_def iax_session_valid_def set_session_def)
qed (simp add: send_ping_def iax_session_valid_def)

lemma destroy_due [simp]: "due tv (st_sched (destroy_session i st)) = due tv (st_sched st)"
  by (simp add: destroy_session_def)

lemma frame_retry_total:
  assumes "frame_ok (set (ids st)) f" "0 \<le> fr_retries f"
  shows "\<exists>st'. frame_retry f st = Some st' \<and> due (st_now st) (st_sched st') = due (st_now st) (st_sched st)"
proof -
  let ?f = "retry_frame f"
  have ok: "frame_ok (set (ids st)) ?f" using assms(1) by (rule retry_frame_ok)
  have "fr_session ?f = fr_session f" by (simp add: retry_frame_def Let_def)
  then have "find_id (fr_session ?f) st \<noteq> None"
    using assms find_id_iff[of "fr_session f" st] by (simp add: frame_ok_def del: not_None_eq)
  then obtain r st1 where x: "iax_xmit_frame ?f st = Some (r, st1)" by (auto simp: iax_xmit_frame_def)
  have "due (st_now st) (snd (iax_sched_add True (st_now st) None (Some ?f) None (fr_retrytime ?f) (st_sched st)))
      = due (st_now st) (st_sched st)"
    using ok by (intro due_add) (simp add: frame_ok_def)
  then show ?thesis using x xmit_due[OF x] by (simp add: frame_retry_def Let_def)
qed

lemma frame_timeout_total:
  assumes "frame_ok (set (ids st)) f" "fr_retries f = 0"
  shows "\<exists>r st'. frame_timeout f st = Some (r, st') \<and>
     (r = Go \<longrightarrow> due (st_now st) (st_sched st') = due (st_now st) (st_sched st))"
proof -
  have live: "find_id (fr_session f) st \<noteq> None"
    using assms find_id_iff[of "fr_session f" st] by (simp add: frame_ok_def del: not_None_eq)
  have "\<exists>st'. frame_timeout f st = Some (Break, st')" if "fr_transfer f"
    using that txrej_total[OF live] by (auto simp: frame_timeout_def)
  moreover have "frame_timeout f st = Some (Return (Some (new_event (fr_session f) 6 0 0 [])), st)"
    if "\<not> fr_transfer f" "\<not> fr_final f"
    using that live
    by (simp add: frame_timeout_def handle_event_def new_event_def IAX_EVENT_NULL_def iax_session_valid_def)
  moreover have "frame_timeout f st = Some (Go, destroy_session (fr_session f) st)"
    if "\<not> fr_transfer f" "fr_final f"
    using that by (simp add: frame_timeout_def)
  ultimately show ?thesis
    by (cases "fr_transfer f"; cases "fr_final f") auto
qed

lemma run_entry_total:
  assumes "\<And>f. sc_frame c = Some f \<Longrightarrow> frame_ok (set (ids st)) f"
  shows "\<exists>r st'. run_entry c st = Some (r, st') \<and>
    (r = Go \<longrightarrow> due (st_now st) (st_sched st') = due (st_now st) (st_sched st))"
proof (cases "sc_frame c")
  case None
  then show ?thesis using send_ping_total[of _ st] by (cases "sc_func c") (fastforce simp: run_entry_def)+
next
  case (Some f)
  note ok = assms[OF Some]
  consider "fr_retries f < 0" | "fr_retries f = 0" | "0 < fr_retries f" by linarith
  then show ?thesis
  proof cases
    case 1
    then show ?thesis using Some by (simp add: run_entry_def run_frame_def frame_acked_def)
  next
    case 2
    then show ?thesis using Some frame_timeout_total[OF ok 2] by (simp add: run_entry_def run_frame_def)
  next
    case 3
    then show ?thesis using Some frame_retry_total[OF ok] by (auto simp: run_entry_def run_frame_def)
  qed
qed

lemma sched_loop_enough:
  assumes "state_wf st" "due (st_now st) (st_sched st) < fuel"
  shows "\<exists>r st'. sched_loop fuel (st_now st) st = Some (r, st')"
  using assms
proof (induction fuel arbitrary: st)
  case (Suc fuel)
  show ?case
  proof (cases "iax_get_sched (st_now st) (st_sched st)")
    case (Pair co q)
    show ?thesis
    proof (cases co)
      case (Some c)
      have g: "iax_get_sched (st_now st) (st_sched st) = (Some c, q)" using Pair Some by simp
      have q: "sched_ok (set (ids st)) (st_sched st)" using Suc.prems(1) by (simp add: state_wf_def)
      note got = sched_ok_get[OF q g]
      let ?st = "st\<lparr>st_sched := q\<rparr>"
      have ok: "\<And>f. sc_frame c = Some f \<Longrightarrow> frame_ok (set (ids ?st)) f" using got by simp
      have "sc_when c \<le> st_now st" using g q sq.pop_cases[of "st_sched st" "st_now st"] by (simp add: sched_ok_def)
      then have d: "due (st_now st) (st_sched st) = Suc (due (st_now st) q)" using got by (simp add: due_def)
      obtain r st1 where r: "run_entry c ?st = Some (r, st1)"
        and go: "r = Go \<longrightarrow> due (st_now st) (st_sched st1) = due (st_now st) q"
        using run_entry_total[of c ?st, OF ok] by auto
      have "keeps st st1" by (rule keeps_trans[OF keeps_get[OF g] run_entry_keeps[OF r ok]])
      then have st1: "state_wf st1" "st_now st1 = st_now st" using Suc.prems(1) by (auto simp: keeps_def)
      show ?thesis
      proof (cases r)
        case Go
        then have "due (st_now st1) (st_sched st1) < fuel" using go d st1 Suc.prems(2) by simp
        from Suc.IH[OF st1(1) this] show ?thesis using g r Go st1(2) by simp
      qed (use g r in auto)
    qed (use Pair in simp)
  qed
qed simp

lemma sched_loop_more:
  "sched_loop fuel tv st = Some r \<Longrightarrow> fuel \<le> fuel' \<Longrightarrow> sched_loop fuel' tv st = Some r"
proof (induction fuel arbitrary: st fuel')
  case (Suc fuel)
  then obtain n where n: "fuel' = Suc n" "fuel \<le> n" by (cases fuel') auto
  show ?case
    using Suc.prems(1) Suc.IH[OF _ n(2)] unfolding n(1)
    by (auto split: option.splits prod.splits loop_step.splits)
qed simp

end
