(* ===== verification/Iax_Reach.thy ===== *)
theory Iax_Reach
  imports Iax_Invariant
begin

text \<open>
  The state machine of a client of \<open>libiax2\<close>: it makes sessions, calls, sends, and asks for events,
  while time passes and datagrams arrive. In every reachable state the invariant holds, and the loop
  over the due timers returns.
\<close>

section \<open>Steps of a client\<close>

inductive client_step :: "iax_state \<Rightarrow> iax_state \<Rightarrow> bool" where
  time: "client_step st (st\<lparr>st_now := t, st_sendto := f\<rparr>)"
| session: "addr \<notin> set (ids st) \<Longrightarrow> client_step st (iax_session_new addr garbage st)"
| event: "addr \<notin> set (ids st) \<Longrightarrow> iax_get_event fuel addr garbage stale recv st = Some (e, st') \<Longrightarrow> client_step st st'"
| event_free: "client_step st (iax_event_free e st)"
| destroy: "client_step st (destroy_session i st)"
| call: "iax_call ghbn i cidnum cidname ich lang wait formats caps st = Some (r, st') \<Longrightarrow> client_step st st'"
| register: "iax_register ghbn i server peer secret refresh st = Some (r, st') \<Longrightarrow> client_step st st'"
| hangup: "iax_hangup i byemsg st = Some (r, st') \<Longrightarrow> client_step st st'"
| reject: "iax_reject i reason st = Some (r, st') \<Longrightarrow> client_step st st'"
| accept: "iax_accept i fmt st = Some (r, st') \<Longrightarrow> client_step st st'"
| answer: "iax_answer i st = Some (r, st') \<Longrightarrow> client_step st st'"
| busy: "iax_busy i st = Some (r, st') \<Longrightarrow> client_step st st'"
| congestion: "iax_congestion i st = Some (r, st') \<Longrightarrow> client_step st st'"
| ring: "iax_ring_announce i st = Some (r, st') \<Longrightarrow> client_step st st'"
| lag: "iax_lag_request i st = Some (r, st') \<Longrightarrow> client_step st st'"
| ping: "iax_send_ping i st = Some (r, st') \<Longrightarrow> client_step st st'"
| dtmf: "iax_send_dtmf i digit st = Some (r, st') \<Longrightarrow> client_step st st'"
| voice: "iax_send_voice i fmt data samples st = Some (r, st') \<Longrightarrow> client_step st st'"
| cng: "iax_send_cng i level data st = Some (r, st') \<Longrightarrow> client_step st st'"
| image: "iax_send_image i fmt data st = Some (r, st') \<Longrightarrow> client_step st st'"
| send_text: "iax_send_text i txt st = Some (r, st') \<Longrightarrow> client_step st st'"
| url: "iax_send_url i url link st = Some (r, st') \<Longrightarrow> client_step st st'"
| sendurl: "iax_sendurl i url st = Some (r, st') \<Longrightarrow> client_step st st'"
| load_complete: "iax_load_complete i st = Some (r, st') \<Longrightarrow> client_step st st'"
| unlink: "iax_send_unlink i st = Some (r, st') \<Longrightarrow> client_step st st'"
| link_reject: "iax_send_link_reject i st = Some (r, st') \<Longrightarrow> client_step st st'"
| dial: "iax_dial i number st = Some (r, st') \<Longrightarrow> client_step st st'"
| dialplan: "iax_dialplan_request i number st = Some (r, st') \<Longrightarrow> client_step st st'"
| quelch: "iax_quelch i st = Some (r, st') \<Longrightarrow> client_step st st'"
| unquelch: "iax_unquelch i st = Some (r, st') \<Longrightarrow> client_step st st'"
| quelch_moh: "iax_quelch_moh i moh st = Some (r, st') \<Longrightarrow> client_step st st'"
| auth: "iax_auth_reply i pw ch ms st = Some (r, st') \<Longrightarrow> client_step st st'"
| regauth: "iax_regauth_reply i pw ch ms st = Some (r, st') \<Longrightarrow> client_step st st'"
| transfer: "iax_transfer i number st = Some (r, st') \<Longrightarrow> client_step st st'"
| setup_transfer: "iax_setup_transfer i j st = Some (r, st') \<Longrightarrow> client_step st st'"
| netstats: "client_step st (snd (iax_get_netstats i st))"

inductive reachable :: "iax_state \<Rightarrow> bool" where
  init: "st_sched st = [] \<Longrightarrow> st_sessions st = [] \<Longrightarrow> reachable st"
| step: "reachable st \<Longrightarrow> client_step st st' \<Longrightarrow> reachable st'"

lemma client_step_wf: "client_step st st' \<Longrightarrow> state_wf st \<Longrightarrow> state_wf st'"
proof (induction rule: client_step.induct)
  case (time st t f)
  then show ?case by (simp add: state_wf_def ids_def)
next
  case (session addr st garbage)
  then show ?case using new_session_grows[of addr st garbage] by (simp add: grows_def)
next
  case (event addr st fuel garbage stale recv e st')
  then show ?case using iax_get_event_grows[OF event(2)] by (simp add: grows_def)
qed (auto simp: keeps_def dest!: client_keeps iax_call_keeps iax_register_keeps iax_hangup_keeps
    iax_send_cng_keeps iax_quelch_moh_keeps iax_setup_transfer_keeps
    intro: keeps_destroy[unfolded keeps_def, THEN mp, THEN conjunct1]
      keeps_event_free[unfolded keeps_def, THEN mp, THEN conjunct1]
      iax_get_netstats_keeps[unfolded keeps_def, THEN mp, THEN conjunct1])

lemma reachable_wf: "reachable st \<Longrightarrow> state_wf st"
proof (induction rule: reachable.induct)
  case (init st)
  then show ?case by (simp add: state_wf_def sched_ok_def ids_def)
qed (rule client_step_wf)

text \<open>
  C1. In every state that a client can reach the sessions have distinct addresses, the timers are in
  order, each jitter buffer is well formed, and every frame that can still be sent again belongs to
  a live session: nothing is retransmitted through a freed session.
\<close>

theorem reachable_state_wf:
  assumes "reachable st"
  shows "distinct (map s_id (st_sessions st)) \<and> sorted_by sc_when (st_sched st) \<and>
     list_all (\<lambda>s. jb_wf (s_jb s)) (st_sessions st) \<and>
     list_all (\<lambda>c. case sc_frame c of None \<Rightarrow> True
        | Some f \<Rightarrow> fr_retries f < 0 \<or> iax_session_valid (fr_session f) st \<and> 0 < fr_retrytime f \<and> 12 \<le> length (fr_data f))
       (st_sched st)"
  using reachable_wf[OF assms]
  by (auto simp: state_wf_def sched_ok_def frame_ok_def list_all_iff iax_session_valid_def find_id_iff ids_def
      simp del: not_None_eq split: option.splits)

lemma reachable_state_wf_witness:
  "\<exists>g. list_all (\<lambda>s. jb_wf (s_jb s)) (st_sessions (iax_session_new 7 g idle)) \<and>
      map s_id (st_sessions (iax_session_new 7 g idle)) = [7]"
proof
  fix g
  have "reachable idle" by (rule reachable.init) (simp_all add: idle_def)
  then have "reachable (iax_session_new 7 g idle)"
    by (rule reachable.step) (rule client_step.session, simp add: ids_def idle_def)
  from reachable_state_wf[OF this]
  show "list_all (\<lambda>s. jb_wf (s_jb s)) (st_sessions (iax_session_new 7 g idle)) \<and>
      map s_id (st_sessions (iax_session_new 7 g idle)) = [7]"
    by (simp add: iax_session_new_def new_session_record_def idle_def)
qed

text \<open>
  C2. The loop over the due timers returns: in every reachable state as many rounds as there are
  timers, and one more, are enough, and it then neither uses a session that is gone nor runs on;
  more rounds change nothing.
\<close>

theorem sched_loop_returns:
  assumes "reachable st" "length (st_sched st) < fuel"
  shows "\<exists>r st'. sched_loop fuel (st_now st) st = Some (r, st') \<and>
     sched_loop (Suc (length (st_sched st))) (st_now st) st = Some (r, st')"
proof -
  have "due (st_now st) (st_sched st) < Suc (length (st_sched st))"
    by (simp add: due_def le_imp_less_Suc)
  from sched_loop_enough[OF reachable_wf[OF assms(1)] this]
  show ?thesis using sched_loop_more[of "Suc (length (st_sched st))"] assms(2) by (metis Suc_leI)
qed

lemma sched_loop_returns_witness:
  "\<forall>g. \<exists>r st'. sched_loop 5 (st_now idle) (iax_session_new 7 g idle) = Some (r, st')"
proof
  fix g
  have "reachable idle" by (rule reachable.init) (simp_all add: idle_def)
  then have "reachable (iax_session_new 7 g idle)"
    by (rule reachable.step) (rule client_step.session, simp add: ids_def idle_def)
  from sched_loop_returns[OF this, of 5]
  show "\<exists>r st'. sched_loop 5 (st_now idle) (iax_session_new 7 g idle) = Some (r, st')"
    by (auto simp: iax_session_new_def idle_def)
qed

end
