(* ===== verification/Iaxc_Codec.thy ===== *)
theory Iaxc_Codec
  imports Prelude
begin

text \<open>
  The codecs of \<open>iaxclient\<close> (\<open>src/iaxclient/lib\<close>): \<open>codec_ulaw.c\<close> with its tables, \<open>codec_alaw.c\<close>,
  and the loops over frames of \<open>codec_gsm.c\<close>. A sample is a word of 16 bits, read as signed. The
  packet loss concealment of \<open>spandsp\<close> and the GSM coder itself are parameters.
\<close>

section \<open>The tables of ulaw\<close>

text \<open>One entry of \<open>ulaw_2lin\<close>.\<close>

definition exp_lut8 :: "int list" where
  "exp_lut8 = [0, 132, 396, 924, 1980, 4092, 8316, 16764]"

definition ulaw_lin :: "int \<Rightarrow> int" where
  "ulaw_lin i =
     (let b = NOT i;
          sign = b AND 0x80;
          exponent = nat (drop_bit 4 b AND 7);
          mantissa = b AND 15;
          sample = exp_lut8 ! exponent + push_bit (exponent + 3) mantissa
      in if sign \<noteq> 0 then - sample else sample)"

definition ulaw_2lin :: "u16 list" where
  "ulaw_2lin = map (\<lambda>i. word_of_int (ulaw_lin (int i))) [0..<256]"

text \<open>One entry of \<open>lin_2ulaw\<close>, with the exponents from their table.\<close>

definition exp_lut :: "nat list" where
  "exp_lut = replicate 2 0 @ replicate 2 1 @ replicate 4 2 @ replicate 8 3 @ replicate 16 4 @
             replicate 32 5 @ replicate 64 6 @ replicate 128 7"

definition ulaw_byte :: "int \<Rightarrow> u8" where
  "ulaw_byte i =
     (let sign = drop_bit 8 i AND 0x80;
          sample = (if sign \<noteq> 0 then - i else i);
          sample = (if 32635 < sample then 32635 else sample);
          sample = sample + 0x84;
          exponent = exp_lut ! nat (drop_bit 7 sample AND 0xFF);
          mantissa = drop_bit (exponent + 3) sample AND 15;
          ulawbyte = (word_of_int (NOT (sign OR push_bit 4 (int exponent) OR mantissa)) :: u8)
      in if ulawbyte = 0 then 2 else ulawbyte)"

definition ulaw_index :: "u16 \<Rightarrow> nat" where
  "ulaw_index s = unat (drop_bit 2 s)"

text \<open>The loop that fills the table, in steps of four.\<close>

function lin_loop :: "int \<Rightarrow> u8 list \<Rightarrow> u8 list" where
  "lin_loop i t = (if i < 32768 then lin_loop (i + 4) (t[ulaw_index (word_of_int i) := ulaw_byte i]) else t)"
  by auto

termination
  by (relation "measure (\<lambda>(i, _). nat (32768 - i))") auto

declare lin_loop.simps [simp del]

definition lin_2ulaw :: "u8 list" where
  "lin_2ulaw = lin_loop (- 32767) (replicate 16384 0)"

definition ulaw_encode1 :: "u16 \<Rightarrow> u8" where
  "ulaw_encode1 s = lin_2ulaw ! ulaw_index s"

definition ulaw_decode1 :: "u8 \<Rightarrow> u16" where
  "ulaw_decode1 b = ulaw_2lin ! unat b"

section \<open>alaw\<close>

definition alawdecode :: "u8 \<Rightarrow> u16" where
  "alawdecode alaw =
     (let a = uint (alaw XOR 0x55);
          value = push_bit 4 (a AND 0x0F);
          segment = nat (drop_bit 4 (a AND 0x70));
          value = (if segment = 0 then value else if segment = 1 then value + 0x100
                   else push_bit (segment - 1) (value + 0x100))
      in word_of_int (if a AND 0x80 \<noteq> 0 then value else - value))"

definition alaw_segments :: "int list" where
  "alaw_segments = [0xFF, 0x1FF, 0x3FF, 0x7FF, 0xFFF, 0x1FFF, 0x3FFF, 0x7FFF]"

text \<open>The negation is stored into a \<open>short\<close>, where -32768 has no opposite.\<close>

definition alawencode :: "u16 \<Rightarrow> u8" where
  "alawencode linear =
     (let mask = (if 0 \<le> sint linear then 0xD5 else 0x55 :: int);
          x = sint (if 0 \<le> sint linear then linear else - linear);
          segment = length (takeWhile (\<lambda>b. b < x) alaw_segments)
      in if segment < 8
         then let alaw = (if segment < 2 then drop_bit 4 x AND 0x0F else drop_bit (segment + 3) x AND 0x0F)
              in word_of_int ((alaw OR push_bit 4 (int segment)) XOR mask)
         else word_of_int (0x7F XOR mask))"

section \<open>Coders\<close>

text \<open>
  The interpolation of lost packets: its state, what it fills in, and what it is shown.
\<close>

record 'p plc =
  plc_fillin :: "'p \<Rightarrow> nat \<Rightarrow> u16 list \<times> 'p"
  plc_rx :: "'p \<Rightarrow> u16 list \<Rightarrow> 'p"

text \<open>
  A decoder is given bytes and the room for samples. It returns the bytes left, the samples and its
  state, or \<open>None\<close> for an error. The ones of ulaw and alaw take a byte for a sample; without bytes they
  interpolate.
\<close>

definition interpolate :: "'p plc \<Rightarrow> nat \<Rightarrow> 'p \<Rightarrow> (u8 list \<times> u16 list \<times> 'p) option" where
  "interpolate plc outlen p =
     (let (out, p) = plc_fillin plc p (if outlen < 160 then outlen else 160) in Some ([], out, p))"

fun g711_loop :: "(u8 \<Rightarrow> u16) \<Rightarrow> u8 list \<Rightarrow> nat \<Rightarrow> u8 list \<times> u16 list" where
  "g711_loop f [] outlen = ([], [])"
| "g711_loop f (b # bs) 0 = (b # bs, [])"
| "g711_loop f (b # bs) (Suc n) = (let (rest, out) = g711_loop f bs n in (rest, f b # out))"

definition g711_decode :: "(u8 \<Rightarrow> u16) \<Rightarrow> 'p plc \<Rightarrow> u8 list \<Rightarrow> nat \<Rightarrow> 'p \<Rightarrow> (u8 list \<times> u16 list \<times> 'p) option" where
  "g711_decode f plc bytes outlen p =
     (if bytes = [] then interpolate plc outlen p
      else let (rest, out) = g711_loop f bytes outlen in Some (rest, out, plc_rx plc p out))"

definition ulaw_decode :: "'p plc \<Rightarrow> u8 list \<Rightarrow> nat \<Rightarrow> 'p \<Rightarrow> (u8 list \<times> u16 list \<times> 'p) option" where
  "ulaw_decode = g711_decode ulaw_decode1"

definition alaw_decode :: "'p plc \<Rightarrow> u8 list \<Rightarrow> nat \<Rightarrow> 'p \<Rightarrow> (u8 list \<times> u16 list \<times> 'p) option" where
  "alaw_decode = g711_decode alawdecode"

text \<open>The encoders: samples left and bytes, in the room given.\<close>

fun g711_encode :: "(u16 \<Rightarrow> u8) \<Rightarrow> u16 list \<Rightarrow> nat \<Rightarrow> u16 list \<times> u8 list" where
  "g711_encode f [] outlen = ([], [])"
| "g711_encode f (s # ss) 0 = (s # ss, [])"
| "g711_encode f (s # ss) (Suc n) = (let (rest, out) = g711_encode f ss n in (rest, f s # out))"

definition ulaw_encode :: "u16 list \<Rightarrow> nat \<Rightarrow> u16 list \<times> u8 list" where
  "ulaw_encode = g711_encode ulaw_encode1"

definition alaw_encode :: "u16 list \<Rightarrow> nat \<Rightarrow> u16 list \<times> u8 list" where
  "alaw_encode = g711_encode alawencode"

text \<open>GSM: 33 bytes are 160 samples. The coder is a function on its state, and may fail on a frame.\<close>

record 'g gsm =
  gsm_decode :: "'g \<Rightarrow> u8 list \<Rightarrow> (u16 list \<times> 'g) option"
  gsm_encode :: "'g \<Rightarrow> u16 list \<Rightarrow> u8 list \<times> 'g"

function gsm_decode_loop :: "'g gsm \<Rightarrow> 'p plc \<Rightarrow> u8 list \<Rightarrow> nat \<Rightarrow> 'g \<times> 'p \<Rightarrow> (u8 list \<times> u16 list \<times> 'g \<times> 'p) option" where
  "gsm_decode_loop g plc bytes outlen st =
     (if 33 \<le> length bytes \<and> 160 \<le> outlen
      then case gsm_decode g (fst st) (take 33 bytes) of
             None \<Rightarrow> None
           | Some (out, gs) \<Rightarrow>
               map_option (\<lambda>(rest, out', st). (rest, out @ out', st))
                 (gsm_decode_loop g plc (drop 33 bytes) (outlen - 160) (gs, plc_rx plc (snd st) out))
      else Some (bytes, [], st))"
  by auto

termination
  by (relation "measure (\<lambda>(_, _, bytes, _, _). length bytes)") auto

declare gsm_decode_loop.simps [simp del]

definition gsm_codec_decode :: "'g gsm \<Rightarrow> 'p plc \<Rightarrow> u8 list \<Rightarrow> nat \<Rightarrow> 'g \<times> 'p \<Rightarrow> (u8 list \<times> u16 list \<times> 'g \<times> 'p) option" where
  "gsm_codec_decode g plc bytes outlen st =
     (if bytes = []
      then map_option (\<lambda>(rest, out, p). (rest, out, fst st, p)) (interpolate plc outlen (snd st))
      else gsm_decode_loop g plc bytes outlen st)"

function gsm_codec_encode :: "'g gsm \<Rightarrow> u16 list \<Rightarrow> nat \<Rightarrow> 'g \<Rightarrow> u16 list \<times> u8 list \<times> 'g" where
  "gsm_codec_encode g samples outlen st =
     (if 160 \<le> length samples \<and> 33 \<le> outlen
      then let (bytes, st) = gsm_encode g st (take 160 samples);
               (rest, out, st) = gsm_codec_encode g (drop 160 samples) (outlen - 33) st
           in (rest, bytes @ out, st)
      else (samples, [], st))"
  by auto

termination
  by (relation "measure (\<lambda>(_, samples, _, _). length samples)") auto

declare gsm_codec_encode.simps [simp del]

section \<open>What every decoder promises\<close>

text \<open>
  The part of the contract on which the call layer relies: a decoder takes its bytes from the front
  and stays inside the room for the samples.
\<close>

locale decoder =
  fixes decode :: "u8 list \<Rightarrow> nat \<Rightarrow> 's \<Rightarrow> (u8 list \<times> u16 list \<times> 's) option"
  assumes takes_front: "decode bytes outlen st = Some (rest, out, st') \<Longrightarrow> \<exists>n. rest = drop n bytes"
    and stays_inside: "bytes \<noteq> [] \<Longrightarrow> decode bytes outlen st = Some (rest, out, st') \<Longrightarrow> length out \<le> outlen"
begin

lemma takes_at_most: "decode bytes outlen st = Some (rest, out, st') \<Longrightarrow> length rest \<le> length bytes"
  using takes_front by fastforce

lemma no_room_no_output: "bytes \<noteq> [] \<Longrightarrow> decode bytes 0 st = Some (rest, out, st') \<Longrightarrow> out = []"
  using stays_inside by fastforce

end

lemma g711_loop_eq: "g711_loop f bs n = (drop n bs, map f (take n bs))"
  by (induction f bs n rule: g711_loop.induct) auto

lemma g711_decode_contract:
  "g711_decode f plc bytes outlen st = Some (rest, out, st') \<Longrightarrow>
     (\<exists>n. rest = drop n bytes) \<and> (bytes \<noteq> [] \<longrightarrow> length out \<le> outlen)"
  by (auto simp: g711_decode_def interpolate_def g711_loop_eq split: if_splits prod.splits)

interpretation ulaw: decoder "ulaw_decode plc" for plc
  by unfold_locales (auto simp: ulaw_decode_def dest: g711_decode_contract)

interpretation alaw: decoder "alaw_decode plc" for plc
  by unfold_locales (auto simp: alaw_decode_def dest: g711_decode_contract)

text \<open>The GSM coder of the library makes 160 samples of a frame.\<close>

lemma gsm_loop_contract:
  assumes frames: "\<And>s b out s'. gsm_decode g s b = Some (out, s') \<Longrightarrow> length out = 160"
  shows "gsm_decode_loop g plc bytes outlen st = Some (rest, out, st') \<Longrightarrow>
     (\<exists>k. rest = drop (33 * k) bytes \<and> length out = 160 * k) \<and> length out \<le> outlen \<and>
     (length rest < 33 \<or> outlen - length out < 160)"
proof (induction "length bytes" arbitrary: bytes outlen st rest out rule: less_induct)
  case less
  show ?case
  proof (cases "33 \<le> length bytes \<and> 160 \<le> outlen")
    case False
    then have "rest = bytes" "out = []" using less(2) by (subst (asm) gsm_decode_loop.simps; auto)+
    then show ?thesis using False by (auto intro!: exI[of _ 0])
  next
    case True
    obtain o1 gs where g: "gsm_decode g (fst st) (take 33 bytes) = Some (o1, gs)"
      using less(2) True by (subst (asm) gsm_decode_loop.simps) (auto split: option.splits)
    obtain o2 where r: "gsm_decode_loop g plc (drop 33 bytes) (outlen - 160) (gs, plc_rx plc (snd st) o1) = Some (rest, o2, st')"
      and out: "out = o1 @ o2"
      using less(2) True g by (subst (asm) gsm_decode_loop.simps) auto
    have "length (drop 33 bytes) < length bytes" using True by (cases bytes) auto
    from less(1)[OF this r] obtain k where k: "rest = drop (33 * k) (drop 33 bytes)" "length o2 = 160 * k"
      "length o2 \<le> outlen - 160" "length rest < 33 \<or> outlen - 160 - length o2 < 160" by auto
    moreover have "length o1 = 160" using frames[OF g] .
    ultimately show ?thesis using True out by (intro conjI exI[of _ "Suc k"]) (auto simp: algebra_simps)
  qed
qed

end
