(* ===== verification/Iaxc_Codec_Props.thy ===== *)
theory Iaxc_Codec_Props
  imports Iaxc_Codec
begin

text \<open>
  What the codecs of G.711 do to a sample: the table of ulaw against the function it tabulates, and the
  accuracy of both codecs.
\<close>

section \<open>The table of ulaw\<close>

lemma length_lin_loop [simp]: "length (lin_loop i t) = length t"
proof (induction i t rule: lin_loop.induct)
  case (1 i t)
  then show ?case by (subst lin_loop.simps) simp
qed

lemma ulaw_index_of_int: "ulaw_index (word_of_int i) = nat (i mod 65536 div 4)"
  by (simp add: ulaw_index_def drop_bit_eq_div unat_div unsigned_of_int take_bit_eq_mod nat_div_distrib)

lemma ulaw_index_inj:
  assumes "i mod 4 = 1" "m mod 4 = 1" "- 32768 \<le> i" "i < 32768" "- 32768 \<le> m" "m < 32768"
    and "ulaw_index (word_of_int i) = ulaw_index (word_of_int m)"
  shows "i = m"
proof -
  have "i mod 65536 div 4 = m mod 65536 div 4"
    using assms(7) by (simp add: ulaw_index_of_int eq_nat_nat_iff)
  moreover have "i mod 65536 mod 4 = 1" "m mod 65536 mod 4 = 1" using assms(1,2) by (simp_all add: mod_mod_cancel)
  ultimately have "i mod 65536 = m mod 65536"
    using div_mult_mod_eq[of "i mod 65536" 4] div_mult_mod_eq[of "m mod 65536" 4] by linarith
  then have "65536 dvd i - m" by (simp add: mod_eq_dvd_iff)
  moreover have "\<bar>i - m\<bar> < 65536" using assms(3-6) by linarith
  ultimately show ?thesis using zdvd_imp_le[of 65536 "\<bar>i - m\<bar>"] by fastforce
qed

lemma lin_loop_fills:
  assumes "m mod 4 = 1" "- 32768 \<le> m" "m < 32768"
  shows "i mod 4 = 1 \<Longrightarrow> - 32768 \<le> i \<Longrightarrow> length t = 16384 \<Longrightarrow>
    lin_loop i t ! ulaw_index (word_of_int m) = (if i \<le> m then ulaw_byte m else t ! ulaw_index (word_of_int m))"
proof (induction i t rule: lin_loop.induct)
  case (1 i t)
  show ?case
  proof (cases "i < 32768")
    case False
    then show ?thesis using assms(3) by (subst lin_loop.simps) simp
  next
    case True
    have b: "ulaw_index (word_of_int m) < 16384" by (simp add: ulaw_index_of_int nat_less_iff)
    have n: "(i + 4) mod 4 = 1" using 1(2) by simp
    have s: "lin_loop i t = lin_loop (i + 4) (t[ulaw_index (word_of_int i) := ulaw_byte i])"
      using True by (subst lin_loop.simps) simp
    have IH: "lin_loop i t ! ulaw_index (word_of_int m) =
        (if i + 4 \<le> m then ulaw_byte m else t[ulaw_index (word_of_int i) := ulaw_byte i] ! ulaw_index (word_of_int m))"
      unfolding s using 1(1)[OF True n] 1(3,4) by simp
    show ?thesis
    proof (cases "i = m")
      case True
      then show ?thesis using IH b 1(4) by simp
    next
      case False
      then have "ulaw_index (word_of_int i) \<noteq> ulaw_index (word_of_int m)"
        using ulaw_index_inj 1(2,3) \<open>i < 32768\<close> assms by blast
      moreover have "i \<le> m \<longleftrightarrow> i + 4 \<le> m" using False assms(1) 1(2) by presburger
      ultimately show ?thesis using IH by simp
    qed
  qed
qed

lemma sint_u16_bounds: "- 32768 \<le> sint (s :: u16)" "sint (s :: u16) < 32768"
  using sint_greater_eq[of s] sint_less[of s] by simp_all

lemma ulaw_encode1_eq: "ulaw_encode1 s = ulaw_byte (4 * (sint s div 4) + 1)"
proof -
  define m where "m = 4 * (sint s div 4) + 1"
  have m: "m mod 4 = 1" "- 32768 \<le> m" "m < 32768" "- 32767 \<le> m"
    using sint_u16_bounds[of s] by (simp_all add: m_def mod_mult_self4 mod_add_eq) presburger+
  have q: "k mod 65536 div 4 = k div 4 mod 16384" for k :: int
    using mod_mult2_eq'[of k 4 16384] by simp
  have "m div 4 = sint s div 4" by (simp add: m_def)
  then have "sint s mod 65536 div 4 = m mod 65536 div 4" by (simp add: q)
  then have "ulaw_index s = ulaw_index (word_of_int m)"
    using ulaw_index_of_int[of "sint s"] by (simp add: ulaw_index_of_int)
  then have "ulaw_encode1 s = ulaw_byte m"
    using lin_loop_fills[OF m(1-3), of "- 32767"] m(4) by (simp add: ulaw_encode1_def lin_2ulaw_def)
  then show ?thesis by (simp add: m_def)
qed

text \<open>
  The table of the ulaw encoder, filled in steps of four from -32767 on, has all its entries: looking up a
  sample gives what the conversion of the code gives for the second of the four samples that share the entry, and so no
  entry is left at its initial value.
\<close>
theorem ulaw_table_complete:
  "ulaw_encode1 s = ulaw_byte (4 * (sint s div 4) + 1)"
  by (rule ulaw_encode1_eq)

section \<open>Accuracy of ulaw\<close>

lemma and_two_power: "k AND 2 ^ n = (if bit k n then 2 ^ n else (0 :: int))"
  by (rule bit_eqI) (auto simp: bit_and_iff bit_exp_iff)

lemma sign_bit:
  assumes "- 32768 \<le> m" "m < 32768"
  shows "drop_bit 8 m AND 0x80 = (if m < 0 then 128 else (0::int))"
proof -
  have "m div 32768 = (if m < 0 then -1 else 0)" using assms by auto
  then have "bit (drop_bit 8 m) 7 \<longleftrightarrow> m < 0" by (simp add: bit_drop_bit_eq bit_iff_odd)
  then show ?thesis using and_two_power[of "drop_bit 8 m" 7] by simp
qed

lemma exp_lut_nth:
  "n < 256 \<Longrightarrow> exp_lut ! n = (if n < 2 then 0 else if n < 4 then 1 else if n < 8 then 2 else if n < 16 then 3
     else if n < 32 then 4 else if n < 64 then 5 else if n < 128 then 6 else 7)"
  by (auto simp: exp_lut_def nth_append)

lemma exp_lut_range:
  assumes "128 \<le> s" "s < 32768"
  obtains e where "exp_lut ! nat (drop_bit 7 s AND 0xFF) = e" "e \<in> set [0, 1, 2, 3, 4, 5, 6, 7]"
    "128 * 2 ^ e \<le> s" "s < 256 * (2 :: int) ^ e"
proof -
  have "s div 128 AND 0xFF = s div 128"
    using assms take_bit_eq_mask[of 8 "s div 128"] by (simp add: mask_numeral take_bit_eq_mod)
  then have k: "drop_bit 7 s AND 0xFF = s div 128" by (simp add: drop_bit_eq_div)
  have l: "nat (s div 128) < 256" using assms by (simp add: nat_less_iff)
  show ?thesis
    by (rule that[of "exp_lut ! nat (s div 128)"])
      (use k l assms in \<open>auto simp: exp_lut_nth nat_less_iff\<close>)
qed

lemma ulaw_decode1_eq: "ulaw_decode1 b = word_of_int (ulaw_lin (uint b))"
proof -
  have "unat b < 2 ^ LENGTH(8)" by (rule unsigned_less)
  then show ?thesis by (simp add: ulaw_decode1_def ulaw_2lin_def)
qed

definition nibbles :: "int list" where
  "nibbles = [0, 1, 2, 3, 4, 5, 6, 7, 8, 9, 10, 11, 12, 13, 14, 15]"

lemma nibbles_mod: "k mod 16 \<in> set nibbles"
proof -
  have "0 \<le> k mod 16" "k mod 16 < 16" by simp_all
  then show ?thesis unfolding nibbles_def list.set by simp presburger
qed

text \<open>A byte stands for the middle of the interval of its exponent and mantissa.\<close>

lemma ulaw_lin_middle:
  "\<forall>e\<in>set [0, 1, 2, 3, 4, 5, 6, 7]. \<forall>a\<in>set nibbles. \<forall>neg\<in>set [False, True].
     (let b = (word_of_int (NOT ((if neg then 128 else 0) OR push_bit 4 (int e) OR a)) :: u8);
          v = (16 + a) * (8 * 2 ^ e) + 4 * 2 ^ e - 132
      in ulaw_lin (uint b) = (if neg then - v else v) \<and> (b = 0 \<longleftrightarrow> neg \<and> e = 7 \<and> a = 15))"
  by code_simp

lemma div_bounds:
  fixes p :: int
  assumes "0 < p" "k * p \<le> s" "s < 2 * k * p"
  shows "k \<le> s div p" "s div p < 2 * k"
proof -
  show "k \<le> s div p" using zdiv_mono1[OF assms(2,1)] assms(1) by simp
  have "s div p * p \<le> s" using assms(1) by (simp add: pos_mod_sign minus_mod_eq_div_mult [symmetric])
  then have "s div p * p < 2 * k * p" using assms(3) by linarith
  then show "s div p < 2 * k" using assms(1) mult_less_cancel_right_pos by blast
qed

lemma ulaw_byte_value:
  assumes m: "- 32768 < m" "m < 32768"
  defines "s \<equiv> min \<bar>m\<bar> 32635 + 132"
  obtains e where "e \<in> set [0, 1, 2, 3, 4, 5, 6, 7 :: nat]" "128 * 2 ^ e \<le> s" "s < 256 * 2 ^ e"
    "let v = s div (8 * 2 ^ e) * (8 * 2 ^ e) + 4 * 2 ^ e - 132
     in if m < 0 \<and> e = 7 \<and> s div (8 * 2 ^ e) = 31 then ulaw_byte m = 2
        else ulaw_lin (uint (ulaw_byte m)) = (if m < 0 then - v else v)"
proof -
  have s: "128 \<le> s" "s < 32768" unfolding s_def by linarith+
  obtain e where e: "exp_lut ! nat (drop_bit 7 s AND 0xFF) = e" "e \<in> set [0, 1, 2, 3, 4, 5, 6, 7]"
    "128 * 2 ^ e \<le> s" "s < 256 * (2 :: int) ^ e" using exp_lut_range[OF s] by blast
  define q where "q = s div (8 * 2 ^ e)"
  have q: "16 \<le> q" "q < 32"
    using div_bounds[of "8 * 2 ^ e" 16 s] e(3,4) by (simp_all add: q_def)
  have a: "drop_bit (e + 3) s AND 15 = q mod 16"
    using take_bit_eq_mask[of 4 q] by (simp add: mask_numeral take_bit_eq_mod drop_bit_eq_div q_def power_add mult.commute)
  have q16: "q = 16 + q mod 16" using q by presburger
  show ?thesis
  proof (rule that[OF e(2-4)], unfold q_def [symmetric])
    have "(let v = q * (8 * 2 ^ e) + 4 * 2 ^ e - 132; b = (word_of_int (NOT ((if m < 0 then 128 else 0) OR push_bit 4 (int e) OR q mod 16)) :: u8)
        in ulaw_lin (uint b) = (if m < 0 then - v else v) \<and> (b = 0 \<longleftrightarrow> m < 0 \<and> e = 7 \<and> q mod 16 = 15))"
      using ulaw_lin_middle e(2) nibbles_mod[of q] q16 unfolding Let_def by (cases "m < 0") (fastforce+)
    moreover have f: "(if 32635 < (if (if m < 0 then 128 else (0 :: int)) \<noteq> 0 then - m else m) then 32635
        else (if (if m < 0 then 128 else (0 :: int)) \<noteq> 0 then - m else m)) + 132 = s"
      by (auto simp: s_def)
    have "ulaw_byte m = (let b = word_of_int (NOT ((if m < 0 then 128 else 0) OR push_bit 4 (int e) OR q mod 16)) in if b = 0 then 2 else b)"
      unfolding ulaw_byte_def Let_def sign_bit[OF less_imp_le[OF m(1)] m(2)] f e(1) a by (rule refl)
    ultimately show "let v = q * (8 * 2 ^ e) + 4 * 2 ^ e - 132
      in if m < 0 \<and> e = 7 \<and> q = 31 then ulaw_byte m = 2 else ulaw_lin (uint (ulaw_byte m)) = (if m < 0 then - v else v)"
      using q16 q by (auto simp: Let_def)
  qed
qed

lemma sint_u16_of_int: "- 32768 \<le> v \<Longrightarrow> v < 32768 \<Longrightarrow> sint (word_of_int v :: u16) = v"
  by (simp add: signed_of_int signed_take_bit_int_eq_self)

lemma ulaw_error:
  fixes v z h n :: int
  assumes "\<bar>v + 132 - z\<bar> \<le> h" "32 * h \<le> z" "h \<le> 512" "n < 32768" "z = n + 132 \<or> z = 32767 \<and> 32635 < n"
  shows "32 * \<bar>v - n\<bar> \<le> n + 132"
  using assms by (auto simp: abs_if split: if_splits)

definition ulaw_middle :: "u16 \<Rightarrow> int" where
  "ulaw_middle s = 4 * (sint s div 4) + 1"

text \<open>
  C39. What becomes of a sample that is sent and received with ulaw: the error against the second of the four
  samples that share its entry is at most a thirty-second of its size, plus four; the samples below -31611 all
  come out as -30076, since their code is 0, which the optional CCITT trap of the encoder replaces by 2.
\<close>
theorem ulaw_accuracy:
  "(let m = ulaw_middle s; y = sint (ulaw_decode1 (ulaw_encode1 s))
    in \<bar>m - sint s\<bar> < 3 \<and> (if m < - 31611 then y = - 30076 else 32 * \<bar>y - m\<bar> \<le> \<bar>m\<bar> + 132))"
proof -
  define m where "m = ulaw_middle s"
  have m: "- 32768 < m" "m < 32768" "\<bar>m - sint s\<bar> < 3"
    using sint_u16_bounds[of s] unfolding m_def ulaw_middle_def by presburger+
  define z where "z = min \<bar>m\<bar> 32635 + 132"
  obtain e where e: "e \<in> set [0, 1, 2, 3, 4, 5, 6, 7 :: nat]" "128 * 2 ^ e \<le> z" "z < 256 * 2 ^ e"
    and b: "let v = z div (8 * 2 ^ e) * (8 * 2 ^ e) + 4 * 2 ^ e - 132
     in if m < 0 \<and> e = 7 \<and> z div (8 * 2 ^ e) = 31 then ulaw_byte m = 2
        else ulaw_lin (uint (ulaw_byte m)) = (if m < 0 then - v else v)"
    using ulaw_byte_value[OF m(1,2)] unfolding z_def by blast
  define p :: int where "p = 8 * 2 ^ e"
  define q where "q = z div p"
  have p: "0 < p" "16 * p \<le> z" "z < 32 * p" "p \<le> 1024" "4 * 2 ^ e = p div 2" "2 * (p div 2) = p"
    using e by (auto simp: p_def)
  have q: "q * p \<le> z" "z < q * p + p" "q < 32"
    using p div_mult_mod_eq[of z p] pos_mod_bound[OF p(1), of z] pos_mod_sign[OF p(1), of z] div_bounds(2)[of p 16 z]
    unfolding q_def by linarith+
  have top: "m < - 31611 \<longleftrightarrow> m < 0 \<and> e = 7 \<and> q = 31"
    using e p(2,3) by (auto simp: z_def q_def p_def min_def split: if_splits)
  have y: "sint (ulaw_decode1 (ulaw_encode1 s)) = sint (word_of_int (ulaw_lin (uint (ulaw_byte m))) :: u16)"
    by (simp add: ulaw_encode1_eq ulaw_decode1_eq m_def ulaw_middle_def)
  show ?thesis
  proof (cases "m < - 31611")
    case True
    then have "m < 0 \<and> e = 7 \<and> z div (8 * 2 ^ e) = 31"
      using top unfolding q_def p_def by blast
    then have "ulaw_byte m = 2" using b unfolding Let_def by (auto split: if_splits)
    moreover have "sint (word_of_int (ulaw_lin (uint (2 :: u8))) :: u16) = - 30076" by code_simp
    ultimately show ?thesis using True y m(3) by (simp add: m_def)
  next
    case False
    define v where "v = z div (8 * 2 ^ e) * (8 * 2 ^ e) + 4 * 2 ^ e - 132"
    have v_eq: "v = q * p + p div 2 - 132" unfolding v_def q_def p_def using p(5) p_def by simp
    have nt: "\<not> (m < 0 \<and> e = 7 \<and> z div (8 * 2 ^ e) = 31)" using False top unfolding q_def p_def by blast
    have b32: "128 \<le> z" "z < 32768" unfolding z_def using m by linarith+
    have "ulaw_lin (uint (ulaw_byte m)) = (if m < 0 then - v else v)"
      using b unfolding Let_def if_not_P[OF nt] v_def .
    have "16 * p \<le> q * p" using div_bounds(1)[of p 16 z] p unfolding q_def by (intro mult_right_mono) linarith+
    have q31: "q * p \<le> 31 * p" using q(3) p(1) by (intro mult_right_mono) linarith+
    have p8: "8 \<le> p" unfolding p_def by simp
    have v: "\<bar>v + 132 - z\<bar> \<le> p div 2" "0 \<le> v" "v < 32768"
      using q(1,2) q31 \<open>16 * p \<le> q * p\<close> p8 p(2-4,6) b32 unfolding v_eq by linarith+
    with \<open>ulaw_lin (uint (ulaw_byte m)) = _\<close> have "sint (ulaw_decode1 (ulaw_encode1 s)) = (if m < 0 then - v else v)"
      using y by (simp add: sint_u16_of_int)
    moreover have "32 * \<bar>(if m < 0 then - v else v) - m\<bar> \<le> \<bar>m\<bar> + 132"
    proof -
      have "z = \<bar>m\<bar> + 132 \<or> z = 32767 \<and> 32635 < \<bar>m\<bar>" unfolding z_def by linarith
      then have "32 * \<bar>v - \<bar>m\<bar>\<bar> \<le> \<bar>m\<bar> + 132"
        using ulaw_error[of v z "p div 2" "\<bar>m\<bar>"] v(1) p(2,4,6) m(1,2) by linarith
      then show ?thesis by (cases "m < 0") (auto simp: abs_minus_commute[of "- v" m] abs_minus_commute[of v m] add.commute)
    qed
    ultimately show ?thesis using False m(3) by (simp add: m_def)
  qed
qed

section \<open>Accuracy of alaw\<close>

text \<open>The coding of a magnitude: the segment and four bits below the leading one.\<close>

lemma alaw_lin_floor:
  "\<forall>k\<in>set [0, 1, 2, 3, 4, 5, 6, 7]. \<forall>a\<in>set nibbles. \<forall>neg\<in>set [False, True].
     (let b = (word_of_int ((a OR push_bit 4 (int k)) XOR (if neg then 0x55 else 0xD5)) :: u8);
          v = (if k = 0 then 16 * a else (16 + a) * (8 * 2 ^ k))
      in alawdecode b = word_of_int (if neg then - v else v))"
  by code_simp

lemma alaw_segment:
  assumes "0 \<le> x" "x < 32768"
  shows "length (takeWhile (\<lambda>b. b < x) alaw_segments) =
    (if x < 256 then 0 else if x < 512 then 1 else if x < 1024 then 2 else if x < 2048 then 3
     else if x < 4096 then 4 else if x < 8192 then 5 else if x < 16384 then 6 else 7)"
  using assms by (auto simp: alaw_segments_def)

lemma below_leading:
  fixes x p :: int
  assumes "0 < p" "16 * p \<le> x" "x < 32 * p"
  shows "16 * p + x div p mod 16 * p \<le> x" "x < 16 * p + x div p mod 16 * p + p"
proof -
  have "16 \<le> x div p" "x div p < 32" using div_bounds[of p 16 x] assms by simp_all
  moreover have "16 \<le> q \<Longrightarrow> q < 32 \<Longrightarrow> q mod 16 = q - 16" for q :: int by presburger
  ultimately have "x div p mod 16 = x div p - 16" by blast
  then have e: "16 * p + x div p mod 16 * p = x div p * p" by (simp add: distrib_right [symmetric])
  show "16 * p + x div p mod 16 * p \<le> x" "x < 16 * p + x div p mod 16 * p + p"
    unfolding e using div_mult_mod_eq[of x p] pos_mod_bound[OF assms(1), of x] pos_mod_sign[OF assms(1), of x] by linarith+
qed

lemma alaw_magnitude:
  assumes x: "0 \<le> x" "x < 32768"
  obtains k v where "k \<in> set [0, 1, 2, 3, 4, 5, 6, 7 :: nat]" "length (takeWhile (\<lambda>b. b < x) alaw_segments) = k"
    "v = (let a = drop_bit (if k < 2 then 4 else k + 3) x AND 0x0F in if k = 0 then 16 * a else (16 + a) * (8 * 2 ^ k))"
    "v \<le> x" "16 * (x - v) < max 256 (x + 1)" "0 \<le> v"
proof -
  have m: "drop_bit n x AND 0x0F = x div 2 ^ n mod 16" for n
    using take_bit_eq_mask[of 4 "drop_bit n x"] by (simp add: mask_numeral take_bit_eq_mod drop_bit_eq_div)
  show ?thesis
  proof (cases "x < 256")
    case True
    moreover have "x div 16 * 16 \<le> x" "x < x div 16 * 16 + 16" by presburger+
    moreover have "16 * (x - x div 16 * 16) < max 256 (x + 1)"
      using pos_mod_bound[of 16 x] unfolding less_max_iff_disj minus_div_mult_eq_mod by simp
    ultimately show ?thesis using x True
      by (intro that[of 0 "x div 16 * 16"]) (simp_all add: alaw_segment m mult.commute)
  next
    case False
    then obtain k where k: "k \<in> set [1, 2, 3, 4, 5, 6, 7]" "128 * 2 ^ k \<le> x" "x < 256 * 2 ^ k"
      "length (takeWhile (\<lambda>b. b < x) alaw_segments) = k"
      using x by (cases rule: that[of "length (takeWhile (\<lambda>b. b < x) alaw_segments)"]) (auto simp: alaw_segment)
    define p :: int where "p = 8 * 2 ^ k"
    have n: "(if k < 2 then 4 else k + 3) = k + 3" "(2 :: int) ^ (k + 3) = p" using k(1) by (auto simp: p_def)
    have p: "0 < p" "16 * p \<le> x" "x < 32 * p" using k by (simp_all add: p_def)
    have k0: "k \<noteq> 0" using k(1) by auto
    define v where "v = 16 * p + x div p mod 16 * p"
    have "v = (let a = drop_bit (if k < 2 then 4 else k + 3) x AND 0x0F in if k = 0 then 16 * a else (16 + a) * (8 * 2 ^ k))"
      unfolding Let_def n m if_not_P[OF k0] p_def [symmetric] v_def by (simp add: distrib_right)
    moreover have "v \<le> x" "16 * (x - v) < max 256 (x + 1)" "0 \<le> v"
      using below_leading[OF p] p mult_nonneg_nonneg[of "x div p mod 16" p] unfolding v_def by simp_all
    ultimately show ?thesis using k(1,4) by (intro that[of k v]) auto
  qed
qed

text \<open>
  C40. What becomes of a sample that is sent and received with alaw: it never grows, and loses less than a
  sixteenth of its size, or of 256 for the small ones. The one exception is the sample -32768, whose
  negation does not fit a \<open>short\<close>: it comes out as silence.
\<close>
theorem alaw_accuracy:
  "(let y = sint (alawdecode (alawencode s))
    in if sint s = - 32768 then y = 0
       else \<bar>y\<bar> \<le> \<bar>sint s\<bar> \<and> 16 * (\<bar>sint s\<bar> - \<bar>y\<bar>) < max 256 (\<bar>sint s\<bar> + 1) \<and> (y \<noteq> 0 \<longrightarrow> sgn y = sgn (sint s)))"
proof (cases "sint s = - 32768")
  case True
  have "(word_of_int (- 32768) :: u16) = 32768" by code_simp
  moreover have "s = word_of_int (sint s)" by simp
  ultimately have "s = 32768" unfolding True by simp
  moreover have "sint (alawdecode (alawencode (32768 :: u16))) = 0" by code_simp
  ultimately show ?thesis using True by simp
next
  case False
  define x where "x = \<bar>sint s\<bar>"
  have x: "0 \<le> x" "x < 32768" using sint_u16_bounds[of s] False by (simp_all add: x_def)
  obtain k v where k: "k \<in> set [0, 1, 2, 3, 4, 5, 6, 7 :: nat]" "length (takeWhile (\<lambda>b. b < x) alaw_segments) = k"
    and v: "v = (let a = drop_bit (if k < 2 then 4 else k + 3) x AND 0x0F in if k = 0 then 16 * a else (16 + a) * (8 * 2 ^ k))"
      "v \<le> x" "16 * (x - v) < max 256 (x + 1)" "0 \<le> v"
    using alaw_magnitude[OF x] by blast
  define a where "a = drop_bit (if k < 2 then 4 else k + 3) x AND 0x0F"
  have a: "a \<in> set nibbles"
    using take_bit_eq_mask[of 4 "drop_bit (if k < 2 then 4 else k + 3) x"]
      nibbles_mod[of "drop_bit (if k < 2 then 4 else k + 3) x"]
    unfolding a_def by (simp add: mask_numeral take_bit_eq_mod del: if_split)
  have neg: "sint (if 0 \<le> sint s then s else - s) = x"
    using sint_u16_of_int[of "- sint s"] x by (auto simp: x_def)
  have "alawencode s = word_of_int ((a OR push_bit 4 (int k)) XOR (if sint s < 0 then 0x55 else 0xD5))"
    unfolding alawencode_def Let_def neg k(2) using k(1) by (auto simp: a_def)
  moreover have "(sint s < 0) \<in> set [False, True]" by simp
  ultimately have "alawdecode (alawencode s) = word_of_int (if sint s < 0 then - v else v)"
    using bspec[OF bspec[OF bspec[OF alaw_lin_floor k(1)] a], of "sint s < 0"] v(1)
    unfolding Let_def a_def [symmetric] by simp
  then have "sint (alawdecode (alawencode s)) = (if sint s < 0 then - v else v)"
    using sint_u16_of_int[of v] sint_u16_of_int[of "- v"] v(2,4) x by simp
  moreover have "sint s = (if sint s < 0 then - x else x)" by (simp add: x_def)
  ultimately show ?thesis using v(2-4) False x by (auto simp: sgn_if split: if_splits)
qed

theorem alaw_accuracy_witness:
  "(let y = sint (alawdecode (alawencode 1000))
    in \<bar>y\<bar> \<le> 1000 \<and> 16 * (1000 - \<bar>y\<bar>) < 1001 \<and> sgn y = 1) \<and> alawdecode (alawencode 1000) \<noteq> 0"
proof -
  have s: "sint (1000 :: u16) = 1000" "sint (alawdecode (alawencode 1000)) = 992" by code_simp+
  then have "alawdecode (alawencode 1000) \<noteq> 0" by (metis sint_0 zero_neq_numeral)
  then show ?thesis using alaw_accuracy[of 1000] s by (simp add: Let_def)
qed

end
