(* ===== verification/Fgcom_Float.thy ===== *)
theory Fgcom_Float
  imports Complex_Main
begin

text \<open>
  Floating-point numbers. A C \<open>float\<close> or \<open>double\<close> is modelled by its value, a rational; every operation
  computes the exact result and rounds it to the nearest value with 24 or 53 significant bits, to
  the even one when two are equally near, as IEEE 754 prescribes. The range of the exponent is not
  modelled: the values of the program are frequencies, coordinates and audio levels, far from
  overflow and underflow.
\<close>

section \<open>Rounding\<close>

text \<open>The number of bits of a positive integer.\<close>

function bit_len :: "int \<Rightarrow> nat" where
  "bit_len n = (if n \<le> 0 then 0 else Suc (bit_len (n div 2)))"
  by auto

termination
  by (relation "measure nat") auto

declare bit_len.simps [simp del]

text \<open>The power of two just below a positive number: \<open>2 powi flog x \<le> x < 2 powi (flog x + 1)\<close>.\<close>

definition flog :: "rat \<Rightarrow> int" where
  "flog x = (let q = quotient_of x; e = int (bit_len (fst q)) - int (bit_len (snd q))
             in if 2 powi e \<le> x then e else e - 1)"

text \<open>To the nearest integer, to the even one on a tie.\<close>

definition round_even :: "rat \<Rightarrow> int" where
  "round_even x = (let f = \<lfloor>x\<rfloor>; d = x - of_int f
                   in if d < 1/2 \<or> d = 1/2 \<and> even f then f else f + 1)"

definition fl :: "nat \<Rightarrow> rat \<Rightarrow> rat" where
  "fl p x = (if x = 0 then 0
             else let s = int p - 1 - flog \<bar>x\<bar> in of_int (round_even (x * 2 powi s)) * 2 powi (- s))"

abbreviation float :: "rat \<Rightarrow> rat" where "float \<equiv> fl 24"
abbreviation double :: "rat \<Rightarrow> rat" where "double \<equiv> fl 53"

text \<open>The operations on doubles; \<open>ceilf\<close> takes and returns a \<open>float\<close>.\<close>

definition d_add :: "rat \<Rightarrow> rat \<Rightarrow> rat" where "d_add x y = double (x + y)"
definition d_sub :: "rat \<Rightarrow> rat \<Rightarrow> rat" where "d_sub x y = double (x - y)"
definition d_mul :: "rat \<Rightarrow> rat \<Rightarrow> rat" where "d_mul x y = double (x * y)"
definition d_div :: "rat \<Rightarrow> rat \<Rightarrow> rat" where "d_div x y = double (x / y)"
definition f_mul :: "rat \<Rightarrow> rat \<Rightarrow> rat" where "f_mul x y = float (x * y)"
definition ceilf :: "rat \<Rightarrow> rat" where "ceilf x = float (of_int \<lceil>float x\<rceil>)"

text \<open>The conversion to an integer truncates.\<close>

definition trunc_int :: "rat \<Rightarrow> int" where
  "trunc_int x = (if 0 \<le> x then \<lfloor>x\<rfloor> else \<lceil>x\<rceil>)"

section \<open>Facts on rounding\<close>

lemma bit_len_bounds: "0 < n \<Longrightarrow> 2 ^ (bit_len n - 1) \<le> n \<and> n < 2 ^ bit_len n"
proof (induction n rule: bit_len.induct)
  case (1 n)
  then show ?case
  proof (cases "n = 1")
    case True
    then show ?thesis by (simp add: bit_len.simps)
  next
    case False
    with 1 have h: "2 ^ (bit_len (n div 2) - 1) \<le> n div 2" "n div 2 < 2 ^ bit_len (n div 2)" by auto
    have b: "bit_len n = Suc (bit_len (n div 2))" using 1(2) by (subst bit_len.simps) simp
    have p: "0 < bit_len (n div 2)" using False 1(2) by (subst bit_len.simps) simp
    have "2 ^ bit_len (n div 2) = 2 * (2 ^ (bit_len (n div 2) - 1) :: int)"
      using p by (cases "bit_len (n div 2)") simp_all
    with h b show ?thesis by simp linarith
  qed
qed

lemma flog_bounds:
  assumes "0 < x"
  shows "2 powi flog x \<le> x" "x < 2 powi (flog x + 1)"
proof -
  obtain n d where q: "quotient_of x = (n, d)" by (cases "quotient_of x")
  have d: "0 < d" using quotient_of_denom_pos[OF q] .
  have x: "x = of_int n / of_int d" using quotient_of_div[OF q] .
  have n: "0 < n" using assms d by (simp add: x zero_less_divide_iff)
  define a b where "a = bit_len n" and "b = bit_len d"
  have N: "2 ^ (a - 1) \<le> n" "n < 2 ^ a" and a: "0 < a"
    and D: "2 ^ (b - 1) \<le> d" "d < 2 ^ b" and b: "0 < b"
    using bit_len_bounds[of n] bit_len_bounds[of d] n d
    by (auto simp: a_def b_def bit_len.simps[of n] bit_len.simps[of d])
  have R: "2 ^ (a - 1) \<le> (of_int n :: rat)" "(of_int n :: rat) < 2 ^ a"
     "2 ^ (b - 1) \<le> (of_int d :: rat)" "(of_int d :: rat) < 2 ^ b"
    using N D by (metis of_int_le_iff of_int_less_iff of_int_numeral of_int_power)+
  have pa: "2 ^ a = 2 * (2 ^ (a - 1) :: rat)" and pb: "2 ^ b = 2 * (2 ^ (b - 1) :: rat)"
    using a b by (simp_all add: power_eq_if)
  have e: "(2 :: rat) powi (int a - int b) = 2 ^ a / 2 ^ b" by (simp add: power_int_diff)
  have up: "x < 2 * (2 ^ a / 2 ^ b)"
    using frac_less[of "of_int n" "2 ^ a" "2 ^ (b - 1)" "of_int d"] R n by (simp add: x pb)
  have lo: "2 ^ a / 2 ^ b \<le> 2 * x"
    using frac_le[of "of_int n :: rat" "2 ^ (a - 1)" "of_int d" "2 ^ b"] R n d by (simp add: x pa)
  show "2 powi flog x \<le> x" "x < 2 powi (flog x + 1)"
    using up lo by (auto simp: flog_def q a_def[symmetric] b_def[symmetric] Let_def e power_int_add power_int_diff mult.commute[of 2])
qed

lemma flog_unique:
  assumes "2 powi e \<le> x" "x < 2 powi (e + 1)"
  shows "flog x = e"
proof -
  have "0 < x" using assms(1) by (rule less_le_trans[rotated]) simp
  note b = flog_bounds[OF this]
  have "2 powi flog x < (2 powi (e + 1) :: rat)" "2 powi e < (2 powi (flog x + 1) :: rat)"
    using b assms by linarith+
  then have "flog x < e + 1" "e < flog x + 1"
    by (meson not_less power_int_increasing one_le_numeral)+
  then show ?thesis by simp
qed

lemma round_even_near: "\<bar>of_int (round_even x) - x\<bar> \<le> 1/2"
  unfolding round_even_def Let_def by (auto simp: abs_if) linarith+

lemma round_even_eq:
  assumes "\<bar>x - of_int n\<bar> < 1/2"
  shows "round_even x = n"
  using round_even_near[of x] assms by linarith

lemma round_even_of_int [simp]: "round_even (of_int n) = n"
  by (rule round_even_eq) simp

lemma round_even_mono:
  assumes "x \<le> y"
  shows "round_even x \<le> round_even y"
proof (rule ccontr)
  assume "\<not> ?thesis"
  then have "round_even y + 1 \<le> round_even x" by simp
  then have r: "of_int (round_even y) + 1 \<le> (of_int (round_even x) :: rat)"
    by (metis of_int_1 of_int_add of_int_le_iff)
  then have "x = y" using assms round_even_near[of x] round_even_near[of y] by linarith
  with r show False by simp
qed

text \<open>In a binade \<open>[2 powi e, 2 powi (e + 1))\<close> the values are \<open>2 powi (e + 1 - p)\<close> apart.\<close>

lemma fl_eq:
  assumes "2 powi e \<le> \<bar>x\<bar>" "\<bar>x\<bar> < 2 powi (e + 1)"
  shows "fl p x = of_int (round_even (x * 2 powi (int p - 1 - e))) * 2 powi (e + 1 - int p)"
proof -
  have "x \<noteq> 0" using assms(1) by (metis abs_zero not_le zero_less_numeral zero_less_power_int)
  moreover have "flog \<bar>x\<bar> = e" using assms by (rule flog_unique)
  ultimately show ?thesis by (simp add: fl_def Let_def algebra_simps)
qed

lemma fl_near:
  assumes "2 powi e \<le> \<bar>x\<bar>" "\<bar>x\<bar> < 2 powi (e + 1)"
  shows "\<bar>fl p x - x\<bar> \<le> 2 powi (e - int p)"
proof -
  define s where "s = int p - 1 - e"
  have i: "2 powi s * 2 powi (e + 1 - int p) = (1 :: rat)" by (simp add: s_def power_int_add[symmetric])
  have "fl p x - x = (of_int (round_even (x * 2 powi s)) - x * 2 powi s) * 2 powi (e + 1 - int p)"
    by (simp add: fl_eq[OF assms] left_diff_distrib mult.assoc i s_def[symmetric])
  then have "\<bar>fl p x - x\<bar> = \<bar>of_int (round_even (x * 2 powi s)) - x * 2 powi s\<bar> * 2 powi (e + 1 - int p)"
    by (simp add: abs_mult)
  also have "\<dots> \<le> 1/2 * 2 powi (e + 1 - int p)"
    by (rule mult_right_mono[OF round_even_near]) simp
  finally show ?thesis by (simp add: power_int_diff power_int_add)
qed

lemma fl_to:
  assumes "2 powi e \<le> \<bar>x\<bar>" "\<bar>x\<bar> < 2 powi (e + 1)"
    and "\<bar>x * 2 powi (int p - 1 - e) - of_int m\<bar> < 1/2"
  shows "fl p x = of_int m * 2 powi (e + 1 - int p)"
  unfolding fl_eq[OF assms(1,2)] round_even_eq[OF assms(3)] ..

lemma fl_0 [simp]: "fl p 0 = 0"
  by (simp add: fl_def)

text \<open>A value with at most \<open>p\<close> significant bits is not changed, so rounding twice is rounding once.\<close>

lemma fl_exact:
  assumes "\<bar>m\<bar> < 2 ^ p"
  shows "fl p (of_int m * 2 powi t) = of_int m * 2 powi t"
proof (cases "m = 0")
  case False
  let ?x = "of_int m * 2 powi t :: rat"
  define e where "e = flog \<bar>?x\<bar>"
  have "0 < \<bar>?x\<bar>" using False by simp
  note b = flog_bounds[OF this, folded e_def]
  have "\<bar>of_int m\<bar> < (2 ^ p :: rat)" 
    using assms of_int_less_iff[of "\<bar>m\<bar>" "2 ^ p", where ?'a = rat] by simp
  then have "\<bar>?x\<bar> < 2 powi (int p + t)" by (simp add: abs_mult power_int_add)
  with b(1) have "2 powi e < (2 powi (int p + t) :: rat)" by linarith
  then have "e < int p + t" by (meson not_less power_int_increasing one_le_numeral)
  then have "?x * 2 powi (int p - 1 - e) = of_int (m * 2 ^ nat (t + (int p - 1 - e)))"
    by (simp add: mult.assoc power_int_add[symmetric]) (simp add: power_int_def)
  then have "fl p ?x = ?x * 2 powi (int p - 1 - e) * 2 powi (e + 1 - int p)"
    by (simp only: fl_eq[OF b] round_even_of_int)
  then show ?thesis by (simp add: mult.assoc power_int_add[symmetric])
qed simp

lemma fl_idem:
  assumes "0 < p"
  shows "fl p (fl p x) = fl p x"
proof (cases "x = 0")
  case False
  define e where "e = flog \<bar>x\<bar>"
  define y where "y = x * 2 powi (int p - 1 - e)"
  define m where "m = round_even y"
  have b: "2 powi e \<le> \<bar>x\<bar>" "\<bar>x\<bar> < 2 powi (e + 1)" using flog_bounds[of "\<bar>x\<bar>"] False by (simp_all add: e_def)
  have f: "fl p x = of_int m * 2 powi (e + 1 - int p)" by (simp add: fl_eq[OF b] m_def y_def)
  have "\<bar>y\<bar> < 2 powi (e + 1) * 2 powi (int p - 1 - e)" using b(2) by (simp add: y_def abs_mult)
  also have "\<dots> = 2 ^ p" by (simp add: power_int_add[symmetric])
  finally have "\<bar>of_int m\<bar> < (2 ^ p + 1 :: rat)" using round_even_near[of y] unfolding m_def by linarith
  then have "of_int \<bar>m\<bar> < (of_int (2 ^ p + 1) :: rat)" by simp
  then have "\<bar>m\<bar> < 2 ^ p + 1" by (simp only: of_int_less_iff)
  then consider "\<bar>m\<bar> < 2 ^ p" | "\<bar>m\<bar> = 2 ^ p" by linarith
  then show ?thesis
  proof cases
    case 1
    then show ?thesis unfolding f by (rule fl_exact)
  next
    case 2
    then have m: "m = sgn m * 2 ^ p" using sgn_mult_abs[of m] by simp
    have "(2 :: rat) ^ p * 2 powi (e + 1 - int p) = 2 powi (e + 1)"
      by (simp add: power_int_add[symmetric] flip: power_int_of_nat)
    then have g: "fl p x = of_int (sgn m) * 2 powi (e + 1)"
      unfolding f by (subst m) (simp add: mult.assoc)
    show ?thesis unfolding g by (rule fl_exact) (use assms in \<open>simp add: sgn_if\<close>)
  qed
qed simp

end
