(* ===== verification/Fgcom_Text.thy ===== *)
theory Fgcom_Text
  imports Fgcom_Float Iax_Show
begin

text \<open>
  The text functions that FGCom uses: \<open>strtok\<close>, \<open>strtod\<close>, \<open>atof\<close> and \<open>atoi\<close> of the C library, and
  \<open>split\<close> of \<open>src/src/fgcom.cpp\<close>. Text is a list of characters without the final zero. Numbers are
  decimal; the hexadecimal, infinite and \<open>NaN\<close> forms that \<open>strtod\<close> also takes are not modelled.
\<close>

section \<open>Characters\<close>

definition isspace :: "char \<Rightarrow> bool" where
  "isspace c \<longleftrightarrow> c \<in> {CHR '' '', CHR 0x09, CHR 0x0A, CHR 0x0B, CHR 0x0C, CHR 0x0D}"

definition isdigit :: "char \<Rightarrow> bool" where
  "isdigit c \<longleftrightarrow> (48 :: nat) \<le> of_char c \<and> of_char c \<le> (57 :: nat)"

definition digit_value :: "char \<Rightarrow> int" where
  "digit_value c = int (of_char c) - 48"

definition decimal :: "string \<Rightarrow> int" where
  "decimal s = foldl (\<lambda>n c. 10 * n + digit_value c) 0 s"

text \<open>A sign: minus, plus or nothing.\<close>

definition scan_sign :: "string \<Rightarrow> bool \<times> string" where
  "scan_sign s =
     (case s of [] \<Rightarrow> (False, s)
      | c # r \<Rightarrow> if c = CHR ''-'' then (True, r) else if c = CHR ''+'' then (False, r) else (False, s))"

section \<open>Numbers\<close>

text \<open>An exponent counts only when a digit follows.\<close>

definition scan_exponent :: "string \<Rightarrow> int \<times> string" where
  "scan_exponent s =
     (case s of
        c # r \<Rightarrow>
          if c = CHR ''e'' \<or> c = CHR ''E''
          then let (neg, r) = scan_sign r; ds = takeWhile isdigit r
               in if ds = [] then (0, s)
                  else (if neg then - decimal ds else decimal ds, dropWhile isdigit r)
          else (0, s)
      | [] \<Rightarrow> (0, s))"

text \<open>The number at the start of a text, exactly, and the text behind it.\<close>

definition scan_decimal :: "string \<Rightarrow> (rat \<times> string) option" where
  "scan_decimal s =
     (let (neg, r) = scan_sign (dropWhile isspace s);
          ip = takeWhile isdigit r; r = dropWhile isdigit r;
          dot = (r \<noteq> [] \<and> hd r = CHR ''.'');
          fp = (if dot then takeWhile isdigit (tl r) else []);
          r = (if dot then dropWhile isdigit (tl r) else r)
      in if ip @ fp = [] then None
         else let (e, r) = scan_exponent r;
                  v = of_int (decimal (ip @ fp)) / 10 ^ length fp * 10 powi e
              in Some (if neg then - v else v, r))"

text \<open>\<open>strtod\<close> returns the value and where it stopped: at the start when there is no number.\<close>

definition strtod :: "string \<Rightarrow> rat \<times> string" where
  "strtod s = (case scan_decimal s of None \<Rightarrow> (0, s) | Some (v, r) \<Rightarrow> (double v, r))"

definition atof :: "string \<Rightarrow> rat" where
  "atof s = fst (strtod s)"

text \<open>\<open>atoi\<close> is \<open>strtol\<close>, which saturates at the bounds of a \<open>long\<close>, cut to an \<open>int\<close>.\<close>

definition saturate_long :: "int \<Rightarrow> int" where
  "saturate_long n = max (- (2 ^ 63)) (min (2 ^ 63 - 1) n)"

definition c_atoi :: "string \<Rightarrow> int" where
  "c_atoi s =
     (let (neg, r) = scan_sign (dropWhile isspace s); n = decimal (takeWhile isdigit r)
      in int_of_long (saturate_long (if neg then - n else n)))"

section \<open>Fields\<close>

text \<open>One step of \<open>strtok\<close> with the delimiter \<open>d\<close>: a token and the text behind its delimiter.\<close>

definition c_strtok :: "char \<Rightarrow> string \<Rightarrow> (string \<times> string) option" where
  "c_strtok d s =
     (let t = dropWhile (\<lambda>c. c = d) s
      in if t = [] then None else Some (takeWhile (\<lambda>c. c \<noteq> d) t, drop 1 (dropWhile (\<lambda>c. c \<noteq> d) t)))"

text \<open>All the tokens, as a loop over \<open>strtok\<close> sees them.\<close>

function tokens :: "char \<Rightarrow> string \<Rightarrow> string list" where
  "tokens d s = (case c_strtok d s of None \<Rightarrow> [] | Some (t, r) \<Rightarrow> t # tokens d r)"
  by auto

termination
proof (relation "measure (\<lambda>(d, s). length s)", simp)
  fix d s x t r
  assume "c_strtok d s = Some x" "(t, r) = x"
  then have r: "dropWhile (\<lambda>c. c = d) s \<noteq> []"
      "r = drop 1 (dropWhile (\<lambda>c. c \<noteq> d) (dropWhile (\<lambda>c. c = d) s))"
    by (auto simp: c_strtok_def Let_def split: if_splits)
  obtain c u where "dropWhile (\<lambda>c. c = d) s = c # u" using r(1) by (cases "dropWhile (\<lambda>c. c = d) s") auto
  then have "length r < length (dropWhile (\<lambda>c. c = d) s)"
    using r(2) length_dropWhile_le[of "\<lambda>c. c \<noteq> d" "c # u"]
    by (cases "dropWhile (\<lambda>c. c \<noteq> d) (c # u)") auto
  also have "\<dots> \<le> length s" by (rule length_dropWhile_le)
  finally show "((d, r), (d, s)) \<in> measure (\<lambda>(d, s). length s)" by simp
qed

declare tokens.simps [simp del]

text \<open>
  \<open>split\<close> with a single separator and room for \<open>n\<close> fields: the fields it sets and the number of
  fields of the text. The last field in the array keeps its separators. Without room the code
  writes outside the array. The branches for other separators are not used by the program.
\<close>

fun split_single :: "nat \<Rightarrow> char \<Rightarrow> string \<Rightarrow> (string list \<times> nat) option" where
  "split_single 0 sep p = None"
| "split_single (Suc 0) sep p = Some ([p], 1 + length (filter (\<lambda>c. c = sep) p))"
| "split_single (Suc (Suc n)) sep p =
     (case dropWhile (\<lambda>c. c \<noteq> sep) p of
        [] \<Rightarrow> Some ([p], 1)
      | _ # r \<Rightarrow> map_option (\<lambda>(fs, k). (takeWhile (\<lambda>c. c \<noteq> sep) p # fs, Suc k)) (split_single (Suc n) sep r))"

definition split_fields :: "nat \<Rightarrow> char \<Rightarrow> string \<Rightarrow> (string list \<times> nat) option" where
  "split_fields n sep p = (if p = [] then Some ([], 0) else split_single n sep p)"

section \<open>Upper case and path names\<close>

definition toupper :: "char \<Rightarrow> char" where
  "toupper c = (if (97 :: nat) \<le> of_char c \<and> of_char c \<le> (122 :: nat) then char_of (of_char c - (32 :: nat)) else c)"

definition strtoupper :: "string \<Rightarrow> nat \<Rightarrow> string" where
  "strtoupper s len = map toupper (take (len - 1) s)"

text \<open>\<open>base_name\<close> and \<open>trim_base_path_ib\<close> cut a path behind its last separator and in front of it.\<close>

definition is_separator :: "char \<Rightarrow> bool" where
  "is_separator c \<longleftrightarrow> c = CHR ''/'' \<or> c = CHR 0x5C"

fun base_loop :: "string \<Rightarrow> string \<Rightarrow> string" where
  "base_loop bn [] = bn"
| "base_loop bn (c # cs) = base_loop (if is_separator c then cs else bn) cs"

definition base_name :: "string \<Rightarrow> string" where
  "base_name name = base_loop name name"

fun trim_loop :: "nat \<Rightarrow> nat \<Rightarrow> string \<Rightarrow> nat" where
  "trim_loop i off [] = off"
| "trim_loop i off (c # cs) = trim_loop (i + 1) (if is_separator c then i + 1 else off) cs"

definition trim_base_path_ib :: "string \<Rightarrow> string" where
  "trim_base_path_ib path = take (trim_loop 0 0 path) path"

end
