(* ===== verification/Fgcom_Radio.thy ===== *)
theory Fgcom_Radio
  imports Fgcom_Float Iax_Show
begin

text \<open>
  The radio of FGCom: \<open>src/src/position.cpp\<close>, which turns an airport and a frequency into the number
  to dial and finds the airport that a tuned frequency belongs to, and from \<open>src/src/fgcom.cpp\<close> the
  special frequencies and the last changes to the number. The functions of \<open>libm\<close> are parameters;
  \<open>acos\<close> may return \<open>NaN\<close>, which is \<open>None\<close>. Writing outside a buffer and following a null pointer
  are the result \<open>None\<close> of an operation.
\<close>

section \<open>Airports\<close>

text \<open>
  \<open>struct airport\<close> without its link: the linked list is a list, the null pointer the empty one.
  \<open>icao\<close> has room for four characters.
\<close>

record airport =
  ap_icao :: string
  ap_frequency :: rat
  ap_lat :: rat
  ap_lon :: rat
  ap_type :: string
  ap_text :: string

record libm =
  m_sin :: "rat \<Rightarrow> rat"
  m_cos :: "rat \<Rightarrow> rat"
  m_acos :: "rat \<Rightarrow> rat option"

definition earthradius :: rat where "earthradius = 6370"
definition uf :: rat where "uf = double (1745329251994329509 / 10 ^ 20)"

definition distance :: "libm \<Rightarrow> rat \<Rightarrow> rat \<Rightarrow> rat \<Rightarrow> rat \<Rightarrow> rat option" where
  "distance lm lat1 lon1 lat2 lon2 =
     (let d = d_mul (m_sin lm (d_mul lat1 uf)) (m_sin lm (d_mul lat2 uf));
          d = d_add d (d_mul (d_mul (m_cos lm (d_mul lat1 uf)) (m_cos lm (d_mul lat2 uf)))
                             (m_cos lm (d_mul (d_sub lon2 lon1) uf)))
      in map_option (\<lambda>a. d_mul a earthradius) (m_acos lm d))"

section \<open>Numbers\<close>

definition DEFAULT_CODE :: int where "DEFAULT_CODE = 1"
definition ATIS_CODE :: int where "ATIS_CODE = 99"

text \<open>A \<open>char\<close> is signed.\<close>

definition schar :: "char \<Rightarrow> int" where
  "schar c = (if of_char c < (128 :: nat) then int (of_char c) else int (of_char c) - 256)"

text \<open>\<open>(int) (frequency * 1000 + 0.5)\<close>, on a \<open>float\<close> and on a \<open>double\<close>.\<close>

definition khz :: "rat \<Rightarrow> int" where
  "khz f = trunc_int (d_add (f_mul f 1000) (1/2))"

definition khz_d :: "rat \<Rightarrow> int" where
  "khz_d f = trunc_int (d_add (d_mul f 1000) (1/2))"

text \<open>
  The text that \<open>sprintf\<close> makes of an airport of at most four characters and a frequency, cut to 16
  characters. A longer airport is written beyond \<open>icao_work\<close>.
\<close>

definition number_text :: "int \<Rightarrow> string \<Rightarrow> rat \<Rightarrow> string option" where
  "number_text code icao frequency =
     (if 4 < length icao then None
      else let icao_work = replicate (4 - length icao) CHR '' '' @ icao
           in Some (take 16 (pad0_int 2 code @ concat (map (\<lambda>c. pad0_int 2 (schar c)) icao_work) @
                             pad0_int 6 (khz frequency))))"

text \<open>The empty airport is replaced, in the caller's buffer, by \<open>ZZZZ\<close>. The result has both.\<close>

definition icao2number :: "string \<Rightarrow> rat \<Rightarrow> (string \<times> string) option" where
  "icao2number icao frequency =
     (let icao = (if icao = [] then ''ZZZZ'' else icao)
      in map_option (Pair icao) (number_text DEFAULT_CODE icao frequency))"

definition icao2atisnumber :: "string \<Rightarrow> rat \<Rightarrow> (string \<times> string) option" where
  "icao2atisnumber icao frequency =
     (let icao = (if icao = [] then ''ZZZZ'' else icao)
      in map_option (Pair icao) (number_text ATIS_CODE icao frequency))"

section \<open>The airport of a frequency\<close>

definition DEFAULT_LOWER_FRQ_LIMIT :: rat where "DEFAULT_LOWER_FRQ_LIMIT = 108"
definition DEFAULT_UPPER_FRQ_LIMIT :: rat where "DEFAULT_UPPER_FRQ_LIMIT = 140"

text \<open>\<open>ceilf (frequency * 1000.0) / 1000.0\<close>\<close>

definition to_khz_up :: "rat \<Rightarrow> rat" where
  "to_khz_up f = d_div (ceilf (d_mul f 1000)) 1000"

text \<open>A frequency whose last digit in kHz is 5 is lowered by 5 kHz.\<close>

definition tuned :: "rat \<Rightarrow> rat" where
  "tuned frequency =
     (let frq = khz_d frequency
      in if frq mod 10 \<noteq> 0 \<and> frq mod 5 = 0 then to_khz_up (d_sub frequency (double (5/1000)))
         else frequency)"

definition same_frequency :: "airport \<Rightarrow> rat \<Rightarrow> bool" where
  "same_frequency a frequency \<longleftrightarrow> to_khz_up (ap_frequency a) = frequency \<or> ap_frequency a = frequency"

text \<open>The loop stops at the entry without a successor, before it looks at it.\<close>

fun scan_airports :: "libm \<Rightarrow> airport list \<Rightarrow> rat \<Rightarrow> rat \<Rightarrow> rat \<Rightarrow> rat \<Rightarrow> string option" where
  "scan_airports lm [] frequency lat lon reach = None"
| "scan_airports lm [a] frequency lat lon reach = Some ''''"
| "scan_airports lm (a # b # as) frequency lat lon reach =
     (if same_frequency a frequency \<and>
         (case distance lm lat lon (ap_lat a) (ap_lon a) of None \<Rightarrow> False | Some r \<Rightarrow> r \<le> reach)
      then Some (ap_icao a) else scan_airports lm (b # as) frequency lat lon reach)"

definition icaobypos :: "libm \<Rightarrow> airport list \<Rightarrow> rat \<Rightarrow> rat \<Rightarrow> rat \<Rightarrow> rat \<Rightarrow> string option" where
  "icaobypos lm airports frequency plane_lat plane_lon reach =
     (let frequency = tuned frequency
      in if DEFAULT_LOWER_FRQ_LIMIT \<le> frequency \<and> frequency \<le> DEFAULT_UPPER_FRQ_LIMIT
         then scan_airports lm airports frequency plane_lat plane_lon reach else Some '''')"

text \<open>\<open>posbyicao\<close>: longitude and latitude, zero when the airport is not found.\<close>

fun posbyicao :: "airport list \<Rightarrow> string \<Rightarrow> (rat \<times> rat) option" where
  "posbyicao [] icao = None"
| "posbyicao [a] icao = Some (0, 0)"
| "posbyicao (a # b # as) icao =
     (if ap_icao a = icao then Some (ap_lon a, ap_lat a) else posbyicao (b # as) icao)"

section \<open>Special frequencies\<close>

text \<open>
  The array ends with a negative number; without one the loop reads beyond it. The default array
  of the program is \<open>special_frq\<close>.
\<close>

definition special_frq :: "rat list" where
  "special_frq = map double [999999/1000, 910, 12345/100, 12275/100, 1235/10, 1215/10, 73234/100, -1]"

fun special_scan :: "rat list \<Rightarrow> rat \<Rightarrow> bool option" where
  "special_scan [] frq = None"
| "special_scan (f # fs) frq = (if f < 0 then Some False else if frq = f then Some True else special_scan fs frq)"

definition check_special_frq :: "rat list \<Rightarrow> rat \<Rightarrow> bool option" where
  "check_special_frq specials frq = special_scan specials (to_khz_up frq)"

section \<open>The number that is dialled\<close>

text \<open>
  \<open>do_iaxc_call\<close>: two servers want the last digits changed; one number is replaced. The reads before
  the number when it is shorter than two characters are \<open>None\<close>.
\<close>

definition patch_number :: "string \<Rightarrow> string \<Rightarrow> string option" where
  "patch_number voipserver number =
     (let len = length number
      in if voipserver = ''fgcom.flightgear.org''
         then if len < 2 then None
              else Some (if (number ! (len - 2) = CHR ''2'' \<or> number ! (len - 2) = CHR ''7'') \<and>
                            number ! (len - 1) = CHR ''0''
                         then number[len - 1 := CHR ''5''] else number)
         else if voipserver = ''delta384.server4you.de''
         then if len < 1 then None
              else Some (if number ! (len - 1) = CHR ''5'' then number[len - 1 := CHR ''0''] else number)
         else Some number)"

definition call_dest :: "string \<Rightarrow> string \<Rightarrow> string \<Rightarrow> string \<Rightarrow> string option" where
  "call_dest username password voipserver number =
     map_option (\<lambda>number.
        let number = (if number = ''9990909090910000'' then ''0190909090910000'' else number)
        in snprintf 256 (username @ '':'' @ password @ ''@'' @ voipserver @ ''/'' @ number))
       (patch_number voipserver number)"

end
