(* ===== verification/Fgcom_Client.thy ===== *)
theory Fgcom_Client
  imports Fgcom_Text Fgcom_Radio "HOL-Library.Monad_Syntax"
begin

text \<open>
  The client of \<open>src/src/fgcom.cpp\<close> in the mode for FlightGear: packets of the simulator set the
  frequencies, the position and the push-to-talk key (\<open>process_packet\<close>), a timer looks whether the
  tuned station is in range (\<open>alarm_handler\<close>), and \<open>iaxclient\<close> reports the state of calls from its
  own thread (\<open>iaxc_callback\<close>). The globals of the program are the record \<open>client\<close>, its
  configuration the record \<open>config\<close>. What is asked of \<open>iaxclient\<close> is a list of commands. \<open>None\<close> is a
  null pointer followed or a buffer left.
\<close>

section \<open>State\<close>

record fgdata =
  COM1_FRQ :: rat
  COM2_FRQ :: rat
  NAV1_FRQ :: rat
  NAV2_FRQ :: rat
  COM1_SRV :: int
  COM2_SRV :: int
  NAV1_SRV :: int
  NAV2_SRV :: int
  PTT :: int
  TRANSPONDER :: int
  IAS :: rat
  GS :: rat
  LON :: rat
  LAT :: rat
  ALT :: int
  HEAD :: rat

record config =
  cf_libm :: libm
  cf_airports :: "airport list"
  cf_specials :: "rat list"
  cf_username :: string
  cf_password :: string
  cf_voipserver :: string
  cf_level_in :: rat
  cf_level_out :: rat

datatype command =
    Call string
  | Dump_call
  | Millisleep int
  | Input_level rat
  | Output_level rat

record client =
  cl_data :: fgdata
  cl_selected_frequency :: rat
  cl_previous_com_frequency :: rat
  cl_previous_ptt :: int
  cl_com_select :: int
  cl_connected :: int
  cl_icao :: string
  cl_num_buf :: string
  cl_last_state :: int
  cl_commands :: "command list"

definition DEFAULT_MILLISLEEP :: int where "DEFAULT_MILLISLEEP = 100"
definition DEFAULT_RANGE :: rat where "DEFAULT_RANGE = 100"

definition issue :: "command list \<Rightarrow> client \<Rightarrow> client" where
  "issue cs st = st\<lparr>cl_commands := cl_commands st @ cs\<rparr>"

section \<open>Data of the simulator\<close>

text \<open>A field of a packet, by its name. A value that is not there is a null pointer for \<open>atof\<close> and \<open>atoi\<close>.\<close>

definition store_field :: "string \<Rightarrow> string option \<Rightarrow> fgdata \<Rightarrow> fgdata option" where
  "store_field key val d =
     (let f = map_option (\<lambda>v. float (atof v)) val; g = map_option atof val; i = map_option c_atoi val
      in if key = ''COM1_FRQ'' then map_option (\<lambda>v. d\<lparr>COM1_FRQ := v\<rparr>) f
         else if key = ''COM2_FRQ'' then map_option (\<lambda>v. d\<lparr>COM2_FRQ := v\<rparr>) f
         else if key = ''NAV1_FRQ'' then map_option (\<lambda>v. d\<lparr>NAV1_FRQ := v\<rparr>) f
         else if key = ''NAV2_FRQ'' then map_option (\<lambda>v. d\<lparr>NAV2_FRQ := v\<rparr>) f
         else if key = ''PTT'' then map_option (\<lambda>v. d\<lparr>PTT := v\<rparr>) i
         else if key = ''TRANSPONDER'' then map_option (\<lambda>v. d\<lparr>TRANSPONDER := v\<rparr>) i
         else if key = ''IAS'' then map_option (\<lambda>v. d\<lparr>IAS := v\<rparr>) f
         else if key = ''GS'' then map_option (\<lambda>v. d\<lparr>GS := v\<rparr>) f
         else if key = ''LON'' then map_option (\<lambda>v. d\<lparr>LON := v\<rparr>) g
         else if key = ''LAT'' then map_option (\<lambda>v. d\<lparr>LAT := v\<rparr>) g
         else if key = ''ALT'' then map_option (\<lambda>v. d\<lparr>ALT := v\<rparr>) i
         else if key = ''HEAD'' then map_option (\<lambda>v. d\<lparr>HEAD := v\<rparr>) f
         else if key = ''COM1_SRV'' then map_option (\<lambda>v. d\<lparr>COM1_SRV := v\<rparr>) i
         else if key = ''COM2_SRV'' then map_option (\<lambda>v. d\<lparr>COM2_SRV := v\<rparr>) i
         else if key = ''NAV1_SRV'' then map_option (\<lambda>v. d\<lparr>NAV1_SRV := v\<rparr>) i
         else if key = ''NAV2_SRV'' then map_option (\<lambda>v. d\<lparr>NAV2_SRV := v\<rparr>) i
         else Some d)"

text \<open>
  The loop over the pairs. The array \<open>fields\<close> is not cleared between them: a pair without an equals
  sign leaves the value of the pair before.
\<close>

fun parse_pairs :: "string list \<Rightarrow> string option \<Rightarrow> fgdata \<Rightarrow> fgdata option" where
  "parse_pairs [] val d = Some d"
| "parse_pairs (pair # pairs) val d =
     do { (fs, _) \<leftarrow> split_fields 2 CHR ''='' pair;
          let val = (if length fs = 2 then Some (fs ! 1) else val);
          d \<leftarrow> store_field (fs ! 0) val d;
          parse_pairs pairs val d }"

definition parse_fgdata :: "fgdata \<Rightarrow> string \<Rightarrow> fgdata option" where
  "parse_fgdata d buf = parse_pairs (tokens CHR '','' buf) None d"

section \<open>Calls\<close>

text \<open>\<open>do_iaxc_call\<close>, with the sleep that follows, and the hangup with its sleep.\<close>

definition do_iaxc_call :: "config \<Rightarrow> string \<Rightarrow> client \<Rightarrow> client option" where
  "do_iaxc_call cf number st =
     map_option (\<lambda>dest. issue [Call dest, Millisleep DEFAULT_MILLISLEEP] st)
       (call_dest (cf_username cf) (cf_password cf) (cf_voipserver cf) number)"

definition hang_up :: "client \<Rightarrow> client" where
  "hang_up st = (issue [Dump_call, Millisleep (5 * DEFAULT_MILLISLEEP)] st)\<lparr>cl_connected := 0\<rparr>"

text \<open>\<open>strcpy\<close> into \<open>icao\<close>, which has room for four characters.\<close>

definition strcpy_icao :: "string \<Rightarrow> client \<Rightarrow> client option" where
  "strcpy_icao s st = (if length s \<le> 4 then Some (st\<lparr>cl_icao := s\<rparr>) else None)"

text \<open>The number of the airport in \<open>icao\<close> and the tuned frequency is made and called.\<close>

definition dial :: "config \<Rightarrow> client \<Rightarrow> client option" where
  "dial cf st =
     do { (icao, num) \<leftarrow> icao2number (cl_icao st) (float (cl_selected_frequency st));
          st \<leftarrow> do_iaxc_call cf num (st\<lparr>cl_icao := icao, cl_num_buf := num\<rparr>);
          Some (st\<lparr>cl_connected := 1\<rparr>) }"

section \<open>Push to talk\<close>

definition ptt :: "config \<Rightarrow> int \<Rightarrow> client \<Rightarrow> client option" where
  "ptt cf mode st =
     (if mode = 1
      then do { let st = issue [Input_level (cf_level_in cf)] st;
                special \<leftarrow> check_special_frq (cf_specials cf) (cl_selected_frequency st);
                Some (if special then st else issue [Output_level 0] st) }
      else do { let st = issue [Input_level 0] st;
                special \<leftarrow> check_special_frq (cf_specials cf) (cl_selected_frequency st);
                Some (if special then st else issue [Output_level (cf_level_out cf)] st) })"

section \<open>Handlers\<close>

definition select_frequency :: "client \<Rightarrow> client" where
  "select_frequency st =
     (let d = cl_data st; n = cl_com_select st in
      if n = 0 \<and> COM1_SRV d = 1 then st\<lparr>cl_selected_frequency := COM1_FRQ d\<rparr>
      else if n = 1 \<and> NAV1_SRV d = 1 then st\<lparr>cl_selected_frequency := NAV1_FRQ d\<rparr>
      else if n = 2 \<and> COM2_SRV d = 1 then st\<lparr>cl_selected_frequency := COM2_FRQ d\<rparr>
      else if n = 3 \<and> NAV2_SRV d = 1 then st\<lparr>cl_selected_frequency := NAV2_FRQ d\<rparr>
      else st)"

definition tuned_airport :: "config \<Rightarrow> client \<Rightarrow> string option" where
  "tuned_airport cf st =
     icaobypos (cf_libm cf) (cf_airports cf) (cl_selected_frequency st) (LAT (cl_data st)) (LON (cl_data st)) DEFAULT_RANGE"

definition retune :: "config \<Rightarrow> client \<Rightarrow> client option" where
  "retune cf st =
     (if cl_previous_com_frequency st \<noteq> cl_selected_frequency st
      then do { let st = st\<lparr>cl_previous_com_frequency := cl_selected_frequency st\<rparr>;
                let st = (if cl_connected st = 1 then hang_up st else st);
                airport \<leftarrow> tuned_airport cf st;
                st \<leftarrow> strcpy_icao airport st;
                dial cf st }
      else Some st)"

definition key :: "config \<Rightarrow> client \<Rightarrow> client option" where
  "key cf st =
     (if cl_previous_ptt st \<noteq> PTT (cl_data st)
      then do { st \<leftarrow> (if PTT (cl_data st) = 2
                       then Some (st\<lparr>cl_com_select := (cl_com_select st + 1) mod 4\<rparr>)
                       else if cl_connected st = 1 then ptt cf (PTT (cl_data st)) st
                       else Some st);
                Some (st\<lparr>cl_previous_ptt := PTT (cl_data st)\<rparr>) }
      else Some st)"

text \<open>The packet is a C string; its last character is cut off, which needs one.\<close>

definition process_packet :: "config \<Rightarrow> string \<Rightarrow> client \<Rightarrow> client option" where
  "process_packet cf buf st =
     (let buf = takeWhile (\<lambda>c. c \<noteq> CHR 0x00) buf
      in if buf = [] then None
         else do { d \<leftarrow> parse_fgdata (cl_data st) (butlast buf);
                   st \<leftarrow> retune cf (select_frequency (st\<lparr>cl_data := d\<rparr>));
                   key cf st })"

definition alarm_handler :: "config \<Rightarrow> client \<Rightarrow> client option" where
  "alarm_handler cf st =
     do { special \<leftarrow> check_special_frq (cf_specials cf) (cl_selected_frequency st);
          airport \<leftarrow> (if special then Some ''ZZZZ'' else tuned_airport cf st);
          st \<leftarrow> strcpy_icao airport st;
          if cl_icao st = [] \<and> cl_connected st = 1 then Some (hang_up st)
          else if cl_icao st \<noteq> [] \<and> cl_connected st = 0 then dial cf st
          else Some st }"

section \<open>Events of iaxclient\<close>

text \<open>The text of the state of a call, whose bits have names.\<close>

definition state_names :: "string list" where
  "state_names = [''unknown'', ''active'', ''outgoing'', ''ringing'', ''complete'', ''selected'', ''busy'', ''transfer'']"

fun state_loop :: "string list \<Rightarrow> int \<Rightarrow> int \<Rightarrow> string \<Rightarrow> string" where
  "state_loop [] j state acc = acc"
| "state_loop (name # names) j state acc =
     state_loop names (j * 2) state
       (if state AND j \<noteq> 0 then (if acc = [] then name else acc @ '','' @ name) else acc)"

definition map_state :: "int \<Rightarrow> string" where
  "map_state state = (if state = 0 then ''free'' else state_loop state_names 1 state '''')"

text \<open>
  An event and what its callback reports. The union of the C structure is its words: those of a
  network statistics event are the call, the round trip time and fourteen counters, those of a
  registration the identifier, the reply and the number of messages.
\<close>

datatype iaxc_event =
    Ev_levels rat rat
  | Ev_text int string
  | Ev_state int string string string string
  | Ev_netstat "int list"
  | Ev_registration int int int
  | Ev_other int

definition int_text :: "int \<Rightarrow> string" where
  "int_text i = pad0_int 1 i"

text \<open>\<open>%.1f\<close>\<close>

definition fixed1 :: "rat \<Rightarrow> string" where
  "fixed1 x = (let n = nat \<bar>round_even (x * 10)\<bar>
               in (if x < 0 then ''-'' else '''') @ dec (n div 10) @ ''.'' @ dec (n mod 10))"

definition fields_text :: "string list \<Rightarrow> string" where
  "fields_text fs = concat (map (\<lambda>f. CHR 0x09 # f) fs)"

definition hex_digit_text :: "nat \<Rightarrow> char" where
  "hex_digit_text n = (if n < 10 then char_of (48 + n) else char_of (87 + n))"

fun hex_text :: "nat \<Rightarrow> string" where
  "hex_text n = (if n < 16 then [hex_digit_text n] else hex_text (n div 16) @ [hex_digit_text (n mod 16)])"

declare hex_text.simps [simp del]

definition report_line :: "string \<Rightarrow> string list \<Rightarrow> string" where
  "report_line tag fs = snprintf 1024 (tag @ fields_text fs)"

definition event_register :: "int \<Rightarrow> int \<Rightarrow> int \<Rightarrow> string" where
  "event_register i reply n =
     report_line ''R'' [int_text i,
       if reply = 18 then ''accepted'' else if reply = 30 then ''denied'' else if reply = 6 then ''timeout'' else ''unknown'',
       int_text n]"

definition event_state :: "int \<Rightarrow> string \<Rightarrow> string \<Rightarrow> string \<Rightarrow> string \<Rightarrow> client \<Rightarrow> string \<times> client" where
  "event_state state remote remote_name local_name local_context st =
     (let st = st\<lparr>cl_last_state := state\<rparr>;
          st = (if state = 0 then st\<lparr>cl_connected := 0\<rparr> else st)
      in (report_line ''S'' [''0x'' @ hex_text (nat (state mod 2 ^ 32)), map_state state, take 50 remote,
            take 50 remote_name, take 50 local_name, take 50 local_context], st))"

definition event_level :: "rat \<Rightarrow> rat \<Rightarrow> string" where
  "event_level i out = report_line ''L'' [fixed1 i, fixed1 out]"

definition event_text :: "int \<Rightarrow> string \<Rightarrow> string" where
  "event_text ty msg = report_line ''T'' [int_text ty, take 200 msg]"

definition event_netstats :: "int list \<Rightarrow> string" where
  "event_netstats w = report_line ''N'' (map int_text w)"

definition event_unknown :: "int \<Rightarrow> string" where
  "event_unknown ty = report_line ''U'' [int_text ty]"

text \<open>The case for statistics has no \<open>break\<close> and goes on into the one for registrations.\<close>

definition iaxc_callback :: "iaxc_event \<Rightarrow> client \<Rightarrow> string list \<times> client" where
  "iaxc_callback e st =
     (case e of
        Ev_levels i out \<Rightarrow> ([event_level i out], st)
      | Ev_text ty msg \<Rightarrow> ([event_text ty msg], st)
      | Ev_state s r rn l lc \<Rightarrow> (let (rep, st) = event_state s r rn l lc st in ([rep], st))
      | Ev_netstat w \<Rightarrow> ([event_netstats w, event_register (w ! 0) (w ! 1) (w ! 2)], st)
      | Ev_registration i r n \<Rightarrow> ([event_register i r n], st)
      | Ev_other ty \<Rightarrow> ([event_unknown ty], st))"

section \<open>Runs\<close>

text \<open>The start of \<open>main\<close> in this mode: the microphone is muted, the speaker on.\<close>

definition fgdata0 :: fgdata where
  "fgdata0 = \<lparr>COM1_FRQ = 0, COM2_FRQ = 0, NAV1_FRQ = 0, NAV2_FRQ = 0, COM1_SRV = 0, COM2_SRV = 0,
     NAV1_SRV = 0, NAV2_SRV = 0, PTT = 0, TRANSPONDER = 0, IAS = 0, GS = 0, LON = 0, LAT = 0, ALT = 0, HEAD = 0\<rparr>"

definition client0 :: "config \<Rightarrow> client" where
  "client0 cf = \<lparr>cl_data = fgdata0, cl_selected_frequency = 0, cl_previous_com_frequency = 0,
     cl_previous_ptt = 0, cl_com_select = 0, cl_connected = 0, cl_icao = '''', cl_num_buf = '''',
     cl_last_state = 0, cl_commands = [Input_level 0, Output_level (cf_level_out cf)]\<rparr>"

text \<open>In the other mode, for a controller, there is one call, with microphone and speaker on.\<close>

definition atc_mode :: "config \<Rightarrow> string \<Rightarrow> rat \<Rightarrow> client \<Rightarrow> client option" where
  "atc_mode cf airport frequency st =
     do { (_, num) \<leftarrow> icao2atisnumber airport (float frequency);
          do_iaxc_call cf num (issue [Input_level 1, Output_level 1] st) }"

text \<open>What can happen: a packet, the timer, an event. Each handler runs to its end.\<close>

datatype happening = Packet string | Alarm | Event iaxc_event

fun step :: "config \<Rightarrow> happening \<Rightarrow> client \<Rightarrow> client option" where
  "step cf (Packet buf) st = process_packet cf buf st"
| "step cf Alarm st = alarm_handler cf st"
| "step cf (Event e) st = Some (snd (iaxc_callback e st))"

fun run :: "config \<Rightarrow> happening list \<Rightarrow> client \<Rightarrow> client option" where
  "run cf [] st = Some st"
| "run cf (h # hs) st = (case step cf h st of None \<Rightarrow> None | Some st \<Rightarrow> run cf hs st)"

end
