(* ===== verification/Fgcom_Radio_Props.thy ===== *)
theory Fgcom_Radio_Props
  imports Fgcom_Radio
begin

text \<open>
  Correctness of numbers and frequencies in spite of rounding: the number of a channel carries its
  frequency in kHz exactly, and below 128 MHz an airport is found exactly on its channel. Between 128
  and 131 MHz the rounding to \<open>float\<close> in \<open>ceilf\<close> makes channels unusable.
\<close>

section \<open>Rounding errors\<close>

lemma fl_rel: "\<bar>fl p x - x\<bar> \<le> \<bar>x\<bar> / 2 ^ p"
proof (cases "x = 0")
  case False
  then have "0 < \<bar>x\<bar>" by simp
  note b = flog_bounds[OF this]
  have "\<bar>fl p x - x\<bar> \<le> 2 powi (flog \<bar>x\<bar> - int p)" by (rule fl_near[OF b])
  also have "\<dots> = 2 powi flog \<bar>x\<bar> / 2 ^ p" by (simp add: power_int_diff)
  also have "\<dots> \<le> \<bar>x\<bar> / 2 ^ p" using b(1) by (rule divide_right_mono) simp
  finally show ?thesis .
qed simp

text \<open>A channel is given by its frequency in kHz.\<close>

abbreviation channel :: "int \<Rightarrow> rat" where "channel k \<equiv> of_int k / 1000"

lemma khz_near:
  assumes "\<bar>f - channel k\<bar> \<le> channel k / 2 ^ 24" "0 < k" "k < 1000000"
  shows "khz f = k" "khz_d f = k"
proof -
  have k: "(0::rat) < of_int k" "(of_int k :: rat) < 1000000" using assms by simp_all
  have f: "0 \<le> f" "f \<le> 1001" "\<bar>1000 * f - of_int k\<bar> \<le> of_int k / 2 ^ 24"
    using assms(1) k by (auto simp: abs_if split: if_splits)
  have r: "trunc_int h = k" if "\<bar>h - (of_int k + 1/2)\<bar> < 1/2" for h
    using that k by (auto simp: trunc_int_def abs_if floor_eq_iff split: if_splits)
  have g: "\<bar>g - 1000 * f\<bar> \<le> 1001000 / 2 ^ 24 \<Longrightarrow> \<bar>d_add g (1/2) - (of_int k + 1/2)\<bar> < 1/2" for g
    using fl_rel[of 53 "g + 1/2"] f k by (auto simp: d_add_def abs_if split: if_splits)
  have "\<bar>f_mul f 1000 - 1000 * f\<bar> \<le> 1001000 / 2 ^ 24"
    using fl_rel[of 24 "f * 1000"] f by (auto simp: f_mul_def abs_if split: if_splits)
  then show "khz f = k" unfolding khz_def by (intro r g)
  have "\<bar>d_mul f 1000 - 1000 * f\<bar> \<le> 1001000 / 2 ^ 24"
    using fl_rel[of 53 "f * 1000"] f by (auto simp: d_mul_def abs_if split: if_splits)
  then show "khz_d f = k" unfolding khz_d_def by (intro r g)
qed

lemma khz_channel:
  assumes "0 < k" "k < 1000000"
  shows "khz (float (channel k)) = k" "khz_d (float (channel k)) = k"
proof -
  have n: "\<bar>float (channel k) - channel k\<bar> \<le> channel k / 2 ^ 24"
    using fl_rel[of 24 "channel k"] assms(1) by simp
  show "khz (float (channel k)) = k" "khz_d (float (channel k)) = k"
    using khz_near[OF n assms] .
qed

lemma float_channel:
  assumes "64000 \<le> k" "k < 128000"
  shows "\<bar>float (channel k) - channel k\<bar> \<le> 1 / 262144"
proof -
  have "2 powi 6 \<le> \<bar>channel k\<bar>" "\<bar>channel k\<bar> < 2 powi (6 + 1)"
    using assms by (simp_all add: power_int_def)
  from fl_near[OF this, of 24] show ?thesis by (simp add: power_int_def power_divide)
qed

text \<open>Near 100 MHz the values of type \<open>float\<close> are 1/128 kHz apart.\<close>

lemma ceilf_near:
  assumes "\<bar>x - of_int n\<bar> < 1/256" "65536 < n" "n < 131072"
  shows "ceilf x = of_int n"
proof -
  have n: "(65537 :: rat) \<le> of_int n" "(of_int n :: rat) \<le> 131071" using assms(2,3) by simp_all
  have r: "float y = of_int n" if y: "\<bar>y - of_int n\<bar> < 1/256" for y
  proof -
    have e: "2 powi 16 \<le> \<bar>y\<bar>" "\<bar>y\<bar> < 2 powi (16 + 1)"
      using y n by (auto simp: power_int_def abs_if split: if_splits)
    have "\<bar>y * 2 powi (int 24 - 1 - 16) - of_int (128 * n)\<bar> = 128 * \<bar>y - of_int n\<bar>"
      by (simp add: power_int_def abs_if)
    also have "\<dots> < 1/2" using y by simp
    finally have "float y = of_int (128 * n) * 2 powi (16 + 1 - int 24)" by (rule fl_to[OF e])
    then show ?thesis by (simp add: power_int_def power_divide)
  qed
  show ?thesis using r[OF assms(1)] r[of "of_int n"] by (simp add: ceilf_def)
qed

lemma to_khz_up_near:
  assumes "\<bar>f - channel n\<bar> \<le> 1 / 260000" "65536 < n" "n < 131072"
  shows "to_khz_up f = double (channel n)"
proof -
  have n: "(65536 :: rat) < of_int n" "(of_int n :: rat) < 131072" using assms(2,3) by simp_all
  have f: "\<bar>1000 * f - of_int n\<bar> \<le> 1 / 260" "0 < f" "f < 132"
    using assms(1) n by (auto simp: abs_if split: if_splits)
  have "\<bar>d_mul f 1000 - 1000 * f\<bar> \<le> 132000 / 2 ^ 53"
    using fl_rel[of 53 "f * 1000"] f by (auto simp: d_mul_def abs_if split: if_splits)
  with f(1) have "\<bar>d_mul f 1000 - of_int n\<bar> < 1/256"
    by (auto simp: abs_if split: if_splits)
  from ceilf_near[OF this assms(2,3)] show ?thesis by (simp add: to_khz_up_def d_div_def)
qed

lemma near_same:
  fixes i j :: int
  assumes "\<bar>a - channel i\<bar> < 1 / 2000" "\<bar>a - channel j\<bar> < 1 / 2000"
  shows "i = j"
proof -
  have "\<bar>of_int i - of_int j\<bar> < (1 :: rat)" using assms by linarith
  then have "\<bar>i - j\<bar> < 1" by (metis of_int_abs of_int_diff of_int_less_1_iff)
  then show ?thesis by simp
qed

lemma double_channel: "0 \<le> k \<Longrightarrow> k < 1000000 \<Longrightarrow> \<bar>double (channel k) - channel k\<bar> < 1 / 2000"
  using fl_rel[of 53 "channel k"] by (auto simp: abs_if of_int_less_iff[of k 1000000, symmetric]
      simp del: of_int_less_iff split: if_splits)

section \<open>Decimal digits\<close>

definition digit :: "nat \<Rightarrow> char" where
  "digit d = char_of (48 + d)"

lemma digit_eq [simp]: "a < 10 \<Longrightarrow> b < 10 \<Longrightarrow> digit a = digit b \<longleftrightarrow> a = b"
  by (auto simp: digit_def take_bit_eq_mod dest!: arg_cong[of _ _ "of_char :: char \<Rightarrow> nat"])

lemma dec_step: "dec n = (if n < 10 then [digit n] else dec (n div 10) @ [digit (n mod 10)])"
  by (subst dec.simps) (simp add: digit_def)

lemma digit_0: "digit 0 = CHR ''0''"
  by code_simp

lemma pad0_Suc: "pad0 (Suc (Suc w)) n = pad0 (Suc w) (n div 10) @ [digit (n mod 10)]"
  by (cases "n < 10") (simp_all add: pad0_def dec_step[of n] dec_step[of 0] digit_0 replicate_append_same[symmetric])

lemma pad0_1: "n < 10 \<Longrightarrow> pad0 (Suc 0) n = [digit n]"
  by (simp add: pad0_def dec_step)

lemma length_pad0: "n < 10 ^ Suc w \<Longrightarrow> length (pad0 (Suc w) n) = Suc w"
  by (induction w arbitrary: n) (simp_all add: pad0_1 pad0_Suc less_mult_imp_div_less mult.commute)

lemma pad0_inject:
  "m < 10 ^ Suc w \<Longrightarrow> n < 10 ^ Suc w \<Longrightarrow> pad0 (Suc w) m = pad0 (Suc w) n \<longleftrightarrow> m = n"
proof (induction w arbitrary: m n)
  case (Suc w)
  have "m div 10 = n div 10 \<and> m mod 10 = n mod 10 \<longleftrightarrow> m = n" by (metis div_mult_mod_eq)
  with Suc show ?case by (simp add: pad0_Suc less_mult_imp_div_less mult.commute)
qed (simp add: pad0_1)

section \<open>Numbers\<close>

text \<open>
  The characters of an airport code whose codes have two decimal digits; the letters from \<open>d\<close> on do
  not, but capital letters and digits do.
\<close>

definition icao_ok :: "string \<Rightarrow> bool" where
  "icao_ok s \<longleftrightarrow> length s = 4 \<and> list_all (\<lambda>c. 10 \<le> schar c \<and> schar c < 100) s"

definition code_digits :: "char \<Rightarrow> string" where
  "code_digits c = pad0_int 2 (schar c)"

lemma length_code_digits: "0 \<le> schar c \<Longrightarrow> schar c < 100 \<Longrightarrow> length (code_digits c) = 2"
  using length_pad0[of "nat (schar c)" 1] by (simp add: code_digits_def pad0_int_def numeral_2_eq_2)

lemma schar_inject: "schar c = schar d \<Longrightarrow> c = d"
proof -
  assume "schar c = schar d"
  then have "of_char c = (of_char d :: nat)"
    using nat_of_char_less_256[of c] nat_of_char_less_256[of d]
    unfolding schar_def by (simp only: split: if_split_asm)
  then show "c = d" by simp
qed

lemma code_digits_inject:
  assumes "0 \<le> schar c" "schar c < 100" "0 \<le> schar d" "schar d < 100"
  shows "code_digits c = code_digits d \<longleftrightarrow> c = d"
  using pad0_inject[of "nat (schar c)" 1 "nat (schar d)"] assms schar_inject[of c d]
  by (auto simp: code_digits_def pad0_int_def numeral_2_eq_2)

lemma digits_inject:
  assumes "list_all (\<lambda>c. 10 \<le> schar c \<and> schar c < 100) s" "list_all (\<lambda>c. 10 \<le> schar c \<and> schar c < 100) t"
    "length s = length t"
  shows "concat (map code_digits s) = concat (map code_digits t) \<longleftrightarrow> s = t"
  using assms(3,1,2) by (induction s t rule: list_induct2) (auto simp: length_code_digits code_digits_inject)

lemma length_digits:
  "list_all (\<lambda>c. 10 \<le> schar c \<and> schar c < 100) s \<Longrightarrow> length (concat (map code_digits s)) = 2 * length s"
  by (induction s) (auto simp: length_code_digits)

definition station_number :: "string \<Rightarrow> int \<Rightarrow> string" where
  "station_number icao k = ''01'' @ concat (map code_digits icao) @ pad0 6 (nat k)"

lemma icao2number_station:
  assumes "icao_ok icao" "0 < k" "k < 1000000"
  shows "icao2number icao (float (channel k)) = Some (icao, station_number icao k)"
    and "length (station_number icao k) = 16"
proof -
  have l: "length (pad0 6 (nat k)) = 6" using length_pad0[of "nat k" 5] assms by simp
  have d: "length (concat (map code_digits icao)) = 8"
    using length_digits[of icao] assms(1) by (simp add: icao_ok_def)
  have c: "pad0_int 2 DEFAULT_CODE = ''01''" by code_simp
  show "length (station_number icao k) = 16" using l d by (simp add: station_number_def)
  show "icao2number icao (float (channel k)) = Some (icao, station_number icao k)"
    using assms l d c by (auto simp: icao2number_def number_text_def icao_ok_def khz_channel
        station_number_def pad0_int_def[of 6] code_digits_def[abs_def])
qed

lemma station_number_inject:
  assumes "icao_ok i" "icao_ok j" "0 < k" "k < 1000000" "0 < l" "l < 1000000"
  shows "station_number i k = station_number j l \<longleftrightarrow> i = j \<and> k = l"
  using assms digits_inject[of i j] length_digits[of i] length_digits[of j] pad0_inject[of "nat k" 5 "nat l"]
  by (auto simp: station_number_def icao_ok_def)

text \<open>
  The room that a radio reaches at a server: the number of the station after the server's changes.
  The default server has its channels ending in 20 and 70 kHz moved up by 5.
\<close>

definition room :: "string \<Rightarrow> string \<Rightarrow> rat \<Rightarrow> string option" where
  "room server icao frequency =
     (case icao2number icao frequency of None \<Rightarrow> None | Some (_, n) \<Rightarrow> patch_number server n)"

definition dial_channel :: "int \<Rightarrow> int" where
  "dial_channel k = (if k mod 50 = 20 then k + 5 else k)"

lemma pad0_last_two:
  "n < 1000000 \<Longrightarrow> \<exists>r. pad0 6 n = r @ [digit (n div 10 mod 10), digit (n mod 10)] \<and> length r = 4 \<and>
     (n mod 10 = 0 \<longrightarrow> pad0 6 (n + 5) = r @ [digit (n div 10 mod 10), digit 5])"
  using pad0_Suc[of 4] pad0_Suc[of 3] length_pad0[of "n div 10 div 10" 3]
  by (intro exI[of _ "pad0 4 (n div 10 div 10)"]) (auto simp: div_add1_eq[of n 5] mod_add_eq)

lemma mod_50_20:
  fixes n :: nat
  shows "n mod 50 = 20 \<longleftrightarrow> (n div 10 mod 10 = 2 \<or> n div 10 mod 10 = 7) \<and> n mod 10 = 0"
proof -
  have "n mod 50 = 10 * (n div 10 mod 5) + n mod 10" using mod_mult2_eq[of n 10 5] by simp
  moreover have "10 * a + b = 20 \<longleftrightarrow> a = 2 \<and> b = 0" if "b < 10" for a b :: nat using that by presburger
  ultimately have "n mod 50 = 20 \<longleftrightarrow> n div 10 mod 5 = 2 \<and> n mod 10 = 0" by simp
  moreover have "q mod 5 = 2 \<longleftrightarrow> q mod 10 = 2 \<or> q mod 10 = 7" for q :: nat by presburger
  ultimately show ?thesis by (simp only:)
qed

lemma take_number:
  assumes "icao_ok icao" "0 < k" "k < 1000000"
  shows "patch_number ''fgcom.flightgear.org'' (station_number icao k) = Some (station_number icao (dial_channel k))"
proof -
  let ?p = "''01'' @ concat (map code_digits icao)"
  obtain r where r: "pad0 6 (nat k) = r @ [digit (nat k div 10 mod 10), digit (nat k mod 10)]" "length r = 4"
      "nat k mod 10 = 0 \<Longrightarrow> pad0 6 (nat k + 5) = r @ [digit (nat k div 10 mod 10), digit 5]"
    using pad0_last_two[of "nat k"] assms(2,3) by (auto simp: nat_less_iff)
  have d: "CHR ''0'' = digit 0" "CHR ''2'' = digit 2" "CHR ''7'' = digit 7" "CHR ''5'' = digit 5" by code_simp+
  have p: "length ?p = 10" using length_digits[of icao] assms(1) by (simp add: icao_ok_def)
  define xs where "xs = ?p @ r"
  have l: "length xs = 14" using p r(2) by (simp add: xs_def)
  have n: "station_number icao k = xs @ [digit (nat k div 10 mod 10), digit (nat k mod 10)]"
    by (simp add: station_number_def r xs_def)
  have s: "station_number icao (k + 5) = xs @ [digit (nat k div 10 mod 10), digit 5]" if "nat k mod 10 = 0"
    using r(3)[OF that] assms(2) by (simp add: station_number_def nat_add_distrib xs_def)
  have k: "k mod 50 = 20 \<longleftrightarrow> (nat k div 10 mod 10 = 2 \<or> nat k div 10 mod 10 = 7) \<and> nat k mod 10 = 0"
  proof -
    have "k mod 50 = int (nat k mod 50)" using assms(2) by (simp add: zmod_int)
    then have "k mod 50 = 20 \<longleftrightarrow> nat k mod 50 = 20" by linarith
    then show ?thesis using mod_50_20 by (rule trans)
  qed
  have i: "(xs @ [a, b]) ! 14 = a" "(xs @ [a, b]) ! 15 = b" "(xs @ [a, b])[15 := e] = xs @ [a, e]" for a b e
    using l by (simp_all add: nth_append list_update_append)
  show ?thesis
    unfolding patch_number_def dial_channel_def k d n
    by (simp add: i l Let_def n s)
qed

text \<open>
  C31. Radios meet exactly when they should: at the default server a number has sixteen digits, and two
  stations have the same number exactly when they have the same airport and the same channel, where
  the channels ending in 20 and 70 kHz count as the ones 5 kHz above. The frequency is in the number
  to the kHz, although the radio has it only as a \<open>float\<close>.
\<close>

theorem same_room_iff:
  assumes "icao_ok i" "0 < k" "k < 999990" "icao_ok j" "0 < l" "l < 999990"
  shows "(room ''fgcom.flightgear.org'' i (float (channel k)) = room ''fgcom.flightgear.org'' j (float (channel l))
      \<longleftrightarrow> i = j \<and> dial_channel k = dial_channel l) \<and>
    (\<exists>n. room ''fgcom.flightgear.org'' i (float (channel k)) = Some n \<and> length n = 16)"
proof -
  have d: "0 < dial_channel x" "dial_channel x < 1000000" if "0 < x" "x < 999990" for x
    using that by (auto simp: dial_channel_def)
  have r: "room ''fgcom.flightgear.org'' a (float (channel x)) = Some (station_number a (dial_channel x))"
    if "icao_ok a" "0 < x" "x < 999990" for a x
    using that by (simp add: room_def icao2number_station take_number)
  show ?thesis
    using assms d station_number_inject[of i j "dial_channel k" "dial_channel l"]
      icao2number_station(2)[of i "dial_channel k"] by (simp add: r)
qed

lemma same_room_iff_witness:
  "room ''fgcom.flightgear.org'' ''EDDF'' (float (channel 118020)) =
   room ''fgcom.flightgear.org'' ''EDDF'' (float (channel 118025)) \<and>
   room ''fgcom.flightgear.org'' ''EDDF'' (float (channel 118020)) \<noteq>
   room ''fgcom.flightgear.org'' ''EDDM'' (float (channel 118020))"
proof -
  have "icao_ok ''EDDF''" "icao_ok ''EDDM''" by code_simp+
  then show ?thesis
    using same_room_iff[of "''EDDF''" 118020 "''EDDF''" 118025]
      same_room_iff[of "''EDDF''" 118020 "''EDDM''" 118020] by (simp add: dial_channel_def)
qed

section \<open>The airport on a channel\<close>

definition listed_channel :: "int \<Rightarrow> int" where
  "listed_channel k = (if k mod 10 = 5 then k - 5 else k)"

lemma tuned_channel:
  assumes "108000 \<le> k" "k < 128000"
  shows "tuned (float (channel k)) =
     (if k mod 10 = 5 then double (channel (k - 5)) else float (channel k))"
proof -
  have k: "khz_d (float (channel k)) = k" using khz_channel(2)[of k] assms by simp
  have m: "k mod 10 \<noteq> 0 \<and> k mod 5 = 0 \<longleftrightarrow> k mod 10 = 5" by presburger
  have b: "(108000 :: rat) \<le> of_int k" "(of_int k :: rat) < 128000" using assms by simp_all
  have f: "\<bar>float (channel k) - channel k\<bar> \<le> 1 / 262144" using float_channel[of k] assms by simp
  have c: "\<bar>double (5/1000) - 5/1000\<bar> \<le> 1 / 10000000000"
    using fl_rel[of 53 "5/1000"] by (auto simp: abs_if split: if_splits)
  let ?x = "float (channel k) - double (5/1000)"
  have "\<bar>d_sub (float (channel k)) (double (5/1000)) - ?x\<bar> \<le> \<bar>?x\<bar> / 2 ^ 53"
    unfolding d_sub_def by (rule fl_rel)
  moreover have "\<bar>?x\<bar> \<le> 128" using f c b by linarith
  ultimately have "\<bar>d_sub (float (channel k)) (double (5/1000)) - ?x\<bar> \<le> 1 / 10000000000"
    by simp
  moreover have "channel (k - 5) = channel k - 5/1000" by (simp add: diff_divide_distrib)
  ultimately have "\<bar>d_sub (float (channel k)) (double (5/1000)) - channel (k - 5)\<bar> \<le> 1 / 260000"
    using f c by linarith
  from to_khz_up_near[OF this] assms
  show ?thesis by (simp add: tuned_def k m)
qed

lemma to_khz_up_channel:
  assumes "65536 < j" "j < 128000"
  shows "to_khz_up (float (channel j)) = double (channel j)"
  using float_channel[of j] assms by (intro to_khz_up_near) linarith+

lemma float_near: "0 < k \<Longrightarrow> k < 128000 \<Longrightarrow> \<bar>float (channel k) - channel k\<bar> < 1 / 2000"
  using fl_rel[of 24 "channel k"] by (auto simp: abs_if of_int_less_iff[of k 128000, symmetric]
      simp del: of_int_less_iff split: if_splits)

text \<open>A station is found on its own channel and on the one 5 kHz above, and that one is never found.\<close>

lemma same_frequency_channel:
  assumes "ap_frequency a = float (channel j)" "65536 < j" "j < 128000" "108000 \<le> k" "k < 128000"
  shows "same_frequency a (tuned (float (channel k))) \<longleftrightarrow> j = listed_channel k"
proof -
  note up = to_khz_up_channel[OF assms(2,3)]
  have n: "\<bar>double (channel j) - channel j\<bar> < 1 / 2000" "\<bar>float (channel j) - channel j\<bar> < 1 / 2000"
    using assms double_channel[of j] float_near[of j] by auto
  have "\<bar>tuned (float (channel k)) - channel (listed_channel k)\<bar> < 1 / 2000"
    using assms double_channel[of "k - 5"] float_near[of k] tuned_channel[of k] by (auto simp: listed_channel_def)
  then have "same_frequency a (tuned (float (channel k))) \<Longrightarrow> j = listed_channel k"
    unfolding same_frequency_def assms(1) up using n near_same by metis
  moreover have "j = listed_channel k \<Longrightarrow> same_frequency a (tuned (float (channel k)))"
    using assms(1,4,5) up by (auto simp: same_frequency_def tuned_channel listed_channel_def split: if_splits)
  ultimately show ?thesis by blast
qed

definition in_reach :: "libm \<Rightarrow> rat \<Rightarrow> rat \<Rightarrow> rat \<Rightarrow> airport \<Rightarrow> bool" where
  "in_reach lm lat lon reach a \<longleftrightarrow>
     (case distance lm lat lon (ap_lat a) (ap_lon a) of None \<Rightarrow> False | Some r \<Rightarrow> r \<le> reach)"

lemma scan_airports_find:
  "as \<noteq> [] \<Longrightarrow> scan_airports lm as f lat lon reach =
     Some (case find (\<lambda>a. same_frequency a f \<and> in_reach lm lat lon reach a) (butlast as) of
       None \<Rightarrow> '''' | Some a \<Rightarrow> ap_icao a)"
  by (induction lm as f lat lon reach rule: scan_airports.induct) (auto simp: in_reach_def)

lemma tuned_in_band:
  assumes "108000 \<le> k" "k < 128000"
  shows "DEFAULT_LOWER_FRQ_LIMIT \<le> tuned (float (channel k))" "tuned (float (channel k)) \<le> DEFAULT_UPPER_FRQ_LIMIT"
proof -
  have "108 \<le> fl p (channel i)" if i: "108000 \<le> i" "i < 128000" and p: "p = 24 \<or> p = 53" for p i
  proof (cases "i = 108000")
    case True
    have "fl 24 108 = 108" "fl 53 108 = 108" by code_simp+
    then show ?thesis using p True by auto
  next
    case False
    then have b: "(108001 :: rat) \<le> of_int i" "(of_int i :: rat) < 128000" using i by simp_all
    then show ?thesis using fl_rel[of 24 "channel i"] fl_rel[of 53 "channel i"] p
      by (auto simp: abs_if split: if_splits)
  qed
  moreover have "k mod 10 = 5 \<Longrightarrow> 108000 \<le> k - 5" using assms(1) by presburger
  ultimately show "DEFAULT_LOWER_FRQ_LIMIT \<le> tuned (float (channel k))"
    using assms by (auto simp: tuned_channel DEFAULT_LOWER_FRQ_LIMIT_def simp del: of_int_diff)
  have "channel k < 128" "channel (k - 5) < 128" using assms by simp_all
  then have "float (channel k) \<le> 140" "double (channel (k - 5)) \<le> 140"
    using assms float_near[of k] double_channel[of "k - 5"] by linarith+
  then show "tuned (float (channel k)) \<le> DEFAULT_UPPER_FRQ_LIMIT"
    using assms by (simp add: tuned_channel DEFAULT_UPPER_FRQ_LIMIT_def del: of_int_diff)
qed

text \<open>Stations from 128 MHz on are not mistaken for one below.\<close>

lemma same_frequency_above:
  assumes "ap_frequency a = float (channel j)" "128000 \<le> j" "j < 1000000" "108000 \<le> k" "k < 128000"
  shows "\<not> same_frequency a (tuned (float (channel k)))"
proof -
  let ?f = "float (channel j)"
  have j: "(128000 :: rat) \<le> of_int j" "(of_int j :: rat) \<le> 1000000" using assms by simp_all
  have f: "of_int j - 1/10 \<le> 1000 * ?f" "1000 * ?f \<le> 1000001" "127999 \<le> 1000 * ?f"
    using fl_rel[of 24 "channel j"] j by (auto simp: abs_if split: if_splits)
  have m: "of_int j - 2/10 \<le> d_mul ?f 1000" "d_mul ?f 1000 \<le> 1000002"
    using fl_rel[of 53 "?f * 1000"] f by (auto simp: d_mul_def abs_if split: if_splits)
  have c: "of_int j - 3/10 \<le> float (d_mul ?f 1000)"
    using fl_rel[of 24 "d_mul ?f 1000"] m j by (auto simp: abs_if split: if_splits)
  define n where "n = \<lceil>float (d_mul ?f 1000)\<rceil>"
  have "(of_int j :: rat) - 1 < of_int n" using c by (simp add: n_def) linarith
  then have "j \<le> n" by linarith
  then have n: "(128000 :: rat) \<le> of_int n" using assms(2) by linarith
  have u: "127999/1000 + 9/10000 \<le> float (of_int n) / 1000"
    using fl_rel[of 24 "of_int n"] n by (auto simp: abs_if field_simps split: if_splits)
  then have "127999/1000 + 8/10000 \<le> to_khz_up ?f"
    using fl_rel[of 53 "float (of_int n) / 1000"]
    by (auto simp: to_khz_up_def ceilf_def n_def[symmetric] d_div_def abs_if field_simps split: if_splits)
  moreover have "127999/1000 + 8/10000 \<le> ?f" using f fl_rel[of 24 "channel j"] j
    by (auto simp: abs_if field_simps split: if_splits)
  moreover have "tuned (float (channel k)) < 127999/1000 + 8/10000"
  proof -
    have "channel k \<le> 127999/1000" "channel (k - 5) \<le> 127999/1000" using assms by simp_all
    then have "float (channel k) < 127999/1000 + 8/10000" "double (channel (k - 5)) < 127999/1000 + 8/10000"
      using assms float_near[of k] double_channel[of "k - 5"] by linarith+
    then show ?thesis using assms by (simp add: tuned_channel del: of_int_diff)
  qed
  ultimately show ?thesis using assms(1) by (auto simp: same_frequency_def)
qed

lemma scan_station:
  assumes "airports \<noteq> []" "108000 \<le> k" "k < 128000"
    and "\<forall>a \<in> set airports. ap_frequency a = float (channel (ch a)) \<and> 65536 < ch a \<and> ch a < 1000000"
  shows "icaobypos lm airports (float (channel k)) lat lon reach =
     Some (case find (\<lambda>a. ch a = listed_channel k \<and> in_reach lm lat lon reach a) (butlast airports) of
       None \<Rightarrow> '''' | Some a \<Rightarrow> ap_icao a)"
proof -
  have s: "same_frequency a (tuned (float (channel k))) \<longleftrightarrow> ch a = listed_channel k" if "a \<in> set airports" for a
  proof (cases "ch a < 128000")
    case True
    then show ?thesis using that assms same_frequency_channel[of a "ch a" k] by auto
  next
    case False
    then show ?thesis
      using that assms same_frequency_above[of a "ch a" k] by (auto simp: listed_channel_def split: if_splits)
  qed
  have "find (\<lambda>a. same_frequency a (tuned (float (channel k))) \<and> in_reach lm lat lon reach a) (butlast airports) =
      find (\<lambda>a. ch a = listed_channel k \<and> in_reach lm lat lon reach a) (butlast airports)"
    by (rule find_cong) (auto simp: s dest: in_set_butlastD)
  then show ?thesis
    using assms(1-3) tuned_in_band by (simp add: icaobypos_def scan_airports_find)
qed

text \<open>
  C32. The airport of a tuned frequency. With the radio on channel \<open>k\<close> from 108 to 128 MHz, and stations
  on channels up to 1000 MHz, \<open>icaobypos\<close> returns the first station, in the order of the list and
  not by distance, that is on that channel (5 kHz lower for a channel that ends in 5) and in range;
  the last station of the list is never found.
\<close>

theorem icaobypos_finds:
  assumes "airports \<noteq> []" "108000 \<le> k" "k < 128000"
    and "\<forall>a \<in> set airports. ap_frequency a = float (channel (ch a)) \<and> 65536 < ch a \<and> ch a < 1000000"
  shows "icaobypos lm airports (float (channel k)) lat lon reach =
     Some (case find (\<lambda>a. ch a = listed_channel k \<and> in_reach lm lat lon reach a) (butlast airports) of
       None \<Rightarrow> '''' | Some a \<Rightarrow> ap_icao a)"
  using assms by (rule scan_station)

definition station :: "string \<Rightarrow> int \<Rightarrow> airport" where
  "station icao k = \<lparr>ap_icao = icao, ap_frequency = float (channel k), ap_lat = 50, ap_lon = 8,
     ap_type = '''', ap_text = ''''\<rparr>"

definition flat :: libm where
  "flat = \<lparr>m_sin = \<lambda>x. x, m_cos = \<lambda>_. 1, m_acos = \<lambda>_. Some 0\<rparr>"

lemma icaobypos_finds_witness:
  "icaobypos flat [station ''EDDF'' 118020, station ''EDDM'' 118020] (float (channel 118025)) 50 8 100 = Some ''EDDF'' \<and>
   icaobypos flat [station ''EDDF'' 118020] (float (channel 118025)) 50 8 100 = Some ''''"
proof -
  have "icaobypos flat [station ''EDDF'' 118020, station ''EDDM'' 118020] (float (channel 118025)) 50 8 100 = Some ''EDDF''"
    using icaobypos_finds[of "[station ''EDDF'' 118020, station ''EDDM'' 118020]" 118025 "\<lambda>a. 118020" flat 50 8 100]
    by (simp add: station_def listed_channel_def in_reach_def distance_def flat_def d_mul_def)
  moreover have "icaobypos flat [station ''EDDF'' 118020] (float (channel 118025)) 50 8 100 = Some ''''"
    using icaobypos_finds[of "[station ''EDDF'' 118020]" 118025 "\<lambda>a. 118020" flat 50 8 100]
    by (simp add: station_def)
  ultimately show ?thesis ..
qed

text \<open>
  Channel 128.025 is deaf: whatever the position, no list of stations on 128.020 and 128.025
  has an airport for it, because the two roundings to \<open>float\<close> in \<open>icaobypos\<close> come to 128.020 for the radio and to 128.021 for the station.
\<close>

theorem channel_128025_deaf:
  assumes "airports \<noteq> []"
    and "\<forall>a \<in> set airports. ap_frequency a \<in> {float (channel 128020), float (channel 128025)}"
  shows "icaobypos lm airports (float (channel 128025)) lat lon reach = Some ''''"
proof -
  have t: "tuned (float (channel 128025)) = double (channel 128020)" by code_simp
  have "to_khz_up (float (channel 128020)) \<noteq> double (channel 128020)"
    "to_khz_up (float (channel 128025)) \<noteq> double (channel 128020)"
    "float (channel 128020) \<noteq> double (channel 128020)" "float (channel 128025) \<noteq> double (channel 128020)"
    by code_simp+
  then have "\<not> same_frequency a (double (channel 128020))" if "a \<in> set airports" for a
    using that assms(2) by (auto simp: same_frequency_def)
  then have "find (\<lambda>a. same_frequency a (double (channel 128020)) \<and> in_reach lm lat lon reach a) (butlast airports) = None"
    by (auto simp: find_None_iff dest: in_set_butlastD)
  then show ?thesis
    unfolding icaobypos_def t Let_def scan_airports_find[OF assms(1)] by simp
qed

lemma channel_128025_deaf_witness:
  "icaobypos flat [station ''EDDF'' 128020, station ''EDDF'' 128025, station ''EDDM'' 128020] (float (channel 128025)) 50 8 100
     = Some ''''"
  by (rule channel_128025_deaf) (auto simp: station_def)

end
