(* ===== verification/Fgcom_Client_Props.thy ===== *)
theory Fgcom_Client_Props
  imports Fgcom_Client Fgcom_Radio_Props
begin

text \<open>
  Properties of the client in the mode for FlightGear: which packets end the program, that one call
  is made at a time, what tuning dials, and when the microphone is open.
\<close>

section \<open>Calls always have a number\<close>

lemma length_pad0_ge: "w \<le> length (pad0 w n)"
  by (simp add: pad0_def)

lemma length_pad0_int_ge: "w \<le> length (pad0_int w i)"
proof (cases "i < 0")
  case True
  have "w - 1 \<le> length (pad0 (w - 1) (nat (- i)))" by (rule length_pad0_ge)
  then show ?thesis using True unfolding pad0_int_def by simp
next
  case False
  then show ?thesis by (simp add: pad0_int_def length_pad0_ge)
qed

lemma length_number_text:
  assumes "number_text code icao f = Some n"
  shows "length n = 16"
proof -
  let ?w = "replicate (4 - length icao) CHR '' '' @ icao"
  let ?c = "concat (map (\<lambda>c. pad0_int 2 (schar c)) ?w)"
  have "2 * length s \<le> length (concat (map (\<lambda>c. pad0_int 2 (schar c)) s))" for s
  proof (induction s)
    case (Cons c s)
    then show ?case using length_pad0_int_ge[of 2 "schar c"] by simp
  qed simp
  from this[of ?w] have "8 \<le> length ?c" by simp
  then have "16 \<le> length (pad0_int 2 code @ ?c @ pad0_int 6 (khz f))"
    using length_pad0_int_ge[of 2 code] length_pad0_int_ge[of 6 "khz f"] by simp
  moreover have "n = take 16 (pad0_int 2 code @ ?c @ pad0_int 6 (khz f))"
    using assms unfolding number_text_def Let_def by (auto simp only: option.inject split: if_splits)
  ultimately show ?thesis by (simp only: length_take min_absorb2)
qed

lemma patch_number_some: "length n = 16 \<Longrightarrow> \<exists>m. patch_number server n = Some m \<and> length m = 16"
  by (auto simp: patch_number_def Let_def)

lemma call_dest_some: "length n = 16 \<Longrightarrow> \<exists>d. call_dest u p server n = Some d"
  using patch_number_some[of n server] by (auto simp: call_dest_def)

definition same_radio :: "client \<Rightarrow> client \<Rightarrow> bool" where
  "same_radio st st' \<longleftrightarrow> cl_data st' = cl_data st \<and> cl_selected_frequency st' = cl_selected_frequency st \<and>
     cl_previous_com_frequency st' = cl_previous_com_frequency st \<and>
     cl_previous_ptt st' = cl_previous_ptt st \<and> cl_com_select st' = cl_com_select st"

lemma dial_total:
  assumes "length (cl_icao st) \<le> 4"
  shows "\<exists>st' d. dial cf st = Some st' \<and> cl_connected st' = 1 \<and> same_radio st st' \<and> length (cl_icao st') \<le> 4 \<and>
    cl_commands st' = cl_commands st @ [Call d, Millisleep DEFAULT_MILLISLEEP]"
proof -
  obtain icao n where n: "icao2number (cl_icao st) (float (cl_selected_frequency st)) = Some (icao, n)"
      "length icao \<le> 4"
    using assms by (simp add: icao2number_def number_text_def Let_def split: if_splits)
  then have l: "length n = 16"
    using length_number_text by (auto simp: icao2number_def Let_def)
  obtain d where "call_dest (cf_username cf) (cf_password cf) (cf_voipserver cf) n = Some d"
    using call_dest_some[OF l] by blast
  then show ?thesis using n by (auto simp: dial_def do_iaxc_call_def issue_def same_radio_def)
qed

section \<open>Packets that end the program\<close>

definition config_ok :: "config \<Rightarrow> bool" where
  "config_ok cf \<longleftrightarrow> cf_airports cf \<noteq> [] \<and> list_all (\<lambda>a. length (ap_icao a) \<le> 4) (cf_airports cf) \<and>
     list_ex (\<lambda>f. f < 0) (cf_specials cf)"

lemma tuned_airport_total:
  assumes "config_ok cf"
  shows "\<exists>s. tuned_airport cf st = Some s \<and> length s \<le> 4"
proof -
  have "\<exists>s. scan_airports lm as f lat lon reach = Some s \<and> length s \<le> 4"
    if "as \<noteq> []" "list_all (\<lambda>a. length (ap_icao a) \<le> 4) as" for lm as f lat lon reach
    using that by (induction lm as f lat lon reach rule: scan_airports.induct) auto
  then show ?thesis using assms by (auto simp: tuned_airport_def icaobypos_def config_ok_def Let_def)
qed

lemma check_special_total:
  assumes "config_ok cf"
  shows "\<exists>b. check_special_frq (cf_specials cf) f = Some b"
proof -
  have "list_ex (\<lambda>f. f < 0) fs \<Longrightarrow> \<exists>b. special_scan fs x = Some b" for fs x
    by (induction fs) auto
  then show ?thesis using assms by (auto simp: check_special_frq_def config_ok_def)
qed

lemma ptt_total:
  assumes "config_ok cf"
  shows "\<exists>cs. ptt cf m st = Some (issue (Input_level (if m = 1 then cf_level_in cf else 0) # cs) st) \<and>
     (cs = [] \<or> (\<exists>v. cs = [Output_level v]))"
proof -
  obtain b where "check_special_frq (cf_specials cf) (cl_selected_frequency st) = Some b"
    using check_special_total[OF assms] by blast
  then show ?thesis
    by (cases b; cases "m = 1") (auto simp: ptt_def issue_def)
qed

definition field_names :: "string list" where
  "field_names = [''COM1_FRQ'', ''COM2_FRQ'', ''NAV1_FRQ'', ''NAV2_FRQ'', ''PTT'', ''TRANSPONDER'', ''IAS'', ''GS'',
     ''LON'', ''LAT'', ''ALT'', ''HEAD'', ''COM1_SRV'', ''COM2_SRV'', ''NAV1_SRV'', ''NAV2_SRV'']"

lemma store_field_None: "store_field k v d = None \<longleftrightarrow> v = None \<and> k \<in> set field_names"
  by (cases v) (simp_all add: store_field_def field_names_def Let_def)

lemma split_pair:
  assumes "p \<noteq> []"
  shows "split_fields 2 c p =
    Some (if c \<in> set p then ([takeWhile (\<lambda>x. x \<noteq> c) p, drop 1 (dropWhile (\<lambda>x. x \<noteq> c) p)],
                             2 + length (filter (\<lambda>x. x = c) (drop 1 (dropWhile (\<lambda>x. x \<noteq> c) p))))
          else ([p], 1))"
proof -
  have s: "split_fields 2 c p = (case dropWhile (\<lambda>x. x \<noteq> c) p of [] \<Rightarrow> Some ([p], 1)
      | _ # r \<Rightarrow> Some ([takeWhile (\<lambda>x. x \<noteq> c) p, r], 2 + length (filter (\<lambda>x. x = c) r)))"
    using assms by (cases "dropWhile (\<lambda>x. x \<noteq> c) p") (simp_all only: split_fields_def numeral_2_eq_2
        split_single.simps list.case if_False option.map prod.case plus_1_eq_Suc add_Suc add_0)
  show ?thesis
  proof (cases "c \<in> set p")
    case True
    then obtain x r where "dropWhile (\<lambda>x. x \<noteq> c) p = x # r"
      by (cases "dropWhile (\<lambda>x. x \<noteq> c) p") (auto simp: dropWhile_eq_Nil_conv)
    then show ?thesis using True by (simp add: s)
  next
    case False
    then have "dropWhile (\<lambda>x. x \<noteq> c) p = []" by (auto simp: dropWhile_eq_Nil_conv)
    then show ?thesis using False unfolding s by (simp only: list.case if_False)
  qed
qed

lemma parse_pairs_None:
  assumes "[] \<notin> set ps"
  shows "parse_pairs ps v d = None \<longleftrightarrow>
     v = None \<and> list_ex (\<lambda>p. p \<in> set field_names) (takeWhile (\<lambda>p. CHR ''='' \<notin> set p) ps)"
  using assms
proof (induction ps arbitrary: v d)
  case (Cons p ps)
  have "p \<noteq> []" using Cons.prems by auto
  note sp = split_pair[OF this, of "CHR ''=''"]
  show ?case
  proof (cases "CHR ''='' \<in> set p")
    case True
    obtain d' where "store_field (takeWhile (\<lambda>x. x \<noteq> CHR ''='') p) (Some (drop 1 (dropWhile (\<lambda>x. x \<noteq> CHR ''='') p))) d = Some d'"
      using store_field_None by (metis not_Some_eq)
    then show ?thesis using Cons True by (simp add: sp)
  next
    case False
    show ?thesis
    proof (cases "store_field p v d")
      case None
      then have "v = None" "p \<in> set field_names" by (simp_all add: store_field_None)
      then show ?thesis using Cons.prems False None by (simp add: sp)
    next
      case (Some d')
      then have "v \<noteq> None \<or> p \<notin> set field_names" using store_field_None[of p v d] by auto
      then show ?thesis using Cons False Some by (auto simp: sp)
    qed
  qed
qed simp

lemma tokens_nonempty: "[] \<notin> set (tokens d s)"
proof (induction d s rule: tokens.induct)
  case (1 d s)
  show ?case
  proof (cases "c_strtok d s")
    case None
    then show ?thesis by (simp add: tokens.simps[of d s])
  next
    case (Some p)
    obtain t r where p: "p = (t, r)" by (cases p)
    have "t \<noteq> []" using Some p hd_dropWhile[of "\<lambda>c. c = d" s]
      by (cases "dropWhile (\<lambda>c. c = d) s") (auto simp: c_strtok_def Let_def split: if_splits)
    then show ?thesis using 1[OF Some] p Some by (simp add: tokens.simps[of d s])
  qed
qed

lemma parse_fgdata_None:
  "parse_fgdata d buf = None \<longleftrightarrow>
     list_ex (\<lambda>p. p \<in> set field_names) (takeWhile (\<lambda>p. CHR ''='' \<notin> set p) (tokens CHR '','' buf))"
  unfolding parse_fgdata_def using parse_pairs_None[OF tokens_nonempty] by simp

section \<open>Handlers, seen from outside\<close>

lemma find_dial:
  assumes "dial cf st = Some st'"
  shows "\<exists>d. cl_connected st' = 1 \<and> same_radio st st' \<and> length (cl_icao st') \<le> 4 \<and>
     cl_icao st' \<noteq> [] \<and> cl_commands st' = cl_commands st @ [Call d, Millisleep DEFAULT_MILLISLEEP]"
  using assms
  by (auto simp: dial_def do_iaxc_call_def issue_def same_radio_def icao2number_def number_text_def Let_def
      split: Option.bind_splits if_splits)

lemma retune_changed:
  assumes "cl_previous_com_frequency st \<noteq> cl_selected_frequency st"
  obtains st1 where "retune cf st = Option.bind (tuned_airport cf st1) (\<lambda>a. Option.bind (strcpy_icao a st1) (dial cf))"
    "cl_data st1 = cl_data st" "cl_selected_frequency st1 = cl_selected_frequency st"
    "cl_previous_com_frequency st1 = cl_selected_frequency st"
    "cl_previous_ptt st1 = cl_previous_ptt st" "cl_com_select st1 = cl_com_select st"
    "cl_commands st1 = cl_commands st @
       (if cl_connected st = 1 then [Dump_call, Millisleep (5 * DEFAULT_MILLISLEEP)] else [])"
proof (rule that)
  let ?st1 = "(if cl_connected st = 1 then hang_up (st\<lparr>cl_previous_com_frequency := cl_selected_frequency st\<rparr>)
     else st\<lparr>cl_previous_com_frequency := cl_selected_frequency st\<rparr>)"
  show "retune cf st = Option.bind (tuned_airport cf ?st1) (\<lambda>a. Option.bind (strcpy_icao a ?st1) (dial cf))"
    using assms by (simp add: retune_def Let_def)
qed (simp_all add: hang_up_def issue_def)

lemma find_retune:
  assumes "retune cf st = Some st'"
  shows "(st' = st \<and> cl_previous_com_frequency st = cl_selected_frequency st) \<or>
    (\<exists>d. cl_previous_com_frequency st \<noteq> cl_selected_frequency st \<and>
     cl_connected st' = 1 \<and> length (cl_icao st') \<le> 4 \<and> cl_data st' = cl_data st \<and>
     cl_selected_frequency st' = cl_selected_frequency st \<and>
     cl_previous_com_frequency st' = cl_selected_frequency st \<and>
     cl_previous_ptt st' = cl_previous_ptt st \<and> cl_com_select st' = cl_com_select st \<and>
     cl_commands st' = cl_commands st @ (if cl_connected st = 1 then [Dump_call, Millisleep (5 * DEFAULT_MILLISLEEP)] else [])
       @ [Call d, Millisleep DEFAULT_MILLISLEEP])"
proof (cases "cl_previous_com_frequency st = cl_selected_frequency st")
  case True
  then show ?thesis using assms by (simp add: retune_def)
next
  case False
  from retune_changed[OF this, of cf] obtain st1 where
    1: "retune cf st = Option.bind (tuned_airport cf st1) (\<lambda>a. Option.bind (strcpy_icao a st1) (dial cf))"
    and 2: "cl_data st1 = cl_data st" "cl_selected_frequency st1 = cl_selected_frequency st"
    "cl_previous_com_frequency st1 = cl_selected_frequency st"
    "cl_previous_ptt st1 = cl_previous_ptt st" "cl_com_select st1 = cl_com_select st"
    "cl_commands st1 = cl_commands st @
       (if cl_connected st = 1 then [Dump_call, Millisleep (5 * DEFAULT_MILLISLEEP)] else [])"
    by blast
  from 1 assms obtain a where "dial cf (st1\<lparr>cl_icao := a\<rparr>) = Some st'"
    by (auto simp: strcpy_icao_def split: Option.bind_splits if_splits)
  from find_dial[OF this] show ?thesis using False 2 by (auto simp: same_radio_def)
qed

lemma retune_total:
  assumes "config_ok cf"
  shows "\<exists>st'. retune cf st = Some st'"
proof (cases "cl_previous_com_frequency st = cl_selected_frequency st")
  case False
  from retune_changed[OF this, of cf] obtain st1 where
    1: "retune cf st = Option.bind (tuned_airport cf st1) (\<lambda>a. Option.bind (strcpy_icao a st1) (dial cf))" by blast
  obtain a where "tuned_airport cf st1 = Some a" "length a \<le> 4" using tuned_airport_total[OF assms] by blast
  moreover obtain st' where "dial cf (st1\<lparr>cl_icao := a\<rparr>) = Some st'"
    using dial_total[of "st1\<lparr>cl_icao := a\<rparr>"] calculation(2) by auto
  ultimately show ?thesis using 1 by (simp add: strcpy_icao_def)
qed (simp add: retune_def)

lemma find_ptt:
  assumes "ptt cf m st = Some st'"
  shows "\<exists>cs. st' = issue (Input_level (if m = 1 then cf_level_in cf else 0) # cs) st \<and>
     (cs = [] \<or> (\<exists>v. cs = [Output_level v]))"
  using assms by (auto simp: ptt_def issue_def Let_def split: if_splits Option.bind_splits)

lemma key_total: "config_ok cf \<Longrightarrow> \<exists>st'. key cf st = Some st'"
  using ptt_total[of cf "PTT (cl_data st)" st] by (auto simp: key_def)

lemma process_packet_total:
  assumes "config_ok cf" "takeWhile (\<lambda>c. c \<noteq> CHR 0x00) buf \<noteq> []"
    and "parse_fgdata (cl_data st) (butlast (takeWhile (\<lambda>c. c \<noteq> CHR 0x00) buf)) \<noteq> None"
  shows "\<exists>st'. process_packet cf buf st = Some st'"
proof -
  obtain d where d: "parse_fgdata (cl_data st) (butlast (takeWhile (\<lambda>c. c \<noteq> CHR 0x00) buf)) = Some d"
    using assms(3) by blast
  obtain st1 where "retune cf (select_frequency (st\<lparr>cl_data := d\<rparr>)) = Some st1"
    using retune_total[OF assms(1)] by blast
  then show ?thesis using d assms(2) key_total[OF assms(1), of st1] by (simp add: process_packet_def Let_def)
qed

text \<open>
  C30. A packet ends the program exactly when it is empty or when, before the first pair with an equals
  sign, there is one that is just the name of a field: then \<open>atof\<close> or \<open>atoi\<close> is given a null
  pointer. Everything else in a packet is survived, whatever the state.
\<close>

theorem packet_crash_iff:
  assumes "config_ok cf"
  shows "process_packet cf buf st = None \<longleftrightarrow>
    (let text = takeWhile (\<lambda>c. c \<noteq> CHR 0x00) buf
     in text = [] \<or> list_ex (\<lambda>p. p \<in> set field_names)
          (takeWhile (\<lambda>p. CHR ''='' \<notin> set p) (tokens CHR '','' (butlast text))))"
proof -
  let ?b = "takeWhile (\<lambda>c. c \<noteq> CHR 0x00) buf"
  have "process_packet cf buf st = None \<longleftrightarrow> ?b = [] \<or> parse_fgdata (cl_data st) (butlast ?b) = None"
  proof (cases "?b = [] \<or> parse_fgdata (cl_data st) (butlast ?b) = None")
    case True
    then show ?thesis by (auto simp: process_packet_def Let_def)
  next
    case False
    then show ?thesis using process_packet_total[OF assms, of buf st] by auto
  qed
  then show ?thesis unfolding Let_def parse_fgdata_None .
qed

definition test_config :: config where
  "test_config = \<lparr>cf_libm = flat, cf_airports = [station ''EDDF'' 118000, station ''EDDM'' 119000],
     cf_specials = [-1], cf_username = ''guest'', cf_password = ''guest'',
     cf_voipserver = ''fgcom.flightgear.org'', cf_level_in = 7/10, cf_level_out = 7/10\<rparr>"

lemma packet_crash_iff_witness:
  "process_packet test_config (''PTT'' @ nl) (client0 test_config) = None \<and>
   process_packet test_config (''x=1,PTT'' @ nl) (client0 test_config) \<noteq> None"
proof -
  have ok: "config_ok test_config"
    by (simp add: config_ok_def test_config_def station_def)
  note iff = packet_crash_iff[OF ok, of _ "client0 test_config", unfolded Let_def]
  have "list_ex (\<lambda>p. p \<in> set field_names) (takeWhile (\<lambda>p. CHR ''='' \<notin> set p)
      (tokens CHR '','' (butlast (takeWhile (\<lambda>c. c \<noteq> CHR 0x00) (''PTT'' @ nl)))))"
    and "\<not> (takeWhile (\<lambda>c. c \<noteq> CHR 0x00) (''x=1,PTT'' @ nl) = [] \<or>
      list_ex (\<lambda>p. p \<in> set field_names) (takeWhile (\<lambda>p. CHR ''='' \<notin> set p)
      (tokens CHR '','' (butlast (takeWhile (\<lambda>c. c \<noteq> CHR 0x00) (''x=1,PTT'' @ nl))))))"
    by code_simp+
  then show ?thesis unfolding iff by blast
qed

section \<open>One call at a time\<close>

text \<open>Whether a call is up after a list of commands; \<open>None\<close> when one is made over another or ended twice.\<close>

fun live :: "bool \<Rightarrow> command list \<Rightarrow> bool option" where
  "live b [] = Some b"
| "live b (Call d # cs) = (if b then None else live True cs)"
| "live b (Dump_call # cs) = (if b then live False cs else None)"
| "live b (Millisleep n # cs) = live b cs"
| "live b (Input_level v # cs) = live b cs"
| "live b (Output_level v # cs) = live b cs"

lemma live_append: "live b (xs @ ys) = Option.bind (live b xs) (\<lambda>b. live b ys)"
  by (induction b xs rule: live.induct) auto

definition orderly :: "client \<Rightarrow> bool" where
  "orderly st \<longleftrightarrow> live False (cl_commands st) = Some (cl_connected st = 1) \<and> cl_connected st \<in> {0, 1} \<and>
     cl_com_select st \<in> {0..3} \<and> length (cl_icao st) \<le> 4 \<and>
     cl_previous_com_frequency st = cl_selected_frequency st"

lemma key_keeps:
  assumes "key cf st = Some st'"
  shows "cl_connected st' = cl_connected st \<and> cl_icao st' = cl_icao st \<and> cl_data st' = cl_data st \<and>
    cl_selected_frequency st' = cl_selected_frequency st \<and>
    cl_previous_com_frequency st' = cl_previous_com_frequency st \<and>
    (cl_com_select st' = cl_com_select st \<or> cl_com_select st' = (cl_com_select st + 1) mod 4) \<and>
    cl_previous_ptt st' = PTT (cl_data st) \<and>
    (\<exists>cs. cl_commands st' = cl_commands st @ cs \<and> (\<forall>b. live b cs = Some b))"
  using assms by (auto simp: key_def issue_def split: if_splits Option.bind_splits dest!: find_ptt)

lemma process_packet_orderly:
  assumes "process_packet cf buf st = Some st'" "orderly st"
  shows "orderly st'"
proof -
  obtain d st2 where r: "retune cf (select_frequency (st\<lparr>cl_data := d\<rparr>)) = Some st2" and k: "key cf st2 = Some st'"
    using assms(1) by (auto simp: process_packet_def Let_def split: Option.bind_splits if_splits)
  have s: "cl_connected (select_frequency s) = cl_connected s" "cl_icao (select_frequency s) = cl_icao s"
    "cl_com_select (select_frequency s) = cl_com_select s" "cl_commands (select_frequency s) = cl_commands s"
    "cl_previous_com_frequency (select_frequency s) = cl_previous_com_frequency s" for s
    by (auto simp: select_frequency_def Let_def)
  from find_retune[OF r] have "orderly st2"
    using assms(2) by (auto simp: orderly_def s live_append)
  then show ?thesis using key_keeps[OF k] by (auto simp: orderly_def live_append)
qed

lemma alarm_orderly:
  assumes "alarm_handler cf st = Some st'" "orderly st"
  shows "orderly st'"
  using assms
  by (auto simp: alarm_handler_def orderly_def strcpy_icao_def same_radio_def hang_up_def issue_def live_append
      split: Option.bind_splits if_splits dest!: find_dial)

lemma callback_orderly:
  assumes "orderly st" "\<And>r rn l lc. e \<noteq> Ev_state 0 r rn l lc"
  shows "orderly (snd (iaxc_callback e st))"
proof (cases e)
  case (Ev_state x r rn l lc)
  then have "x \<noteq> 0" using assms(2) by blast
  then show ?thesis using assms(1) Ev_state by (simp add: iaxc_callback_def event_state_def orderly_def)
qed (use assms(1) in \<open>simp_all add: iaxc_callback_def\<close>)

lemma client0_orderly: "orderly (client0 cf)"
  by (simp add: orderly_def client0_def)


definition test_packet :: string where
  "test_packet = ''COM1_FRQ=118,COM1_SRV=1,LAT=50,LON=8,PTT=1'' @ nl"

lemma test_run: "\<exists>st. run test_config [Packet test_packet] (client0 test_config) = Some st"
proof -
  have "config_ok test_config" by (simp add: config_ok_def test_config_def station_def)
  moreover have "parse_fgdata fgdata0 (butlast (takeWhile (\<lambda>c. c \<noteq> CHR 0x00) test_packet)) \<noteq> None"
    "takeWhile (\<lambda>c. c \<noteq> CHR 0x00) test_packet \<noteq> []" by code_simp+
  ultimately have "\<exists>st. process_packet test_config test_packet (client0 test_config) = Some st"
    by (intro process_packet_total) (simp_all add: client0_def)
  then show ?thesis by auto
qed


section \<open>The microphone\<close>

text \<open>The input level that was last set.\<close>

definition mic :: "client \<Rightarrow> rat" where
  "mic st = foldl (\<lambda>m c. case c of Input_level v \<Rightarrow> v | _ \<Rightarrow> m) 0 (cl_commands st)"

lemma key_mic:
  assumes "key cf st = Some st'"
  shows "mic st' = (if cl_previous_ptt st \<noteq> PTT (cl_data st) \<and> PTT (cl_data st) \<noteq> 2 \<and> cl_connected st = 1
     then (if PTT (cl_data st) = 1 then cf_level_in cf else 0) else mic st)"
  using assms by (auto simp: key_def issue_def mic_def split: if_splits Option.bind_splits dest!: find_ptt)

lemma retune_mic:
  assumes "retune cf st = Some st'"
  shows "mic st' = mic st" "cl_data st' = cl_data st" "cl_previous_ptt st' = cl_previous_ptt st"
    "cl_selected_frequency st' = cl_selected_frequency st"
    "cl_connected st' = (if cl_previous_com_frequency st = cl_selected_frequency st then cl_connected st else 1)"
  using find_retune[OF assms] by (auto simp: mic_def)

lemma find_packet:
  assumes "process_packet cf buf st = Some st'"
  obtains d st1 where
    "retune cf (select_frequency (st\<lparr>cl_data := d\<rparr>)) = Some st1" "key cf st1 = Some st'"
    "cl_data st1 = d" "cl_data st' = d" "cl_previous_ptt st' = PTT d" "cl_previous_ptt st1 = cl_previous_ptt st"
    "mic st1 = mic st" "cl_connected st' = cl_connected st1"
    "cl_connected st1 = cl_connected st \<or> cl_connected st1 = 1"
    "cl_selected_frequency st' = cl_previous_com_frequency st \<longrightarrow> cl_connected st1 = cl_connected st"
proof -
  obtain d st1 where r: "retune cf (select_frequency (st\<lparr>cl_data := d\<rparr>)) = Some st1" and k: "key cf st1 = Some st'"
    using assms by (auto simp: process_packet_def Let_def split: Option.bind_splits if_splits)
  have s: "cl_connected (select_frequency s) = cl_connected s" "mic (select_frequency s) = mic s"
    "cl_previous_ptt (select_frequency s) = cl_previous_ptt s" "cl_data (select_frequency s) = cl_data s"
    "cl_previous_com_frequency (select_frequency s) = cl_previous_com_frequency s" for s
    by (auto simp: select_frequency_def Let_def mic_def)
  have u: "mic (st\<lparr>cl_data := d\<rparr>) = mic st" by (simp add: mic_def)
  show ?thesis
    using retune_mic[OF r] key_keeps[OF k] by (intro that[OF r k]) (auto simp: s u)
qed

text \<open>A run in which no call that is up is lost.\<close>

fun calls_kept :: "config \<Rightarrow> happening list \<Rightarrow> client \<Rightarrow> bool" where
  "calls_kept cf [] st = True"
| "calls_kept cf (h # hs) st =
     (case step cf h st of None \<Rightarrow> True
      | Some st' \<Rightarrow> (cl_connected st = 1 \<longrightarrow> cl_connected st' = 1) \<and> calls_kept cf hs st')"

definition closed_or_pressed :: "config \<Rightarrow> client \<Rightarrow> bool" where
  "closed_or_pressed cf st \<longleftrightarrow>
     mic st = 0 \<or> mic st = cf_level_in cf \<and> cl_previous_ptt st \<in> {1, 2} \<and> cl_connected st = 1"

lemma packet_closed_or_pressed:
  assumes "process_packet cf buf st = Some st'" "closed_or_pressed cf st" "cl_connected st = 1 \<longrightarrow> cl_connected st' = 1"
  shows "closed_or_pressed cf st'"
proof -
  from assms(1) obtain d st1 where
    k: "key cf st1 = Some st'" and s: "cl_data st1 = d" "cl_previous_ptt st' = PTT d"
      "cl_previous_ptt st1 = cl_previous_ptt st" "mic st1 = mic st" "cl_connected st' = cl_connected st1"
    by (rule find_packet)
  show ?thesis using assms(2,3) key_mic[OF k] s by (auto simp: closed_or_pressed_def split: if_splits)
qed

lemma other_closed_or_pressed:
  assumes "alarm_handler cf st = Some st' \<or> st' = snd (iaxc_callback e st)"
    "closed_or_pressed cf st" "cl_connected st = 1 \<longrightarrow> cl_connected st' = 1"
  shows "closed_or_pressed cf st'"
proof -
  have "cl_previous_ptt st' = cl_previous_ptt st \<and> mic st' = mic st"
    using assms(1)
  proof
    assume "alarm_handler cf st = Some st'"
    then show ?thesis
      by (auto simp: alarm_handler_def strcpy_icao_def same_radio_def hang_up_def issue_def mic_def
        split: Option.bind_splits if_splits dest!: find_dial)
  next
    assume "st' = snd (iaxc_callback e st)"
    then show ?thesis
      by (cases e) (simp_all add: iaxc_callback_def event_state_def Let_def mic_def)
  qed
  then show ?thesis using assms(2,3) by (auto simp: closed_or_pressed_def)
qed

text \<open>
  C25. As long as calls are not lost, the microphone is closed or has the configured level, and it is
  open only while the key was last seen pressed (1) or passed on to the radio selection (2).
\<close>

theorem microphone_follows_key:
  assumes "run cf hs (client0 cf) = Some st" "calls_kept cf hs (client0 cf)"
  shows "mic st = 0 \<or> mic st = cf_level_in cf \<and> cl_previous_ptt st \<in> {1, 2}"
proof -
  have "closed_or_pressed cf s \<Longrightarrow> run cf hs s = Some st \<Longrightarrow> calls_kept cf hs s \<Longrightarrow> closed_or_pressed cf st" for s
  proof (induction hs arbitrary: s)
    case (Cons h hs)
    from Cons.prems(2) obtain s' where s': "step cf h s = Some s'" "run cf hs s' = Some st"
      by (auto split: option.splits)
    have k: "cl_connected s = 1 \<longrightarrow> cl_connected s' = 1" "calls_kept cf hs s'" using Cons.prems(3) s'(1) by auto
    have "closed_or_pressed cf s'"
    proof (cases h)
      case (Packet buf)
      then show ?thesis using s'(1) Cons.prems(1) k(1) packet_closed_or_pressed by simp
    next
      case Alarm
      then show ?thesis using s'(1) Cons.prems(1) k(1) other_closed_or_pressed[of cf s s'] by simp
    next
      case (Event e)
      then show ?thesis using s'(1) Cons.prems(1) k(1) other_closed_or_pressed[of cf s s' e] by simp
    qed
    then show ?case using Cons.IH s'(2) k(2) by blast
  qed simp
  moreover have "closed_or_pressed cf (client0 cf)" by (simp add: closed_or_pressed_def client0_def mic_def)
  ultimately show ?thesis using assms by (auto simp: closed_or_pressed_def)
qed

lemma microphone_follows_key_witness:
  "\<exists>st. run test_config [Packet test_packet] (client0 test_config) = Some st \<and>
     (mic st = 0 \<or> mic st = 7/10 \<and> cl_previous_ptt st \<in> {1, 2})"
proof -
  obtain st where st: "run test_config [Packet test_packet] (client0 test_config) = Some st" using test_run by blast
  have "calls_kept test_config [Packet test_packet] (client0 test_config)"
    by (simp add: client0_def split: option.split)
  from microphone_follows_key[OF st this] st show ?thesis by (auto simp: test_config_def)
qed

text \<open>
  C26. The hot microphone. When a call has ended while the key was pressed, releasing the key changes
  nothing: the packet leaves the microphone at its level. The timer then calls again, when a
  station is in range, with the microphone open and the key not pressed.
\<close>

theorem hot_microphone:
  assumes "cl_connected st \<noteq> 1" "process_packet cf buf st = Some st1" "PTT (cl_data st1) \<noteq> 1"
    and "cl_selected_frequency st1 = cl_previous_com_frequency st"
    and "alarm_handler cf st1 = Some st2"
  shows "mic st2 = mic st \<and> cl_previous_ptt st2 \<noteq> 1 \<and>
    (cl_connected st = 0 \<and> cl_icao st2 \<noteq> [] \<longrightarrow> cl_connected st2 = 1)"
proof -
  from assms(2) obtain d s where
    k: "key cf s = Some st1" and s: "cl_data s = d" "cl_data st1 = d" "cl_previous_ptt st1 = PTT d" "mic s = mic st"
      "cl_connected st1 = cl_connected s"
      "cl_selected_frequency st1 = cl_previous_com_frequency st \<longrightarrow> cl_connected s = cl_connected st"
    by (rule find_packet)
  have "mic st1 = mic st" using key_mic[OF k] s assms(1,4) by auto
  moreover have "cl_previous_ptt st2 = cl_previous_ptt st1" "mic st2 = mic st1"
    "cl_connected st1 = 0 \<and> cl_icao st2 \<noteq> [] \<longrightarrow> cl_connected st2 = 1"
    using assms(5)
    by (auto simp: alarm_handler_def strcpy_icao_def same_radio_def hang_up_def issue_def mic_def
      split: Option.bind_splits if_splits dest!: find_dial)
  ultimately show ?thesis using s assms(3,4) by auto
qed

definition lost_call :: client where
  "lost_call = (client0 test_config)\<lparr>cl_data := fgdata0\<lparr>COM1_FRQ := 118, COM1_SRV := 1, LAT := 50, LON := 8, PTT := 1\<rparr>,
     cl_selected_frequency := 118, cl_previous_com_frequency := 118, cl_previous_ptt := 1,
     cl_commands := [Input_level (7/10)]\<rparr>"

lemma hot_microphone_witness:
  "\<exists>st1 st2. process_packet test_config (''PTT=0'' @ nl) lost_call = Some st1 \<and>
     alarm_handler test_config st1 = Some st2 \<and> mic st2 = 7/10 \<and> cl_connected st2 = 1 \<and> PTT (cl_data st1) = 0"
proof -
  define d where "d = (cl_data lost_call)\<lparr>PTT := 0\<rparr>"
  define st1 where "st1 = lost_call\<lparr>cl_data := d, cl_previous_ptt := 0\<rparr>"
  have "parse_fgdata (cl_data lost_call) (butlast (takeWhile (\<lambda>c. c \<noteq> CHR 0x00) (''PTT=0'' @ nl))) = Some d"
    "takeWhile (\<lambda>c. c \<noteq> CHR 0x00) (''PTT=0'' @ nl) \<noteq> []"
    unfolding d_def by code_simp+
  then have 1: "process_packet test_config (''PTT=0'' @ nl) lost_call = Some st1"
    by (simp add: process_packet_def Let_def select_frequency_def retune_def key_def st1_def d_def
        lost_call_def client0_def)
  have "check_special_frq [-1] 118 = Some False"
    "icaobypos flat [station ''EDDF'' 118000, station ''EDDM'' 119000] 118 50 8 100 = Some ''EDDF''" by code_simp+
  then have a: "alarm_handler test_config st1 = dial test_config (st1\<lparr>cl_icao := ''EDDF''\<rparr>)"
    by (simp add: alarm_handler_def test_config_def st1_def lost_call_def client0_def d_def
        tuned_airport_def DEFAULT_RANGE_def strcpy_icao_def)
  obtain st2 where 2: "alarm_handler test_config st1 = Some st2" "cl_icao st2 \<noteq> []" "cl_connected st2 = 1"
    unfolding a using dial_total[of "st1\<lparr>cl_icao := ''EDDF''\<rparr>" test_config] find_dial by force
  have "mic st2 = mic lost_call"
    using hot_microphone[OF _ 1 _ _ 2(1)] by (simp add: st1_def d_def lost_call_def client0_def)
  then show ?thesis using 1 2 by (auto simp: st1_def d_def mic_def lost_call_def)
qed

section \<open>Tuning\<close>

text \<open>
  C23. Tuning to channel \<open>k\<close> from 108 to 128 MHz ends the call that is up and calls, at the default
  server, the number of the first station in the list that is on the channel and in range.
\<close>

theorem tuning_dials_station:
  assumes "cf_voipserver cf = ''fgcom.flightgear.org''" "cf_airports cf \<noteq> []" "108000 \<le> k" "k < 128000"
    and "\<forall>a \<in> set (cf_airports cf). ap_frequency a = float (channel (ch a)) \<and> 65536 < ch a \<and> ch a < 1000000"
    and "find (\<lambda>a. ch a = listed_channel k \<and> in_reach (cf_libm cf) (LAT (cl_data st)) (LON (cl_data st)) DEFAULT_RANGE a)
           (butlast (cf_airports cf)) = Some a" "icao_ok (ap_icao a)"
    and "cl_selected_frequency st = float (channel k)" "cl_previous_com_frequency st \<noteq> cl_selected_frequency st"
  shows "\<exists>st'. retune cf st = Some st' \<and> cl_connected st' = 1 \<and> cl_icao st' = ap_icao a \<and>
    cl_commands st' = cl_commands st @
      (if cl_connected st = 1 then [Dump_call, Millisleep (5 * DEFAULT_MILLISLEEP)] else []) @
      [Call (snprintf 256 (cf_username cf @ '':'' @ cf_password cf @ ''@fgcom.flightgear.org/'' @
                           station_number (ap_icao a) (dial_channel k))),
       Millisleep DEFAULT_MILLISLEEP]"
proof -
  from retune_changed[OF assms(9), of cf] obtain st1 where
    r: "retune cf st = Option.bind (tuned_airport cf st1) (\<lambda>a. Option.bind (strcpy_icao a st1) (dial cf))"
    and s: "cl_data st1 = cl_data st" "cl_selected_frequency st1 = cl_selected_frequency st"
      "cl_commands st1 = cl_commands st @
       (if cl_connected st = 1 then [Dump_call, Millisleep (5 * DEFAULT_MILLISLEEP)] else [])" by blast
  have t: "tuned_airport cf st1 = Some (ap_icao a)"
    using scan_station[OF assms(2-5), of "cf_libm cf"] assms(6,8) s
    by (simp add: tuned_airport_def)
  have l: "length (ap_icao a) = 4" using assms(7) by (simp add: icao_ok_def)
  have k: "0 < k" "k < 1000000" "0 < dial_channel k" "dial_channel k < 1000000"
    using assms(3,4) by (simp_all add: dial_channel_def)
  have n: "icao2number (ap_icao a) (float (cl_selected_frequency st)) = Some (ap_icao a, station_number (ap_icao a) k)"
    using icao2number_station(1)[OF assms(7) k(1,2)] by (simp add: assms(8) fl_idem)
  have z: "station_number (ap_icao a) (dial_channel k) \<noteq> ''9990909090910000''"
    by (simp add: station_number_def)
  have c: "call_dest (cf_username cf) (cf_password cf) (cf_voipserver cf) (station_number (ap_icao a) k) =
      Some (snprintf 256 (cf_username cf @ '':'' @ cf_password cf @ ''@fgcom.flightgear.org/'' @
                          station_number (ap_icao a) (dial_channel k)))"
    using take_number[OF assms(7) k(1,2)] z by (simp add: call_dest_def assms(1))
  show ?thesis using l n c s by (simp add: r t strcpy_icao_def dial_def do_iaxc_call_def issue_def)
qed

lemma tuning_dials_station_witness:
  "\<exists>st'. retune test_config ((client0 test_config)\<lparr>cl_data := fgdata0\<lparr>LAT := 50, LON := 8\<rparr>,
      cl_selected_frequency := float (channel 118000)\<rparr>) = Some st' \<and> cl_icao st' = ''EDDF''"
proof -
  have i: "icao_ok ''EDDF''" by code_simp
  have f: "find (\<lambda>a. (if ap_icao a = ''EDDM'' then 119000 else 118000) = listed_channel 118000 \<and>
      in_reach flat 50 8 DEFAULT_RANGE a) [station ''EDDF'' 118000] = Some (station ''EDDF'' 118000)"
    by (simp add: station_def listed_channel_def in_reach_def distance_def flat_def d_mul_def DEFAULT_RANGE_def)
  have n: "float (channel 118000) \<noteq> 0" by code_simp
  show ?thesis
    using tuning_dials_station[of test_config 118000 "\<lambda>a. if ap_icao a = ''EDDM'' then 119000 else 118000"
        "(client0 test_config)\<lparr>cl_data := fgdata0\<lparr>LAT := 50, LON := 8\<rparr>, cl_selected_frequency := float (channel 118000)\<rparr>"
        "station ''EDDF'' 118000"] i f n
    by (auto simp: test_config_def client0_def station_def)
qed

end
