(* ===== verification/Fgcom_Files.thy ===== *)
theory Fgcom_Files
  imports Fgcom_Client
begin

text \<open>
  The files that FGCom reads: the list of special frequencies, with the parser of
  \<open>src/src/utils.cpp\<close> and \<open>read_special_frequencies\<close> of \<open>src/src/fgcom.cpp\<close>, and the list of
  airports (\<open>read_airports\<close>). The position in the content of a file, \<open>s_index\<close>, is the text from
  there on, empty when the position is at the end or beyond. Memory is not short.
\<close>

section \<open>The parser\<close>

definition is_blank :: "char \<Rightarrow> bool" where
  "is_blank c \<longleftrightarrow> c = CHR '' '' \<or> c = CHR 0x09"

definition number_char :: "char \<Rightarrow> bool" where
  "number_char c \<longleftrightarrow> isdigit c \<or> c = CHR ''.'' \<or> c = CHR '',''"

lemma tl_dropWhile_shorter: "dropWhile P r \<noteq> [] \<Longrightarrow> length (tl (dropWhile P r)) < length r"
  using length_dropWhile_le[of P r] by (cases "dropWhile P r") auto

lemma dropWhile_head_shorter:
  assumes "dropWhile P r \<noteq> []" "\<not> Q (hd (dropWhile P r)) \<longrightarrow> False"
  shows "length (dropWhile Q (dropWhile P r)) < length r"
proof -
  obtain c u where c: "dropWhile P r = c # u" using assms(1) by (cases "dropWhile P r") auto
  then have "length (dropWhile Q (dropWhile P r)) \<le> length u"
    using assms(2) length_dropWhile_le[of Q u] by auto
  also have "\<dots> < length r" using c length_dropWhile_le[of P r] by simp
  finally show ?thesis .
qed

text \<open>
  The loop of \<open>parser_get_next_value\<close>. The result is the status (0 or -1), the value when one is
  stored, and the new position. The loop ends with status 0 when it comes to the end of the file
  behind a comment, an empty line or other text, and then stores nothing.
\<close>

function value_loop :: "string \<Rightarrow> int \<times> rat option \<times> string" where
  "value_loop r =
     (if r = [] then (0, None, [])
      else let r = dropWhile is_blank r in
        if r = [] then (- 1, None, [])
        else if hd r = CHR 0x0A then value_loop (tl r)
        else if hd r = CHR ''#'' then value_loop (dropWhile (\<lambda>c. c \<noteq> CHR 0x0A) r)
        else let r = dropWhile (\<lambda>c. \<not> isdigit c) r in
          if r = [] then value_loop []
          else (0, Some (atof (hd r # takeWhile number_char (tl r))), drop 1 (dropWhile number_char (tl r))))"
  by auto

termination
proof (relation "measure length")
  fix r x
  assume "x = dropWhile is_blank r" "x \<noteq> []" "hd x = CHR 0x0A"
  then show "(tl x, r) \<in> measure length" using tl_dropWhile_shorter[of is_blank r] by simp
next
  fix r x
  assume "x = dropWhile is_blank r" "x \<noteq> []" "hd x \<noteq> CHR 0x0A" "hd x = CHR ''#''"
  then show "(dropWhile (\<lambda>c. c \<noteq> CHR 0x0A) x, r) \<in> measure length"
    using dropWhile_head_shorter[of is_blank r "\<lambda>c. c \<noteq> CHR 0x0A"] by simp
qed (auto simp: Let_def)

declare value_loop.simps [simp del]

definition parser_get_next_value :: "string \<Rightarrow> int \<times> rat option \<times> string" where
  "parser_get_next_value r = (if r = [] then (- 1, None, []) else value_loop r)"

text \<open>The cases of the loop.\<close>

lemma value_loop_Nil: "value_loop [] = (0, None, [])"
  by (subst value_loop.simps) simp

lemma value_loop_blank: "dropWhile is_blank r = [] \<Longrightarrow> r \<noteq> [] \<Longrightarrow> value_loop r = (- 1, None, [])"
  by (subst value_loop.simps) (simp del: dropWhile_eq_Nil_conv)

lemma value_loop_newline: "dropWhile is_blank r = CHR 0x0A # t \<Longrightarrow> value_loop r = value_loop t"
  by (cases "r = []", simp, subst value_loop.simps) (simp del: dropWhile_eq_Nil_conv)

lemma value_loop_comment:
  "dropWhile is_blank r = CHR ''#'' # t \<Longrightarrow> value_loop r = value_loop (dropWhile (\<lambda>c. c \<noteq> CHR 0x0A) t)"
  by (cases "r = []", simp, subst value_loop.simps) (simp del: dropWhile_eq_Nil_conv)

lemma value_loop_other:
  "dropWhile is_blank r = c # t \<Longrightarrow> c \<noteq> CHR 0x0A \<Longrightarrow> c \<noteq> CHR ''#'' \<Longrightarrow> dropWhile (\<lambda>c. \<not> isdigit c) (c # t) = [] \<Longrightarrow>
     value_loop r = (0, None, [])"
  by (cases "r = []", simp, subst value_loop.simps) (simp del: dropWhile_eq_Nil_conv dropWhile.simps add: value_loop_Nil)

lemma value_loop_number:
  "dropWhile is_blank r = c # t \<Longrightarrow> c \<noteq> CHR 0x0A \<Longrightarrow> c \<noteq> CHR ''#'' \<Longrightarrow> dropWhile (\<lambda>c. \<not> isdigit c) (c # t) = d # u \<Longrightarrow>
     value_loop r = (0, Some (atof (d # takeWhile number_char u)), drop 1 (dropWhile number_char u))"
  by (cases "r = []", simp, subst value_loop.simps) (simp del: dropWhile_eq_Nil_conv dropWhile.simps)

lemma value_loop_shorter: "value_loop r = (s, v, r') \<Longrightarrow> length r' \<le> length r - 1"
proof (induction "length r" arbitrary: r rule: less_induct)
  case less
  show ?case
  proof (cases "dropWhile is_blank r")
    case Nil
    then show ?thesis using less.prems by (cases "r = []") (auto simp: value_loop_Nil value_loop_blank simp del: dropWhile_eq_Nil_conv)
  next
    case (Cons c t)
    have t: "length t < length r" using length_dropWhile_le[of is_blank r] Cons by simp
    consider "c = CHR 0x0A" | "c = CHR ''#''" | "c \<noteq> CHR 0x0A" "c \<noteq> CHR ''#''" by blast
    then show ?thesis
    proof cases
      case 1
      then show ?thesis using less Cons t value_loop_newline[of r t] by fastforce
    next
      case 2
      let ?t = "dropWhile (\<lambda>c. c \<noteq> CHR 0x0A) t"
      have "length ?t \<le> length t" by (rule length_dropWhile_le)
      then show ?thesis using less(1)[of ?t] less.prems 2 Cons t value_loop_comment[of r t] by auto
    next
      case 3
      show ?thesis
      proof (cases "dropWhile (\<lambda>c. \<not> isdigit c) (c # t)")
        case Nil
        then show ?thesis using less.prems Cons 3 value_loop_other by auto
      next
        case (Cons d u)
        have "length (dropWhile number_char u) \<le> length u" by (rule length_dropWhile_le)
        moreover have "length u \<le> length t"
          using length_dropWhile_le[of "\<lambda>c. \<not> isdigit c" "c # t"] unfolding Cons by simp
        ultimately show ?thesis
          using less.prems value_loop_number[OF \<open>dropWhile is_blank r = c # t\<close> 3 Cons] t by auto
      qed
    qed
  qed
qed

lemma parser_shorter: "parser_get_next_value r = (0, v, r') \<Longrightarrow> length r' < length r"
  using value_loop_shorter[of r 0 v r'] by (cases r) (auto simp: parser_get_next_value_def split: if_splits)

section \<open>Special frequencies\<close>

definition ALLOC_CHUNK_SIZE :: nat where "ALLOC_CHUNK_SIZE = 5"

text \<open>
  A write into the array, which is given by its values so far and the size of its memory block;
  outside the block it is \<open>None\<close>.
\<close>

definition array_put :: "nat \<Rightarrow> rat list \<Rightarrow> rat \<Rightarrow> rat list option" where
  "array_put block vs v = (if length vs < block then Some (vs @ [v]) else None)"

text \<open>
  The loop: \<open>l_value\<close> keeps the last value, \<open>l_allocated\<close> and the block grow when the array is
  full. The parser comes closer to the end in every round, so the recursion is by its position.
\<close>

function special_loop :: "string \<Rightarrow> rat \<Rightarrow> rat list \<Rightarrow> nat \<Rightarrow> nat \<Rightarrow> (rat list \<times> nat \<times> nat) option" where
  "special_loop r l_value vs l_allocated block =
     (case parser_get_next_value r of (status, v, r') \<Rightarrow>
        if status = 0
        then let l_value = (case v of None \<Rightarrow> l_value | Some v \<Rightarrow> v);
                 l_count = length vs;
                 block = (if l_allocated \<le> l_count then ALLOC_CHUNK_SIZE * (l_count div ALLOC_CHUNK_SIZE + 1) else block);
                 l_allocated = (if l_allocated \<le> l_count then l_allocated + ALLOC_CHUNK_SIZE else l_allocated)
             in (case array_put block vs l_value of None \<Rightarrow> None
                 | Some vs \<Rightarrow> special_loop r' l_value vs l_allocated block)
        else Some (vs, l_allocated, block))"
  by auto

termination
  by (relation "measure (\<lambda>(r, _). length r)") (auto dest!: parser_shorter[OF sym])

declare special_loop.simps [simp del]

text \<open>
  \<open>read_special_frequencies\<close>: the file is \<open>None\<close> when it cannot be opened, and then there is no array.
  \<open>garbage\<close> is the value of \<open>l_value\<close> before anything is stored.
\<close>

definition read_special_frequencies :: "rat \<Rightarrow> string option \<Rightarrow> rat list option option" where
  "read_special_frequencies garbage file =
     (case file of None \<Rightarrow> Some None
      | Some content \<Rightarrow>
          (case special_loop content garbage [] ALLOC_CHUNK_SIZE ALLOC_CHUNK_SIZE of None \<Rightarrow> None
           | Some (vs, l_allocated, block) \<Rightarrow>
               let block = (if length vs = l_allocated then length vs + 1 else block)
               in map_option Some (array_put block vs (- 1))))"

section \<open>Airports\<close>

text \<open>
  The conversions of \<open>fscanf\<close> that \<open>read_airports\<close> uses. \<open>None\<close> is a matching failure. A set
  conversion takes at least one character and at most its width.
\<close>

definition scan_set :: "nat \<Rightarrow> (char \<Rightarrow> bool) \<Rightarrow> string \<Rightarrow> (string \<times> string) option" where
  "scan_set w P s =
     (let t = takeWhile P (take w s) in if t = [] then None else Some (t, drop (length t) s))"

definition scan_comma :: "string \<Rightarrow> string option" where
  "scan_comma s = (case s of [] \<Rightarrow> None | c # r \<Rightarrow> if c = CHR '','' then Some r else None)"

definition scan_record :: "string \<Rightarrow> (airport \<times> string) option" where
  "scan_record s =
     do { (icao, s) \<leftarrow> scan_set 4 (\<lambda>c. c \<noteq> CHR '','') (dropWhile isspace s);
          s \<leftarrow> scan_comma s;
          (frq, s) \<leftarrow> scan_decimal s;
          s \<leftarrow> scan_comma s;
          (lat, s) \<leftarrow> scan_decimal s;
          s \<leftarrow> scan_comma s;
          (lon, s) \<leftarrow> scan_decimal s;
          s \<leftarrow> scan_comma s;
          (ty, s) \<leftarrow> scan_set 32 (\<lambda>c. c \<noteq> CHR '','') s;
          s \<leftarrow> scan_comma s;
          (tx, s) \<leftarrow> scan_set 128 (\<lambda>c. c \<noteq> CHR 0x0D \<and> c \<noteq> CHR 0x0A) s;
          Some (\<lparr>ap_icao = icao, ap_frequency = float frq, ap_lat = double lat, ap_lon = double lon,
                 ap_type = ty, ap_text = tx\<rparr>, s) }"

lemma scan_set_shorter: "scan_set w P s = Some (t, r) \<Longrightarrow> length r < length s"
  using length_takeWhile_le[of P "take w s"]
  by (cases s) (auto simp: scan_set_def Let_def split: if_splits)

lemma scan_comma_shorter: "scan_comma s = Some r \<Longrightarrow> length r \<le> length s"
  by (auto simp: scan_comma_def split: list.splits if_splits)

lemma scan_sign_shorter: "scan_sign s = (n, r) \<Longrightarrow> length r \<le> length s"
  by (auto simp: scan_sign_def split: list.splits if_splits)

lemma scan_exponent_shorter: "scan_exponent s = (e, r) \<Longrightarrow> length r \<le> length s"
  using length_dropWhile_le[of isdigit]
  by (auto simp: scan_exponent_def Let_def split: list.splits if_splits prod.splits dest!: scan_sign_shorter)
    (metis le_SucI le_trans)+

lemma scan_decimal_shorter:
  assumes "scan_decimal s = Some (v, r)"
  shows "length r \<le> length s"
proof -
  obtain n r1 where n: "scan_sign (dropWhile isspace s) = (n, r1)" by (cases "scan_sign (dropWhile isspace s)")
  have 1: "length r1 \<le> length s" using scan_sign_shorter[OF n] length_dropWhile_le[of isspace s] by simp
  let ?r2 = "dropWhile isdigit r1"
  let ?r3 = "if ?r2 \<noteq> [] \<and> hd ?r2 = CHR ''.'' then dropWhile isdigit (tl ?r2) else ?r2"
  have 2: "length ?r3 \<le> length r1"
    using length_dropWhile_le[of isdigit r1] length_dropWhile_le[of isdigit "tl ?r2"] by auto
  obtain e r4 where e: "scan_exponent ?r3 = (e, r4)" by (cases "scan_exponent ?r3")
  have "r = r4" using assms e by (auto simp: scan_decimal_def n Let_def split: if_splits prod.splits)
  then show ?thesis using scan_exponent_shorter[OF e] 1 2 by simp
qed

lemma scan_record_shorter: "scan_record s = Some (a, r) \<Longrightarrow> length r < length s"
  using length_dropWhile_le[of isspace s]
  by (fastforce simp: scan_record_def split: Option.bind_splits
      dest!: scan_set_shorter scan_comma_shorter scan_decimal_shorter)

text \<open>
  The loop. At the end of the file \<open>fscanf\<close> returns \<open>EOF\<close> and the list is complete; any other result
  than six conversions ends the program, which is \<open>None\<close>, as when the file cannot be opened.
\<close>

function read_records :: "string \<Rightarrow> airport list option" where
  "read_records s =
     (if dropWhile isspace s = [] then Some []
      else case scan_record s of None \<Rightarrow> None | Some (a, r) \<Rightarrow> map_option (Cons a) (read_records r))"
  by auto

termination
  by (relation "measure length") (auto dest!: scan_record_shorter)

declare read_records.simps [simp del]

definition read_airports :: "string option \<Rightarrow> airport list option" where
  "read_airports file = (case file of None \<Rightarrow> None | Some content \<Rightarrow> read_records content)"

end
