(* ===== verification/Fgcom_Files_Props.thy ===== *)
theory Fgcom_Files_Props
  imports Fgcom_Files Fgcom_Client_Props
begin

text \<open>
  Properties of the files: what a file of special frequencies gives, that the array is never
  overrun and always has its terminator, what a file of airports gives, and that the files
  establish what the client relies on.
\<close>

section \<open>The array of special frequencies\<close>

lemma ALLOC_pos [simp]: "0 < ALLOC_CHUNK_SIZE"
  by (simp add: ALLOC_CHUNK_SIZE_def)

text \<open>One round: the block is as large as the code believes, a multiple of five, and has room.\<close>

definition fits :: "rat list \<Rightarrow> nat \<Rightarrow> bool" where
  "fits vs b \<longleftrightarrow> 5 dvd b \<and> length vs \<le> b"

lemma special_step:
  assumes "parser_get_next_value r = (0, v, r')" "fits vs b"
  shows "\<exists>b'. special_loop r l vs b b =
      special_loop r' (case v of None \<Rightarrow> l | Some v \<Rightarrow> v) (vs @ [case v of None \<Rightarrow> l | Some v \<Rightarrow> v]) b' b' \<and>
    fits (vs @ [case v of None \<Rightarrow> l | Some v \<Rightarrow> v]) b'"
proof (cases "b \<le> length vs")
  case True
  then have n: "length vs = b" "ALLOC_CHUNK_SIZE * (b div ALLOC_CHUNK_SIZE + 1) = b + ALLOC_CHUNK_SIZE"
    using assms(2) by (auto simp: fits_def ALLOC_CHUNK_SIZE_def)
  have "special_loop r l vs b b = special_loop r' (case v of None \<Rightarrow> l | Some v \<Rightarrow> v)
      (vs @ [case v of None \<Rightarrow> l | Some v \<Rightarrow> v]) (b + ALLOC_CHUNK_SIZE) (b + ALLOC_CHUNK_SIZE)"
    using n by (subst special_loop.simps) (simp only: assms(1) prod.case True if_True Let_def array_put_def n
        less_add_same_cancel1 ALLOC_pos option.case refl order_refl)
  then show ?thesis using assms(2) n by (auto simp: fits_def ALLOC_CHUNK_SIZE_def)
next
  case False
  then have "special_loop r l vs b b = special_loop r' (case v of None \<Rightarrow> l | Some v \<Rightarrow> v)
      (vs @ [case v of None \<Rightarrow> l | Some v \<Rightarrow> v]) b b"
    using assms(1) by (subst special_loop.simps) (simp add: Let_def array_put_def)
  then show ?thesis using assms(2) False by (auto simp: fits_def)
qed

lemma special_stop: "parser_get_next_value r = (s, v, r') \<Longrightarrow> s \<noteq> 0 \<Longrightarrow> special_loop r l vs b b = Some (vs, b, b)"
  by (subst special_loop.simps) simp

lemma special_loop_fits:
  assumes "\<And>r v r'. parser_get_next_value r = (0, Some v, r') \<Longrightarrow> 0 \<le> v"
  shows "fits vs b \<Longrightarrow> \<forall>v \<in> set vs. 0 \<le> v \<or> v = g \<Longrightarrow> 0 \<le> l \<or> l = g \<Longrightarrow>
    \<exists>vs' b'. special_loop r l vs b b = Some (vs', b', b') \<and> length vs' \<le> b' \<and> (\<forall>v \<in> set vs'. 0 \<le> v \<or> v = g)"
proof (induction "length r" arbitrary: r l vs b rule: less_induct)
  case less
  obtain s v r' where p: "parser_get_next_value r = (s, v, r')" by (cases "parser_get_next_value r")
  show ?case
  proof (cases "s = 0")
    case False
    then show ?thesis using special_stop[OF p] less.prems by (auto simp: fits_def)
  next
    case True
    then have p: "parser_get_next_value r = (0, v, r')" using p by simp
    have l: "0 \<le> (case v of None \<Rightarrow> l | Some v \<Rightarrow> v) \<or> (case v of None \<Rightarrow> l | Some v \<Rightarrow> v) = g"
      using assms[of r] p less.prems(3) by (auto split: option.split)
    from special_step[OF p less.prems(1), of l] obtain b' where
      s: "special_loop r l vs b b =
        special_loop r' (case v of None \<Rightarrow> l | Some v \<Rightarrow> v) (vs @ [case v of None \<Rightarrow> l | Some v \<Rightarrow> v]) b' b'"
      and f: "fits (vs @ [case v of None \<Rightarrow> l | Some v \<Rightarrow> v]) b'" by blast
    show ?thesis unfolding s using less.hyps[OF parser_shorter[OF p] f] less.prems(2) l by simp
  qed
qed

lemma decimal_nonneg: "\<forall>c \<in> set s. isdigit c \<Longrightarrow> 0 \<le> decimal s"
proof (induction s rule: rev_induct)
  case (snoc c s)
  then show ?case by (auto simp: decimal_def digit_value_def isdigit_def)
qed (simp add: decimal_def)

lemma fl_nonneg: "0 \<le> x \<Longrightarrow> 0 \<le> fl p x"
  using round_even_mono[of 0] round_even_of_int[of 0] by (auto simp: fl_def Let_def)

lemma atof_digit_nonneg:
  assumes "isdigit c"
  shows "0 \<le> atof (c # s)"
proof -
  have s: "\<not> isspace c" "c \<noteq> CHR ''-''" "c \<noteq> CHR ''+''" using assms by (auto simp: isspace_def isdigit_def)
  then have n: "scan_sign (dropWhile isspace (c # s)) = (False, c # s)" by (simp add: scan_sign_def)
  have "0 \<le> v" if v: "scan_decimal (c # s) = Some (v, r)" for v r
  proof -
    define ip r2 where "ip = takeWhile isdigit (c # s)" and "r2 = dropWhile isdigit (c # s)"
    define fp where "fp = (if r2 \<noteq> [] \<and> hd r2 = CHR ''.'' then takeWhile isdigit (tl r2) else [])"
    have "\<exists>e. v = of_int (decimal (ip @ fp)) / 10 ^ length fp * 10 powi e"
      using v unfolding scan_decimal_def n Let_def prod.case ip_def[symmetric] r2_def[symmetric] fp_def[symmetric]
      by (auto split: if_splits prod.splits)
    moreover have "\<forall>c \<in> set (ip @ fp). isdigit c"
      by (auto simp: ip_def fp_def dest: set_takeWhileD split: if_splits)
    ultimately show ?thesis using decimal_nonneg by fastforce
  qed
  then show ?thesis by (auto simp: atof_def strtod_def intro!: fl_nonneg split: option.split)
qed

lemma value_loop_nonneg: "value_loop r = (s, Some v, r') \<Longrightarrow> 0 \<le> v"
proof (induction "length r" arbitrary: r rule: less_induct)
  case less
  show ?case
  proof (cases "dropWhile is_blank r")
    case Nil
    then show ?thesis using less.prems by (cases "r = []") (auto simp: value_loop_Nil value_loop_blank simp del: dropWhile_eq_Nil_conv)
  next
    case (Cons c t)
    have t: "length t < length r" using length_dropWhile_le[of is_blank r] Cons by simp
    consider "c = CHR 0x0A" | "c = CHR ''#''" | "c \<noteq> CHR 0x0A" "c \<noteq> CHR ''#''" by blast
    then show ?thesis
    proof cases
      case 1
      then show ?thesis using less Cons t value_loop_newline[of r t] by fastforce
    next
      case 2
      let ?t = "dropWhile (\<lambda>c. c \<noteq> CHR 0x0A) t"
      have "length ?t \<le> length t" by (rule length_dropWhile_le)
      then show ?thesis using less(1)[of ?t] less.prems 2 Cons t value_loop_comment[of r t] by auto
    next
      case 3
      show ?thesis
      proof (cases "dropWhile (\<lambda>c. \<not> isdigit c) (c # t)")
        case Nil
        then show ?thesis using less.prems Cons 3 value_loop_other by auto
      next
        case (Cons d u)
        then have "isdigit d" by (metis dropWhile_eq_Cons_conv)
        then show ?thesis
          using less.prems value_loop_number[OF \<open>dropWhile is_blank r = c # t\<close> 3 Cons] atof_digit_nonneg by auto
      qed
    qed
  qed
qed

text \<open>
  C33. Reading special frequencies never leaves the array, whatever the file: it returns values
  followed by the terminator, and these are not negative unless they are the value that
  \<open>l_value\<close> happened to have before anything was read.
\<close>

theorem read_special_frequencies_fits:
  "\<exists>vs. read_special_frequencies garbage (Some content) = Some (Some (vs @ [- 1])) \<and>
     (\<forall>v \<in> set vs. v < 0 \<longrightarrow> v = garbage)"
proof -
  have n: "0 \<le> v" if "parser_get_next_value r = (0, Some v, r')" for r v r'
    using that value_loop_nonneg by (auto simp: parser_get_next_value_def split: if_splits)
  have "\<exists>vs b. special_loop content garbage [] ALLOC_CHUNK_SIZE ALLOC_CHUNK_SIZE = Some (vs, b, b) \<and>
      length vs \<le> b \<and> (\<forall>v \<in> set vs. 0 \<le> v \<or> v = garbage)"
    by (rule special_loop_fits) (use n in \<open>auto simp: fits_def ALLOC_CHUNK_SIZE_def\<close>)
  then obtain vs b where s: "special_loop content garbage [] ALLOC_CHUNK_SIZE ALLOC_CHUNK_SIZE = Some (vs, b, b)"
    and "length vs \<le> b" and g: "\<forall>v \<in> set vs. 0 \<le> v \<or> v = garbage" by blast
  then have "read_special_frequencies garbage (Some content) = Some (Some (vs @ [- 1]))"
    by (simp add: read_special_frequencies_def Let_def array_put_def)
  then show ?thesis using g by fastforce
qed

lemma read_special_frequencies_fits_witness:
  "\<exists>vs. read_special_frequencies (-5) (Some (''# none'' @ nl)) = Some (Some (vs @ [- 1])) \<and>
     (\<forall>v \<in> set vs. v < 0 \<longrightarrow> v = -5)"
  using read_special_frequencies_fits by blast

section \<open>The values of a file\<close>

text \<open>A line with a number, and one that is empty or a comment.\<close>

definition number_line :: "string \<Rightarrow> bool" where
  "number_line l \<longleftrightarrow> l \<noteq> [] \<and> isdigit (hd l) \<and> list_all number_char l"

definition other_line :: "string \<Rightarrow> bool" where
  "other_line l \<longleftrightarrow> l = [] \<or> hd l = CHR ''#'' \<and> CHR 0x0A \<notin> set l"

definition lines :: "string list \<Rightarrow> string" where
  "lines ls = concat (map (\<lambda>l. l @ nl) ls)"

lemma value_loop_lines:
  assumes "list_all (\<lambda>l. number_line l \<or> other_line l) ls"
  shows "value_loop (lines ls) =
    (case dropWhile (\<lambda>l. \<not> number_line l) ls of [] \<Rightarrow> (0, None, []) | l # ls' \<Rightarrow> (0, Some (atof l), lines ls'))"
  using assms
proof (induction ls)
  case Nil
  then show ?case by (simp add: lines_def value_loop_Nil)
next
  case (Cons l ls)
  have e: "lines (l # ls) = l @ CHR 0x0A # lines ls" by (simp add: lines_def nl_def)
  show ?case
  proof (cases "number_line l")
    case True
    then obtain c t where l: "l = c # t" "isdigit c" "list_all number_char t"
      by (cases l) (auto simp: number_line_def)
    have c: "\<not> is_blank c" "c \<noteq> CHR 0x0A" "c \<noteq> CHR ''#''"
      using l(2) by (auto simp: is_blank_def isdigit_def)
    have n: "\<not> number_char CHR 0x0A" by code_simp
    have t: "takeWhile number_char (t @ CHR 0x0A # lines ls) = t"
        "dropWhile number_char (t @ CHR 0x0A # lines ls) = CHR 0x0A # lines ls"
      using l(3) n by (simp_all add: list_all_iff takeWhile_append2 dropWhile_append2)
    have "value_loop (lines (l # ls)) = (0, Some (atof (c # t)), lines ls)"
      unfolding e unfolding l(1) using value_loop_number[of "c # t @ CHR 0x0A # lines ls" c "t @ CHR 0x0A # lines ls" c "t @ CHR 0x0A # lines ls"]
        c l(2) by (simp add: t)
    then show ?thesis using True l(1) by simp
  next
    case False
    then have o: "other_line l" using Cons.prems by simp
    have b: "\<not> is_blank CHR 0x0A" "\<not> is_blank CHR ''#''" by code_simp+
    have "value_loop (lines (l # ls)) = value_loop (lines ls)"
    proof (cases l)
      case Nil
      then show ?thesis
        unfolding e unfolding Nil using value_loop_newline[of "CHR 0x0A # lines ls" "lines ls"] b by simp
    next
      case (Cons c t)
      then have t: "c = CHR ''#''" "CHR 0x0A \<notin> set t" using o by (auto simp: other_line_def)
      have "dropWhile (\<lambda>c. c \<noteq> CHR 0x0A) (t @ CHR 0x0A # lines ls) = CHR 0x0A # lines ls"
        using t(2) by (subst dropWhile_append2) auto
      then show ?thesis
        unfolding e unfolding Cons t(1)
        using value_loop_comment[of "CHR ''#'' # t @ CHR 0x0A # lines ls" "t @ CHR 0x0A # lines ls"] b
          value_loop_newline[of "CHR 0x0A # lines ls" "lines ls"] by simp
    qed
    then show ?thesis using Cons False by simp
  qed
qed

lemma lines_eq_Nil: "lines ls = [] \<longleftrightarrow> ls = []"
  by (cases ls) (simp_all add: lines_def nl_def)

definition file_values :: "rat \<Rightarrow> string list \<Rightarrow> rat list" where
  "file_values l ls = map atof (filter number_line ls) @
     (if ls \<noteq> [] \<and> \<not> number_line (last ls) then [last (l # map atof (filter number_line ls))] else [])"

lemma special_loop_lines:
  "list_all (\<lambda>l. number_line l \<or> other_line l) ls \<Longrightarrow> fits vs b \<Longrightarrow>
    \<exists>b'. special_loop (lines ls) l vs b b = Some (vs @ file_values l ls, b', b') \<and> length (vs @ file_values l ls) \<le> b'"
proof (induction "length ls" arbitrary: ls l vs b rule: less_induct)
  case less
  show ?case
  proof (cases "ls = []")
    case True
    then have "parser_get_next_value (lines ls) = (- 1, None, [])"
      by (simp add: parser_get_next_value_def lines_def)
    then show ?thesis using special_stop[of "lines ls"] True less.prems(2) by (simp add: file_values_def fits_def)
  next
    case ne: False
    then have p: "parser_get_next_value (lines ls) = value_loop (lines ls)"
      by (simp add: parser_get_next_value_def lines_eq_Nil)
    show ?thesis
    proof (cases "dropWhile (\<lambda>l. \<not> number_line l) ls")
      case Nil
      then have "parser_get_next_value (lines ls) = (0, None, [])"
        using p value_loop_lines[OF less.prems(1)] by (simp del: dropWhile_eq_Nil_conv)
      from special_step[OF this less.prems(2), of l] obtain b' where
        s: "special_loop (lines ls) l vs b b = special_loop [] l (vs @ [l]) b' b'" "fits (vs @ [l]) b'" by auto
      have "filter number_line ls = []" "\<not> number_line (last ls)" using Nil ne by auto
      then have "file_values l ls = [l]" using ne by (simp add: file_values_def)
      then show ?thesis using s special_stop[of "[]" "- 1" None "[]"]
        by (simp add: parser_get_next_value_def fits_def)
    next
      case (Cons x r)
      then have "parser_get_next_value (lines ls) = (0, Some (atof x), lines r)"
        using p value_loop_lines[OF less.prems(1)] by simp
      from special_step[OF this less.prems(2), of l] obtain b' where
        s: "special_loop (lines ls) l vs b b = special_loop (lines r) (atof x) (vs @ [atof x]) b' b'"
           "fits (vs @ [atof x]) b'" by auto
      obtain os where os: "ls = os @ x # r" "\<forall>l \<in> set os. \<not> number_line l" "number_line x"
        using Cons by (metis (no_types, lifting) dropWhile_eq_Cons_conv takeWhile_dropWhile_id set_takeWhileD)
      have "file_values l ls = atof x # file_values (atof x) r"
        using os by (auto simp: file_values_def)
      moreover have "length r < length ls" "list_all (\<lambda>l. number_line l \<or> other_line l) r"
        using os(1) less.prems(1) by simp_all
      ultimately show ?thesis using less.hyps[of r, OF _ _ s(2), of "atof x"] s(1) by simp
    qed
  qed
qed

text \<open>
  The special frequencies of a file of numbers, empty lines and comments, one to a line, are the
  numbers in their order. When the last line is not a number, the array has one value more: the
  last number again or, without any, what the variable happened to hold.
\<close>

theorem special_file_values:
  assumes "list_all (\<lambda>l. number_line l \<or> other_line l) ls"
  shows "read_special_frequencies garbage (Some (lines ls)) = Some (Some (map atof (filter number_line ls) @
    (if ls \<noteq> [] \<and> \<not> number_line (last ls) then [last (garbage # map atof (filter number_line ls))] else []) @ [- 1]))"
proof -
  have "fits [] ALLOC_CHUNK_SIZE" by (simp add: fits_def ALLOC_CHUNK_SIZE_def)
  from special_loop_lines[OF assms this] obtain b where
    "special_loop (lines ls) garbage [] ALLOC_CHUNK_SIZE ALLOC_CHUNK_SIZE = Some (file_values garbage ls, b, b)"
    "length (file_values garbage ls) \<le> b" by force
  then have "read_special_frequencies garbage (Some (lines ls)) = Some (Some (file_values garbage ls @ [- 1]))"
    by (simp add: read_special_frequencies_def Let_def array_put_def)
  then show ?thesis by (simp add: file_values_def)
qed

lemma special_file_values_witness:
  "read_special_frequencies (7/2) (Some (lines [''# radio'', ''121.5'', ''# end''])) = Some (Some [atof ''121.5'', atof ''121.5'', - 1]) \<and>
   read_special_frequencies (7/2) (Some (lines [''# none''])) = Some (Some [7/2, - 1])"
proof -
  have n: "number_line ''121.5''" "\<not> number_line ''# radio''" "\<not> number_line ''# end''" "\<not> number_line ''# none''"
    "other_line ''# radio''" "other_line ''# end''" "other_line ''# none''" by code_simp+
  show ?thesis
    using special_file_values[of "[''# radio'', ''121.5'', ''# end'']" "7/2"]
      special_file_values[of "[''# none'']" "7/2"] n by simp
qed

section \<open>The list of airports\<close>

definition airport_fits :: "airport \<Rightarrow> bool" where
  "airport_fits a \<longleftrightarrow> length (ap_icao a) \<in> {1..4} \<and> length (ap_type a) \<in> {1..32} \<and> length (ap_text a) \<in> {1..128}"

lemma scan_set_length: "scan_set w P s = Some (t, r) \<Longrightarrow> length t \<in> {1..w}"
  using length_takeWhile_le[of P "take w s"]
  by (auto simp: scan_set_def Let_def Suc_le_eq split: if_splits)

lemma scan_record_fits: "scan_record s = Some (a, r) \<Longrightarrow> airport_fits a"
  by (auto simp: scan_record_def airport_fits_def split: Option.bind_splits dest!: scan_set_length)

lemma read_records_fits: "read_records s = Some as \<Longrightarrow> list_all airport_fits as"
proof (induction s arbitrary: as rule: read_records.induct)
  case (1 s)
  show ?case
  proof (cases "dropWhile isspace s = []")
    case True
    then show ?thesis using 1(2) by (subst (asm) read_records.simps) (simp del: dropWhile_eq_Nil_conv)
  next
    case False
    then obtain a r as' where "scan_record s = Some (a, r)" "read_records r = Some as'" "as = a # as'"
      using 1(2) by (subst (asm) read_records.simps)
        (auto split: option.splits simp del: dropWhile_eq_Nil_conv)
    then show ?thesis using 1(1)[OF False] scan_record_fits by auto
  qed
qed

text \<open>
  C34. What the files give is what the client needs: after a list of airports that is not empty was
  read, whatever its content, and with the special frequencies of a file or the default ones, every
  airport fits its buffers and the special frequencies have their terminator.
\<close>

theorem loaded_config_ok:
  assumes "read_airports file1 = Some as" "as \<noteq> []" "read_special_frequencies garbage file2 = Some sp"
  shows "config_ok (cf\<lparr>cf_airports := as, cf_specials := (case sp of None \<Rightarrow> special_frq | Some vs \<Rightarrow> vs)\<rparr>) \<and>
    list_all airport_fits as"
proof -
  have "list_all airport_fits as"
    using assms(1) by (auto simp: read_airports_def dest: read_records_fits split: option.splits)
  moreover have "list_ex (\<lambda>f. f < 0) (case sp of None \<Rightarrow> special_frq | Some vs \<Rightarrow> vs)"
  proof (cases sp)
    case None
    have "list_ex (\<lambda>f. f < 0) special_frq" by code_simp
    then show ?thesis using None by simp
  next
    case (Some vs)
    then obtain ws where "vs = ws @ [- 1]"
      using assms(3) by (auto simp: read_special_frequencies_def Let_def array_put_def split: option.splits if_splits)
    then show ?thesis using Some by simp
  qed
  ultimately show ?thesis using assms(2) by (auto simp: config_ok_def airport_fits_def list_all_iff)
qed

text \<open>A line of the file, from the texts of its fields. The numbers are digits with a decimal point.\<close>

definition plain_number :: "string \<Rightarrow> bool" where
  "plain_number s \<longleftrightarrow> s \<noteq> [] \<and> isdigit (hd s) \<and>
     (let r = dropWhile isdigit s in r \<noteq> [] \<and> hd r = CHR ''.'' \<and> list_all isdigit (tl r))"

definition field_ok :: "nat \<Rightarrow> string \<Rightarrow> bool" where
  "field_ok w s \<longleftrightarrow> s \<noteq> [] \<and> length s \<le> w \<and> CHR '','' \<notin> set s \<and> CHR 0x0D \<notin> set s \<and> CHR 0x0A \<notin> set s"

definition airport_line :: "string \<Rightarrow> string \<Rightarrow> string \<Rightarrow> string \<Rightarrow> string \<Rightarrow> string \<Rightarrow> string" where
  "airport_line icao frq lat lon ty tx =
     icao @ '','' @ frq @ '','' @ lat @ '','' @ lon @ '','' @ ty @ '','' @ tx @ nl"

lemma scan_decimal_plain:
  assumes "plain_number s"
  shows "\<exists>v. \<forall>r. scan_decimal (s @ CHR '','' # r) = Some (v, CHR '','' # r) \<and> scan_decimal s = Some (v, [])"
proof -
  define ip where "ip = takeWhile isdigit s"
  obtain c t where d: "dropWhile isdigit s = c # t" using assms by (cases "dropWhile isdigit s") (auto simp: plain_number_def)
  have c: "c = CHR ''.''" "list_all isdigit t" using assms d by (simp_all add: plain_number_def)
  have s: "s = ip @ CHR ''.'' # t" using takeWhile_dropWhile_id[of isdigit s] d c by (simp add: ip_def)
  have nd: "\<not> isdigit CHR ''.''" "\<not> isdigit CHR '',''" by code_simp+
  have i: "list_all isdigit ip" by (auto simp: ip_def list_all_iff dest: set_takeWhileD)
  obtain x xs where ip: "ip = x # xs" using assms s nd by (cases ip) (auto simp: plain_number_def)
  have x: "isdigit x" using i ip by simp
  have h: "\<not> isspace x" "x \<noteq> CHR ''-''" "x \<noteq> CHR ''+''" using x by (auto simp: isspace_def isdigit_def)
  have tw: "takeWhile isdigit (s @ q) = ip" "dropWhile isdigit (s @ q) = CHR ''.'' # t @ q" for q
    using i nd by (simp_all add: s list_all_iff takeWhile_append2 dropWhile_append2)
  have tt: "takeWhile isdigit t = t" "dropWhile isdigit t = []"
      "takeWhile isdigit (t @ CHR '','' # r) = t" "dropWhile isdigit (t @ CHR '','' # r) = CHR '','' # r" for r
    using c(2) nd by (auto simp: list_all_iff takeWhile_append2 dropWhile_append2 takeWhile_eq_all_conv)
  have sg: "scan_sign (dropWhile isspace (s @ q)) = (False, s @ q)" for q
    using h by (simp add: s ip scan_sign_def)
  have ex: "scan_exponent (CHR '','' # r) = (0, CHR '','' # r)" "scan_exponent [] = (0, [])" for r
    by (simp_all add: scan_exponent_def)
  have "scan_decimal (s @ CHR '','' # r) = Some (of_int (decimal (ip @ t)) / 10 ^ length t * 10 powi 0, CHR '','' # r)" for r
    unfolding scan_decimal_def sg prod.case Let_def tw by (simp add: tt ex ip)
  moreover have "scan_decimal s = Some (of_int (decimal (ip @ t)) / 10 ^ length t * 10 powi 0, [])"
    using sg[of "[]"] tw[of "[]"] by (simp add: scan_decimal_def Let_def tt ex ip)
  ultimately show ?thesis by blast
qed

lemma scan_set_field:
  assumes "field_ok w s" "P c = False" "\<And>c. c \<in> set s \<Longrightarrow> P c"
  shows "scan_set w P (s @ c # r) = Some (s, c # r)"
proof -
  have "takeWhile P (take w (s @ c # r)) = s"
    using assms by (cases "w - length s") (auto simp: field_ok_def takeWhile_append2 takeWhile_eq_all_conv)
  then show ?thesis using assms(1) by (simp add: scan_set_def field_ok_def)
qed

text \<open>
  A line written from the fields of an airport is read back: the texts are the same and the
  numbers are the values of theirs, the frequency as a \<open>float\<close>, and the next line follows.
\<close>

theorem airport_line_roundtrip:
  assumes "field_ok 4 icao" "\<not> isspace (hd icao)" "plain_number frq" "plain_number lat" "plain_number lon"
    "field_ok 32 ty" "field_ok 128 tx"
  shows "read_airports (Some (airport_line icao frq lat lon ty tx @ rest)) =
    map_option (Cons \<lparr>ap_icao = icao, ap_frequency = float (fst (the (scan_decimal frq))), ap_lat = atof lat,
                     ap_lon = atof lon, ap_type = ty, ap_text = tx\<rparr>) (read_airports (Some rest))"
proof -
  obtain v1 v2 v3 where v:
    "\<And>r. scan_decimal (frq @ CHR '','' # r) = Some (v1, CHR '','' # r)" "scan_decimal frq = Some (v1, [])"
    "\<And>r. scan_decimal (lat @ CHR '','' # r) = Some (v2, CHR '','' # r)" "scan_decimal lat = Some (v2, [])"
    "\<And>r. scan_decimal (lon @ CHR '','' # r) = Some (v3, CHR '','' # r)" "scan_decimal lon = Some (v3, [])"
    using scan_decimal_plain assms(3-5) by metis
  have i: "icao \<noteq> []" using assms(1) by (simp add: field_ok_def)
  then have sp: "dropWhile isspace (icao @ q) = icao @ q" for q using assms(2) by (cases icao) auto
  have f: "scan_set 4 (\<lambda>c. c \<noteq> CHR '','') (icao @ CHR '','' # q) = Some (icao, CHR '','' # q)"
    "scan_set 32 (\<lambda>c. c \<noteq> CHR '','') (ty @ CHR '','' # q) = Some (ty, CHR '','' # q)"
    "scan_set 128 (\<lambda>c. c \<noteq> CHR 0x0D \<and> c \<noteq> CHR 0x0A) (tx @ CHR 0x0A # q) = Some (tx, CHR 0x0A # q)" for q
    using assms(1,6,7) by (auto intro!: scan_set_field simp: field_ok_def)
  have l: "airport_line icao frq lat lon ty tx @ rest = icao @ CHR '','' # frq @ CHR '','' # lat @ CHR '','' #
      lon @ CHR '','' # ty @ CHR '','' # tx @ CHR 0x0A # rest" by (simp add: airport_line_def nl_def)
  have s: "scan_record (airport_line icao frq lat lon ty tx @ rest) =
     Some (\<lparr>ap_icao = icao, ap_frequency = float v1, ap_lat = double v2, ap_lon = double v3, ap_type = ty, ap_text = tx\<rparr>,
           CHR 0x0A # rest)"
    unfolding l scan_record_def sp f by (simp add: scan_comma_def v f)
  have n: "read_records (CHR 0x0A # q) = read_records q" for q
  proof -
    have w: "isspace CHR 0x0A" by code_simp
    show ?thesis by (subst (1 2) read_records.simps) (simp add: w scan_record_def)
  qed
  have "dropWhile isspace (airport_line icao frq lat lon ty tx @ rest) \<noteq> []"
    unfolding l sp using i by simp
  then have "read_records (airport_line icao frq lat lon ty tx @ rest) =
     map_option (Cons \<lparr>ap_icao = icao, ap_frequency = float v1, ap_lat = double v2, ap_lon = double v3, ap_type = ty, ap_text = tx\<rparr>)
       (read_records rest)"
    by (subst read_records.simps) (simp add: s n del: dropWhile_eq_Nil_conv)
  then show ?thesis by (simp add: read_airports_def v atof_def strtod_def)
qed

lemma airport_line_roundtrip_witness:
  "map_option (map ap_icao) (read_airports (Some (airport_line ''EDDF'' ''118.025'' ''50.03'' ''8.57'' ''TWR'' ''Frankfurt Tower''))) =
     Some [''EDDF'']"
proof -
  have ok: "field_ok 4 ''EDDF''" "\<not> isspace (hd ''EDDF'')" "plain_number ''118.025''" "plain_number ''50.03''"
    "plain_number ''8.57''" "field_ok 32 ''TWR''" "field_ok 128 ''Frankfurt Tower''" by code_simp+
  have "read_airports (Some []) = Some []" by (simp add: read_airports_def read_records.simps)
  then show ?thesis using airport_line_roundtrip[OF ok, of "[]"] by simp
qed

lemma loaded_config_ok_witness:
  "config_ok (test_config\<lparr>cf_airports := [the (map_option hd (read_airports (Some ''EDDF,118.0,50.0,8.5,TWR,Frankfurt'')))],
     cf_specials := special_frq\<rparr>)"
proof -
  have "read_airports (Some ''EDDF,118.0,50.0,8.5,TWR,Frankfurt'') \<noteq> None \<and>
     length (the (read_airports (Some ''EDDF,118.0,50.0,8.5,TWR,Frankfurt''))) = 1" by code_simp
  then obtain as a where "read_airports (Some ''EDDF,118.0,50.0,8.5,TWR,Frankfurt'') = Some as" "as = [a]"
    by (auto simp: length_Suc_conv)
  with loaded_config_ok[of "Some ''EDDF,118.0,50.0,8.5,TWR,Frankfurt''" as 0 None None test_config]
  show ?thesis by (simp add: read_special_frequencies_def)
qed

end
