(* ===== verification/Fgcom_Options.thy ===== *)
theory Fgcom_Options
  imports Fgcom_Text "HOL-Library.Monad_Syntax"
begin

text \<open>
  The options of FGCom: \<open>src/src/fgcom_init.cpp\<close>, which reads them from \<open>~/.fgcomrc\<close> and from the
  command line, and what the start of \<open>main\<close> in \<open>src/src/fgcom.cpp\<close> makes of them. A variable is
  named by the long option that sets it. \<open>None\<close> is an exception of the C++ library that nobody
  catches (\<open>substr\<close> beyond the end).
\<close>

section \<open>The table\<close>

datatype option_type =
    OPTION_NONE | OPTION_BOOL | OPTION_STRING | OPTION_FLOAT | OPTION_DOUBLE | OPTION_FREQ | OPTION_INT | OPTION_CHAR

record option_entry =
  oe_long_option :: string
  oe_option :: char
  oe_has_param :: bool
  oe_type :: option_type

datatype val = VBool bool | VString string | VFloat rat | VDouble rat | VInt int | VChar char

type_synonym settings = "string \<rightharpoonup> val"

definition entry :: "string \<Rightarrow> char \<Rightarrow> bool \<Rightarrow> option_type \<Rightarrow> option_entry" where
  "entry l c p t = \<lparr>oe_long_option = l, oe_option = c, oe_has_param = p, oe_type = t\<rparr>"

definition fgcomOptionArray :: "option_entry list" where
  "fgcomOptionArray =
    [entry ''debug'' CHR ''d'' False OPTION_NONE,
     entry ''voipserver'' CHR ''S'' True OPTION_STRING,
     entry ''fgserver'' CHR ''s'' True OPTION_STRING,
     entry ''port'' CHR ''p'' True OPTION_INT,
     entry ''airport'' CHR ''a'' True OPTION_STRING,
     entry ''frequency'' CHR ''f'' True OPTION_DOUBLE,
     entry ''user'' CHR ''U'' True OPTION_STRING,
     entry ''password'' CHR ''P'' True OPTION_STRING,
     entry ''mic'' CHR ''i'' True OPTION_DOUBLE,
     entry ''speaker'' CHR ''o'' True OPTION_DOUBLE,
     entry ''mic-boost'' CHR ''b'' False OPTION_BOOL,
     entry ''list-audio'' CHR ''l'' False OPTION_BOOL,
     entry ''set-audio-in'' CHR ''r'' True OPTION_STRING,
     entry ''set-audio-out'' CHR ''k'' True OPTION_STRING,
     entry ''codec'' CHR ''c'' True OPTION_CHAR,
     entry ''positions'' CHR ''T'' True OPTION_STRING,
     entry ''special'' CHR ''Q'' True OPTION_STRING]"

section \<open>Numbers\<close>

text \<open>\<open>strtol\<close> with base 0, and \<open>strtof\<close>: the value and where they stop.\<close>

definition hex_value :: "char \<Rightarrow> int" where
  "hex_value c =
     (let n = (of_char c :: nat) in
      if 48 \<le> n \<and> n \<le> 57 then int n - 48 else if 97 \<le> n \<and> n \<le> 102 then int n - 87
      else if 65 \<le> n \<and> n \<le> 70 then int n - 55 else 99)"

definition in_base :: "int \<Rightarrow> string \<Rightarrow> int" where
  "in_base b s = foldl (\<lambda>n c. b * n + hex_value c) 0 s"

definition strtol0 :: "string \<Rightarrow> int \<times> string" where
  "strtol0 s =
     (let (neg, r) = scan_sign (dropWhile isspace s);
          hex = (2 < length r \<and> r ! 0 = CHR ''0'' \<and> (r ! 1 = CHR ''x'' \<or> r ! 1 = CHR ''X'') \<and> hex_value (r ! 2) < 16);
          base = (if hex then 16 else if r \<noteq> [] \<and> hd r = CHR ''0'' then 8 else 10);
          r = (if hex then drop 2 r else r);
          ds = takeWhile (\<lambda>c. hex_value c < base) r
      in if ds = [] then (0, s)
         else (saturate_long (if neg then - in_base base ds else in_base base ds), drop (length ds) r))"

definition strtof :: "string \<Rightarrow> rat \<times> string" where
  "strtof s = (case scan_decimal s of None \<Rightarrow> (0, s) | Some (v, r) \<Rightarrow> (float v, r))"

section \<open>One option\<close>

datatype parse_status = Opt_ok settings | Opt_help | Opt_verbose_help | Opt_error

text \<open>Setting the variable of an entry. \<open>errno\<close> is cleared after the conversion, so the test for a range never fails by it.\<close>

definition store_option :: "option_entry \<Rightarrow> string \<Rightarrow> settings \<Rightarrow> parse_status" where
  "store_option e v st =
     (let put = (\<lambda>x. Opt_ok (st(oe_long_option e \<mapsto> x))) in
      case oe_type e of
        OPTION_NONE \<Rightarrow> put (VBool True)
      | OPTION_BOOL \<Rightarrow> put (VBool True)
      | OPTION_STRING \<Rightarrow> if oe_has_param e \<and> v \<noteq> [] then put (VString v) else Opt_error
      | OPTION_FLOAT \<Rightarrow>
          if v = [] then Opt_error
          else (let (x, r) = strtof v in if r \<noteq> [] then Opt_error else put (VFloat x))
      | OPTION_DOUBLE \<Rightarrow>
          if v = [] then Opt_error
          else (let (x, r) = strtod v in if r \<noteq> [] then Opt_error else put (VDouble x))
      | OPTION_FREQ \<Rightarrow>
          if v = [] then Opt_error
          else (let (x, r) = strtod v in if r \<noteq> [] then Opt_error else put (VDouble x))
      | OPTION_INT \<Rightarrow>
          if v = [] then Opt_error
          else (let (x, r) = strtol0 v in
                if r \<noteq> [] then Opt_error
                else if int_of_long x \<noteq> x then Opt_error else put (VInt (int_of_long x)))
      | OPTION_CHAR \<Rightarrow>
          if oe_has_param e \<and> v \<noteq> [] then (if 1 < length v then Opt_error else put (VChar (hd v)))
          else Opt_error)"

definition find_long :: "option_entry list \<Rightarrow> string \<Rightarrow> option_entry option" where
  "find_long table name = find (\<lambda>e. oe_long_option e = name) table"

text \<open>The map from letters gives the long name of the first entry with the letter.\<close>

definition find_short :: "option_entry list \<Rightarrow> char \<Rightarrow> option_entry option" where
  "find_short table c =
     (case find (\<lambda>e. oe_option e = c) table of None \<Rightarrow> None | Some e \<Rightarrow> find_long table (oe_long_option e))"

definition parse_long :: "option_entry list \<Rightarrow> string \<Rightarrow> string \<Rightarrow> settings \<Rightarrow> parse_status" where
  "parse_long table body next_arg st =
     (let has = CHR ''='' \<in> set body;
          name = takeWhile (\<lambda>c. c \<noteq> CHR ''='') body;
          v = (if has then drop 1 (dropWhile (\<lambda>c. c \<noteq> CHR ''='') body)
               else if next_arg = [] \<or> hd next_arg = CHR ''-'' then [] else next_arg)
      in case find_long table name of None \<Rightarrow> Opt_error | Some e \<Rightarrow> store_option e v st)"

definition parse_option :: "option_entry list \<Rightarrow> string \<Rightarrow> string \<Rightarrow> settings \<Rightarrow> parse_status option" where
  "parse_option table arg next_arg st =
     (if arg = ''--help'' \<or> arg = ''-h'' \<or> arg = ''-?'' then Some Opt_help
      else if arg = ''--verbose'' \<or> arg = ''-v'' then Some Opt_verbose_help
      else if take 2 arg = ''--'' then Some (parse_long table (drop 2 arg) next_arg st)
      else if length arg < 2 then None
      else case find_short table (arg ! 1) of None \<Rightarrow> Some Opt_error
           | Some e \<Rightarrow> Some (store_option e (drop 2 arg) st))"

section \<open>Command line and file\<close>

datatype parse_end = Parsed settings | Exit int

text \<open>\<open>argv\<close> without the name of the program.\<close>

fun parse_args :: "option_entry list \<Rightarrow> string list \<Rightarrow> settings \<Rightarrow> parse_end option" where
  "parse_args table [] st = Some (Parsed st)"
| "parse_args table (arg # args) st =
     (let next_arg = (case args of [] \<Rightarrow> [] | a # _ \<Rightarrow> a) in
      if arg \<noteq> [] \<and> hd arg = CHR ''-'' \<and> arg \<noteq> ''--''
      then do { r \<leftarrow> parse_option table arg next_arg st;
                case r of Opt_ok st \<Rightarrow> parse_args table args st | Opt_help \<Rightarrow> Some (Exit 0) | _ \<Rightarrow> Some (Exit 1) }
      else parse_args table args st)"

definition skip_eol :: "string \<Rightarrow> string" where
  "skip_eol s = drop 1 (dropWhile (\<lambda>c. c \<noteq> CHR 0x0A \<and> c \<noteq> CHR 0x0D) s)"

lemma length_skip_eol: "length (skip_eol s) \<le> length s"
  using length_dropWhile_le[of "\<lambda>c. c \<noteq> CHR 0x0A \<and> c \<noteq> CHR 0x0D" s] by (simp add: skip_eol_def)

function skip_comment :: "string \<Rightarrow> string" where
  "skip_comment s =
     (case dropWhile isspace s of [] \<Rightarrow> []
      | c # r \<Rightarrow> if c = CHR ''#'' then skip_comment (skip_eol r) else c # r)"
  by auto

termination
proof (relation "measure length", simp)
  fix s c r
  assume "dropWhile isspace s = c # r"
  then have "length r < length s" using length_dropWhile_le[of isspace s] by simp
  then show "(skip_eol r, s) \<in> measure length" using length_skip_eol[of r] by simp
qed

declare skip_comment.simps [simp del]

lemma length_skip_comment: "length (skip_comment s) \<le> length s"
proof (induction s rule: skip_comment.induct)
  case (1 s)
  show ?case
  proof (cases "dropWhile isspace s")
    case Nil
    then show ?thesis by (simp add: skip_comment.simps[of s] del: dropWhile_eq_Nil_conv)
  next
    case (Cons c r)
    then have "length r < length s" using length_dropWhile_le[of isspace s] by simp
    then show ?thesis
      using 1[OF Cons] length_skip_eol[of r] Cons by (auto simp: skip_comment.simps[of s])
  qed
qed

text \<open>The line that \<open>getline\<close> reads and what is left; characters up to the space are cut off its end.\<close>

definition trim_line :: "string \<Rightarrow> string" where
  "trim_line l = rev (dropWhile (\<lambda>c. of_char c \<le> (32 :: nat) \<or> (128 :: nat) \<le> of_char c) (rev l))"

lemma rest_shorter:
  assumes "skip_comment s = c # r"
  shows "length (drop 1 (dropWhile (\<lambda>c. c \<noteq> CHR 0x0A) (c # r))) < length s"
proof -
  have "length (dropWhile (\<lambda>c. c \<noteq> CHR 0x0A) (c # r)) \<le> length (c # r)" by (rule length_dropWhile_le)
  then have "length (drop 1 (dropWhile (\<lambda>c. c \<noteq> CHR 0x0A) (c # r))) \<le> length r" by simp
  also have "\<dots> < length s" using length_skip_comment[of s] assms by simp
  finally show ?thesis .
qed

function parse_lines :: "option_entry list \<Rightarrow> string \<Rightarrow> settings \<Rightarrow> parse_end option" where
  "parse_lines table s st =
     (case skip_comment s of [] \<Rightarrow> Some (Parsed st)
      | c # r \<Rightarrow>
          (let l = trim_line (takeWhile (\<lambda>c. c \<noteq> CHR 0x0A) (c # r));
               rest = drop 1 (dropWhile (\<lambda>c. c \<noteq> CHR 0x0A) (c # r))
           in case parse_option table l [] st of
                None \<Rightarrow> None
              | Some Opt_error \<Rightarrow> Some (Exit 1)
              | Some (Opt_ok st') \<Rightarrow> parse_lines table rest st'
              | Some _ \<Rightarrow> parse_lines table rest st))"
  by auto

termination
  by (relation "measure (\<lambda>(_, s, _). length s)") (use rest_shorter in \<open>auto simp del: dropWhile.simps\<close>)

declare parse_lines.simps [simp del]

text \<open>\<open>_doOptions\<close>: first the file in the home directory, if there is one, then the command line.\<close>

definition doOptions :: "option_entry list \<Rightarrow> string option \<Rightarrow> string list \<Rightarrow> settings \<Rightarrow> parse_end option" where
  "doOptions table file args st =
     do { r \<leftarrow> (case file of None \<Rightarrow> Some (Parsed st) | Some content \<Rightarrow> parse_lines table content st);
          case r of Exit n \<Rightarrow> Some (Exit n) | Parsed st \<Rightarrow> parse_args table args st }"

section \<open>What \<open>main\<close> makes of them\<close>

definition default_settings :: settings where
  "default_settings = [''voipserver'' \<mapsto> VString ''fgcom.flightgear.org'', ''fgserver'' \<mapsto> VString ''localhost'',
     ''port'' \<mapsto> VInt 16661, ''frequency'' \<mapsto> VDouble (- 1), ''user'' \<mapsto> VString ''guest'',
     ''password'' \<mapsto> VString ''guest'', ''mic'' \<mapsto> VDouble (double (7/10)), ''speaker'' \<mapsto> VDouble (double (7/10)),
     ''codec'' \<mapsto> VChar CHR ''u'']"

definition codec_format :: "char \<Rightarrow> int \<Rightarrow> int" where
  "codec_format c codec =
     (if c = CHR ''u'' then 4 else if c = CHR ''a'' then 8 else if c = CHR ''g'' then 2
      else if c = CHR ''7'' then 16 else if c = CHR ''s'' then 512 else codec)"

definition clamp_level :: "rat \<Rightarrow> rat" where
  "clamp_level x = (let x = (if 1 < x then 1 else x) in if x < 0 then 0 else x)"

text \<open>The mode: 0 for a controller, who has an airport and a frequency, and 1 for FlightGear.\<close>

definition choose_mode :: "rat \<Rightarrow> string \<Rightarrow> int \<times> string" where
  "choose_mode frequency airport =
     (if 0 < frequency \<and> frequency < 1000
      then (0, if airport = [] \<or> 4 < length airport then ''ZZZZ'' else airport)
      else (1, airport))"

text \<open>
  The names of the two data files: a default that is not a file is looked for beside the program,
  which on Unix changes nothing. \<open>is_file\<close> is \<open>is_file_or_directory\<close>.
\<close>

definition get_data_path_per_os :: "int \<times> string" where
  "get_data_path_per_os = (0, '''')"

definition fix_input_file :: "(string \<Rightarrow> int) \<Rightarrow> string \<Rightarrow> string \<Rightarrow> int \<times> string" where
  "fix_input_file is_file dflt file =
     (if file = dflt \<and> is_file file \<noteq> 1
      then (let (status, path) = get_data_path_per_os in (status, path @ dflt)) else (0, file))"

definition fix_input_files :: "(string \<Rightarrow> int) \<Rightarrow> string \<Rightarrow> string \<Rightarrow> string \<Rightarrow> string \<Rightarrow> int \<times> string \<times> string" where
  "fix_input_files is_file def_freq def_pos frequency_file positions_file =
     (let (i, f) = fix_input_file is_file def_freq frequency_file;
          (j, p) = fix_input_file is_file def_pos positions_file
      in (if i = 0 then j else i, f, p))"

end
