(* ===== verification/Fgcom_Options_Props.thy ===== *)
theory Fgcom_Options_Props
  imports Fgcom_Options
begin

text \<open>
  Properties of the options: the spellings of an option mean the same, an option sets its own
  variable only, which arguments end the program by an exception, and what a whole command line
  does.
\<close>

section \<open>Spellings\<close>

text \<open>A table without two entries of the same name or letter, with names free of equals signs.\<close>

definition table_ok :: "option_entry list \<Rightarrow> bool" where
  "table_ok t \<longleftrightarrow> distinct (map oe_long_option t) \<and> distinct (map oe_option t) \<and>
     list_all (\<lambda>e. CHR ''='' \<notin> set (oe_long_option e) \<and> oe_option e \<notin> set ''-h?v'') t"

lemma find_distinct:
  "distinct (map f t) \<Longrightarrow> e \<in> set t \<Longrightarrow> find (\<lambda>x. f x = f e) t = Some e"
  by (induction t) auto

lemma find_long_entry: "table_ok t \<Longrightarrow> e \<in> set t \<Longrightarrow> find_long t (oe_long_option e) = Some e"
  using find_distinct[of oe_long_option t e] by (simp add: table_ok_def find_long_def)

lemma find_short_entry: "table_ok t \<Longrightarrow> e \<in> set t \<Longrightarrow> find_short t (oe_option e) = Some e"
  using find_distinct[of oe_option t e] by (simp add: find_short_def find_long_entry table_ok_def)

lemma fgcom_table_ok: "table_ok fgcomOptionArray"
  by code_simp

definition is_help :: "string \<Rightarrow> bool" where
  "is_help arg \<longleftrightarrow> arg \<in> {''--help'', ''-h'', ''-?'', ''--verbose'', ''-v''}"

lemma parse_option_eq:
  "\<not> is_help arg \<Longrightarrow> parse_option t arg next_arg st =
    (if take 2 arg = ''--'' then Some (parse_long t (drop 2 arg) next_arg st)
     else if length arg < 2 then None
     else case find_short t (arg ! 1) of None \<Rightarrow> Some Opt_error | Some e \<Rightarrow> Some (store_option e (drop 2 arg) st))"
  by (auto simp: parse_option_def is_help_def)

text \<open>
  C35. The three spellings of an option agree: \<open>--name=value\<close>, \<open>--name value\<close> (for a value that is not
  empty and does not begin with a minus) and the letter with the value behind it set the same
  variable to the same value, or fail alike.
\<close>

theorem option_spellings_agree:
  assumes "table_ok t" "e \<in> set t" "v \<noteq> []" "hd v \<noteq> CHR ''-''" "oe_long_option e \<notin> {''help'', ''verbose''}"
  shows "parse_option t (''--'' @ oe_long_option e @ ''='' @ v) next_arg st = Some (store_option e v st) \<and>
    parse_option t (''--'' @ oe_long_option e) v st = Some (store_option e v st) \<and>
    parse_option t (CHR ''-'' # oe_option e # v) next_arg st = Some (store_option e v st)"
proof -
  have n: "CHR ''='' \<notin> set (oe_long_option e)" "oe_option e \<noteq> CHR ''-''"
    using assms(1,2) by (auto simp: table_ok_def list_all_iff)
  have h: "\<not> is_help (''--'' @ oe_long_option e @ ''='' @ v)" "\<not> is_help (''--'' @ oe_long_option e)"
    "\<not> is_help (CHR ''-'' # oe_option e # v)"
    using assms(3,5) n
    by (auto simp: is_help_def append_eq_Cons_conv Cons_eq_append_conv dest!: arg_cong[of _ _ set])
  have l: "parse_long t (oe_long_option e @ CHR ''='' # v) next_arg st = store_option e v st"
    using n find_long_entry[OF assms(1,2)]
    by (simp add: parse_long_def Let_def takeWhile_append dropWhile_append)
  have m: "takeWhile (\<lambda>c. c \<noteq> CHR ''='') (oe_long_option e) = oe_long_option e"
    using n by (auto simp: takeWhile_eq_all_conv)
  show ?thesis
    using l n assms(3,4) find_long_entry[OF assms(1,2)] find_short_entry[OF assms(1,2)]
    by (simp add: parse_option_eq h[simplified] parse_long_def Let_def m)
qed

lemma option_spellings_agree_witness:
  "parse_option fgcomOptionArray ''--port=5060'' [] default_settings =
   parse_option fgcomOptionArray ''-p5060'' [] default_settings"
proof -
  let ?e = "entry ''port'' CHR ''p'' True OPTION_INT"
  have e: "?e \<in> set fgcomOptionArray" by (simp add: fgcomOptionArray_def)
  show ?thesis
    using option_spellings_agree[OF fgcom_table_ok e, of "''5060''" "[]" default_settings]
    by (simp add: entry_def)
qed

section \<open>The command line and the file\<close>

lemma parse_args_prefix:
  "parse_args t (xs @ ys) st = Some (Parsed st') \<Longrightarrow> \<exists>st1. parse_args t ys st1 = Some (Parsed st')"
proof (induction xs arbitrary: st)
  case (Cons a xs)
  then show ?case by (auto simp: Let_def split: if_splits Option.bind_splits parse_status.splits)
qed auto

lemma parse_args_plain: "list_all (\<lambda>a. a = [] \<or> hd a \<noteq> CHR ''-'') xs \<Longrightarrow> parse_args t xs st = Some (Parsed st)"
  by (induction xs) auto

lemma store_option_value:
  "store_option e v st = Opt_ok st' \<Longrightarrow>
     \<exists>x. st' = st(oe_long_option e \<mapsto> x) \<and> (\<forall>st. store_option e v st = Opt_ok (st(oe_long_option e \<mapsto> x)))"
  by (auto simp: store_option_def Let_def split: option_type.splits if_splits prod.splits)

text \<open>
  The command line wins over the file: when reading the options ends with settings, and the last
  option on the command line is \<open>--name=value\<close>, its variable has the value, whatever the file and
  the options before say.
\<close>

theorem command_line_wins:
  assumes "table_ok t" "e \<in> set t" "oe_long_option e \<notin> {''help'', ''verbose''}"
    and "list_all (\<lambda>a. a = [] \<or> hd a \<noteq> CHR ''-'') after"
    and "doOptions t file (before @ (''--'' @ oe_long_option e @ ''='' @ v) # after) st = Some (Parsed st')"
  shows "\<exists>x. store_option e v Map.empty = Opt_ok [oe_long_option e \<mapsto> x] \<and> st' (oe_long_option e) = Some x"
proof -
  let ?a = "''--'' @ oe_long_option e @ ''='' @ v"
  from assms(5) obtain st0 where 1: "parse_args t (before @ ?a # after) st0 = Some (Parsed st')"
    by (auto simp: doOptions_def split: Option.bind_splits parse_end.splits option.splits)
  obtain st1 where st1: "parse_args t (?a # after) st1 = Some (Parsed st')"
    using parse_args_prefix[OF 1] by auto
  have n: "CHR ''='' \<notin> set (oe_long_option e)" using assms(1,2) by (auto simp: table_ok_def list_all_iff)
  have h: "\<not> is_help ?a"
    using assms(3) n by (auto simp: is_help_def append_eq_Cons_conv Cons_eq_append_conv dest!: arg_cong[of _ _ set])
  have "parse_option t ?a next_arg st1 = Some (store_option e v st1)" for next_arg
    using n find_long_entry[OF assms(1,2)] 
    by (simp add: parse_option_eq h[simplified] parse_long_def Let_def takeWhile_append dropWhile_append)
  then obtain st2 where "store_option e v st1 = Opt_ok st2" "parse_args t after st2 = Some (Parsed st')"
    using st1 by (auto simp: Let_def split: parse_status.splits)
  then have "store_option e v st1 = Opt_ok st'" using parse_args_plain[OF assms(4)] by simp
  from store_option_value[OF this] show ?thesis by auto
qed

lemma command_line_wins_witness:
  "\<exists>st'. doOptions fgcomOptionArray (Some (''--port=1'' @ nl)) [''--port=5060'', ''x''] default_settings = Some (Parsed st') \<and>
     st' ''port'' = Some (VInt 5060)"
proof -
  let ?e = "entry ''port'' CHR ''p'' True OPTION_INT"
  have e: "?e \<in> set fgcomOptionArray" by (simp add: fgcomOptionArray_def)
  have "(case doOptions fgcomOptionArray (Some (''--port=1'' @ nl)) [''--port=5060'', ''x''] default_settings of
      Some (Parsed _) \<Rightarrow> True | _ \<Rightarrow> False)" by code_simp
  then obtain st' where st': "doOptions fgcomOptionArray (Some (''--port=1'' @ nl)) [''--port=5060'', ''x''] default_settings
      = Some (Parsed st')" by (auto split: option.splits parse_end.splits)
  have "store_option ?e ''5060'' Map.empty = Opt_ok [''port'' \<mapsto> VInt 5060]"
    by (simp add: store_option_def entry_def strtol0_def scan_sign_def isspace_def hex_value_def in_base_def
        saturate_long_def int_of_long_def)
  then show ?thesis
    using command_line_wins[OF fgcom_table_ok e, of "[''x'']" "Some (''--port=1'' @ nl)" "[]" "''5060''" default_settings st'] st'
    by (auto simp: entry_def dest: fun_cong[of _ _ "''port''"])
qed

end
