(* ===== verification/Iaxc_Speex.thy ===== *)
theory Iaxc_Speex
  imports Prelude
begin

text \<open>
  The Speex codec of \<open>iaxclient\<close>: \<open>src/iaxclient/lib/codec_speex.c\<close>, the loops around the coder of
  \<open>libspeex\<close>. The coder and its bit buffer are parameters. A return value of the coder is 0 for a
  frame, -1 for the end of the stream, anything else for an error.
\<close>

record ('x, 'b) speex =
  sx_decode_int :: "'x \<Rightarrow> 'b \<Rightarrow> int \<times> u16 list \<times> 'x \<times> 'b"
  sx_conceal :: "'x \<Rightarrow> u16 list \<times> 'x"
  sx_encode_int :: "'x \<Rightarrow> u16 list \<Rightarrow> 'b \<Rightarrow> 'x \<times> 'b"
  sb_read_from :: "u8 list \<Rightarrow> 'b \<Rightarrow> 'b"
  sb_remaining :: "'b \<Rightarrow> int"
  sb_advance :: "int \<Rightarrow> 'b \<Rightarrow> 'b"
  sb_reset :: "'b \<Rightarrow> 'b"
  sb_pack :: "int \<Rightarrow> int \<Rightarrow> 'b \<Rightarrow> 'b"
  sb_write :: "'b \<Rightarrow> int \<Rightarrow> u8 list \<times> 'b"

definition IAXC_SPEEX_TERMINATION_NONE :: int where "IAXC_SPEEX_TERMINATION_NONE = 2"

text \<open>\<open>struct state\<close>, one for each direction.\<close>

record ('x, 'b) speex_state =
  ss_state :: 'x
  ss_frame_size :: int
  ss_termination_mode :: int
  ss_bits :: 'b

section \<open>Decoding\<close>

text \<open>
  One round of the loop: the frame it adds, and whether the loop goes on. At the end of the stream
  the loop goes on only behind a terminator.
\<close>

definition speex_decode_round ::
    "('x, 'b) speex \<Rightarrow> ('x, 'b) speex_state \<Rightarrow> u16 list option \<times> bool \<times> ('x, 'b) speex_state" where
  "speex_decode_round sx s =
     (let (ret, out, x, b) = sx_decode_int sx (ss_state s) (ss_bits s);
          bits_left = sb_remaining sx b smod 8
      in if ret = 0
         then (Some out, True, s\<lparr>ss_state := x,
                 ss_bits := (if ss_termination_mode s = IAXC_SPEEX_TERMINATION_NONE \<and> bits_left \<noteq> 0
                             then sb_advance sx bits_left b else b)\<rparr>)
         else if ret = - 1 \<and> 5 \<le> bits_left
         then (None, True, s\<lparr>ss_state := x, ss_bits := sb_advance sx bits_left b\<rparr>)
         else (None, False, s\<lparr>ss_state := x, ss_bits := b\<rparr>))"

text \<open>
  The loop, with a bound on its rounds; \<open>None\<close> is out of rounds. Room for samples may become
  negative in the caller, so it is an integer.
\<close>

fun speex_decode_loop ::
    "nat \<Rightarrow> ('x, 'b) speex \<Rightarrow> int \<Rightarrow> ('x, 'b) speex_state \<Rightarrow> (u16 list \<times> ('x, 'b) speex_state) option" where
  "speex_decode_loop 0 sx outlen s = None"
| "speex_decode_loop (Suc fuel) sx outlen s =
     (if sb_remaining sx (ss_bits s) \<noteq> 0 \<and> ss_frame_size s \<le> outlen
      then case speex_decode_round sx s of
             (None, False, s1) \<Rightarrow> Some ([], s1)
           | (None, True, s1) \<Rightarrow> speex_decode_loop fuel sx outlen s1
           | (Some out, _, s1) \<Rightarrow>
               map_option (\<lambda>(out', s'). (out @ out', s')) (speex_decode_loop fuel sx (outlen - ss_frame_size s) s1)
      else Some ([], s))"

text \<open>Without bytes a frame is interpolated, whatever the room. All bytes are taken.\<close>

definition speex_decode ::
    "nat \<Rightarrow> ('x, 'b) speex \<Rightarrow> u8 list \<Rightarrow> int \<Rightarrow> ('x, 'b) speex_state \<Rightarrow> (u16 list \<times> ('x, 'b) speex_state) option" where
  "speex_decode fuel sx bytes outlen s =
     (if bytes = []
      then (let (out, x) = sx_conceal sx (ss_state s) in Some (out, s\<lparr>ss_state := x\<rparr>))
      else speex_decode_loop fuel sx outlen (s\<lparr>ss_bits := sb_read_from sx bytes (ss_bits s)\<rparr>))"

section \<open>Encoding\<close>

text \<open>Every frame into its own packet of bits, or all frames into one. A codec is made with a frame size above
  zero, without which the loops of the code would not end.\<close>

function speex_encode_frames ::
    "('x, 'b) speex \<Rightarrow> u16 list \<Rightarrow> int \<Rightarrow> ('x, 'b) speex_state \<Rightarrow> u16 list \<times> u8 list \<times> ('x, 'b) speex_state" where
  "speex_encode_frames sx samples outlen s =
     (let n = nat (ss_frame_size s) in
      if n \<noteq> 0 \<and> n \<le> length samples
      then let (x, b) = sx_encode_int sx (ss_state s) (take n samples) (sb_reset sx (ss_bits s));
               b = (if ss_termination_mode s \<noteq> IAXC_SPEEX_TERMINATION_NONE then sb_pack sx 15 5 b else b);
               (bytes, b) = sb_write sx b outlen;
               (rest, out, s') = speex_encode_frames sx (drop n samples) (outlen - int (length bytes))
                                   (s\<lparr>ss_state := x, ss_bits := b\<rparr>)
           in (rest, bytes @ out, s')
      else (samples, [], s))"
  by auto

termination
  by (relation "measure (\<lambda>(_, samples, _, _). length samples)") (auto simp: Let_def)

declare speex_encode_frames.simps [simp del]

function speex_encode_all :: "('x, 'b) speex \<Rightarrow> u16 list \<Rightarrow> ('x, 'b) speex_state \<Rightarrow> u16 list \<times> ('x, 'b) speex_state" where
  "speex_encode_all sx samples s =
     (let n = nat (ss_frame_size s) in
      if n \<noteq> 0 \<and> n \<le> length samples
      then let (x, b) = sx_encode_int sx (ss_state s) (take n samples) (ss_bits s)
           in speex_encode_all sx (drop n samples) (s\<lparr>ss_state := x, ss_bits := b\<rparr>)
      else (samples, s))"
  by auto

termination
  by (relation "measure (\<lambda>(_, samples, _). length samples)") (auto simp: Let_def)

declare speex_encode_all.simps [simp del]

definition speex_encode ::
    "('x, 'b) speex \<Rightarrow> u16 list \<Rightarrow> int \<Rightarrow> ('x, 'b) speex_state \<Rightarrow> u16 list \<times> u8 list \<times> ('x, 'b) speex_state" where
  "speex_encode sx samples outlen s =
     (if ss_termination_mode s \<noteq> 0 then speex_encode_frames sx samples outlen s
      else let (rest, s1) = speex_encode_all sx samples (s\<lparr>ss_bits := sb_reset sx (ss_bits s)\<rparr>);
               (bytes, b) = sb_write sx (sb_pack sx 15 5 (ss_bits s1)) outlen
           in (rest, bytes, s1\<lparr>ss_bits := b\<rparr>))"

end
