(* ===== verification/Iaxc_Audio.thy ===== *)
theory Iaxc_Audio
  imports Iax_State Iaxc_Codec Iaxc_Speex Fgcom_Float
begin

text \<open>
  \<open>src/iaxclient/lib/audio_encode.c\<close>: the level of the audio, the automatic gain control that turns
  the level of the microphone, the detection of silence, and the choice of a coder for a call. The
  preprocessor of \<open>libspeex\<close> and the logarithm are parameters; the logarithm of a negative number is
  \<open>NaN\<close>, here \<open>None\<close>. The volume of the mixer is a cell (\<open>None\<close> without a mixer).
\<close>

section \<open>Coders\<close>

text \<open>
  \<open>struct iaxc_audio_codec\<close>, with the states of its two directions. The states of all third-party
  coders have the type \<open>'z\<close>; what is needed to make and run them is \<open>coders\<close>.
\<close>

datatype 'z audio_codec =
    Ulaw_codec 'z
  | Alaw_codec 'z
  | Gsm_codec 'z 'z 'z
  | Speex_codec "('z, 'z) speex_state" "('z, 'z) speex_state"

record 'z coders =
  co_plc :: "'z plc"
  co_plc0 :: 'z
  co_gsm :: "'z gsm"
  co_gsm0 :: 'z
  co_speex :: "('z, 'z) speex"
  co_speex_enc0 :: 'z
  co_speex_dec0 :: 'z
  co_speex_bits0 :: 'z
  co_enc_frame_size :: int
  co_dec_frame_size :: int
  co_termination_mode :: int
  co_fuel :: nat

definition IAXC_FORMAT_GSM :: int where "IAXC_FORMAT_GSM = 2"
definition IAXC_FORMAT_ULAW :: int where "IAXC_FORMAT_ULAW = 4"
definition IAXC_FORMAT_ALAW :: int where "IAXC_FORMAT_ALAW = 8"
definition IAXC_FORMAT_SPEEX :: int where "IAXC_FORMAT_SPEEX = 512"

definition speex_new :: "'z coders \<Rightarrow> 'z audio_codec" where
  "speex_new co =
     (let size = (\<lambda>n. if n = 0 then 160 else n);
          state = (\<lambda>x n. \<lparr>ss_state = x, ss_frame_size = size n, ss_termination_mode = co_termination_mode co,
                          ss_bits = co_speex_bits0 co\<rparr>)
      in Speex_codec (state (co_speex_enc0 co) (co_enc_frame_size co)) (state (co_speex_dec0 co) (co_dec_frame_size co)))"

definition create_codec :: "'z coders \<Rightarrow> int \<Rightarrow> 'z audio_codec option" where
  "create_codec co format =
     (if format = IAXC_FORMAT_GSM then Some (Gsm_codec (co_gsm0 co) (co_gsm0 co) (co_plc0 co))
      else if format = IAXC_FORMAT_ULAW then Some (Ulaw_codec (co_plc0 co))
      else if format = IAXC_FORMAT_ALAW then Some (Alaw_codec (co_plc0 co))
      else if format = IAXC_FORMAT_SPEEX then Some (speex_new co)
      else None)"

fun format_of_codec :: "'z audio_codec \<Rightarrow> int" where
  "format_of_codec (Ulaw_codec p) = IAXC_FORMAT_ULAW"
| "format_of_codec (Alaw_codec p) = IAXC_FORMAT_ALAW"
| "format_of_codec (Gsm_codec e d p) = IAXC_FORMAT_GSM"
| "format_of_codec (Speex_codec e d) = IAXC_FORMAT_SPEEX"

fun minimum_frame_size :: "'z audio_codec \<Rightarrow> int" where
  "minimum_frame_size (Speex_codec e d) = max (max 160 (ss_frame_size e)) (ss_frame_size d)"
| "minimum_frame_size c = 160"

text \<open>
  What a decoder does: the bytes left over, the samples, its state; \<open>Codec_error\<close> is its error,
  \<open>Stuck\<close> that the loop over a Speex packet did not end in the rounds given.
\<close>

datatype 'r codec_result = Done 'r | Codec_error | Stuck

fun codec_decode :: "'z coders \<Rightarrow> 'z audio_codec \<Rightarrow> u8 list \<Rightarrow> nat \<Rightarrow> (u8 list \<times> u16 list \<times> 'z audio_codec) codec_result" where
  "codec_decode co (Ulaw_codec p) bytes outlen =
     (case ulaw_decode (co_plc co) bytes outlen p of None \<Rightarrow> Codec_error
      | Some (rest, out, p) \<Rightarrow> Done (rest, out, Ulaw_codec p))"
| "codec_decode co (Alaw_codec p) bytes outlen =
     (case alaw_decode (co_plc co) bytes outlen p of None \<Rightarrow> Codec_error
      | Some (rest, out, p) \<Rightarrow> Done (rest, out, Alaw_codec p))"
| "codec_decode co (Gsm_codec e d p) bytes outlen =
     (case gsm_codec_decode (co_gsm co) (co_plc co) bytes outlen (d, p) of None \<Rightarrow> Codec_error
      | Some (rest, out, d, p) \<Rightarrow> Done (rest, out, Gsm_codec e d p))"
| "codec_decode co (Speex_codec e d) bytes outlen =
     (case speex_decode (co_fuel co) (co_speex co) bytes (int outlen) d of None \<Rightarrow> Stuck
      | Some (out, d) \<Rightarrow> Done ([], out, Speex_codec e d))"

fun codec_encode :: "'z coders \<Rightarrow> 'z audio_codec \<Rightarrow> u16 list \<Rightarrow> nat \<Rightarrow> u16 list \<times> u8 list \<times> 'z audio_codec" where
  "codec_encode co (Ulaw_codec p) samples outlen = (let (rest, out) = ulaw_encode samples outlen in (rest, out, Ulaw_codec p))"
| "codec_encode co (Alaw_codec p) samples outlen = (let (rest, out) = alaw_encode samples outlen in (rest, out, Alaw_codec p))"
| "codec_encode co (Gsm_codec e d p) samples outlen =
     (let (rest, out, e) = gsm_codec_encode (co_gsm co) samples outlen e in (rest, out, Gsm_codec e d p))"
| "codec_encode co (Speex_codec e d) samples outlen =
     (let (rest, out, e) = speex_encode (co_speex co) samples (int outlen) e in (rest, out, Speex_codec e d))"

section \<open>Levels\<close>

text \<open>The loudest sample, in a \<open>short\<close>.\<close>

fun peak :: "u16 list \<Rightarrow> int \<Rightarrow> int" where
  "peak [] now = now"
| "peak (x # xs) now = peak xs (if now < \<bar>sint x\<bar> then short_of \<bar>sint x\<bar> else now)"

definition calculate_level :: "u16 list \<Rightarrow> rat \<Rightarrow> rat" where
  "calculate_level audio level =
     d_add level (d_div (d_sub (d_div (of_int (peak audio 0)) 32767) level) 5)"

definition vol_to_db :: "(rat \<Rightarrow> rat option) \<Rightarrow> rat \<Rightarrow> rat option" where
  "vol_to_db log10 vol = map_option (\<lambda>l. d_mul l 20) (log10 (d_add vol (double (1 / 10 ^ 99))))"

definition iaxc_usecdiff :: "timeval \<Rightarrow> timeval \<Rightarrow> int" where
  "iaxc_usecdiff a b = (tv_sec a - tv_sec b) * 1000000 + (tv_usec a - tv_usec b)"

definition IAXC_FILTER_DENOISE :: int where "IAXC_FILTER_DENOISE = 1"
definition IAXC_FILTER_AGC :: int where "IAXC_FILTER_AGC = 2"
definition IAXC_FILTER_AAGC :: int where "IAXC_FILTER_AAGC = 8"
definition IAXC_FILTER_CN :: int where "IAXC_FILTER_CN = 16"

text \<open>
  The preprocessor: made for a length and a rate, set up with the filters, run on samples, which it
  changes and takes for speech or not, and read.
\<close>

record 's preprocessor =
  pp_init :: "int \<Rightarrow> int \<Rightarrow> 's"
  pp_ctl :: "int \<Rightarrow> 's \<Rightarrow> 's"
  pp_run :: "u16 list \<Rightarrow> 's \<Rightarrow> bool \<times> u16 list \<times> 's"
  pp_speech_prob :: "'s \<Rightarrow> rat"
  pp_loudness2 :: "'s \<Rightarrow> rat"

text \<open>The globals of the file, with the volume of the mixer. \<open>au_agc_count\<close> is the counter in the control of the gain.\<close>

record 's audio_state =
  au_silence_threshold :: rat
  au_input_level :: rat
  au_output_level :: rat
  au_st :: "'s option"
  au_state_size :: int
  au_state_rate :: int
  au_filters :: int
  au_last_input :: timeval
  au_last_output :: timeval
  au_last_report :: timeval
  au_agc_count :: int
  au_lowest_volume :: "rat option"
  au_mixer :: "rat option"

record 's audio_env =
  ae_pre :: "'s preprocessor"
  ae_log10 :: "rat \<Rightarrow> rat option"

text \<open>\<open>iaxc_get_inout_volumes\<close>; the conversion of a \<open>NaN\<close> is undefined.\<close>

definition iaxc_get_inout_volumes :: "'s audio_env \<Rightarrow> 's audio_state \<Rightarrow> int option \<times> int option" where
  "iaxc_get_inout_volumes env st =
     (map_option trunc_int (vol_to_db (ae_log10 env) (au_input_level st)),
      map_option trunc_int (vol_to_db (ae_log10 env) (au_output_level st)))"

text \<open>At most every tenth of a second the levels are reported; without audio for a second they are low.\<close>

definition do_level_callback ::
    "'s audio_env \<Rightarrow> timeval \<Rightarrow> 's audio_state \<Rightarrow> (rat option \<times> rat option) option \<times> 's audio_state" where
  "do_level_callback env now st =
     (if tv_sec (au_last_report st) \<noteq> 0 \<and> iaxc_usecdiff now (au_last_report st) < 100000 then (None, st)
      else let silent = Some (double (- 999 / 10));
               input_db = (if iaxc_usecdiff now (au_last_input st) < 1000000
                           then vol_to_db (ae_log10 env) (au_input_level st) else silent);
               output_db = (if iaxc_usecdiff now (au_last_output st) < 1000000
                            then vol_to_db (ae_log10 env) (au_output_level st) else silent)
           in (Some (map_option float input_db, map_option float output_db), st\<lparr>au_last_report := now\<rparr>))"

definition iaxc_set_speex_filters :: "'s audio_env \<Rightarrow> 's audio_state \<Rightarrow> 's audio_state" where
  "iaxc_set_speex_filters env st = st\<lparr>au_st := map_option (pp_ctl (ae_pre env) (au_filters st)) (au_st st)\<rparr>"

definition iaxc_set_filters :: "'s audio_env \<Rightarrow> int \<Rightarrow> 's audio_state \<Rightarrow> 's audio_state" where
  "iaxc_set_filters env filters st = iaxc_set_speex_filters env (st\<lparr>au_filters := filters\<rparr>)"

definition iaxc_set_silence_threshold :: "'s audio_env \<Rightarrow> rat \<Rightarrow> 's audio_state \<Rightarrow> 's audio_state" where
  "iaxc_set_silence_threshold env thr st = iaxc_set_speex_filters env (st\<lparr>au_silence_threshold := thr\<rparr>)"

section \<open>The mixer\<close>

definition pa_input_level_get :: "'s audio_state \<Rightarrow> rat" where
  "pa_input_level_get st = (case au_mixer st of None \<Rightarrow> - 1 | Some v \<Rightarrow> v)"

definition pa_input_level_set :: "rat \<Rightarrow> 's audio_state \<Rightarrow> 's audio_state" where
  "pa_input_level_set level st = st\<lparr>au_mixer := map_option (\<lambda>_. float level) (au_mixer st)\<rparr>"

section \<open>The microphone\<close>

text \<open>The new level of the mixer, for the loudness of the preprocessor.\<close>

definition agc_level :: "rat \<Rightarrow> rat \<Rightarrow> rat option" where
  "agc_level loudness level =
     (if 8000 < loudness \<or> loudness < 4000
      then if 16000 < loudness \<and> 1 / 2 < level then Some (d_sub level (double (2 / 10)))
           else if 8000 < loudness \<and> double (15 / 100) \<le> level then Some (d_sub level (double (1 / 10)))
           else if loudness < 4000 \<and> level \<le> double (9 / 10) then Some (d_add level (double (1 / 10)))
           else None
      else None)"

text \<open>The gain control, every 64 frames of speech.\<close>

definition analog_agc :: "'s audio_env \<Rightarrow> bool \<Rightarrow> 's audio_state \<Rightarrow> 's audio_state" where
  "analog_agc env silent st =
     (case au_st st of None \<Rightarrow> st
      | Some p \<Rightarrow>
          if \<not> silent \<and> au_silence_threshold st \<noteq> 0 \<and> au_filters st AND IAXC_FILTER_AGC \<noteq> 0 \<and>
             au_filters st AND IAXC_FILTER_AAGC \<noteq> 0 \<and> double (2 / 10) < pp_speech_prob (ae_pre env) p
          then let st1 = st\<lparr>au_agc_count := au_agc_count st + 1\<rparr>
               in if au_agc_count st1 AND 0x3F = 0
                  then (case agc_level (float (pp_loudness2 (ae_pre env) p)) (pa_input_level_get st1) of
                          None \<Rightarrow> st1 | Some l \<Rightarrow> pa_input_level_set l st1)
                  else st1
          else st)"

definition prepare_preprocessor :: "'s audio_env \<Rightarrow> int \<Rightarrow> int \<Rightarrow> 's audio_state \<Rightarrow> 's audio_state" where
  "prepare_preprocessor env len rate st =
     (if au_st st = None \<or> au_state_size st \<noteq> len \<or> au_state_rate st \<noteq> rate
      then iaxc_set_speex_filters env
             (st\<lparr>au_st := Some (pp_init (ae_pre env) len rate), au_state_size := len, au_state_rate := rate\<rparr>)
      else st)"

text \<open>Whether the samples are silence, the samples as changed, and the report of levels.\<close>

definition iaxc_input_postprocess ::
    "'s audio_env \<Rightarrow> timeval \<Rightarrow> u16 list \<Rightarrow> int \<Rightarrow> 's audio_state \<Rightarrow>
     bool \<times> u16 list \<times> (rat option \<times> rat option) option \<times> 's audio_state" where
  "iaxc_input_postprocess env now audio rate st =
     (let st = prepare_preprocessor env (int (length audio)) rate st;
          st = st\<lparr>au_input_level := calculate_level audio (au_input_level st)\<rparr>;
          (silent, audio, st) =
            (if au_filters st AND (IAXC_FILTER_DENOISE OR IAXC_FILTER_AGC) \<noteq> 0 \<or> 0 < au_silence_threshold st
             then case au_st st of None \<Rightarrow> (False, audio, st)
                  | Some p \<Rightarrow> (let (speech, audio, p) = pp_run (ae_pre env) audio p in (\<not> speech, audio, st\<lparr>au_st := Some p\<rparr>))
             else (False, audio, st));
          st = analog_agc env silent st;
          st = (if 0 < au_silence_threshold st \<and> silent then st\<lparr>au_input_level := 0\<rparr> else st);
          (report, st) = do_level_callback env now st;
          volume = vol_to_db (ae_log10 env) (au_input_level st);
          less = (\<lambda>x. case volume of None \<Rightarrow> False | Some v \<Rightarrow> v < x);
          st = (if (case au_lowest_volume st of None \<Rightarrow> False | Some l \<Rightarrow> less l) then st\<lparr>au_lowest_volume := volume\<rparr> else st)
      in (if 0 < au_silence_threshold st then silent else less (au_silence_threshold st), audio, report, st))"

text \<open>\<open>output_postprocess\<close>\<close>

definition output_postprocess ::
    "'s audio_env \<Rightarrow> timeval \<Rightarrow> u16 list \<Rightarrow> 's audio_state \<Rightarrow> (rat option \<times> rat option) option \<times> 's audio_state" where
  "output_postprocess env now audio st =
     do_level_callback env now (st\<lparr>au_output_level := calculate_level audio (au_output_level st)\<rparr>)"

end
