(* ===== verification/Iaxc_Calls.thy ===== *)
theory Iaxc_Calls
  imports Iax_Loop Iaxc_Audio
begin

text \<open>
  The calls of \<open>src/iaxclient/lib/iaxclient_lib.c\<close>: the table of calls, the queue of events behind the
  lock, registrations, and what an application asks for. The sessions are those of \<open>libiax2\<close>; no
  session is the number 0, which no session has.

  \<open>None\<close> is undefined behaviour, as in the theories of \<open>libiax2\<close>: an index outside the table of calls,
  a session that is gone, or a string of 256 characters in its buffer, which has no end. Messages on
  \<open>stderr\<close> are left out; \<open>malloc\<close> and the making of a session succeed.
\<close>

section \<open>Data\<close>

definition IAXC_CALL_STATE_FREE :: int where "IAXC_CALL_STATE_FREE = 0"
definition IAXC_CALL_STATE_ACTIVE :: int where "IAXC_CALL_STATE_ACTIVE = 2"
definition IAXC_CALL_STATE_OUTGOING :: int where "IAXC_CALL_STATE_OUTGOING = 4"
definition IAXC_CALL_STATE_RINGING :: int where "IAXC_CALL_STATE_RINGING = 8"
definition IAXC_CALL_STATE_COMPLETE :: int where "IAXC_CALL_STATE_COMPLETE = 16"
definition IAXC_CALL_STATE_SELECTED :: int where "IAXC_CALL_STATE_SELECTED = 32"
definition IAXC_CALL_STATE_BUSY :: int where "IAXC_CALL_STATE_BUSY = 64"
definition IAXC_CALL_STATE_TRANSFER :: int where "IAXC_CALL_STATE_TRANSFER = 128"

lemmas call_states = IAXC_CALL_STATE_FREE_def IAXC_CALL_STATE_ACTIVE_def IAXC_CALL_STATE_OUTGOING_def
  IAXC_CALL_STATE_RINGING_def IAXC_CALL_STATE_COMPLETE_def IAXC_CALL_STATE_SELECTED_def
  IAXC_CALL_STATE_BUSY_def IAXC_CALL_STATE_TRANSFER_def

definition IAXC_STATUS :: int where "IAXC_STATUS = 1"
definition IAXC_NOTICE :: int where "IAXC_NOTICE = 2"
definition IAXC_ERROR :: int where "IAXC_ERROR = 3"
definition IAXC_TEXT_TYPE_IAX :: int where "IAXC_TEXT_TYPE_IAX = 5"

definition IAXC_EVENT_BUFSIZ :: nat where "IAXC_EVENT_BUFSIZ = 256"

text \<open>A string in a buffer, as \<open>strncpy\<close> puts it there, and as it is read again.\<close>

definition strncpy_buf :: "u8 list \<Rightarrow> u8 list" where
  "strncpy_buf s = take IAXC_EVENT_BUFSIZ (cstr s)"

definition c_string :: "u8 list \<Rightarrow> u8 list option" where
  "c_string s = (if length s < IAXC_EVENT_BUFSIZ then Some s else None)"

record 'z call_entry =
  ic_encoder :: "'z audio_codec option"
  ic_decoder :: "'z audio_codec option"
  ic_state :: int
  ic_remote :: "u8 list"
  ic_remote_name :: "u8 list"
  ic_local :: "u8 list"
  ic_local_context :: "u8 list"
  ic_callerid_name :: "u8 list"
  ic_callerid_number :: "u8 list"
  ic_last_activity :: timeval
  ic_last_ping :: timeval
  ic_format :: int
  ic_tx_silent :: bool
  ic_session :: nat

record iaxc_registration =
  rg_session :: nat
  rg_last :: timeval
  rg_host :: "u8 list"
  rg_user :: "u8 list"
  rg_pass :: "u8 list"
  rg_refresh :: int
  rg_id :: int

text \<open>
  \<open>iaxc_event\<close>. The call of a text of the library and the kind of an unknown URL are not set; the
  flag of a URL says whether its string has an end.
\<close>

datatype iaxc_ev =
    Text_ev int "int option" "u8 list"
  | Levels_ev "rat option" "rat option"
  | State_ev int int int "u8 list" "u8 list" "u8 list" "u8 list"
  | Netstat_ev int int iax_netstat iax_netstat
  | Url_ev int "int option" "u8 list" bool
  | Registration_ev int int int

text \<open>
  \<open>struct iaxc_audio_driver\<close>, the operations this file calls. To start gives an error code and messages,
  and may change the volume of the mixer; an input is an error or the samples, none if not enough are there.
\<close>

record 'a audio_driver =
  ad_start :: "rat option \<Rightarrow> 'a \<Rightarrow> int \<times> (int \<times> u8 list) list \<times> rat option \<times> 'a"
  ad_stop :: "'a \<Rightarrow> 'a"
  ad_input :: "nat \<Rightarrow> 'a \<Rightarrow> u16 list option \<times> 'a"
  ad_output :: "u16 list \<Rightarrow> 'a \<Rightarrow> 'a"

text \<open>
  The globals. \<open>l_posted\<close> is what the callback was given, \<open>l_socket\<close> the datagrams that have
  arrived, \<open>l_tick_idle\<close> and \<open>l_tick_quiet\<close> the two counters of \<open>service_audio\<close>.
\<close>

record ('z, 's, 'a) lib =
  l_iax :: iax_state
  l_socket :: "(u8 list \<times> sockaddr_in) list"
  l_calls :: "'z call_entry list"
  l_selected_call :: int
  l_iaxc_locked :: bool
  l_event_queue :: "iaxc_ev list"
  l_posted :: "iaxc_ev list"
  l_registrations :: "iaxc_registration list"
  l_next_registration_id :: int
  l_audio_format_preferred :: u32
  l_audio_format_capability :: u32
  l_minimum_outgoing_framesize :: int
  l_audio_output_mode :: int
  l_tick_idle :: int
  l_tick_quiet :: int
  l_audio :: "'s audio_state"
  l_driver :: 'a

text \<open>
  The environment: names of hosts, the allocator of sessions with what their memory holds, coders,
  preprocessor, driver. \<open>en_junk\<close> is the session that a null event happens to carry: only its type
  is set.
\<close>

record ('z, 's, 'a) env =
  en_host :: "u8 list \<Rightarrow> u8 list option"
  en_alloc :: "iax_state \<Rightarrow> nat"
  en_garbage :: "iax_event jitterbuf"
  en_stale :: u16
  en_junk :: nat
  en_coders :: "'z coders"
  en_audio :: "'s audio_env"
  en_driver :: "'a audio_driver"
  en_fuel :: nat

abbreviation now_of :: "('z, 's, 'a) lib \<Rightarrow> timeval" where
  "now_of st \<equiv> st_now (l_iax st)"

abbreviation nCalls :: "('z, 's, 'a) lib \<Rightarrow> int" where
  "nCalls st \<equiv> int (length (l_calls st))"

definition get_call :: "int \<Rightarrow> ('z, 's, 'a) lib \<Rightarrow> 'z call_entry option" where
  "get_call n st = (if 0 \<le> n \<and> n < nCalls st then Some (l_calls st ! nat n) else None)"

definition set_call :: "int \<Rightarrow> 'z call_entry \<Rightarrow> ('z, 's, 'a) lib \<Rightarrow> ('z, 's, 'a) lib" where
  "set_call n c st = st\<lparr>l_calls := (l_calls st)[nat n := c]\<rparr>"

definition upd_call :: "int \<Rightarrow> ('z call_entry \<Rightarrow> 'z call_entry) \<Rightarrow> ('z, 's, 'a) lib \<Rightarrow> ('z, 's, 'a) lib option" where
  "upd_call n f st = map_option (\<lambda>c. set_call n (f c) st) (get_call n st)"

text \<open>An operation of \<open>libiax2\<close>; its result is not looked at.\<close>

definition iax_do :: "(iax_state \<Rightarrow> (int \<times> iax_state) option) \<Rightarrow> ('z, 's, 'a) lib \<Rightarrow> ('z, 's, 'a) lib option" where
  "iax_do f st = map_option (\<lambda>(_, iax). st\<lparr>l_iax := iax\<rparr>) (f (l_iax st))"

section \<open>Events\<close>

text \<open>While the library is locked events are queued; they are handed on once it is not.\<close>

definition iaxc_post_event :: "iaxc_ev \<Rightarrow> ('z, 's, 'a) lib \<Rightarrow> ('z, 's, 'a) lib" where
  "iaxc_post_event e st =
     (if l_iaxc_locked st then st\<lparr>l_event_queue := l_event_queue st @ [e]\<rparr>
      else st\<lparr>l_posted := l_posted st @ [e]\<rparr>)"

definition get_iaxc_lock :: "('z, 's, 'a) lib \<Rightarrow> ('z, 's, 'a) lib" where
  "get_iaxc_lock st = st\<lparr>l_iaxc_locked := True\<rparr>"

definition put_iaxc_lock :: "('z, 's, 'a) lib \<Rightarrow> ('z, 's, 'a) lib" where
  "put_iaxc_lock st = fold iaxc_post_event (l_event_queue st) (st\<lparr>l_event_queue := [], l_iaxc_locked := False\<rparr>)"

definition iaxc_usermsg :: "int \<Rightarrow> u8 list \<Rightarrow> ('z, 's, 'a) lib \<Rightarrow> ('z, 's, 'a) lib" where
  "iaxc_usermsg ty msg = iaxc_post_event (Text_ev ty None (take (IAXC_EVENT_BUFSIZ - 1) msg))"

abbreviation status :: "string \<Rightarrow> ('z, 's, 'a) lib \<Rightarrow> ('z, 's, 'a) lib" where
  "status msg \<equiv> iaxc_usermsg IAXC_STATUS (bytes_of msg)"

text \<open>A number in a message, \<open>%d\<close>.\<close>

fun decimal_digits :: "nat \<Rightarrow> u8 list" where
  "decimal_digits n = (if n < 10 then [48 + of_nat n] else decimal_digits (n div 10) @ [48 + of_nat (n mod 10)])"

declare decimal_digits.simps [simp del]

definition number :: "int \<Rightarrow> u8 list" where
  "number n = (if n < 0 then 45 # decimal_digits (nat (- n)) else decimal_digits (nat n))"

definition call_status :: "int \<Rightarrow> string \<Rightarrow> ('z, 's, 'a) lib \<Rightarrow> ('z, 's, 'a) lib" where
  "call_status n msg = iaxc_usermsg IAXC_STATUS (bytes_of ''Call '' @ number n @ bytes_of msg)"

definition iaxc_do_levels_callback :: "rat option \<Rightarrow> rat option \<Rightarrow> ('z, 's, 'a) lib \<Rightarrow> ('z, 's, 'a) lib" where
  "iaxc_do_levels_callback input output = iaxc_post_event (Levels_ev input output)"

definition iaxc_do_state_callback :: "int \<Rightarrow> ('z, 's, 'a) lib \<Rightarrow> ('z, 's, 'a) lib" where
  "iaxc_do_state_callback n st =
     (case get_call n st of None \<Rightarrow> st
      | Some c \<Rightarrow> iaxc_post_event (State_ev n (ic_state c) (ic_format c) (ic_remote c) (ic_remote_name c)
                                    (ic_local c) (ic_local_context c)) st)"

definition iaxc_do_registration_callback :: "int \<Rightarrow> int \<Rightarrow> int \<Rightarrow> ('z, 's, 'a) lib \<Rightarrow> ('z, 's, 'a) lib" where
  "iaxc_do_registration_callback i reply msgcount = iaxc_post_event (Registration_ev i reply msgcount)"

section \<open>The table of calls\<close>

text \<open>The first number with a property, counting from \<open>n\<close>, or -1.\<close>

fun first_call :: "('z call_entry \<Rightarrow> bool) \<Rightarrow> int \<Rightarrow> 'z call_entry list \<Rightarrow> int" where
  "first_call P n [] = - 1"
| "first_call P n (c # cs) = (if P c then n else first_call P (n + 1) cs)"

definition iaxc_first_free_call :: "('z, 's, 'a) lib \<Rightarrow> int" where
  "iaxc_first_free_call st = first_call (\<lambda>c. ic_state c = IAXC_CALL_STATE_FREE) 0 (l_calls st)"

definition iaxc_find_call_by_session :: "nat \<Rightarrow> ('z, 's, 'a) lib \<Rightarrow> int" where
  "iaxc_find_call_by_session i st = first_call (\<lambda>c. ic_session c = i) 0 (l_calls st)"

definition iaxc_clear_call :: "int \<Rightarrow> ('z, 's, 'a) lib \<Rightarrow> ('z, 's, 'a) lib option" where
  "iaxc_clear_call n st =
     map_option (iaxc_do_state_callback n)
       (upd_call n (\<lambda>c. c\<lparr>ic_state := IAXC_CALL_STATE_FREE, ic_format := 0, ic_session := 0\<rparr>) st)"

definition iaxc_answer_call :: "int \<Rightarrow> ('z, 's, 'a) lib \<Rightarrow> ('z, 's, 'a) lib option" where
  "iaxc_answer_call n st =
     (if n < 0 then Some st
      else do { st \<leftarrow> upd_call n (\<lambda>c. c\<lparr>ic_state := (ic_state c OR IAXC_CALL_STATE_COMPLETE)
                                                     AND NOT IAXC_CALL_STATE_RINGING\<rparr>) st;
                c \<leftarrow> get_call n st;
                st \<leftarrow> iax_do (iax_answer (ic_session c)) st;
                Some (iaxc_do_state_callback n st) })"

definition deselect :: "'z call_entry \<Rightarrow> 'z call_entry" where
  "deselect c = c\<lparr>ic_state := ic_state c AND NOT IAXC_CALL_STATE_SELECTED\<rparr>"

text \<open>The old call is told, and the new one marked, unless they are the same.\<close>

definition change_selection :: "int \<Rightarrow> ('z, 's, 'a) lib \<Rightarrow> ('z, 's, 'a) lib option" where
  "change_selection n st =
     (if n \<noteq> l_selected_call st
      then do { st \<leftarrow> (if 0 \<le> l_selected_call st
                       then map_option (iaxc_do_state_callback (l_selected_call st)) (upd_call (l_selected_call st) deselect st)
                       else Some st);
                upd_call n (\<lambda>c. c\<lparr>ic_state := ic_state c OR IAXC_CALL_STATE_SELECTED\<rparr>) (st\<lparr>l_selected_call := n\<rparr>) }
      else Some st)"

definition iaxc_select_call :: "int \<Rightarrow> ('z, 's, 'a) lib \<Rightarrow> (int \<times> ('z, 's, 'a) lib) option" where
  "iaxc_select_call n st =
     (if nCalls st \<le> n
      then Some (- 1, iaxc_usermsg IAXC_ERROR (bytes_of ''Error: tried to select out_of_range call '' @ number n) st)
      else if n < 0
      then do { st \<leftarrow> (if 0 \<le> l_selected_call st then upd_call (l_selected_call st) deselect st else Some st);
                Some (0, st\<lparr>l_selected_call := n\<rparr>) }
      else do { st \<leftarrow> change_selection n st;
                c \<leftarrow> get_call n st;
                if ic_state c AND IAXC_CALL_STATE_OUTGOING = 0 \<and> ic_state c AND IAXC_CALL_STATE_RINGING \<noteq> 0
                then map_option (Pair 0) (iaxc_answer_call n st)
                else Some (0, iaxc_do_state_callback n st) })"

section \<open>Settings\<close>

definition new_call :: "'z call_entry" where
  "new_call = \<lparr>ic_encoder = None, ic_decoder = None, ic_state = 0, ic_remote = [], ic_remote_name = [],
     ic_local = [], ic_local_context = [], ic_callerid_name = bytes_of ''Not Available'',
     ic_callerid_number = bytes_of ''7005551212'', ic_last_activity = Timeval 0 0, ic_last_ping = Timeval 0 0,
     ic_format = 0, ic_tx_silent = False, ic_session = 0\<rparr>"

text \<open>The part of \<open>iaxc_initialize\<close> behind the socket and in front of the audio device.\<close>

definition iaxc_initialize :: "int \<Rightarrow> ('z, 's, 'a) lib \<Rightarrow> ('z, 's, 'a) lib" where
  "iaxc_initialize n st =
     st\<lparr>l_calls := replicate (nat (if n \<le> 0 then 1 else n)) new_call, l_selected_call := 0,
        l_audio_format_capability := 4 OR 8 OR 2 OR 512, l_audio_format_preferred := 512\<rparr>"

definition iaxc_set_formats :: "u32 \<Rightarrow> u32 \<Rightarrow> ('z, 's, 'a) lib \<Rightarrow> ('z, 's, 'a) lib" where
  "iaxc_set_formats preferred allowed st =
     st\<lparr>l_audio_format_capability := allowed, l_audio_format_preferred := preferred\<rparr>"

definition iaxc_set_min_outgoing_framesize :: "int \<Rightarrow> ('z, 's, 'a) lib \<Rightarrow> ('z, 's, 'a) lib" where
  "iaxc_set_min_outgoing_framesize samples st = st\<lparr>l_minimum_outgoing_framesize := samples\<rparr>"

definition iaxc_set_audio_output :: "int \<Rightarrow> ('z, 's, 'a) lib \<Rightarrow> ('z, 's, 'a) lib" where
  "iaxc_set_audio_output mode st = st\<lparr>l_audio_output_mode := mode\<rparr>"

definition iaxc_set_callerid :: "u8 list \<Rightarrow> u8 list \<Rightarrow> ('z, 's, 'a) lib \<Rightarrow> ('z, 's, 'a) lib" where
  "iaxc_set_callerid name nr st =
     st\<lparr>l_calls := map (\<lambda>c. c\<lparr>ic_callerid_name := strncpy_buf name, ic_callerid_number := strncpy_buf nr\<rparr>) (l_calls st)\<rparr>"

definition iaxc_note_activity :: "int \<Rightarrow> ('z, 's, 'a) lib \<Rightarrow> ('z, 's, 'a) lib option" where
  "iaxc_note_activity n st = (if n < 0 then Some st else upd_call n (\<lambda>c. c\<lparr>ic_last_activity := now_of st\<rparr>) st)"

section \<open>Calling\<close>

definition new_session :: "('z, 's, 'a) env \<Rightarrow> ('z, 's, 'a) lib \<Rightarrow> nat \<times> ('z, 's, 'a) lib" where
  "new_session env st =
     (let i = en_alloc env (l_iax st) in (i, st\<lparr>l_iax := iax_session_new i (en_garbage env) (l_iax st)\<rparr>))"

definition codec_destroy :: "'z call_entry \<Rightarrow> 'z call_entry" where
  "codec_destroy c = c\<lparr>ic_encoder := None, ic_decoder := None\<rparr>"

text \<open>The selected call, unless it is active or none is selected; then the first free one.\<close>

definition call_to_use :: "('z, 's, 'a) lib \<Rightarrow> int option" where
  "call_to_use st =
     (if l_selected_call st < 0 then Some (iaxc_first_free_call st)
      else map_option (\<lambda>c. if ic_state c AND IAXC_CALL_STATE_ACTIVE \<noteq> 0 then iaxc_first_free_call st else l_selected_call st)
             (get_call (l_selected_call st) st))"

definition outgoing_call :: "u8 list \<Rightarrow> nat \<Rightarrow> timeval \<Rightarrow> 'z call_entry \<Rightarrow> 'z call_entry" where
  "outgoing_call num i now c =
     (codec_destroy c)\<lparr>ic_session := i, ic_remote_name := strncpy_buf num,
        ic_remote := (if 47 \<in> set num then strncpy_buf (tl (dropWhile (\<lambda>b. b \<noteq> 47) num)) else []),
        ic_local := ic_callerid_name c, ic_local_context := bytes_of ''default'',
        ic_state := IAXC_CALL_STATE_ACTIVE OR IAXC_CALL_STATE_OUTGOING,
        ic_last_activity := now, ic_last_ping := now\<rparr>"

definition iaxc_call :: "('z, 's, 'a) env \<Rightarrow> u8 list \<Rightarrow> ('z, 's, 'a) lib \<Rightarrow> ('z, 's, 'a) lib option" where
  "iaxc_call env num st =
     (let num = cstr num; st = get_iaxc_lock st in
      do { n \<leftarrow> call_to_use st;
           if n < 0 then Some (put_iaxc_lock (status ''No free call appearances'' st))
           else do { let (i, st) = new_session env st;
                     st \<leftarrow> upd_call n (outgoing_call num i (now_of st)) st;
                     c \<leftarrow> get_call n st;
                     nr \<leftarrow> c_string (ic_callerid_number c);
                     name \<leftarrow> c_string (ic_callerid_name c);
                     st \<leftarrow> iax_do (iax_call (en_host env) i (Some nr) (Some name) (Some num) None False
                                     (l_audio_format_preferred st) (l_audio_format_capability st)) st;
                     (_, st) \<leftarrow> iaxc_select_call n st;
                     Some (put_iaxc_lock st) } })"

definition iaxc_send_busy_on_incoming_call :: "int \<Rightarrow> ('z, 's, 'a) lib \<Rightarrow> ('z, 's, 'a) lib option" where
  "iaxc_send_busy_on_incoming_call n st =
     (if n < 0 then Some st else do { c \<leftarrow> get_call n st; iax_do (iax_busy (ic_session c)) st })"

definition iaxc_blind_transfer_call :: "int \<Rightarrow> u8 list \<Rightarrow> ('z, 's, 'a) lib \<Rightarrow> ('z, 's, 'a) lib option" where
  "iaxc_blind_transfer_call n dest st = do { c \<leftarrow> get_call n st; iax_do (iax_transfer (ic_session c) dest) st }"

section \<open>Hanging up\<close>

definition iaxc_dump_one_call :: "int \<Rightarrow> ('z, 's, 'a) lib \<Rightarrow> ('z, 's, 'a) lib option" where
  "iaxc_dump_one_call n st =
     (if n < 0 then Some st
      else do { c \<leftarrow> get_call n st;
                if ic_state c = IAXC_CALL_STATE_FREE then Some st
                else do { st \<leftarrow> iax_do (iax_hangup (ic_session c) (Some (bytes_of ''Dumped Call''))) st;
                          iaxc_clear_call n (iaxc_usermsg IAXC_STATUS (bytes_of ''Hanging up call '' @ number n) st) } })"

fun dump_calls :: "int list \<Rightarrow> ('z, 's, 'a) lib \<Rightarrow> ('z, 's, 'a) lib option" where
  "dump_calls [] st = Some st"
| "dump_calls (n # ns) st = do { st \<leftarrow> iaxc_dump_one_call n st; dump_calls ns st }"

definition iaxc_dump_all_calls :: "('z, 's, 'a) lib \<Rightarrow> ('z, 's, 'a) lib option" where
  "iaxc_dump_all_calls st =
     map_option put_iaxc_lock (dump_calls (map int [0..<length (l_calls st)]) (get_iaxc_lock st))"

definition iaxc_dump_call :: "('z, 's, 'a) lib \<Rightarrow> ('z, 's, 'a) lib option" where
  "iaxc_dump_call st =
     (if 0 \<le> l_selected_call st
      then map_option put_iaxc_lock (iaxc_dump_one_call (l_selected_call st) (get_iaxc_lock st)) else Some st)"

definition iaxc_reject_call_number :: "int \<Rightarrow> ('z, 's, 'a) lib \<Rightarrow> ('z, 's, 'a) lib option" where
  "iaxc_reject_call_number n st =
     (if 0 \<le> n
      then do { c \<leftarrow> get_call n st;
                st \<leftarrow> iax_do (iax_reject (ic_session c) (Some (bytes_of ''Call rejected manually.''))) (get_iaxc_lock st);
                map_option put_iaxc_lock (iaxc_clear_call n st) }
      else Some st)"

definition iaxc_reject_call :: "('z, 's, 'a) lib \<Rightarrow> ('z, 's, 'a) lib option" where
  "iaxc_reject_call st = (if 0 \<le> l_selected_call st then iaxc_reject_call_number (l_selected_call st) st else Some st)"

section \<open>During a call\<close>

text \<open>What the three senders share: to the session of the selected call, if it is active.\<close>

definition send_to_selected :: "(nat \<Rightarrow> iax_state \<Rightarrow> (int \<times> iax_state) option) \<Rightarrow> ('z, 's, 'a) lib \<Rightarrow> ('z, 's, 'a) lib option" where
  "send_to_selected f st =
     (if 0 \<le> l_selected_call st
      then do { let st = get_iaxc_lock st;
                c \<leftarrow> get_call (l_selected_call st) st;
                st \<leftarrow> (if ic_state c AND IAXC_CALL_STATE_ACTIVE \<noteq> 0 then iax_do (f (ic_session c)) st else Some st);
                Some (put_iaxc_lock st) }
      else Some st)"

definition iaxc_send_dtmf :: "int \<Rightarrow> ('z, 's, 'a) lib \<Rightarrow> ('z, 's, 'a) lib option" where
  "iaxc_send_dtmf digit = send_to_selected (\<lambda>i. iax_send_dtmf i digit)"

definition iaxc_send_text :: "u8 list \<Rightarrow> ('z, 's, 'a) lib \<Rightarrow> ('z, 's, 'a) lib option" where
  "iaxc_send_text msg = send_to_selected (\<lambda>i. iax_send_text i msg)"

definition iaxc_send_url :: "u8 list \<Rightarrow> bool \<Rightarrow> ('z, 's, 'a) lib \<Rightarrow> ('z, 's, 'a) lib option" where
  "iaxc_send_url url link = send_to_selected (\<lambda>i. iax_send_url i url link)"

definition iaxc_quelch :: "int \<Rightarrow> bool \<Rightarrow> ('z, 's, 'a) lib \<Rightarrow> ('z, 's, 'a) lib option" where
  "iaxc_quelch n moh st =
     do { c \<leftarrow> get_call n st;
          if ic_session c = 0 then Some st else iax_do (iax_quelch_moh (ic_session c) moh) st }"

definition iaxc_unquelch :: "int \<Rightarrow> ('z, 's, 'a) lib \<Rightarrow> ('z, 's, 'a) lib option" where
  "iaxc_unquelch n st = do { c \<leftarrow> get_call n st; iax_do (iax_unquelch (ic_session c)) st }"

section \<open>Registrations\<close>

definition iax_destroy_session :: "nat \<Rightarrow> ('z, 's, 'a) lib \<Rightarrow> ('z, 's, 'a) lib" where
  "iax_destroy_session i st = st\<lparr>l_iax := destroy_session i (l_iax st)\<rparr>"

text \<open>The first registration with the number leaves the list, and its session, if it has one, ends.\<close>

fun remove_registration :: "int \<Rightarrow> iaxc_registration list \<Rightarrow> iaxc_registration option \<times> iaxc_registration list" where
  "remove_registration i [] = (None, [])"
| "remove_registration i (r # rs) =
     (if rg_id r = i then (Some r, rs) else (let (x, rs) = remove_registration i rs in (x, r # rs)))"

definition iaxc_remove_registration_by_id :: "int \<Rightarrow> ('z, 's, 'a) lib \<Rightarrow> int \<times> ('z, 's, 'a) lib" where
  "iaxc_remove_registration_by_id i st =
     (case remove_registration i (l_registrations st) of
        (None, _) \<Rightarrow> (0, st)
      | (Some r, rs) \<Rightarrow>
          (1, (if rg_session r \<noteq> 0 then iax_destroy_session (rg_session r) st else st)\<lparr>l_registrations := rs\<rparr>))"

definition iaxc_unregister :: "int \<Rightarrow> ('z, 's, 'a) lib \<Rightarrow> int \<times> ('z, 's, 'a) lib" where
  "iaxc_unregister i st =
     (let (count, st) = iaxc_remove_registration_by_id i (get_iaxc_lock st) in (count, put_iaxc_lock st))"

definition iaxc_register ::
    "('z, 's, 'a) env \<Rightarrow> u8 list \<Rightarrow> u8 list \<Rightarrow> u8 list \<Rightarrow> ('z, 's, 'a) lib \<Rightarrow> (int \<times> ('z, 's, 'a) lib) option" where
  "iaxc_register env user pass host st =
     (let (i, st) = new_session env (get_iaxc_lock st);
          reg = \<lparr>rg_session = i, rg_last = now_of st, rg_host = strncpy_buf host, rg_user = strncpy_buf user,
                 rg_pass = strncpy_buf pass, rg_refresh = 60 * 1000 * 1000, rg_id = l_next_registration_id st + 1\<rparr>
      in map_option (\<lambda>st. (rg_id reg, put_iaxc_lock (st\<lparr>l_next_registration_id := rg_id reg,
                                                      l_registrations := reg # l_registrations st\<rparr>)))
           (iax_do (iax_register (en_host env) i host user (Some pass) 300) st))"

text \<open>One round of the loop, for the registration at its place in the list.\<close>

definition refresh_registration ::
    "('z, 's, 'a) env \<Rightarrow> nat \<Rightarrow> ('z, 's, 'a) lib \<Rightarrow> ('z, 's, 'a) lib option" where
  "refresh_registration env k st =
     (let r = l_registrations st ! k in
      if rg_refresh r < iaxc_usecdiff (now_of st) (rg_last r)
      then do { let st = (if rg_session r \<noteq> 0 then iax_destroy_session (rg_session r) st else st);
                let (i, st) = new_session env st;
                user \<leftarrow> c_string (rg_user r);
                st \<leftarrow> iax_do (iax_register (en_host env) i (rg_host r) user (Some (rg_pass r)) 60) st;
                Some (st\<lparr>l_registrations := (l_registrations st)[k := r\<lparr>rg_session := i, rg_last := now_of st\<rparr>]\<rparr>) }
      else Some st)"

fun refresh_loop :: "('z, 's, 'a) env \<Rightarrow> nat list \<Rightarrow> ('z, 's, 'a) lib \<Rightarrow> ('z, 's, 'a) lib option" where
  "refresh_loop env [] st = Some st"
| "refresh_loop env (k # ks) st = do { st \<leftarrow> refresh_registration env k st; refresh_loop env ks st }"

definition iaxc_refresh_registrations :: "('z, 's, 'a) env \<Rightarrow> ('z, 's, 'a) lib \<Rightarrow> ('z, 's, 'a) lib option" where
  "iaxc_refresh_registrations env st = refresh_loop env [0..<length (l_registrations st)] st"

end
