(* ===== verification/Iaxc_Events.thy ===== *)
theory Iaxc_Events
  imports Iaxc_Calls
begin

text \<open>
  What \<open>iaxclient\<close> does on its own: the audio of the selected call (\<open>send_encoded_audio\<close> and
  \<open>decode_audio\<close> of \<open>src/iaxclient/lib/audio_encode.c\<close>, \<open>service_audio\<close> and \<open>handle_audio_event\<close> of
  \<open>iaxclient_lib.c\<close>), the events of \<open>libiax2\<close>, incoming calls, and one turn of the processing thread
  (\<open>iaxc_process_calls\<close>). Loops that may not end have a bound on their rounds; \<open>None\<close> is then out of
  rounds, too.
\<close>

section \<open>Audio out\<close>

text \<open>A coder of another format is thrown away; the new one is made when it is needed.\<close>

definition coder_for :: "'z coders \<Rightarrow> int \<Rightarrow> 'z audio_codec option \<Rightarrow> 'z audio_codec option" where
  "coder_for co format c =
     (case c of
        None \<Rightarrow> create_codec co format
      | Some c \<Rightarrow> if format_of_codec c \<noteq> format then create_codec co format else Some c)"

definition drop_coder :: "int \<Rightarrow> 'z audio_codec option \<Rightarrow> 'z audio_codec option" where
  "drop_coder format c =
     (case c of None \<Rightarrow> None | Some c \<Rightarrow> if format_of_codec c \<noteq> format then None else Some c)"

definition post_levels :: "(rat option \<times> rat option) option \<Rightarrow> ('z, 's, 'a) lib \<Rightarrow> ('z, 's, 'a) lib" where
  "post_levels report st =
     (case report of None \<Rightarrow> st | Some (i, out) \<Rightarrow> iaxc_do_levels_callback i out st)"

text \<open>Silence: one frame of comfort noise, and nothing more until there is voice.\<close>

definition send_silence :: "int \<Rightarrow> ('z, 's, 'a) lib \<Rightarrow> ('z, 's, 'a) lib option" where
  "send_silence n st =
     do { c \<leftarrow> get_call n st;
          if ic_tx_silent c then Some st
          else do { let st = set_call n (c\<lparr>ic_tx_silent := True\<rparr>) st;
                    if au_filters (l_audio st) AND IAXC_FILTER_CN \<noteq> 0
                    then iax_do (iax_send_cng (ic_session c) 10 []) st else Some st } }"

text \<open>Voice: nothing without a format, a coder, or samples taken by the coder.\<close>

definition send_voice :: "('z, 's, 'a) env \<Rightarrow> int \<Rightarrow> int \<Rightarrow> u16 list \<Rightarrow> ('z, 's, 'a) lib \<Rightarrow> ('z, 's, 'a) lib option" where
  "send_voice env n format samples st =
     do { c \<leftarrow> get_call n st;
          let c = c\<lparr>ic_tx_silent := False, ic_encoder := drop_coder format (ic_encoder c)\<rparr>;
          if format = 0 then Some (set_call n c st)
          else (case coder_for (en_coders env) format (ic_encoder c) of
                  None \<Rightarrow> Some (set_call n c st)
                | Some coder \<Rightarrow>
                    (let (rest, bytes, coder) = codec_encode (en_coders env) coder samples 1024;
                         st = set_call n (c\<lparr>ic_encoder := Some coder\<rparr>) st;
                         taken = length samples - length rest
                     in if taken = 0 then Some st
                        else iax_do (iax_send_voice (ic_session c) format bytes (int taken)) st)) }"

definition send_encoded_audio ::
    "('z, 's, 'a) env \<Rightarrow> int \<Rightarrow> int \<Rightarrow> u16 list \<Rightarrow> ('z, 's, 'a) lib \<Rightarrow> ('z, 's, 'a) lib option" where
  "send_encoded_audio env n format samples st =
     (let (silent, samples, report, au) =
            iaxc_input_postprocess (en_audio env) (now_of st) samples 8000 ((l_audio st)\<lparr>au_last_input := now_of st\<rparr>);
          st = post_levels report (st\<lparr>l_audio := au\<rparr>)
      in if silent then send_silence n st else send_voice env n format samples st)"

text \<open>
  Samples for a frame: the minimum that is set, at least that of the coder, and a multiple of it. More
  than the buffer holds ends the program.
\<close>

definition samples_to_read :: "int \<Rightarrow> 'z audio_codec option \<Rightarrow> int" where
  "samples_to_read least coder =
     (let cmin = (case coder of None \<Rightarrow> 1 | Some c \<Rightarrow> minimum_frame_size c);
          n = max least cmin
      in if n mod cmin \<noteq> 0 then n + (cmin - n mod cmin) else n)"

fun audio_input_loop :: "nat \<Rightarrow> ('z, 's, 'a) env \<Rightarrow> ('z, 's, 'a) lib \<Rightarrow> ('z, 's, 'a) lib option" where
  "audio_input_loop 0 env st = None"
| "audio_input_loop (Suc rounds) env st =
     do { c \<leftarrow> get_call (l_selected_call st) st;
          let n = samples_to_read (l_minimum_outgoing_framesize st) (ic_encoder c);
          if 1024 < n then None
          else (let (got, d) = ad_input (en_driver env) (nat n) (l_driver st); st = st\<lparr>l_driver := d\<rparr> in
                case got of
                  None \<Rightarrow> Some (iaxc_usermsg IAXC_ERROR (bytes_of ''ERROR reading audio\<newline>'') st)
                | Some [] \<Rightarrow> Some st
                | Some samples \<Rightarrow>
                    do { st \<leftarrow> send_encoded_audio env (l_selected_call st) (ic_format c) samples st;
                         audio_input_loop rounds env st }) }"

definition quiet_levels :: "int \<Rightarrow> ('z, 's, 'a) lib \<Rightarrow> ('z, 's, 'a) lib" where
  "quiet_levels tick st =
     (if tick smod 50 = 0 then iaxc_do_levels_callback (Some (- 99)) (Some (- 99)) st else st)"

definition stop_audio :: "('z, 's, 'a) env \<Rightarrow> ('z, 's, 'a) lib \<Rightarrow> ('z, 's, 'a) lib" where
  "stop_audio env st = st\<lparr>l_driver := ad_stop (en_driver env) (l_driver st)\<rparr>"

definition start_audio :: "('z, 's, 'a) env \<Rightarrow> ('z, 's, 'a) lib \<Rightarrow> ('z, 's, 'a) lib" where
  "start_audio env st =
     (let (err, msgs, mixer, d) = ad_start (en_driver env) (au_mixer (l_audio st)) (l_driver st);
          st = fold (\<lambda>(ty, msg). iaxc_usermsg ty msg) msgs
                 (st\<lparr>l_driver := d, l_audio := (l_audio st)\<lparr>au_mixer := mixer\<rparr>\<rparr>)
      in if err \<noteq> 0 then iaxc_usermsg IAXC_ERROR (bytes_of ''Can't start audio'') st else st)"

definition service_audio :: "('z, 's, 'a) env \<Rightarrow> ('z, 's, 'a) lib \<Rightarrow> ('z, 's, 'a) lib option" where
  "service_audio env st =
     (if l_selected_call st < 0
      then Some (stop_audio env (quiet_levels (l_tick_idle st) (st\<lparr>l_tick_idle := l_tick_idle st + 1\<rparr>)))
      else do { c \<leftarrow> get_call (l_selected_call st) st;
                if ic_state c AND IAXC_CALL_STATE_OUTGOING \<noteq> 0 \<or> ic_state c AND IAXC_CALL_STATE_COMPLETE \<noteq> 0
                then audio_input_loop (en_fuel env) env (start_audio env st)
                else Some (stop_audio env (quiet_levels (l_tick_quiet st) (st\<lparr>l_tick_quiet := l_tick_quiet st + 1\<rparr>))) })"

section \<open>Audio in\<close>

text \<open>
  \<open>decode_audio\<close>: the bytes taken and the samples, or \<open>Codec_error\<close>; then the decoder is taken
  to be as it was before the packet.
\<close>

definition decode_audio ::
    "('z, 's, 'a) env \<Rightarrow> int \<Rightarrow> u8 list \<Rightarrow> nat \<Rightarrow> ('z, 's, 'a) lib \<Rightarrow>
     ((nat \<times> u16 list) codec_result \<times> ('z, 's, 'a) lib) option" where
  "decode_audio env n bytes room st =
     do { c \<leftarrow> get_call n st;
          let format = ic_format c;
          let st = st\<lparr>l_audio := (l_audio st)\<lparr>au_last_output := now_of st\<rparr>\<rparr>;
          if format = 0 then Some (Codec_error, st)
          else (case coder_for (en_coders env) format (ic_decoder c) of
                  None \<Rightarrow> Some (Codec_error, set_call n (c\<lparr>ic_decoder := None\<rparr>) st)
                | Some coder \<Rightarrow>
                    (case codec_decode (en_coders env) coder bytes room of
                       Stuck \<Rightarrow> Some (Stuck, st)
                     | Codec_error \<Rightarrow> Some (Codec_error, set_call n (c\<lparr>ic_decoder := Some coder\<rparr>) st)
                     | Done (rest, out, coder) \<Rightarrow>
                         (let (report, au) = output_postprocess (en_audio env) (now_of st) out (l_audio st)
                          in Some (Done (length bytes - length rest, out),
                                   post_levels report (set_call n (c\<lparr>ic_decoder := Some coder\<rparr>) (st\<lparr>l_audio := au\<rparr>)))))) }"

text \<open>
  The loop over a packet. All its rounds share one buffer of 1024 samples, and the room in it only
  shrinks. A packet of which a round takes nothing is never done with.
\<close>

fun audio_output_loop ::
    "nat \<Rightarrow> ('z, 's, 'a) env \<Rightarrow> int \<Rightarrow> u8 list \<Rightarrow> nat \<Rightarrow> ('z, 's, 'a) lib \<Rightarrow> ('z, 's, 'a) lib option" where
  "audio_output_loop 0 env n bytes room st = None"
| "audio_output_loop (Suc rounds) env n bytes room st =
     do { (res, st) \<leftarrow> decode_audio env n bytes room st;
          case res of
            Stuck \<Rightarrow> None
          | Codec_error \<Rightarrow> Some (status ''Bad or incomplete voice packet.  Unable to decode. dropping'' st)
          | Done (taken, out) \<Rightarrow>
              (let st = (if l_audio_output_mode st \<noteq> 0 then st
                         else st\<lparr>l_driver := ad_output (en_driver env) out (l_driver st)\<rparr>)
               in if taken < length bytes
                  then audio_output_loop rounds env n (drop taken bytes) (room - length out) st
                  else Some st) }"

definition handle_audio_event :: "('z, 's, 'a) env \<Rightarrow> iax_event \<Rightarrow> int \<Rightarrow> ('z, 's, 'a) lib \<Rightarrow> ('z, 's, 'a) lib option" where
  "handle_audio_event env e n st =
     (if n < 0 \<or> n \<noteq> l_selected_call st then Some st
      else audio_output_loop (en_fuel env) env n (take (ev_datalen e) (ev_data e)) 1024 st)"

section \<open>Other events of a call\<close>

definition handle_text_event :: "iax_event \<Rightarrow> int \<Rightarrow> ('z, 's, 'a) lib \<Rightarrow> ('z, 's, 'a) lib" where
  "handle_text_event e n st =
     (if n < 0 then st
      else iaxc_post_event (Text_ev IAXC_TEXT_TYPE_IAX (Some n)
             (cstr (take (min (ev_datalen e) (IAXC_EVENT_BUFSIZ - 1)) (ev_data e)))) st)"

text \<open>The string of a URL ends only where its data has a zero, or there is no data.\<close>

definition url_event :: "iax_event \<Rightarrow> int \<Rightarrow> iaxc_ev" where
  "url_event e n =
     (let data = take (ev_datalen e) (ev_data e); sub = ev_subclass e in
      if sub = 1
      then (if ev_datalen e = 0 \<or> IAXC_EVENT_BUFSIZ < ev_datalen e then Url_ev n (Some 1) [] True
            else Url_ev n (Some 1) (cstr data) (0 \<in> set data))
      else if sub = 18 then Url_ev n (Some 3) [] True
      else if sub = 16 then Url_ev n (Some 2) [] True
      else if sub = 19 then Url_ev n (Some 5) [] True
      else if sub = 20 then Url_ev n (Some 4) [] True
      else Url_ev n None [] True)"

definition handle_url_event :: "iax_event \<Rightarrow> int \<Rightarrow> ('z, 's, 'a) lib \<Rightarrow> ('z, 's, 'a) lib" where
  "handle_url_event e n st = (if n < 0 then st else iaxc_post_event (url_event e n) st)"

definition iaxc_get_netstats ::
    "int \<Rightarrow> ('z, 's, 'a) lib \<Rightarrow> ((u32 \<times> iax_netstat \<times> iax_netstat) option \<times> ('z, 's, 'a) lib) option" where
  "iaxc_get_netstats n st =
     map_option (\<lambda>c. let (stats, iax) = iax_get_netstats (ic_session c) (l_iax st) in (stats, st\<lparr>l_iax := iax\<rparr>))
       (get_call n st)"

definition generate_netstat_event :: "int \<Rightarrow> ('z, 's, 'a) lib \<Rightarrow> ('z, 's, 'a) lib option" where
  "generate_netstat_event n st =
     (if n < 0 then Some st
      else do { (stats, st) \<leftarrow> iaxc_get_netstats n st;
                Some (case stats of None \<Rightarrow> st
                      | Some (rtt, local, remote) \<Rightarrow> iaxc_post_event (Netstat_ev n (sint rtt) local remote) st) })"

definition set_state :: "(int \<Rightarrow> int) \<Rightarrow> 'z call_entry \<Rightarrow> 'z call_entry" where
  "set_state f c = c\<lparr>ic_state := f (ic_state c)\<rparr>"

abbreviation not_ringing :: "int \<Rightarrow> int" where
  "not_ringing s \<equiv> s AND NOT IAXC_CALL_STATE_RINGING"

text \<open>The changes of state, each followed by the report of it.\<close>

definition change_state :: "int \<Rightarrow> (int \<Rightarrow> int) \<Rightarrow> ('z, 's, 'a) lib \<Rightarrow> ('z, 's, 'a) lib option" where
  "change_state n f st = map_option (iaxc_do_state_callback n) (upd_call n (set_state f) st)"

definition on_voice :: "('z, 's, 'a) env \<Rightarrow> iax_event \<Rightarrow> int \<Rightarrow> ('z, 's, 'a) lib \<Rightarrow> ('z, 's, 'a) lib option" where
  "on_voice env e n st =
     do { st \<leftarrow> handle_audio_event env e n st;
          c \<leftarrow> get_call n st;
          if ic_state c AND IAXC_CALL_STATE_RINGING \<noteq> 0
          then map_option (call_status n '' progress'') (change_state n not_ringing st)
          else Some st }"

definition iaxc_handle_network_event ::
    "('z, 's, 'a) env \<Rightarrow> iax_event \<Rightarrow> int \<Rightarrow> ('z, 's, 'a) lib \<Rightarrow> ('z, 's, 'a) lib option" where
  "iaxc_handle_network_event env e n st =
     (if n < 0 then Some st
      else do { st \<leftarrow> iaxc_note_activity n st;
                let ty = ev_etype e;
                if ty = IAX_EVENT_NULL then Some st
                else if ty = IAX_EVENT_HANGUP then iaxc_clear_call n (status ''Call disconnected by remote'' st)
                else if ty = IAX_EVENT_REJECT then iaxc_clear_call n (status ''Call rejected by remote'' st)
                else if ty = 1 then
                  map_option (call_status n '' accepted'') (upd_call n (\<lambda>c. c\<lparr>ic_format := sint (ies_format (ev_ies e))\<rparr>) st)
                else if ty = 13 then
                  map_option (call_status n '' answered'') (change_state n (\<lambda>s. not_ringing s OR IAXC_CALL_STATE_COMPLETE) st)
                else if ty = 12 then change_state n (\<lambda>s. not_ringing s OR IAXC_CALL_STATE_BUSY) st
                else if ty = IAX_EVENT_VOICE then on_voice env e n st
                else if ty = 29 then Some (handle_text_event e n st)
                else if ty = 9 then
                  map_option (call_status n '' ringing'') (change_state n (\<lambda>s. s OR IAXC_CALL_STATE_RINGING) st)
                else if ty = 11 then generate_netstat_event n st
                else if ty = 19 then Some (handle_url_event e n st)
                else if ty = IAX_EVENT_CNG then Some st
                else if ty = 6 then
                  do { st \<leftarrow> iax_do (iax_hangup (ev_session e) (Some (bytes_of ''Call timed out''))) st;
                       iaxc_clear_call n (call_status n '' timed out.'' st) }
                else if ty = 21 then
                  map_option (call_status n '' transfer released'') (change_state n (\<lambda>s. s OR IAXC_CALL_STATE_TRANSFER) st)
                else Some (iaxc_usermsg IAXC_STATUS
                       (bytes_of ''Unknown event: '' @ number ty @ bytes_of '' for call '' @ number n) st) })"

section \<open>Events without a call\<close>

definition find_registration :: "nat \<Rightarrow> ('z, 's, 'a) lib \<Rightarrow> iaxc_registration option" where
  "find_registration i st = find (\<lambda>r. rg_session r = i) (l_registrations st)"

text \<open>The session of the registration ends; \<open>update_registration\<close> is the write through the pointer.\<close>

fun update_registration :: "nat \<Rightarrow> (iaxc_registration \<Rightarrow> iaxc_registration) \<Rightarrow> iaxc_registration list \<Rightarrow> iaxc_registration list" where
  "update_registration i f [] = []"
| "update_registration i f (r # rs) = (if rg_session r = i then f r # rs else r # update_registration i f rs)"

definition iaxc_handle_regreply :: "iax_event \<Rightarrow> iaxc_registration \<Rightarrow> ('z, 's, 'a) lib \<Rightarrow> ('z, 's, 'a) lib" where
  "iaxc_handle_regreply e reg st =
     (let st = iaxc_do_registration_callback (rg_id reg) (ev_etype e) (ies_msgcount (ev_ies e)) st;
          st = iax_destroy_session (rg_session reg) st;
          st = st\<lparr>l_registrations := update_registration (rg_session reg) (\<lambda>r. r\<lparr>rg_session := 0\<rparr>) (l_registrations st)\<rparr>
      in if ev_etype e = 30 then snd (iaxc_remove_registration_by_id (rg_id reg) st) else st)"

definition codec_preference :: "u32 list" where
  "codec_preference = [4, 8, 64, 16, 32, 2, 1024, 512, 128, 256, 1]"

definition iaxc_choose_codec :: "u32 \<Rightarrow> u32" where
  "iaxc_choose_codec formats =
     (case find (\<lambda>c. c AND formats \<noteq> 0) codec_preference of None \<Rightarrow> 0 | Some c \<Rightarrow> c)"

text \<open>
  The format of an incoming call: the peer's preference if it is allowed here, our preference if the
  peer has it, else one that both have.
\<close>

definition negotiate :: "u32 \<Rightarrow> u32 \<Rightarrow> iax_ies \<Rightarrow> u32" where
  "negotiate preferred capability ies =
     (let f = capability AND ies_format ies;
          f = (if f = 0 then preferred AND ies_capability ies else f)
      in if f = 0
         then (let both = capability AND ies_capability ies in if both \<noteq> 0 then iaxc_choose_codec both else both)
         else f)"

definition ies_text :: "iax_event \<Rightarrow> (iax_ies \<Rightarrow> nat option) \<Rightarrow> string \<Rightarrow> u8 list" where
  "ies_text e field dflt = strncpy_buf (case ies_string e field of Some s \<Rightarrow> s | None \<Rightarrow> bytes_of dflt)"

definition incoming_call :: "iax_event \<Rightarrow> u32 \<Rightarrow> timeval \<Rightarrow> 'z call_entry \<Rightarrow> 'z call_entry" where
  "incoming_call e format now c =
     (codec_destroy c)\<lparr>ic_format := sint format,
        ic_local := ies_text e ies_called_number ''unknown'',
        ic_local_context := ies_text e ies_called_context '''',
        ic_remote := ies_text e ies_calling_number ''unknown'',
        ic_remote_name := ies_text e ies_calling_name ''unknown'',
        ic_last_activity := now, ic_session := ev_session e,
        ic_state := IAXC_CALL_STATE_ACTIVE OR IAXC_CALL_STATE_RINGING\<rparr>"

text \<open>Without a free call the peer is told that the line is busy, on a session that stays.\<close>

definition on_connect :: "iax_event \<Rightarrow> ('z, 's, 'a) lib \<Rightarrow> ('z, 's, 'a) lib option" where
  "on_connect e st =
     (let n = iaxc_first_free_call st; i = ev_session e;
          format = negotiate (l_audio_format_preferred st) (l_audio_format_capability st) (ev_ies e)
      in if n < 0
         then do { let st = status ''Incoming Call, but no appearances'' st;
                   st \<leftarrow> iax_do (iax_accept i (l_audio_format_preferred st AND ies_capability (ev_ies e))) st;
                   iax_do (iax_busy i) st }
         else if format = 0
         then iax_do (iax_reject i (Some (bytes_of ''Could not negotiate common codec''))) st
         else do { st \<leftarrow> upd_call n (incoming_call e format (now_of st)) st;
                   c \<leftarrow> get_call n st;
                   let st = iaxc_usermsg IAXC_STATUS (bytes_of ''Call from ('' @ ic_remote c @ bytes_of '')'') st;
                   st \<leftarrow> iax_do (iax_accept i format) st;
                   st \<leftarrow> iax_do (iax_ring_announce i) st;
                   Some (iaxc_usermsg IAXC_STATUS (bytes_of ''Incoming call on line '' @ number n)
                           (iaxc_do_state_callback n st)) })"

text \<open>Only the type of a null event is set: its session is whatever its memory held.\<close>

definition event_session :: "('z, 's, 'a) env \<Rightarrow> iax_event \<Rightarrow> nat" where
  "event_session env e = (if ev_etype e = IAX_EVENT_NULL then en_junk env else ev_session e)"

definition dispatch_event :: "('z, 's, 'a) env \<Rightarrow> iax_event \<Rightarrow> ('z, 's, 'a) lib \<Rightarrow> ('z, 's, 'a) lib option" where
  "dispatch_event env e st =
     (let n = iaxc_find_call_by_session (event_session env e) st; ty = ev_etype e in
      if 0 \<le> n then iaxc_handle_network_event env e n st
      else case find_registration (event_session env e) st of
             Some reg \<Rightarrow> Some (iaxc_handle_regreply e reg st)
           | None \<Rightarrow>
               if ty = 18 \<or> ty = 30 then Some (iaxc_usermsg IAXC_ERROR (bytes_of ''Unexpected registration reply'') st)
               else if ty = 17 then
                 Some (iaxc_usermsg IAXC_ERROR
                         (bytes_of ''Registration requested by someone, but we don't understand!'') st)
               else if ty = 0 then on_connect e st
               else if ty = 6 then Some (status ''Timeout for a non-existant session.  Dropping'' st)
               else if ty = IAX_EVENT_NULL then Some st
               else Some (iaxc_usermsg IAXC_STATUS
                      (bytes_of ''Event (type '' @ number ty @ bytes_of '') for a non-existant session.  Dropping'') st))"

section \<open>The processing thread\<close>

text \<open>Whether \<open>iax_get_event\<close> gets as far as to the socket.\<close>

definition reads_socket :: "nat \<Rightarrow> iax_state \<Rightarrow> bool" where
  "reads_socket fuel st =
     (case sched_loop fuel (st_now st) st of
        None \<Rightarrow> False
      | Some (Return _, _) \<Rightarrow> False
      | Some (_, st1) \<Rightarrow>
          (case poll_loop (st_now st) (map s_id (st_sessions st1)) st1 of Some (None, _) \<Rightarrow> True | _ \<Rightarrow> False))"

definition next_event :: "('z, 's, 'a) env \<Rightarrow> ('z, 's, 'a) lib \<Rightarrow> (iax_event option \<times> ('z, 's, 'a) lib) option" where
  "next_event env st =
     map_option
       (\<lambda>(e, iax). (e, st\<lparr>l_iax := iax,
                         l_socket := (if reads_socket (en_fuel env) (l_iax st) then tl (l_socket st) else l_socket st)\<rparr>))
       (iax_get_event (en_fuel env) (en_alloc env (l_iax st)) (en_garbage env) (en_stale env)
          (case l_socket st of [] \<Rightarrow> None | d # _ \<Rightarrow> Some d) (l_iax st))"

fun iaxc_service_network :: "nat \<Rightarrow> ('z, 's, 'a) env \<Rightarrow> ('z, 's, 'a) lib \<Rightarrow> ('z, 's, 'a) lib option" where
  "iaxc_service_network 0 env st = None"
| "iaxc_service_network (Suc rounds) env st =
     do { (e, st) \<leftarrow> next_event env st;
          case e of
            None \<Rightarrow> Some st
          | Some e \<Rightarrow>
              do { st \<leftarrow> dispatch_event env e st;
                   iaxc_service_network rounds env (st\<lparr>l_iax := iax_event_free e (l_iax st)\<rparr>) } }"

definition iaxc_process_calls :: "('z, 's, 'a) env \<Rightarrow> ('z, 's, 'a) lib \<Rightarrow> ('z, 's, 'a) lib option" where
  "iaxc_process_calls env st =
     do { st \<leftarrow> iaxc_service_network (en_fuel env) env (get_iaxc_lock st);
          st \<leftarrow> service_audio env st;
          st \<leftarrow> iaxc_refresh_registrations env st;
          Some (put_iaxc_lock st) }"

end
