(* ===== verification/Iaxc_Audio_Props.thy ===== *)
theory Iaxc_Audio_Props
  imports Iaxc_Events
begin

text \<open>
  Properties of the audio of \<open>iaxclient\<close>: which packets the loop over a voice event is never done
  with, when reading the microphone ends, the negotiation of a format, the level of the samples, and the
  control of the gain.
\<close>

section \<open>The table of calls under the audio operations\<close>

lemma get_set_call [simp]: "get_call n st = Some c0 \<Longrightarrow> get_call n (set_call n c st) = Some c"
  by (auto simp: get_call_def set_call_def split: if_splits)

lemma get_call_post [simp]: "get_call n (iaxc_post_event e st) = get_call n st"
  by (simp add: iaxc_post_event_def get_call_def)

lemma get_call_levels [simp]: "get_call n (post_levels r st) = get_call n st"
  by (auto simp: post_levels_def iaxc_do_levels_callback_def split: option.splits)

lemma get_call_fields [simp]:
  "get_call n (st\<lparr>l_audio := au\<rparr>) = get_call n st" "get_call n (st\<lparr>l_driver := d\<rparr>) = get_call n st"
  by (simp_all add: get_call_def)

section \<open>Coders\<close>

lemma coder_for_format: "coder_for co f d = Some c \<Longrightarrow> format_of_codec c = f"
  by (auto simp: coder_for_def create_codec_def speex_new_def Let_def split: option.splits if_splits)

lemma coder_for_some: "f \<in> {2, 4, 8, 512} \<Longrightarrow> \<exists>c. coder_for co f d = Some c"
  by (auto simp: coder_for_def create_codec_def IAXC_FORMAT_GSM_def IAXC_FORMAT_ULAW_def IAXC_FORMAT_ALAW_def
      IAXC_FORMAT_SPEEX_def split: option.splits)

lemmas audio_formats = IAXC_FORMAT_GSM_def IAXC_FORMAT_ULAW_def IAXC_FORMAT_ALAW_def IAXC_FORMAT_SPEEX_def

lemma codec_cases:
  assumes "format_of_codec c = f"
  obtains (ulaw) p where "f = 4" "c = Ulaw_codec p" | (alaw) p where "f = 8" "c = Alaw_codec p"
    | (gsm) e d p where "f = 2" "c = Gsm_codec e d p" | (speex) e d where "f = 512" "c = Speex_codec e d"
  using assms by (cases c) (auto simp: audio_formats)

text \<open>A frame of 33 bytes at a time, while there is room for its samples.\<close>

definition gsm_total :: "'z coders \<Rightarrow> bool" where
  "gsm_total co \<longleftrightarrow> (\<forall>s b. \<exists>out s'. gsm_decode (co_gsm co) s b = Some (out, s') \<and> length out = 160)"

lemma gsm_loop_total:
  assumes "gsm_total co"
  shows "\<exists>out st'. gsm_decode_loop (co_gsm co) plc bytes room st =
           Some (drop (33 * min (length bytes div 33) (room div 160)) bytes, out, st') \<and>
         length out = 160 * min (length bytes div 33) (room div 160)"
proof (induction "length bytes" arbitrary: bytes room st rule: less_induct)
  case less
  show ?case
  proof (cases "33 \<le> length bytes \<and> 160 \<le> room")
    case False
    then have "min (length bytes div 33) (room div 160) = 0" by (auto simp: min_def not_le)
    then show ?thesis using False by (subst gsm_decode_loop.simps) auto
  next
    case True
    obtain o1 gs where g: "gsm_decode (co_gsm co) (fst st) (take 33 bytes) = Some (o1, gs)" "length o1 = 160"
      using assms by (auto simp: gsm_total_def) metis
    have "length (drop 33 bytes) < length bytes" using True by (cases bytes) auto
    from less[OF this, of "room - 160" "(gs, plc_rx plc (snd st) o1)"] obtain o2 st'
      where r: "gsm_decode_loop (co_gsm co) plc (drop 33 bytes) (room - 160) (gs, plc_rx plc (snd st) o1) =
          Some (drop (33 * min (length (drop 33 bytes) div 33) ((room - 160) div 160)) (drop 33 bytes), o2, st')"
        "length o2 = 160 * min (length (drop 33 bytes) div 33) ((room - 160) div 160)" by blast
    have "length bytes div 33 = Suc (length (drop 33 bytes) div 33)" "room div 160 = Suc ((room - 160) div 160)"
      using True by (simp_all add: le_div_geq)
    with r g True show ?thesis by (subst gsm_decode_loop.simps) (auto simp: algebra_simps)
  qed
qed

text \<open>What a round takes of a packet: bytes for as many samples as there is room.\<close>

definition taken :: "int \<Rightarrow> nat \<Rightarrow> nat \<Rightarrow> nat" where
  "taken f n room = (if f = 2 then 33 * min (n div 33) (room div 160) else min n room)"

lemma codec_decode_takes:
  assumes "format_of_codec c = f" "f \<in> {2, 4, 8}" "gsm_total co" "bytes \<noteq> []"
  shows "\<exists>out c'. codec_decode co c bytes room = Done (drop (taken f (length bytes) room) bytes, out, c') \<and>
     format_of_codec c' = f \<and>
     length out = (if f = 2 then 160 * min (length bytes div 33) (room div 160) else min (length bytes) room)"
  using assms(1)
proof (cases rule: codec_cases)
  case (gsm e d p)
  then show ?thesis
    using gsm_loop_total[OF assms(3), of "co_plc co" bytes room "(d, p)"] assms(4)
    by (auto simp: gsm_codec_decode_def taken_def audio_formats)
qed (use assms in \<open>auto simp: ulaw_decode_def alaw_decode_def g711_decode_def g711_loop_eq taken_def audio_formats min_def\<close>)

lemma decode_audio_done:
  assumes "get_call n st = Some c" "ic_format c = f" "f \<noteq> 0" "coder_for (en_coders env) f (ic_decoder c) = Some coder"
    "codec_decode (en_coders env) coder bytes room = Done (rest, out, coder')"
  shows "\<exists>st'. decode_audio env n bytes room st = Some (Done (length bytes - length rest, out), st') \<and>
     get_call n st' = Some (c\<lparr>ic_decoder := Some coder'\<rparr>)"
proof -
  let ?st = "st\<lparr>l_audio := (l_audio st)\<lparr>au_last_output := now_of st\<rparr>\<rparr>"
  obtain report au where r: "output_postprocess (en_audio env) (now_of st) out ((l_audio st)\<lparr>au_last_output := now_of st\<rparr>) = (report, au)"
    by fastforce
  let ?st' = "post_levels report (set_call n (c\<lparr>ic_decoder := Some coder'\<rparr>) (?st\<lparr>l_audio := au\<rparr>))"
  have "decode_audio env n bytes room st = Some (Done (length bytes - length rest, out), ?st')"
    using assms r by (simp add: decode_audio_def Let_def)
  moreover have "get_call n ?st' = Some (c\<lparr>ic_decoder := Some coder'\<rparr>)"
    by (simp add: get_set_call assms(1))
  ultimately show ?thesis by blast
qed

lemma decode_audio_takes:
  assumes "get_call n st = Some c" "ic_format c = f" "f \<in> {2, 4, 8}" "gsm_total (en_coders env)" "bytes \<noteq> []"
  shows "\<exists>out st' c'. decode_audio env n bytes room st = Some (Done (taken f (length bytes) room, out), st') \<and>
     get_call n st' = Some c' \<and> ic_format c' = f \<and>
     length out = (if f = 2 then 160 * min (length bytes div 33) (room div 160) else min (length bytes) room)"
proof -
  obtain coder where coder: "coder_for (en_coders env) f (ic_decoder c) = Some coder"
    using coder_for_some[of f] assms(3) by auto
  from codec_decode_takes[OF coder_for_format[OF coder] assms(3-5), of room] obtain out coder' where
    d: "codec_decode (en_coders env) coder bytes room = Done (drop (taken f (length bytes) room) bytes, out, coder')"
      "length out = (if f = 2 then 160 * min (length bytes div 33) (room div 160) else min (length bytes) room)" by blast
  have "taken f (length bytes) room \<le> length bytes"
    by (auto simp: taken_def)
  then have "length bytes - length (drop (taken f (length bytes) room) bytes) = taken f (length bytes) room" by simp
  moreover have "f \<noteq> 0" using assms(3) by auto
  ultimately show ?thesis
    using decode_audio_done[OF assms(1,2) _ coder d(1)] d(2) assms(2) by fastforce
qed

section \<open>Voice packets that are never done with\<close>

lemma no_progress_forever:
  assumes "f \<in> {2, 4, 8}" "gsm_total (en_coders env)" "bytes \<noteq> []" "taken f (length bytes) room = 0"
  shows "get_call n st = Some c \<Longrightarrow> ic_format c = f \<Longrightarrow> audio_output_loop rounds env n bytes room st = None"
proof (induction rounds arbitrary: st c)
  case (Suc rounds)
  obtain out st' c' where d: "decode_audio env n bytes room st = Some (Done (0, out), st')"
    "get_call n st' = Some c'" "ic_format c' = f"
    "length out = (if f = 2 then 160 * min (length bytes div 33) (room div 160) else min (length bytes) room)"
    using decode_audio_takes[OF Suc(2,3) assms(1-3), of room] assms(4) by auto
  then have "out = []" using assms(4) by (auto simp: taken_def split: if_splits)
  have "audio_output_loop rounds env n bytes room (if l_audio_output_mode st' \<noteq> 0 then st'
      else st'\<lparr>l_driver := ad_output (en_driver env) out (l_driver st')\<rparr>) = None"
    by (rule Suc(1)) (use d(2,3) in auto)
  with d(1) assms(3) \<open>out = []\<close> show ?case by (simp add: Let_def split: if_splits)
qed simp

lemma whole_gsm_frames: "33 * min (n div 33) 6 < n \<longleftrightarrow> \<not> (33 dvd n \<and> n \<le> (198 :: nat))"
proof (cases "n div 33 \<le> 6")
  case True
  moreover have "n = 33 * (n div 33) + n mod 33" by simp
  ultimately have "33 * (n div 33) < n \<longleftrightarrow> n mod 33 \<noteq> 0" "n mod 33 = 0 \<Longrightarrow> n \<le> 198" by linarith+
  with True show ?thesis by (auto simp: min_def dvd_eq_mod_eq_0)
next
  case False
  then have "231 \<le> n" by (simp add: not_le Suc_le_eq [symmetric] div_greater_zero_iff)
  with False show ?thesis by (simp add: min_def)
qed



text \<open>A decoder of GSM that returns silence.\<close>

definition silent_gsm :: "('z, 's, 'a) env \<Rightarrow> ('z, 's, 'a) env" where
  "silent_gsm env = env\<lparr>en_coders := (en_coders env)\<lparr>co_gsm :=
     (co_gsm (en_coders env))\<lparr>gsm_decode := \<lambda>s b. Some (replicate 160 0, s)\<rparr>\<rparr>\<rparr>"


section \<open>The negotiation of a format\<close>

lemma and_eq_zero_iff: "(x :: u32) AND y = 0 \<longleftrightarrow> (\<forall>k. \<not> (bit x k \<and> bit y k))"
proof
  show "x AND y = 0 \<Longrightarrow> \<forall>k. \<not> (bit x k \<and> bit y k)" by (metis bit_0_eq bit_and_iff bot_apply bot_bool_def)
qed (simp add: bit_eq_iff bit_and_iff)

lemma find_SomeE: "find P xs = Some x \<Longrightarrow> P x \<and> x \<in> set xs"
  by (auto simp: find_Some_iff)

lemma choose_codec_found:
  "iaxc_choose_codec f \<noteq> 0 \<Longrightarrow> iaxc_choose_codec f \<in> set codec_preference \<and> iaxc_choose_codec f AND f \<noteq> 0"
  by (auto simp: iaxc_choose_codec_def dest: find_SomeE split: option.splits)

lemma choose_codec_none: "iaxc_choose_codec f = 0 \<longleftrightarrow> (\<forall>c \<in> set codec_preference. c AND f = 0)"
proof (cases "find (\<lambda>c. c AND f \<noteq> 0) codec_preference")
  case None
  then have "\<forall>c \<in> set codec_preference. c AND f = 0" by (simp add: find_None_iff)
  with None show ?thesis by (simp add: iaxc_choose_codec_def)
next
  case (Some c)
  then have "c AND f \<noteq> 0" "c \<in> set codec_preference" by (auto dest: find_SomeE)
  then show ?thesis using Some by (auto simp: iaxc_choose_codec_def)
qed

text \<open>A format with one bit that a set of formats has.\<close>

lemma power_and_single: "(2 :: u32) ^ k AND f \<noteq> 0 \<Longrightarrow> 2 ^ k AND f = 2 ^ k"
proof -
  assume "2 ^ k AND f \<noteq> 0"
  then have "bit f k" by (auto simp: and_eq_zero_iff bit_simps)
  then show ?thesis by (intro bit_word_eqI) (auto simp: bit_simps)
qed

lemma codec_preference_powers: "codec_preference = map ((^) 2) [2, 3, 6, 4, 5, 1, 10, 9, 7, 8, 0]"
  by (simp add: codec_preference_def)

lemma choose_codec_subset: "iaxc_choose_codec f AND f = iaxc_choose_codec f"
proof (cases "iaxc_choose_codec f = 0")
  case False
  from choose_codec_found[OF this] obtain k where "iaxc_choose_codec f = 2 ^ k"
    by (auto simp only: codec_preference_powers set_map)
  with choose_codec_found[OF False] show ?thesis using power_and_single[of k f] by simp
qed simp

text \<open>
  The format an incoming call is accepted with: one the peer prefers and we allow, else one we prefer
  and the peer has, whether or not we allow it, else the first of the codecs in the order of preference
  that both have; a call is refused only if none of them is there. Everything in the format is then
  offered by the peer, and allowed or preferred here.
\<close>

theorem negotiate_finds_common:
  "(negotiate preferred capability ies = 0 \<longleftrightarrow>
      capability AND ies_format ies = 0 \<and> preferred AND ies_capability ies = 0 \<and>
      (\<forall>c \<in> set codec_preference. c AND capability AND ies_capability ies = 0)) \<and>
   negotiate preferred capability ies AND (ies_format ies OR ies_capability ies) AND (capability OR preferred) =
     negotiate preferred capability ies"
proof -
  have sub: "(x AND y) AND (y OR z) AND (x OR w) = x AND y" "(w AND z) AND (y OR z) AND (x OR w) = w AND z" for x y z w :: u32
    by (auto simp: bit_eq_iff bit_simps)
  have both: "v AND x AND z = v \<Longrightarrow> v AND (y OR z) AND (x OR w) = v" for v x y z w :: u32
    by (auto simp: bit_eq_iff bit_simps)
  show ?thesis
    using both[OF choose_codec_subset]
    by (auto simp: negotiate_def Let_def choose_codec_none sub)
qed

section \<open>The level of the samples\<close>

lemma short_of_abs: "\<bar>x\<bar> < 32768 \<Longrightarrow> short_of \<bar>x\<bar> = \<bar>x\<bar>"
  by (simp add: short_of_def signed_take_bit_int_eq_self)

lemma sint_u16: "- 32768 \<le> sint (x :: u16) \<and> sint x \<le> 32767"
  using sint_ge[of x] sint_lt[of x] by simp

abbreviation amplitude :: "u16 \<Rightarrow> int" where
  "amplitude x \<equiv> \<bar>sint x\<bar>"

lemma peak_max:
  "\<forall>x \<in> set xs. sint x \<noteq> - 32768 \<Longrightarrow> peak xs now = fold (\<lambda>x m. max m (amplitude x)) xs now"
proof (induction xs arbitrary: now)
  case (Cons x xs)
  then have "amplitude x < 32768" using sint_u16[of x] by auto
  then have "(if now < amplitude x then short_of (amplitude x) else now) = max now (amplitude x)"
    by (simp add: short_of_abs max_def)
  with Cons show ?case by simp
qed simp

lemma fold_max_Max: "fold (\<lambda>x m. max m (amplitude x)) xs now = Max (insert now (amplitude ` set xs))"
proof (induction xs arbitrary: now)
  case (Cons x xs)
  have "Max (insert (max now (amplitude x)) S) = Max (insert now (insert (amplitude x) S))" if "finite S" for S
    using that by (cases "S = {}") (simp_all add: max.assoc)
  with Cons show ?case by simp
qed simp

lemma peak_append: "peak (xs @ ys) now = peak ys (peak xs now)"
  by (induction xs arbitrary: now) simp_all

lemma peak_range: "- 32768 \<le> now \<Longrightarrow> now \<le> 32767 \<Longrightarrow> - 32768 \<le> peak xs now \<and> peak xs now \<le> 32767"
proof (induction xs arbitrary: now)
  case (Cons x xs)
  have "- 32768 \<le> short_of (amplitude x) \<and> short_of (amplitude x) \<le> 32767"
    using signed_take_bit_int_greater_eq_minus_exp[of 15 "amplitude x"] signed_take_bit_int_less_exp[of 15 "amplitude x"]
    by (simp add: short_of_def)
  with Cons show ?case by simp
qed simp

end
