(* ===== verification/Iaxc_Ring.thy ===== *)
theory Iaxc_Ring
  imports Prelude
begin

text \<open>
  The ring buffer between the processing thread and the audio device:
  \<open>src/iaxclient/lib/portaudio/pablio/ringbuffer.c\<close>. Indices run through twice the size of the buffer, so
  that a full buffer differs from an empty one. It is a refinement of a queue of bounded length.
\<close>

section \<open>The code\<close>

record 'b ring =
  rb_size :: int
  rb_buffer :: "'b list"
  rb_write :: int
  rb_read :: int
  rb_bigMask :: int
  rb_smallMask :: int

definition RingBuffer_Flush :: "'b ring \<Rightarrow> 'b ring" where
  "RingBuffer_Flush r = r\<lparr>rb_write := 0, rb_read := 0\<rparr>"

definition RingBuffer_Init :: "int \<Rightarrow> 'b list \<Rightarrow> 'b ring \<Rightarrow> int \<times> 'b ring" where
  "RingBuffer_Init n data r =
     (if (n - 1) AND n \<noteq> 0 then (- 1, r)
      else (0, (RingBuffer_Flush (r\<lparr>rb_size := n, rb_buffer := data\<rparr>))\<lparr>rb_bigMask := n * 2 - 1, rb_smallMask := n - 1\<rparr>))"

definition RingBuffer_GetReadAvailable :: "'b ring \<Rightarrow> int" where
  "RingBuffer_GetReadAvailable r = (rb_write r - rb_read r) AND rb_bigMask r"

definition RingBuffer_GetWriteAvailable :: "'b ring \<Rightarrow> int" where
  "RingBuffer_GetWriteAvailable r = rb_size r - RingBuffer_GetReadAvailable r"

text \<open>Two regions, each with its index and its size: behind an index, and from the start.\<close>

definition regions :: "int \<Rightarrow> int \<Rightarrow> int \<Rightarrow> (int \<times> int) \<times> (int \<times> int)" where
  "regions sz index n =
     (if sz < index + n then ((index, sz - index), (0, n - (sz - index))) else ((index, n), (0, 0)))"

definition RingBuffer_GetWriteRegions :: "'b ring \<Rightarrow> int \<Rightarrow> int \<times> (int \<times> int) \<times> (int \<times> int)" where
  "RingBuffer_GetWriteRegions r n =
     (let n = min n (RingBuffer_GetWriteAvailable r)
      in (n, regions (rb_size r) (rb_write r AND rb_smallMask r) n))"

definition RingBuffer_GetReadRegions :: "'b ring \<Rightarrow> int \<Rightarrow> int \<times> (int \<times> int) \<times> (int \<times> int)" where
  "RingBuffer_GetReadRegions r n =
     (let n = min n (RingBuffer_GetReadAvailable r)
      in (n, regions (rb_size r) (rb_read r AND rb_smallMask r) n))"

definition RingBuffer_AdvanceWriteIndex :: "'b ring \<Rightarrow> int \<Rightarrow> 'b ring" where
  "RingBuffer_AdvanceWriteIndex r n = r\<lparr>rb_write := (rb_write r + n) AND rb_bigMask r\<rparr>"

definition RingBuffer_AdvanceReadIndex :: "'b ring \<Rightarrow> int \<Rightarrow> 'b ring" where
  "RingBuffer_AdvanceReadIndex r n = r\<lparr>rb_read := (rb_read r + n) AND rb_bigMask r\<rparr>"

definition overwrite :: "int \<Rightarrow> 'b list \<Rightarrow> 'b list \<Rightarrow> 'b list" where
  "overwrite i xs buf = take (nat i) buf @ xs @ drop (nat i + length xs) buf"

definition region :: "int \<times> int \<Rightarrow> 'b list \<Rightarrow> 'b list" where
  "region ix buf = take (nat (snd ix)) (drop (nat (fst ix)) buf)"

text \<open>How much was written, of all the data.\<close>

definition RingBuffer_Write :: "'b list \<Rightarrow> 'b ring \<Rightarrow> int \<times> 'b ring" where
  "RingBuffer_Write data r =
     (let (n, (i1, size1), (i2, size2)) = RingBuffer_GetWriteRegions r (int (length data));
          buf = overwrite i1 (take (nat size1) data) (rb_buffer r);
          buf = (if 0 < size2 then overwrite i2 (take (nat size2) (drop (nat size1) data)) buf else buf)
      in (n, RingBuffer_AdvanceWriteIndex (r\<lparr>rb_buffer := buf\<rparr>) n))"

definition RingBuffer_Read :: "int \<Rightarrow> 'b ring \<Rightarrow> 'b list \<times> 'b ring" where
  "RingBuffer_Read n r =
     (let (n, r1, r2) = RingBuffer_GetReadRegions r n
      in (region r1 (rb_buffer r) @ (if 0 < snd r2 then region r2 (rb_buffer r) else []), RingBuffer_AdvanceReadIndex r n))"

section \<open>Masks\<close>

definition ring_ok :: "'b ring \<Rightarrow> bool" where
  "ring_ok r \<longleftrightarrow>
     (\<exists>k. rb_size r = 2 ^ k) \<and> rb_bigMask r = 2 * rb_size r - 1 \<and> rb_smallMask r = rb_size r - 1 \<and>
     int (length (rb_buffer r)) = rb_size r \<and> 0 \<le> rb_read r \<and> rb_read r < 2 * rb_size r \<and>
     0 \<le> rb_write r \<and> rb_write r < 2 * rb_size r \<and> (rb_write r - rb_read r) mod (2 * rb_size r) \<le> rb_size r"

lemma and_power_mask: "(x :: int) AND (2 ^ k - 1) = x mod 2 ^ k"
  by (metis mask_eq_exp_minus_1 take_bit_eq_mask take_bit_eq_mod)

lemma ring_masks:
  assumes "ring_ok r"
  shows "x AND rb_bigMask r = x mod (2 * rb_size r)" "x AND rb_smallMask r = x mod rb_size r"
proof -
  from assms obtain k where k: "rb_size r = 2 ^ k" "rb_bigMask r = 2 ^ Suc k - 1" "rb_smallMask r = 2 ^ k - 1"
    by (auto simp: ring_ok_def)
  show "x AND rb_bigMask r = x mod (2 * rb_size r)" using and_power_mask[of x "Suc k"] k by simp
  show "x AND rb_smallMask r = x mod rb_size r" using and_power_mask[of x k] k by simp
qed

lemma ring_size_pos: "ring_ok r \<Longrightarrow> 0 < rb_size r"
  by (auto simp: ring_ok_def)

lemma read_available: "ring_ok r \<Longrightarrow> RingBuffer_GetReadAvailable r = (rb_write r - rb_read r) mod (2 * rb_size r)"
  by (simp add: RingBuffer_GetReadAvailable_def ring_masks)

lemma read_available_range: "ring_ok r \<Longrightarrow> 0 \<le> RingBuffer_GetReadAvailable r \<and> RingBuffer_GetReadAvailable r \<le> rb_size r"
  using ring_size_pos[of r] by (auto simp: read_available ring_ok_def)

section \<open>The queue in the buffer\<close>

definition ring_cell :: "'b ring \<Rightarrow> int \<Rightarrow> 'b" where
  "ring_cell r i = rb_buffer r ! nat (i mod rb_size r)"

definition queue_of :: "'b ring \<Rightarrow> 'b list" where
  "queue_of r = map (\<lambda>i. ring_cell r (rb_read r + int i)) [0..<nat (RingBuffer_GetReadAvailable r)]"

lemma length_queue_of: "ring_ok r \<Longrightarrow> int (length (queue_of r)) = RingBuffer_GetReadAvailable r"
  using read_available_range[of r] by (simp add: queue_of_def)

lemma nth_overwrite:
  assumes "0 \<le> i" "i + int (length xs) \<le> int (length buf)" "p < length buf"
  shows "overwrite i xs buf ! p =
    (if i \<le> int p \<and> int p < i + int (length xs) then xs ! nat (int p - i) else buf ! p)"
  using assms by (auto simp: overwrite_def nth_append min_def nat_less_iff not_less nat_diff_distrib' algebra_simps)

lemma length_overwrite: "0 \<le> i \<Longrightarrow> i + int (length xs) \<le> int (length buf) \<Longrightarrow> length (overwrite i xs buf) = length buf"
  by (simp add: overwrite_def min_def) linarith


section \<open>Writing and reading\<close>

text \<open>Both regions together: the cells from an index on, around the end of the buffer.\<close>

lemma mod_shift:
  fixes p i N :: int
  assumes "0 \<le> i" "i < N" "0 \<le> p" "p < N"
  shows "(p - i) mod N = (if i \<le> p then p - i else p - i + N)"
proof (cases "i \<le> p")
  case False
  have "(p - i) mod N = (p - i + N) mod N" by simp
  also have "\<dots> = p - i + N" using assms False by (intro mod_pos_pos_trivial) auto
  finally show ?thesis using False by simp
qed (use assms in simp)

definition store :: "int \<Rightarrow> 'b list \<Rightarrow> 'b list \<Rightarrow> 'b list" where
  "store i data buf =
     (let ((i1, n1), (i2, n2)) = regions (int (length buf)) i (int (length data));
          buf = overwrite i1 (take (nat n1) data) buf
      in if 0 < n2 then overwrite i2 (take (nat n2) (drop (nat n1) data)) buf else buf)"

lemma store_nth:
  assumes "0 \<le> i" "i < int (length buf)" "length data \<le> length buf" "p < length buf"
  shows "length (store i data buf) = length buf \<and>
     store i data buf ! p =
       (let t = nat ((int p - i) mod int (length buf)) in if t < length data then data ! t else buf ! p)"
proof -
  let ?N = "int (length buf)" and ?n = "int (length data)"
  note m = mod_shift[OF assms(1,2), of "int p"]
  show ?thesis
  proof (cases "?N < i + ?n")
    case False
    then have "store i data buf = overwrite i data buf"
      by (simp add: store_def regions_def)
    moreover have "int p < i \<Longrightarrow> \<not> nat (int p - i + ?N) < length data" using False by linarith
    ultimately show ?thesis using False assms m
      by (auto simp: nth_overwrite length_overwrite Let_def nat_less_iff)
  next
    case True
    let ?n1 = "nat (?N - i)"
    let ?b1 = "overwrite i (take ?n1 data) buf"
    have len: "int (length (take ?n1 data)) = ?N - i" using True assms(2) by (simp add: min_def nat_le_iff)
    have b1: "length ?b1 = length buf" using len assms(1) by (intro length_overwrite) auto
    have d2: "length (take (nat (?n - (?N - i))) (drop ?n1 data)) = nat (?n - (?N - i))"
      using True assms(2) by simp
    have s: "store i data buf = overwrite 0 (take (nat (?n - (?N - i))) (drop ?n1 data)) ?b1"
      using True by (simp add: store_def regions_def)
    have l: "length (store i data buf) = length buf"
      unfolding s using b1 d2 assms by (subst length_overwrite) auto
    have "store i data buf ! p = (if int p < ?n - (?N - i) then drop ?n1 data ! p else
        if i \<le> int p then data ! nat (int p - i) else buf ! p)"
      unfolding s using assms b1 d2 len True
      by (subst nth_overwrite) (auto simp: nth_overwrite)
    moreover have "int p < ?n - (?N - i) \<Longrightarrow> int p < i" using assms(3) by linarith
    moreover have "int p < ?n - (?N - i) \<Longrightarrow> drop ?n1 data ! p = data ! nat (int p - i + ?N)"
    proof -
      have "?n1 + p = nat (int p - i + ?N)" using assms(2) by linarith
      then show ?thesis using True assms(2) by simp
    qed
    moreover have "int p - i < ?n" using True assms(4) by linarith
    ultimately show ?thesis using m l assms by (auto simp: Let_def nat_less_iff)
  qed
qed


lemma write_eq:
  assumes "ring_ok r"
  shows "RingBuffer_Write data r =
    (let n = min (int (length data)) (rb_size r - RingBuffer_GetReadAvailable r)
     in (n, r\<lparr>rb_buffer := store (rb_write r mod rb_size r) (take (nat n) data) (rb_buffer r),
               rb_write := (rb_write r + n) mod (2 * rb_size r)\<rparr>))"
proof -
  obtain n where n: "n = min (int (length data)) (rb_size r - RingBuffer_GetReadAvailable r)" by blast
  define i where "i = rb_write r mod rb_size r"
  have i: "0 \<le> i" "i < rb_size r" using ring_size_pos[OF assms] by (simp_all add: i_def)
  have n0: "0 \<le> n" "int (length (take (nat n) data)) = n"
    using read_available_range[OF assms] n by auto
  have sz: "int (length (rb_buffer r)) = rb_size r" using assms by (simp add: ring_ok_def)
  have adv: "RingBuffer_AdvanceWriteIndex (r\<lparr>rb_buffer := b\<rparr>) n =
      r\<lparr>rb_buffer := b, rb_write := (rb_write r + n) mod (2 * rb_size r)\<rparr>" for b
    using ring_masks(1)[OF assms] by (simp add: RingBuffer_AdvanceWriteIndex_def)
  have w: "RingBuffer_GetWriteRegions r (int (length data)) = (n, regions (rb_size r) i n)"
    by (simp add: RingBuffer_GetWriteRegions_def RingBuffer_GetWriteAvailable_def ring_masks[OF assms] n i_def Let_def)
  have "RingBuffer_Write data r =
      (n, r\<lparr>rb_buffer := store i (take (nat n) data) (rb_buffer r), rb_write := (rb_write r + n) mod (2 * rb_size r)\<rparr>)"
  proof (cases "rb_size r < i + n")
    case True
    let ?n1 = "nat (rb_size r - i)"
    have "?n1 \<le> nat n" using i True by linarith
    then have "take ?n1 (take (nat n) data) = take ?n1 data"
      "take (nat (n - (rb_size r - i))) (drop ?n1 (take (nat n) data)) = take (nat (n - (rb_size r - i))) (drop ?n1 data)"
      using i by (simp_all add: min_def drop_take nat_diff_distrib')
    then show ?thesis using True adv n0(2) sz
      by (simp add: RingBuffer_Write_def w regions_def store_def Let_def)
  next
    case False
    then show ?thesis using adv n0 sz by (simp add: RingBuffer_Write_def w regions_def store_def Let_def)
  qed
  then show ?thesis by (simp add: n i_def Let_def)
qed

lemma mod_mod_double: "0 < N \<Longrightarrow> (x mod (2 * N)) mod N = x mod (N :: int)"
  by (simp add: mod_mod_cancel)

lemma ring_write:
  assumes "ring_ok r" "RingBuffer_Write data r = (n, r')"
  shows "ring_ok r' \<and> n = min (int (length data)) (rb_size r - int (length (queue_of r))) \<and>
     queue_of r' = queue_of r @ take (nat n) data \<and> rb_size r' = rb_size r"
proof -
  let ?N = "rb_size r" and ?a = "RingBuffer_GetReadAvailable r"
  have N: "0 < ?N" by (rule ring_size_pos[OF assms(1)])
  have buf: "int (length (rb_buffer r)) = ?N" using assms(1) by (simp add: ring_ok_def)
  have a: "0 \<le> ?a" "?a \<le> ?N" "?a = (rb_write r - rb_read r) mod (2 * ?N)"
    using read_available_range[OF assms(1)] read_available[OF assms(1)] by simp_all
  have n: "n = min (int (length data)) (?N - ?a)"
    and r': "r' = r\<lparr>rb_buffer := store (rb_write r mod ?N) (take (nat n) data) (rb_buffer r), rb_write := (rb_write r + n) mod (2 * ?N)\<rparr>"
    using assms(2) by (auto simp: write_eq[OF assms(1)] Let_def)
  have n0: "0 \<le> n" "n \<le> ?N - ?a" "length (take (nat n) data) = nat n" using n a by auto
  have index: "0 \<le> rb_write r mod ?N" "rb_write r mod ?N < ?N" using N by simp_all
  have fits: "length (take (nat n) data) \<le> length (rb_buffer r)" using n0 a buf by linarith
  have st: "length (store (rb_write r mod ?N) (take (nat n) data) (rb_buffer r)) = length (rb_buffer r)"
  proof (cases "rb_buffer r = []")
    case True
    then show ?thesis using buf N by simp
  next
    case False
    then show ?thesis using store_nth[OF index(1) _ fits, of 0] index(2) buf by simp
  qed
  have cell: "ring_cell r' x = (let t = (x - rb_write r) mod ?N in if t < n then data ! nat t else ring_cell r x)" for x
  proof -
    have p: "nat (x mod ?N) < length (rb_buffer r)" "int (nat (x mod ?N)) = x mod ?N" using N buf
      by (auto simp: nat_less_iff)
    define t where "t = (x - rb_write r) mod ?N"
    have t: "(x mod ?N - rb_write r mod ?N) mod ?N = t" "0 \<le> t" using N by (simp_all add: t_def mod_simps)
    have "ring_cell r' x = (if nat t < length (take (nat n) data) then take (nat n) data ! nat t else rb_buffer r ! nat (x mod ?N))"
      using store_nth[OF index(1) _ fits p(1)] index(2) p(2) buf t(1)
      by (simp add: ring_cell_def r' Let_def)
    moreover have "nat t < length (take (nat n) data) \<longleftrightarrow> t < n" using t(2) n0 by linarith
    ultimately show ?thesis using t(2) by (simp add: t_def[symmetric] ring_cell_def Let_def)
  qed
  have avail: "((rb_write r + n) mod (2 * ?N) - rb_read r) mod (2 * ?N) = ?a + n"
  proof -
    have "((rb_write r + n) mod (2 * ?N) - rb_read r) mod (2 * ?N) = (?a + n) mod (2 * ?N)"
      by (simp add: a(3) mod_simps algebra_simps)
    then show ?thesis using a n0 N by simp
  qed
  have ok: "ring_ok r'"
    using assms(1) st n0 a avail by (auto simp: ring_ok_def r')
  have ga: "RingBuffer_GetReadAvailable r' = ?a + n"
    using read_available[OF ok] avail by (simp add: r')
  have "queue_of r' = queue_of r @ take (nat n) data"
  proof (rule nth_equalityI)
    show l: "length (queue_of r') = length (queue_of r @ take (nat n) data)"
      using ga a n0 by (simp add: queue_of_def nat_add_distrib)
    fix j assume "j < length (queue_of r')"
    then have j: "int j < ?a + n" using ga by (simp add: queue_of_def)
    have e: "(rb_read r + int j - rb_write r) mod ?N = (int j - ?a) mod ?N"
    proof -
      have "?a mod ?N = (rb_write r - rb_read r) mod ?N" using a(3) mod_mod_double[OF N] by simp
      then have "(int j - ?a) mod ?N = (int j - (rb_write r - rb_read r)) mod ?N" by (metis mod_diff_right_eq)
      then show ?thesis by (simp add: algebra_simps)
    qed
    have q: "queue_of r' ! j = ring_cell r' (rb_read r + int j)"
      using j ga a n0 by (simp add: queue_of_def r' nat_add_distrib)
    show "queue_of r' ! j = (queue_of r @ take (nat n) data) ! j"
    proof (cases "int j < ?a")
      case True
      have "n \<le> (int j - ?a) mod ?N"
      proof (cases "int j - ?a = - ?N")
        case True
        then have "n = 0" using a n0 by linarith
        then show ?thesis using N by simp
      next
        case False
        then have "(int j - ?a) mod ?N = int j - ?a + ?N"
          using True a mod_pos_pos_trivial[of "int j - ?a + ?N" ?N] by simp
        then show ?thesis using n0 by linarith
      qed
      then have "ring_cell r' (rb_read r + int j) = ring_cell r (rb_read r + int j)"
        using cell[of "rb_read r + int j"] e by (simp add: Let_def)
      moreover have "length (queue_of r) = nat ?a" "j < nat ?a" using True by (simp_all add: queue_of_def)
      moreover have "queue_of r ! j = ring_cell r (rb_read r + int j)"
        using \<open>j < nat ?a\<close> by (simp add: queue_of_def)
      ultimately show ?thesis using q by (simp add: nth_append)
    next
      case False
      then have "(int j - ?a) mod ?N = int j - ?a"
        using j n0(2) a(1,2) by (intro mod_pos_pos_trivial) linarith+
      then have "ring_cell r' (rb_read r + int j) = data ! nat (int j - ?a)"
        using cell[of "rb_read r + int j"] e j by (simp add: Let_def)
      moreover have "nat (int j - ?a) = j - nat ?a" using False a by linarith
      moreover have "length (queue_of r) = nat ?a" by (simp add: queue_of_def)
      moreover have "\<not> j < nat ?a" "j - nat ?a < nat n" using False j a(1) n0(1) by linarith+
      ultimately show ?thesis using q by (simp add: nth_append)
    qed
  qed
  with ok n length_queue_of[OF assms(1)] show ?thesis by (simp add: r')
qed


lemma region_nth:
  assumes "0 \<le> i" "i < N" "0 \<le> n" "n \<le> N" "int (length buf) = N" "regions N i n = (r1, r2)"
  shows "region r1 buf @ (if 0 < snd r2 then region r2 buf else []) = map (\<lambda>j. buf ! nat ((i + int j) mod N)) [0..<nat n]"
proof (rule nth_equalityI)
  let ?l = "region r1 buf @ (if 0 < snd r2 then region r2 buf else [])"
  show "length ?l = length (map (\<lambda>j. buf ! nat ((i + int j) mod N)) [0..<nat n])"
    using assms by (auto simp: regions_def region_def split: if_splits)
  fix j assume "j < length ?l"
  then have j: "int j < n" using assms by (auto simp: regions_def region_def split: if_splits)
  show "?l ! j = map (\<lambda>j. buf ! nat ((i + int j) mod N)) [0..<nat n] ! j"
  proof (cases "i + int j < N")
    case True
    then have "(i + int j) mod N = i + int j" using assms(1) by simp
    then show ?thesis using True assms j
      by (auto simp: regions_def region_def nth_append nat_add_distrib split: if_splits)
  next
    case False
    then have "(i + int j) mod N = i + int j - N"
      using assms(2,4) j mod_pos_pos_trivial[of "i + int j - N" N] by (simp add: mod_diff_right_eq[symmetric])
    moreover have "nat (i + int j - N) = j - nat (N - i)" "\<not> j < nat (N - i)" "j - nat (N - i) < nat (n - (N - i))"
      "N < i + n"
      using False assms(1,2) j by linarith+
    moreover from this have "r1 = (i, N - i)" "r2 = (0, n - (N - i))" using assms(6) by (simp_all add: regions_def)
    moreover have "length (region (i, N - i) buf) = nat (N - i)" using assms(1,2,5) by (simp add: region_def)
    moreover have "j < nat n" using j by linarith
    ultimately show ?thesis by (simp add: nth_append) (simp add: region_def)
  qed
qed

lemma ring_read:
  assumes "ring_ok r" "0 \<le> n" "RingBuffer_Read n r = (out, r')"
  shows "ring_ok r' \<and> out = take (nat n) (queue_of r) \<and> queue_of r' = drop (nat n) (queue_of r) \<and> rb_size r' = rb_size r"
proof -
  let ?N = "rb_size r" and ?a = "RingBuffer_GetReadAvailable r"
  have N: "0 < ?N" by (rule ring_size_pos[OF assms(1)])
  have buf: "int (length (rb_buffer r)) = ?N" using assms(1) by (simp add: ring_ok_def)
  have a: "0 \<le> ?a" "?a \<le> ?N" "?a = (rb_write r - rb_read r) mod (2 * ?N)"
    using read_available_range[OF assms(1)] read_available[OF assms(1)] by simp_all
  obtain m where m: "m = min n ?a" by blast
  have m0: "0 \<le> m" "m \<le> ?a" using m assms(2) a(1) by auto
  obtain r1 r2 where reg: "regions ?N (rb_read r mod ?N) m = (r1, r2)" by (metis surj_pair)
  have rd: "out = region r1 (rb_buffer r) @ (if 0 < snd r2 then region r2 (rb_buffer r) else [])"
    and r': "r' = r\<lparr>rb_read := (rb_read r + m) mod (2 * ?N)\<rparr>"
    using assms(3) reg
    by (auto simp: RingBuffer_Read_def RingBuffer_GetReadRegions_def ring_masks[OF assms(1)] Let_def m
        RingBuffer_AdvanceReadIndex_def)
  have cell: "ring_cell r (rb_read r + int j) = rb_buffer r ! nat ((rb_read r mod ?N + int j) mod ?N)" for j
    by (simp add: ring_cell_def mod_simps)
  have "out = map (\<lambda>j. ring_cell r (rb_read r + int j)) [0..<nat m]"
    unfolding rd cell using region_nth[OF _ _ m0(1) _ buf reg] N m0 a by simp
  then have out: "out = take (nat n) (queue_of r)"
    using m a by (simp add: queue_of_def take_map min_def nat_le_iff) 
  have avail: "(rb_write r - (rb_read r + m) mod (2 * ?N)) mod (2 * ?N) = ?a - m"
  proof -
    have "(rb_write r - (rb_read r + m) mod (2 * ?N)) mod (2 * ?N) = (?a - m) mod (2 * ?N)"
      by (simp add: a(3) mod_simps algebra_simps)
    then show ?thesis using a m0 N by simp
  qed
  have ok: "ring_ok r'" using assms(1) N m0 a avail by (auto simp: ring_ok_def r')
  have ga: "RingBuffer_GetReadAvailable r' = ?a - m" using read_available[OF ok] avail by (simp add: r')
  have "queue_of r' = drop (nat n) (queue_of r)"
  proof (rule nth_equalityI)
    show "length (queue_of r') = length (drop (nat n) (queue_of r))"
      using ga m a m0 assms(2) by (simp add: queue_of_def min_def) linarith
    fix j assume "j < length (queue_of r')"
    then have j: "int j < ?a - m" using ga by (simp add: queue_of_def)
    then have mn: "m = n" using m a by linarith
    have "ring_cell r' (rb_read r' + int j) = ring_cell r (rb_read r + int (nat m + j))"
      using m0 mod_mod_double[OF N, of "rb_read r + m"] by (simp add: ring_cell_def r' mod_simps add.assoc)
        (metis mod_add_left_eq add.assoc)
    then show "queue_of r' ! j = drop (nat n) (queue_of r) ! j"
      using j ga m0 mn by (simp add: queue_of_def)
  qed
  with ok out show ?thesis by (simp add: r')
qed


section \<open>A bounded queue\<close>

text \<open>
  What the two sides of the ring buffer rely on: a writer gets rid of as much as there is room for, a
  reader gets what was written, from the front.
\<close>

datatype 'b io = Put "'b list" | Take int

text \<open>A sequence of operations: all that was accepted, all that was read, and the buffer then.\<close>

fun io_run :: "('b list \<Rightarrow> 'q \<Rightarrow> int \<times> 'q) \<Rightarrow> (int \<Rightarrow> 'q \<Rightarrow> 'b list \<times> 'q) \<Rightarrow> 'b io list \<Rightarrow> 'q \<Rightarrow> 'b list \<times> 'b list \<times> 'q" where
  "io_run put get [] q = ([], [], q)"
| "io_run put get (Put xs # ops) q =
     (let (n, q) = put xs q; (acc, out, q) = io_run put get ops q in (take (nat n) xs @ acc, out, q))"
| "io_run put get (Take n # ops) q =
     (let (ys, q) = get n q; (acc, out, q) = io_run put get ops q in (acc, ys @ out, q))"

locale bounded_queue =
  fixes put :: "'b list \<Rightarrow> 'q \<Rightarrow> int \<times> 'q"
    and get :: "int \<Rightarrow> 'q \<Rightarrow> 'b list \<times> 'q"
    and items :: "'q \<Rightarrow> 'b list"
    and room :: "'q \<Rightarrow> int"
    and ok :: "'q \<Rightarrow> bool"
  assumes put_ok: "ok q \<Longrightarrow> put xs q = (n, q') \<Longrightarrow> ok q' \<and> room q' = room q - n"
    and put_items: "ok q \<Longrightarrow> put xs q = (n, q') \<Longrightarrow> n = min (int (length xs)) (room q) \<and> items q' = items q @ take (nat n) xs"
    and get_ok: "ok q \<Longrightarrow> 0 \<le> n \<Longrightarrow> get n q = (ys, q') \<Longrightarrow> ok q' \<and> room q' = room q + int (length ys)"
    and get_items: "ok q \<Longrightarrow> 0 \<le> n \<Longrightarrow> get n q = (ys, q') \<Longrightarrow> ys = take (nat n) (items q) \<and> items q' = drop (nat n) (items q)"
    and room_nonneg: "ok q \<Longrightarrow> 0 \<le> room q"
begin

lemma in_order:
  "ok q \<Longrightarrow> \<forall>n. Take n \<in> set ops \<longrightarrow> 0 \<le> n \<Longrightarrow> io_run put get ops q = (acc, out, q') \<Longrightarrow>
     ok q' \<and> items q @ acc = out @ items q' \<and> room q' + int (length (items q')) = room q + int (length (items q))"
proof (induction ops arbitrary: q acc out)
  case (Cons op ops)
  show ?case
  proof (cases op)
    case (Put xs)
    obtain n q1 where p: "put xs q = (n, q1)" by (metis surj_pair)
    obtain acc1 where r: "io_run put get ops q1 = (acc1, out, q')" "acc = take (nat n) xs @ acc1"
      using Cons.prems(3) Put p by (auto split: prod.splits)
    note 1 = put_ok[OF Cons.prems(1) p] put_items[OF Cons.prems(1) p]
    have "0 \<le> n" "n \<le> int (length xs)" using 1 room_nonneg[OF Cons.prems(1)] by auto
    with Cons.IH[OF _ _ r(1)] 1 r(2) Cons.prems(2) show ?thesis by auto
  next
    case (Take n)
    obtain ys q1 where g: "get n q = (ys, q1)" by (metis surj_pair)
    obtain out1 where r: "io_run put get ops q1 = (acc, out1, q')" "out = ys @ out1"
      using Cons.prems(3) Take g by (auto split: prod.splits)
    have n: "0 \<le> n" using Cons.prems(2) Take by simp
    note 1 = get_ok[OF Cons.prems(1) n g] get_items[OF Cons.prems(1) n g]
    with Cons.IH[OF _ _ r(1)] r(2) Cons.prems(2) show ?thesis
      by (auto simp: min_def of_nat_diff) (metis append.assoc append_take_drop_id)+
  qed
qed simp

end

interpretation ring: bounded_queue RingBuffer_Write RingBuffer_Read queue_of
  "\<lambda>r. rb_size r - int (length (queue_of r))" ring_ok
proof
  fix r r' :: "'b ring" and xs n assume r: "ring_ok r" "RingBuffer_Write xs r = (n, r')"
  have "0 \<le> n" "n \<le> int (length xs)"
    using ring_write[OF r] length_queue_of[OF r(1)] read_available_range[OF r(1)] by auto
  then have "length (take (nat n) xs) = nat n" by simp
  with ring_write[OF r] \<open>0 \<le> n\<close> have "int (length (queue_of r')) = int (length (queue_of r)) + n"
    by (metis int_nat_eq length_append of_nat_add)
  with ring_write[OF r]
  show "ring_ok r' \<and> rb_size r' - int (length (queue_of r')) = rb_size r - int (length (queue_of r)) - n" by simp
  show "n = min (int (length xs)) (rb_size r - int (length (queue_of r))) \<and> queue_of r' = queue_of r @ take (nat n) xs"
    using ring_write[OF r] by simp
next
  fix r r' :: "'b ring" and n ys assume r: "ring_ok r" "0 \<le> n" "RingBuffer_Read n r = (ys, r')"
  note rd = ring_read[OF r]
  then have "length (queue_of r) = length ys + length (queue_of r')" by (auto simp: min_def)
  with rd show "ring_ok r' \<and> rb_size r' - int (length (queue_of r')) = rb_size r - int (length (queue_of r)) + int (length ys)"
    by simp
  show "ys = take (nat n) (queue_of r) \<and> queue_of r' = drop (nat n) (queue_of r)" using rd by simp
next
  fix r :: "'b ring" assume "ring_ok r"
  then show "0 \<le> rb_size r - int (length (queue_of r))"
    using length_queue_of[of r] read_available_range[of r] by simp
qed

lemma init_ok:
  assumes "int (length data) = 2 ^ k"
  shows "\<exists>r'. RingBuffer_Init (2 ^ k) data r = (0, r') \<and> ring_ok r' \<and> queue_of r' = [] \<and> rb_size r' = 2 ^ k"
proof -
  have "(2 ^ k - 1) AND (2 :: int) ^ k = 0"
    using and_power_mask[of "2 ^ k" k] by (simp add: and.commute)
  moreover have "(2 :: int) ^ k * 2 = 2 ^ Suc k" by simp
  ultimately show ?thesis using assms
    by (auto simp: RingBuffer_Init_def RingBuffer_Flush_def ring_ok_def queue_of_def RingBuffer_GetReadAvailable_def)
qed

text \<open>
  C36. The ring buffer is a queue of bounded length: made with a size that is a power of two, over any
  sequence of writes and reads, on either side of the end of its memory, what is read is what was
  accepted, in order, what was accepted and not read is still there, and it is never more than the size.
\<close>

theorem ring_buffer_refines_queue:
  assumes "int (length data) = 2 ^ k" "\<forall>n. Take n \<in> set ops \<longrightarrow> 0 \<le> n"
  shows "\<exists>r0 acc out r1. RingBuffer_Init (2 ^ k) data r = (0, r0) \<and>
     io_run RingBuffer_Write RingBuffer_Read ops r0 = (acc, out, r1) \<and>
     acc = out @ queue_of r1 \<and> int (length (queue_of r1)) \<le> 2 ^ k"
proof -
  obtain r0 where r0: "RingBuffer_Init (2 ^ k) data r = (0, r0)" "ring_ok r0" "queue_of r0 = []" "rb_size r0 = 2 ^ k"
    using init_ok[OF assms(1)] by blast
  obtain acc out r1 where run: "io_run RingBuffer_Write RingBuffer_Read ops r0 = (acc, out, r1)" by (metis surj_pair)
  have o: "ring_ok r1 \<and> queue_of r0 @ acc = out @ queue_of r1 \<and>
      rb_size r1 - int (length (queue_of r1)) + int (length (queue_of r1)) = rb_size r0 - int (length (queue_of r0)) + int (length (queue_of r0))"
    by (rule ring.in_order[OF r0(2) assms(2) run])
  then have "int (length (queue_of r1)) \<le> 2 ^ k"
    using ring.room_nonneg[of r1] r0(3,4) by simp
  with o r0 run show ?thesis by auto
qed

definition no_ring :: "int ring" where
  "no_ring = \<lparr>rb_size = 0, rb_buffer = [], rb_write = 0, rb_read = 0, rb_bigMask = 0, rb_smallMask = 0\<rparr>"

lemma ring_buffer_refines_queue_witness:
  "\<exists>r0 acc out r1. RingBuffer_Init 4 [0, 0, 0, 0 :: int] no_ring = (0, r0) \<and>
     io_run RingBuffer_Write RingBuffer_Read [Put [1, 2, 3], Take 2, Put [4, 5, 6], Take 3] r0 = (acc, out, r1) \<and>
     acc = out @ queue_of r1 \<and> int (length (queue_of r1)) \<le> 4"
  using ring_buffer_refines_queue[of "[0, 0, 0, 0 :: int]" 2 "[Put [1, 2, 3], Take 2, Put [4, 5, 6], Take 3]" no_ring] by simp

end
