(* ===== verification/Iaxc_Device.thy ===== *)
theory Iaxc_Device
  imports Iaxc_Audio_Props Iaxc_Ring
begin

text \<open>
  The audio device of \<open>iaxclient\<close>: \<open>src/iaxclient/lib/audio_portaudio.c\<close>, the streams of PortAudio and
  what runs in its callback: the two ring buffers, the sounds mixed into the output, the bias taken off
  the input. What PortAudio and the mixer answer is a parameter. The echo canceller is third-party code
  and left out: its filter is not set. The build is the one for Linux. The memory of sounds is not
  modelled, nor that \<open>pa_start\<close> looks for a source called microphone.
\<close>

section \<open>Samples and bytes\<close>

definition sample_bytes :: "u16 \<Rightarrow> u8 list" where
  "sample_bytes w = [ucast w, ucast (drop_bit 8 w)]"

definition bytes_of_samples :: "u16 list \<Rightarrow> u8 list" where
  "bytes_of_samples xs = concat (map sample_bytes xs)"

fun samples_of_bytes :: "u8 list \<Rightarrow> u16 list" where
  "samples_of_bytes (a # b # bs) = (ucast a OR push_bit 8 (ucast b)) # samples_of_bytes bs"
| "samples_of_bytes _ = []"

definition mono2stereo :: "u16 list \<Rightarrow> u16 list" where
  "mono2stereo xs = concat (map (\<lambda>x. [x, x]) xs)"

fun stereo2mono :: "u16 list \<Rightarrow> u16 list" where
  "stereo2mono (l # r # xs) = l # stereo2mono xs"
| "stereo2mono _ = []"

section \<open>Sounds\<close>

text \<open>The sum of two samples, as an \<open>int\<close>, is cut at both ends.\<close>

definition mix_sample :: "u16 \<Rightarrow> u16 \<Rightarrow> u16" where
  "mix_sample d s =
     (let val = sint d + sint s;
          val = (if 0x7fff < val then 0x7fff - 1 else if val < - 0x7fff then - 0x7fff + 1 else val)
      in word_of_int val)"

text \<open>With \<open>virtualMonoOut\<close> both channels get the sum with the left one. \<open>None\<close> is a write behind the buffer.\<close>

fun mix_slin :: "bool \<Rightarrow> u16 list \<Rightarrow> u16 list \<Rightarrow> u16 list option" where
  "mix_slin stereo dst [] = Some dst"
| "mix_slin False (d # dst) (s # src) = map_option (Cons (mix_sample d s)) (mix_slin False dst src)"
| "mix_slin True (l # r # dst) (s # src) = map_option (\<lambda>xs. mix_sample l s # mix_sample l s # xs) (mix_slin True dst src)"
| "mix_slin _ _ _ = None"

record iaxc_sound =
  so_data :: "u16 list"
  so_channel :: int
  so_repeat :: int
  so_pos :: nat
  so_id :: int

text \<open>
  One sound, until it is over or the buffer is full; with the sound as it is then, \<open>None\<close> if it is over.
  The offset into the buffer counts frames, also where a frame is two samples.
\<close>

fun mix_sound :: "nat \<Rightarrow> bool \<Rightarrow> nat \<Rightarrow> nat \<Rightarrow> iaxc_sound \<Rightarrow> u16 list \<Rightarrow> (iaxc_sound option \<times> u16 list) option" where
  "mix_sound 0 stereo frames outpos s buf = None"
| "mix_sound (Suc rounds) stereo frames outpos s buf =
     (if outpos = frames then Some (Some s, buf)
      else if so_pos s = length (so_data s) \<and> so_repeat s = 0 then Some (None, buf)
      else let s = (if so_pos s = length (so_data s) then s\<lparr>so_pos := 0, so_repeat := so_repeat s - 1\<rparr> else s);
               n = min (frames - outpos) (length (so_data s) - so_pos s)
           in case mix_slin stereo (drop outpos buf) (take n (drop (so_pos s) (so_data s))) of
                None \<Rightarrow> None
              | Some mixed \<Rightarrow>
                  mix_sound rounds stereo frames (outpos + n) (s\<lparr>so_pos := so_pos s + n\<rparr>) (take outpos buf @ mixed))"

text \<open>A sound that is over leaves the list; the one behind it is then passed over.\<close>

fun pa_mix_sounds ::
    "nat \<Rightarrow> bool \<Rightarrow> nat \<Rightarrow> int \<Rightarrow> iaxc_sound list \<Rightarrow> u16 list \<Rightarrow> (iaxc_sound list \<times> u16 list) option" where
  "pa_mix_sounds rounds stereo frames channel [] buf = Some ([], buf)"
| "pa_mix_sounds rounds stereo frames channel (s # ss) buf =
     (if so_channel s = channel
      then case mix_sound rounds stereo frames 0 s buf of
             None \<Rightarrow> None
           | Some (Some s, buf) \<Rightarrow>
               map_option (\<lambda>(ss, buf). (s # ss, buf)) (pa_mix_sounds rounds stereo frames channel ss buf)
           | Some (None, buf) \<Rightarrow>
               (case ss of
                  [] \<Rightarrow> Some ([], buf)
                | t # ts \<Rightarrow> map_option (\<lambda>(ss, buf). (t # ss, buf)) (pa_mix_sounds rounds stereo frames channel ts buf))
      else map_option (\<lambda>(ss, buf). (s # ss, buf)) (pa_mix_sounds rounds stereo frames channel ss buf))"

text \<open>The loop goes on to the next sound by taking the one it looked at off the list.\<close>

fun stop_loop :: "int \<Rightarrow> iaxc_sound list \<Rightarrow> int \<times> iaxc_sound list" where
  "stop_loop i [] = (1, [])"
| "stop_loop i (s # ss) = (if so_id s = i then (0, ss) else stop_loop i ss)"

section \<open>The device\<close>

datatype pa_stream = Both_ways int int | Input_stream int | Output_stream int | Ring_stream

record pa_env =
  pd_device :: "int \<Rightarrow> bool"
  pd_open :: "pa_stream \<Rightarrow> bool"
  pd_start :: "pa_stream \<Rightarrow> bool"
  pd_mixer :: "rat option \<Rightarrow> rat option"

record pa_state =
  pa_inRing :: "u8 ring"
  pa_outRing :: "u8 ring"
  pa_outRingLenAvg :: int
  pa_oneStream :: bool
  pa_auxStream :: bool
  pa_virtualMonoIn :: bool
  pa_virtualMonoOut :: bool
  pa_running :: bool
  pa_sounds :: "iaxc_sound list"
  pa_nextSoundId :: int
  pa_errcnt :: int
  pa_mixers_initialized :: bool
  pa_selectedInput :: int
  pa_selectedOutput :: int
  pa_selectedRing :: int
  pa_bias :: int

definition INRBSZ :: int where "INRBSZ = 2048"
definition OUTRBSZ :: int where "OUTRBSZ = 32768"
definition RBOUTTARGET_BYTES :: int where "RBOUTTARGET_BYTES = 80 * (8000 div 1000) * 2"

definition channels :: "bool \<Rightarrow> int" where
  "channels single = (if single then 1 else 2)"

text \<open>Whether the streams were opened.\<close>

definition pa_open :: "pa_env \<Rightarrow> bool \<Rightarrow> bool \<Rightarrow> bool \<Rightarrow> pa_state \<Rightarrow> bool \<times> pa_state" where
  "pa_open e single inMono outMono st =
     (let virtual = (\<lambda>st. st\<lparr>pa_virtualMonoIn := \<not> inMono, pa_virtualMonoOut := \<not> outMono\<rparr>) in
      if \<not> pd_device e (pa_selectedInput st) \<or> \<not> pd_device e (pa_selectedOutput st) then (False, st)
      else if single
      then (if pd_open e (Both_ways (channels inMono) (channels outMono))
            then (True, virtual (st\<lparr>pa_oneStream := True\<rparr>)) else (False, st))
      else if pd_open e (Input_stream (channels inMono)) \<and> pd_open e (Output_stream (channels outMono))
      then (True, virtual (st\<lparr>pa_oneStream := False\<rparr>)) else (False, st))"

definition pa_openstreams :: "pa_env \<Rightarrow> pa_state \<Rightarrow> bool \<times> pa_state" where
  "pa_openstreams e st =
     (case pa_open e False True True st of
        (True, st) \<Rightarrow> (True, st)
      | (False, st) \<Rightarrow>
          (case pa_open e True True True st of
             (True, st) \<Rightarrow> (True, st)
           | (False, st) \<Rightarrow> pa_open e False False False st))"

definition flush_rings :: "pa_state \<Rightarrow> pa_state" where
  "flush_rings st =
     st\<lparr>pa_inRing := snd (RingBuffer_Init INRBSZ (rb_buffer (pa_inRing st)) (pa_inRing st)),
        pa_outRing := snd (RingBuffer_Init OUTRBSZ (rb_buffer (pa_outRing st)) (pa_outRing st))\<rparr>"

text \<open>
  The mixer that was open is closed; \<open>pd_mixer\<close> is the volume of the one opened then. The first time,
  the volume of the microphone is raised if it is low.
\<close>

definition init_mixers :: "rat option \<Rightarrow> pa_state \<Rightarrow> rat option \<times> pa_state" where
  "init_mixers mixer st =
     (case mixer of
        None \<Rightarrow> (mixer, st)
      | Some level \<Rightarrow>
          if pa_mixers_initialized st then (mixer, st)
          else (if level < 1 / 2 then Some (float (double (6 / 10))) else Some level, st\<lparr>pa_mixers_initialized := True\<rparr>))"

text \<open>The auxiliary stream has the selected ring device to itself, if it can be started.\<close>

definition start_aux :: "pa_env \<Rightarrow> pa_state \<Rightarrow> pa_state" where
  "start_aux e st =
     st\<lparr>pa_auxStream := pa_selectedRing st \<noteq> pa_selectedOutput st \<and> pd_start e Ring_stream\<rparr>"

definition pa_start :: "pa_env \<Rightarrow> rat option \<Rightarrow> pa_state \<Rightarrow> int \<times> (int \<times> u8 list) list \<times> rat option \<times> pa_state" where
  "pa_start e mixer st =
     (if pa_running st then (0, [], mixer, st)
      else let msgs = (if 5 < pa_errcnt st
                       then [(4, bytes_of ''iaxclient audio: Can't open Audio Device.  Perhaps you do not have an input or output device?'')]
                       else []);
               (opened, st) = pa_openstreams e (flush_rings st)
           in if \<not> opened then (- 1, msgs, None, st\<lparr>pa_errcnt := pa_errcnt st + 1\<rparr>)
              else let st = st\<lparr>pa_errcnt := 0\<rparr>;
                       one = pa_oneStream st;
                       i = (if one then Both_ways (channels (\<not> pa_virtualMonoIn st)) (channels (\<not> pa_virtualMonoOut st))
                            else Input_stream (channels (\<not> pa_virtualMonoIn st)))
                   in if \<not> pd_start e i then (- 1, msgs, None, st)
                      else let mixer = pd_mixer e mixer
                           in if \<not> one \<and> \<not> pd_start e (Output_stream (channels (\<not> pa_virtualMonoOut st)))
                              then (- 1, msgs, mixer, st)
                              else let (mixer, st) = init_mixers mixer (start_aux e st)
                                   in (0, msgs, mixer, st\<lparr>pa_running := True\<rparr>))"

definition pa_stop :: "pa_state \<Rightarrow> pa_state" where
  "pa_stop st = (if pa_running st \<and> pa_sounds st = [] then st\<lparr>pa_running := False\<rparr> else st)"

text \<open>No partial frames: the samples asked for, or none.\<close>

definition pa_input :: "nat \<Rightarrow> pa_state \<Rightarrow> u16 list option \<times> pa_state" where
  "pa_input n st =
     (if RingBuffer_GetReadAvailable (pa_inRing st) < 2 * int n then (Some [], st)
      else let (bytes, r) = RingBuffer_Read (2 * int n) (pa_inRing st)
           in (Some (samples_of_bytes bytes), st\<lparr>pa_inRing := r\<rparr>))"

text \<open>Samples are dropped while the output is late, now and on average.\<close>

definition pa_output :: "u16 list \<Rightarrow> pa_state \<Rightarrow> pa_state" where
  "pa_output samples st =
     (let len = RingBuffer_GetReadAvailable (pa_outRing st);
          st = st\<lparr>pa_outRingLenAvg := (pa_outRingLenAvg st * 9 + len) sdiv 10\<rparr>
      in if RBOUTTARGET_BYTES < len \<and> RBOUTTARGET_BYTES < pa_outRingLenAvg st then st
         else st\<lparr>pa_outRing := snd (RingBuffer_Write (bytes_of_samples samples) (pa_outRing st))\<rparr>)"

definition pa_driver :: "pa_env \<Rightarrow> pa_state audio_driver" where
  "pa_driver e = \<lparr>ad_start = pa_start e, ad_stop = pa_stop, ad_input = pa_input, ad_output = pa_output\<rparr>"

text \<open>A start has messages for the user, also one that a choice of devices or a sound makes.\<close>

definition pa_select_devices ::
    "pa_env \<Rightarrow> int \<Rightarrow> int \<Rightarrow> int \<Rightarrow> rat option \<Rightarrow> pa_state \<Rightarrow> (int \<times> u8 list) list \<times> rat option \<times> pa_state" where
  "pa_select_devices e input output ring mixer st =
     (let st = st\<lparr>pa_selectedInput := input, pa_selectedOutput := output, pa_selectedRing := ring\<rparr>
      in if pa_running st then snd (pa_start e mixer (pa_stop st)) else ([], mixer, st))"

definition pa_play_sound ::
    "pa_env \<Rightarrow> iaxc_sound \<Rightarrow> int \<Rightarrow> rat option \<Rightarrow> pa_state \<Rightarrow> int \<times> (int \<times> u8 list) list \<times> rat option \<times> pa_state" where
  "pa_play_sound e s ring mixer st =
     (let i = pa_nextSoundId st;
          st = st\<lparr>pa_nextSoundId := i + 1, pa_sounds := s\<lparr>so_channel := ring, so_id := i, so_pos := 0\<rparr> # pa_sounds st\<rparr>
      in (i, if pa_running st then ([], mixer, st) else snd (pa_start e mixer st)))"

definition pa_stop_sound :: "int \<Rightarrow> pa_state \<Rightarrow> int \<times> pa_state" where
  "pa_stop_sound i st = (let (r, ss) = stop_loop i (pa_sounds st) in (r, st\<lparr>pa_sounds := ss\<rparr>))"

definition pa_initialize :: "pa_env \<Rightarrow> int \<Rightarrow> int \<Rightarrow> pa_state \<Rightarrow> rat option \<times> pa_state" where
  "pa_initialize e input output st =
     (let st = flush_rings (st\<lparr>pa_selectedInput := input, pa_selectedOutput := output, pa_selectedRing := output,
                                pa_sounds := [], pa_running := False\<rparr>);
          (_, _, mixer, st) = pa_start e None st
      in (mixer, pa_stop st))"

section \<open>The callback\<close>

text \<open>A slow average of the input is taken off it.\<close>

fun remove_bias :: "u16 list \<Rightarrow> int \<Rightarrow> u16 list \<times> int" where
  "remove_bias [] bias = ([], bias)"
| "remove_bias (x # xs) bias =
     (let bias = bias + drop_bit 14 (push_bit 15 (sint x) - bias);
          (ys, b) = remove_bias xs bias
      in ((x - word_of_int (drop_bit 15 bias)) # ys, b))"

text \<open>What is played: what the ring holds, silence behind it, and the sounds mixed in.\<close>

definition play_output :: "nat \<Rightarrow> nat \<Rightarrow> pa_state \<Rightarrow> (u16 list \<times> pa_state) option" where
  "play_output rounds frames st =
     (let (bytes, r) = RingBuffer_Read (2 * int frames) (pa_outRing st);
          played = samples_of_bytes (bytes @ replicate (2 * frames - length bytes) 0);
          buf = (if pa_virtualMonoOut st then mono2stereo played else played)
      in case pa_mix_sounds rounds (pa_virtualMonoOut st) frames 0 (pa_sounds st) buf of
           None \<Rightarrow> None
         | Some (ss, buf) \<Rightarrow>
             map_option (\<lambda>(ss, buf). (buf, st\<lparr>pa_outRing := r, pa_sounds := ss\<rparr>))
               (if pa_auxStream st then Some (ss, buf) else pa_mix_sounds rounds (pa_virtualMonoOut st) frames 1 ss buf))"

definition record_input :: "u16 list \<Rightarrow> pa_state \<Rightarrow> pa_state" where
  "record_input samples st =
     (let (xs, bias) = remove_bias (if pa_virtualMonoIn st then stereo2mono samples else samples) (pa_bias st)
      in st\<lparr>pa_bias := bias, pa_inRing := snd (RingBuffer_Write (bytes_of_samples xs) (pa_inRing st))\<rparr>)"

definition pa_callback :: "nat \<Rightarrow> u16 list option \<Rightarrow> bool \<Rightarrow> nat \<Rightarrow> pa_state \<Rightarrow> (u16 list \<times> pa_state) option" where
  "pa_callback rounds input has_output frames st =
     do { (out, st) \<leftarrow> (if has_output then play_output rounds frames st else Some ([], st));
          Some (out, (case input of None \<Rightarrow> st | Some samples \<Rightarrow> record_input samples st)) }"

text \<open>The ring device: half of a stereo buffer is not cleared and plays what it held, here \<open>junk\<close>.\<close>

definition pa_aux_callback :: "nat \<Rightarrow> nat \<Rightarrow> u16 list \<Rightarrow> pa_state \<Rightarrow> (u16 list \<times> pa_state) option" where
  "pa_aux_callback rounds frames junk st =
     map_option (\<lambda>(ss, buf). (buf, st\<lparr>pa_sounds := ss\<rparr>))
       (pa_mix_sounds rounds (pa_virtualMonoOut st) frames 1 (pa_sounds st)
          (replicate frames 0 @ (if pa_virtualMonoOut st then take frames junk else [])))"

end
