(* ===== verification/Iaxc_Device_Props.thy ===== *)
theory Iaxc_Device_Props
  imports Iaxc_Device
begin

text \<open>
  Properties of the audio device: mixing, the loop over a sound, stopping a sound, the volume of the
  microphone when the device starts, and, behind the interface of a driver, that the reading of the
  microphone ends.
\<close>

section \<open>Mixing\<close>

lemma sint_word_of_int: "- 32768 \<le> x \<Longrightarrow> x \<le> 32767 \<Longrightarrow> sint (word_of_int x :: u16) = x"
  by (simp add: sint_sbintrunc' signed_take_bit_int_eq_self)

lemma sint_mix_sample:
  "sint (mix_sample d s) =
     (let v = sint d + sint s in if 32767 < v then 32766 else if v < - 32767 then - 32766 else v)"
  by (simp add: mix_sample_def Let_def sint_word_of_int)

lemma mix_slin_mono:
  "length src \<le> length dst \<Longrightarrow>
   mix_slin False dst src = Some (map2 mix_sample (take (length src) dst) src @ drop (length src) dst)"
proof (induction src arbitrary: dst)
  case (Cons s src)
  then show ?case by (cases dst) auto
qed simp

lemma mix_slin_length:
  "(if stereo then 2 else 1) * length src \<le> length dst \<Longrightarrow>
   \<exists>mixed. mix_slin stereo dst src = Some mixed \<and> length mixed = length dst"
proof (induction stereo dst src rule: mix_slin.induct)
  case (3 l r dst s src)
  then show ?case by auto
qed (auto split: if_splits)

lemma mix_slin_overrun:
  "length dst < (if stereo then 2 else 1) * length src \<Longrightarrow> mix_slin stereo dst src = None"
  by (induction stereo dst src rule: mix_slin.induct) (auto split: if_splits)

text \<open>
  Mixing never wraps around: each sample of the mix is the sum as long as that fits, else a value at the
  end of the range on its side, and what lies behind the sound is untouched.
\<close>

theorem mix_saturates:
  assumes "length src \<le> length dst"
  shows "\<exists>mixed. mix_slin False dst src = Some mixed \<and> length mixed = length dst \<and>
     (\<forall>i < length dst.
        if i < length src
        then (let v = sint (dst ! i) + sint (src ! i)
              in sint (mixed ! i) = (if \<bar>v\<bar> \<le> 32767 then v else if 0 < v then 32766 else - 32766))
        else mixed ! i = dst ! i)"
  using assms by (auto simp: mix_slin_mono nth_append sint_mix_sample Let_def min_def)

lemma mix_saturates_witness:
  "\<exists>mixed. mix_slin False [30000, 5, 7] [30000, 5] = Some mixed \<and> length mixed = 3 \<and>
     sint (mixed ! 0) = 32766 \<and> sint (mixed ! 1) = 10 \<and> mixed ! 2 = 7"
proof -
  from mix_saturates[of "[30000, 5]" "[30000, 5, 7]"] obtain mixed where
    "mix_slin False [30000, 5, 7] [30000, 5] = Some mixed" "length mixed = 3"
    and i: "\<forall>i < 3. if i < 2
        then (let v = sint ([30000, 5, 7 :: u16] ! i) + sint ([30000, 5 :: u16] ! i)
              in sint (mixed ! i) = (if \<bar>v\<bar> \<le> 32767 then v else if 0 < v then 32766 else - 32766))
        else mixed ! i = [30000, 5, 7] ! i"
    by auto
  with i[rule_format, of 0] i[rule_format, of 1] i[rule_format, of 2] show ?thesis by (auto simp: Let_def)
qed

section \<open>The loop over a sound\<close>

lemma mix_sound_empty_repeats:
  "so_data s = [] \<Longrightarrow> so_pos s = 0 \<Longrightarrow> so_repeat s < 0 \<Longrightarrow> outpos \<noteq> frames \<Longrightarrow>
   mix_sound rounds stereo frames outpos s buf = None"
  by (induction rounds arbitrary: s buf) (auto simp: Let_def split: option.splits)

lemma mix_sound_empty_ends:
  "so_data s = [] \<Longrightarrow> so_pos s = 0 \<Longrightarrow> 0 \<le> so_repeat s \<Longrightarrow>
   \<exists>rounds r. mix_sound rounds stereo frames outpos s buf = Some r"
proof (induction "nat (so_repeat s)" arbitrary: s buf)
  case 0
  then show ?case by (intro exI[of _ "Suc 0"]) auto
next
  case (Suc n)
  let ?s = "s\<lparr>so_pos := 0, so_repeat := so_repeat s - 1\<rparr>"
  have "n = nat (so_repeat ?s)" "0 \<le> so_repeat ?s" using Suc(2) by auto
  from Suc(1)[OF this(1) _ _ this(2), of "take outpos buf @ drop outpos buf"] Suc(3) obtain rounds r
    where "mix_sound rounds stereo frames outpos ?s (take outpos buf @ drop outpos buf) = Some r" by auto
  moreover have "?s = s\<lparr>so_repeat := so_repeat s - 1, so_pos := 0\<rparr>" by (cases s) simp
  ultimately show ?case using Suc by (intro exI[of _ "Suc rounds"]) (auto simp: Let_def)
qed

lemma mix_sound_fills:
  "so_data s \<noteq> [] \<Longrightarrow> so_pos s \<le> length (so_data s) \<Longrightarrow> outpos \<le> frames \<Longrightarrow>
   (if stereo then 2 else 1) * frames \<le> length buf \<Longrightarrow> frames - outpos < rounds \<Longrightarrow>
   \<exists>r. mix_sound rounds stereo frames outpos s buf = Some r"
proof (induction rounds arbitrary: s buf outpos)
  case (Suc rounds)
  define s1 where "s1 = (if so_pos s = length (so_data s) then s\<lparr>so_pos := 0, so_repeat := so_repeat s - 1\<rparr> else s)"
  define n where "n = min (frames - outpos) (length (so_data s1) - so_pos s1)"
  let ?src = "take n (drop (so_pos s1) (so_data s1))"
  show ?case
  proof (cases "outpos = frames \<or> so_pos s = length (so_data s) \<and> so_repeat s = 0")
    case False
    have n: "0 < n" "outpos + n \<le> frames" "so_pos s1 + n \<le> length (so_data s1)" "so_data s1 \<noteq> []"
      using Suc(2-4) False by (auto simp: n_def s1_def min_def)
    have "(if stereo then 2 else 1) * length ?src \<le> length (drop outpos buf)"
      using n(2) Suc(5) by (auto simp: min_def)
    from mix_slin_length[OF this] obtain mixed where
      m: "mix_slin stereo (drop outpos buf) ?src = Some mixed" "length mixed = length (drop outpos buf)" by blast
    have "length (take outpos buf @ mixed) = length buf" using m(2) by simp
    then have "\<exists>r. mix_sound rounds stereo frames (outpos + n) (s1\<lparr>so_pos := so_pos s1 + n\<rparr>) (take outpos buf @ mixed) = Some r"
      using n Suc(5,6) by (intro Suc(1)) simp_all
    moreover have "mix_sound (Suc rounds) stereo frames outpos s buf =
        mix_sound rounds stereo frames (outpos + n) (s1\<lparr>so_pos := so_pos s1 + n\<rparr>) (take outpos buf @ mixed)"
      using m(1) False by (simp only: mix_sound.simps s1_def[symmetric] n_def[symmetric] Let_def if_False option.simps) auto
    ultimately show ?thesis by simp
  qed auto
qed simp




section \<open>Stopping a sound\<close>

lemma stop_loop_append: "\<forall>s \<in> set newer. so_id s \<noteq> i \<Longrightarrow> stop_loop i (newer @ ss) = stop_loop i ss"
  by (induction newer) auto

lemma stop_loop_unknown: "\<forall>s \<in> set newer. so_id s \<noteq> i \<Longrightarrow> stop_loop i newer = (1, [])"
  by (induction newer) auto

text \<open>
  Stopping one sound stops others: sounds are kept with the last one started first, and all that were
  started after the one to stop go with it; a number that no sound has ends every sound there is.
\<close>

theorem stop_sound_stops_others:
  "(\<forall>s \<in> set newer. so_id s \<noteq> i) \<Longrightarrow>
     (so_id s = i \<longrightarrow> pa_stop_sound i (st\<lparr>pa_sounds := newer @ s # older\<rparr>) = (0, st\<lparr>pa_sounds := older\<rparr>)) \<and>
     pa_stop_sound i (st\<lparr>pa_sounds := newer\<rparr>) = (1, st\<lparr>pa_sounds := []\<rparr>)"
  by (simp add: pa_stop_sound_def stop_loop_append stop_loop_unknown)

lemma stop_sound_stops_others_witness:
  "\<forall>st. pa_stop_sound 1 (st\<lparr>pa_sounds := [\<lparr>so_data = [5], so_channel = 0, so_repeat = 0, so_pos = 0, so_id = 2\<rparr>,
       \<lparr>so_data = [6], so_channel = 0, so_repeat = 0, so_pos = 0, so_id = 1\<rparr>]\<rparr>) = (0, st\<lparr>pa_sounds := []\<rparr>)"
proof
  fix st :: pa_state
  show "pa_stop_sound 1 (st\<lparr>pa_sounds := [\<lparr>so_data = [5], so_channel = 0, so_repeat = 0, so_pos = 0, so_id = 2\<rparr>,
       \<lparr>so_data = [6], so_channel = 0, so_repeat = 0, so_pos = 0, so_id = 1\<rparr>]\<rparr>) = (0, st\<lparr>pa_sounds := []\<rparr>)"
    using stop_sound_stops_others[of "[\<lparr>so_data = [5], so_channel = 0, so_repeat = 0, so_pos = 0, so_id = 2\<rparr>]" 1
      "\<lparr>so_data = [6], so_channel = 0, so_repeat = 0, so_pos = 0, so_id = 1\<rparr>" "[]" st] by simp
qed

section \<open>The volume of the microphone\<close>

lemma six_tenths: "1 / 2 \<le> float (double (6 / 10))"
  by code_simp

text \<open>
  A microphone muted before the device was ever opened is open when the device starts: without a mixer
  the volume cannot be set, and the first start with one raises it to a half at least. Later starts
  leave it as the mixer has it.
\<close>

theorem first_start_opens_microphone:
  assumes "\<not> pa_running st" "pa_start e (au_mixer (pa_input_level_set 0 au)) st = (0, msgs, mixer, st')" "au_mixer au = None"
  shows "au_mixer (pa_input_level_set 0 au) = None \<and> pa_running st' \<and>
     (case mixer of None \<Rightarrow> True
      | Some level \<Rightarrow> pa_mixers_initialized st' \<and>
          (if pa_mixers_initialized st then pd_mixer e None = Some level else 1 / 2 \<le> level))"
proof -
  have none: "au_mixer (pa_input_level_set 0 au) = None" using assms(3) by (simp add: pa_input_level_set_def)
  have flush: "pa_mixers_initialized (snd (pa_openstreams e (flush_rings st))) = pa_mixers_initialized st"
    by (auto simp: pa_openstreams_def pa_open_def flush_rings_def Let_def split: bool.splits prod.splits if_splits)
  show ?thesis using assms(1,2) none flush six_tenths
    by (auto simp: pa_start_def init_mixers_def start_aux_def Let_def split: prod.splits if_splits option.splits)
qed

lemma first_start_opens_microphone_witness:
  "\<forall>st (au :: 's audio_state). \<exists>msgs level st'.
     pa_start \<lparr>pd_device = \<lambda>_. True, pd_open = \<lambda>_. True, pd_start = \<lambda>_. True, pd_mixer = \<lambda>_. Some 0\<rparr>
       (au_mixer (pa_input_level_set 0 (au\<lparr>au_mixer := None\<rparr>)))
       (st\<lparr>pa_running := False, pa_mixers_initialized := False\<rparr>) = (0, msgs, Some level, st') \<and> 1 / 2 \<le> level"
proof (intro allI)
  fix st :: pa_state and au :: "'s audio_state"
  let ?e = "\<lparr>pd_device = \<lambda>_. True, pd_open = \<lambda>_. True, pd_start = \<lambda>_. True, pd_mixer = \<lambda>_. Some (0 :: rat)\<rparr>"
  let ?au = "au\<lparr>au_mixer := None\<rparr>" and ?st = "st\<lparr>pa_running := False, pa_mixers_initialized := False\<rparr>"
  obtain r msgs mixer st' where p: "pa_start ?e (au_mixer (pa_input_level_set 0 ?au)) ?st = (r, msgs, mixer, st')"
    by (metis surj_pair)
  then have "r = 0" "mixer \<noteq> None"
    by (auto simp: pa_start_def pa_openstreams_def pa_open_def flush_rings_def init_mixers_def start_aux_def Let_def split: if_splits)
  with p first_start_opens_microphone[of ?st ?e ?au msgs mixer st']
  show "\<exists>msgs level st'. pa_start ?e (au_mixer (pa_input_level_set 0 ?au)) ?st = (0, msgs, Some level, st') \<and> 1 / 2 \<le> level"
    by auto
qed

section \<open>The bias\<close>

lemma bias_step:
  fixes X b :: int
  assumes "l \<le> X" "X \<le> u" "l \<le> b" "b \<le> u"
  shows "l \<le> b + (X - b) div 16384" "b + (X - b) div 16384 \<le> u"
proof -
  have d: "(0 \<le> y \<longrightarrow> 0 \<le> y div 16384 \<and> y div 16384 \<le> y) \<and> (y < 0 \<longrightarrow> y \<le> y div 16384 \<and> y div 16384 \<le> 0)"
    for y :: int
  proof -
    have "y = 16384 * (y div 16384) + y mod 16384" "0 \<le> y mod 16384" "y mod 16384 < 16384" by simp_all
    moreover have "0 \<le> y \<longleftrightarrow> 0 \<le> y div 16384" by (simp add: pos_imp_zdiv_nonneg_iff)
    ultimately show ?thesis by linarith
  qed
  from d[of "X - b"] assms show "b + (X - b) div 16384 \<le> u" by linarith
  from d[of "X - b"] assms show "l \<le> b + (X - b) div 16384" by linarith
qed

text \<open>
  The average that is taken off the input stays inside the range of a sample, whatever is recorded, so
  that the correction always fits into a \<open>short\<close>.
\<close>

theorem bias_in_range:
  "- (2 ^ 30) \<le> bias \<and> bias \<le> 32767 * 2 ^ 15 \<Longrightarrow>
     (case remove_bias xs bias of (ys, b) \<Rightarrow> length ys = length xs \<and> - (2 ^ 30) \<le> b \<and> b \<le> 32767 * 2 ^ 15 \<and>
        - 32768 \<le> drop_bit 15 b \<and> drop_bit 15 b \<le> 32767)"
proof (induction xs arbitrary: bias)
  case Nil
  then show ?case by (auto simp: drop_bit_eq_div)
next
  case (Cons x xs)
  have "- (2 ^ 30) \<le> push_bit 15 (sint x)" "push_bit 15 (sint x) \<le> 32767 * 2 ^ 15"
    using sint_u16[of x] by (auto simp: push_bit_eq_mult)
  from bias_step[OF this] Cons.prems
  have "- (2 ^ 30) \<le> bias + drop_bit 14 (push_bit 15 (sint x) - bias) \<and>
      bias + drop_bit 14 (push_bit 15 (sint x) - bias) \<le> 32767 * 2 ^ 15"
    by (simp add: drop_bit_eq_div)
  from Cons.IH[OF this] show ?case by (simp add: Let_def split: prod.splits)
qed

section \<open>A driver of audio\<close>

text \<open>
  What \<open>service_audio\<close> relies on: a frame that is read was there, and is gone. Then more rounds than there
  is to read change nothing: the loop over the microphone ends.
\<close>

lemma post_levels_driver [simp]: "l_driver (post_levels r st) = l_driver st"
  by (auto simp: post_levels_def iaxc_do_levels_callback_def iaxc_post_event_def split: option.splits)

lemma set_call_driver [simp]: "l_driver (set_call n c st) = l_driver st"
  by (simp add: set_call_def)

lemma iax_do_driver: "iax_do f st = Some st' \<Longrightarrow> l_driver st' = l_driver st"
  by (auto simp: iax_do_def)

lemma send_silence_driver: "send_silence n st = Some st' \<Longrightarrow> l_driver st' = l_driver st"
  by (auto simp: send_silence_def Let_def dest: iax_do_driver split: if_splits Option.bind_splits)

lemma send_voice_driver: "send_voice env n f xs st = Some st' \<Longrightarrow> l_driver st' = l_driver st"
  by (auto simp: send_voice_def Let_def dest: iax_do_driver split: if_splits Option.bind_splits option.splits prod.splits)

lemma send_encoded_audio_driver: "send_encoded_audio env n f xs st = Some st' \<Longrightarrow> l_driver st' = l_driver st"
  by (auto simp: send_encoded_audio_def Let_def dest!: send_silence_driver send_voice_driver split: if_splits prod.splits)

locale audio_device =
  fixes d :: "'a audio_driver"
    and waiting :: "'a \<Rightarrow> nat"
    and ok :: "'a \<Rightarrow> bool"
  assumes input_consumes: "ok a \<Longrightarrow> ad_input d n a = (Some (x # xs), a') \<Longrightarrow> ok a' \<and> waiting a' < waiting a"
begin

lemma rounds_enough:
  "en_driver env = d \<Longrightarrow> ok (l_driver st) \<Longrightarrow> waiting (l_driver st) < rounds \<Longrightarrow>
     audio_input_loop rounds env st = audio_input_loop (Suc (waiting (l_driver st))) env st"
proof (induction "waiting (l_driver st)" arbitrary: st rounds rule: less_induct)
  case less
  obtain m where rounds: "rounds = Suc m" "waiting (l_driver st) \<le> m" using less(4) by (cases rounds) auto
  show ?case
  proof (cases "get_call (l_selected_call st) st")
    case (Some c)
    let ?n = "nat (samples_to_read (l_minimum_outgoing_framesize st) (ic_encoder c))"
    obtain got a where i: "ad_input d ?n (l_driver st) = (got, a)" by fastforce
    show ?thesis
    proof (cases "\<exists>x xs. got = Some (x # xs)")
      case True
      then obtain x xs where got: "got = Some (x # xs)" by blast
      note c = input_consumes[OF less(3) i[unfolded got]]
      have "audio_input_loop m env st2 = audio_input_loop (waiting (l_driver st)) env st2"
        if "send_encoded_audio env (l_selected_call st) (ic_format c) (x # xs) (st\<lparr>l_driver := a\<rparr>) = Some st2" for st2
      proof -
        have "l_driver st2 = a" using send_encoded_audio_driver[OF that] by simp
        then show ?thesis
          using less(1)[of st2 m] less(1)[of st2 "waiting (l_driver st)"] c less(2) rounds(2) by simp
      qed
      then show ?thesis using Some i got less(2) rounds(1)
        by (simp add: Let_def) (auto split: Option.bind_splits)
    next
      case False
      then show ?thesis using Some i less(2) rounds(1) by (auto simp: Let_def split: option.splits list.splits)
    qed
  qed (simp add: rounds(1))
qed

end

lemma samples_of_bytes_empty: "samples_of_bytes bs \<noteq> [] \<Longrightarrow> bs \<noteq> []"
  by auto

interpretation pa: audio_device "pa_driver e" "\<lambda>st. length (queue_of (pa_inRing st))" "\<lambda>st. ring_ok (pa_inRing st)" for e
proof
  fix a a' :: pa_state and n x xs
  assume a: "ring_ok (pa_inRing a)" "ad_input (pa_driver e) n a = (Some (x # xs), a')"
  obtain bytes r where r: "RingBuffer_Read (2 * int n) (pa_inRing a) = (bytes, r)" by (metis surj_pair)
  with a have "samples_of_bytes bytes = x # xs" "a' = a\<lparr>pa_inRing := r\<rparr>"
    by (auto simp: pa_driver_def pa_input_def split: if_splits)
  moreover have "ring_ok r \<and> bytes = take (nat (2 * int n)) (queue_of (pa_inRing a)) \<and> queue_of r = drop (nat (2 * int n)) (queue_of (pa_inRing a))"
    using ring_read[OF a(1) _ r] by simp
  ultimately show "ring_ok (pa_inRing a') \<and> length (queue_of (pa_inRing a')) < length (queue_of (pa_inRing a))"
    using samples_of_bytes_empty[of bytes] by (cases "n = 0"; cases "queue_of (pa_inRing a)") auto
qed

text \<open>
  The loop that reads the microphone ends: with the driver of PortAudio it takes no more rounds than
  there are bytes in the input buffer, and one more; a higher bound makes no difference.
\<close>

theorem microphone_loop_ends:
  assumes "en_driver env = pa_driver e" "ring_ok (pa_inRing (l_driver st))"
    "length (queue_of (pa_inRing (l_driver st))) < rounds"
  shows "audio_input_loop rounds env st = audio_input_loop (Suc (length (queue_of (pa_inRing (l_driver st))))) env st"
  by (rule pa.rounds_enough[OF assms])

end
