(* ===== verification/Iaxc_Calls_Props.thy ===== *)
theory Iaxc_Calls_Props
  imports Iaxc_Events Iax_Reach "HOL-Library.Sublist"
begin

text \<open>
  The call layer on top of \<open>libiax2\<close>: every operation is a sequence of steps of a client of the
  library, so that all that holds of reachable states of \<open>libiax2\<close> holds below \<open>iaxclient\<close>; events reach
  the application in order, and none while the lock is held.
\<close>

section \<open>What every operation does\<close>

text \<open>
  The library below makes steps of a client, the table keeps its size, the selected call stays inside
  it, and events are appended: to the queue while the lock is held, else to what was handed on.
\<close>

definition appended :: "('z, 's, 'a) lib \<Rightarrow> ('z, 's, 'a) lib \<Rightarrow> bool" where
  "appended st st' \<longleftrightarrow>
     (\<exists>es. if l_iaxc_locked st then l_event_queue st' = l_event_queue st @ es \<and> l_posted st' = l_posted st
           else l_event_queue st' = l_event_queue st \<and> l_posted st' = l_posted st @ es)"

definition by_client :: "('z, 's, 'a) lib \<Rightarrow> ('z, 's, 'a) lib \<Rightarrow> bool" where
  "by_client st st' \<longleftrightarrow>
     client_step\<^sup>*\<^sup>* (l_iax st) (l_iax st') \<and> nCalls st' = nCalls st \<and>
     (l_selected_call st < nCalls st \<longrightarrow> l_selected_call st' < nCalls st) \<and>
     l_iaxc_locked st' = l_iaxc_locked st \<and> appended st st'"

named_theorems client_intros \<open>operations are sequences of client steps\<close>

lemma appended_refl [simp]: "appended st st"
  by (auto simp: appended_def)

lemma appended_trans:
  "appended a b \<Longrightarrow> appended b c \<Longrightarrow> l_iaxc_locked b = l_iaxc_locked a \<Longrightarrow> appended a c"
  by (auto simp: appended_def split: if_splits)

lemma by_client_refl [simp]: "by_client st st"
  by (simp add: by_client_def)

lemma by_client_trans [trans]: "by_client a b \<Longrightarrow> by_client b c \<Longrightarrow> by_client a c"
  by (auto simp: by_client_def intro: rtranclp_trans appended_trans)

text \<open>A change of fields that the relation does not look at.\<close>

lemma by_client_same:
  assumes "l_iax st' = l_iax st" "nCalls st' = nCalls st" "l_selected_call st' = l_selected_call st"
    "l_iaxc_locked st' = l_iaxc_locked st" "l_event_queue st' = l_event_queue st" "l_posted st' = l_posted st"
  shows "by_client st st'"
  using assms by (auto simp: by_client_def appended_def)

lemma post_client [client_intros]: "by_client st (iaxc_post_event e st)"
  by (auto simp: by_client_def appended_def iaxc_post_event_def)

lemma usermsg_client [client_intros]: "by_client st (iaxc_usermsg ty msg st)"
  by (simp add: iaxc_usermsg_def post_client)

lemma call_status_client [client_intros]: "by_client st (call_status n msg st)"
  by (simp add: call_status_def usermsg_client)

lemma state_callback_client [client_intros]: "by_client st (iaxc_do_state_callback n st)"
  by (simp add: iaxc_do_state_callback_def post_client split: option.splits)

lemma levels_client [client_intros]: "by_client st (iaxc_do_levels_callback i out st)"
  by (simp add: iaxc_do_levels_callback_def post_client)

lemma post_levels_client [client_intros]: "by_client st (post_levels r st)"
  by (auto simp: post_levels_def levels_client split: option.splits)

lemma set_call_client [client_intros]: "by_client st (set_call n c st)"
  by (rule by_client_same) (simp_all add: set_call_def)

lemma upd_call_client: "upd_call n f st = Some st' \<Longrightarrow> by_client st st'"
  by (auto simp: upd_call_def set_call_client)

lemma iax_do_client:
  assumes "iax_do f st = Some st'" "\<And>r iax. f (l_iax st) = Some (r, iax) \<Longrightarrow> client_step (l_iax st) iax"
  shows "by_client st st'"
  using assms by (auto simp: iax_do_def by_client_def appended_def)

lemma destroy_client [client_intros]: "by_client st (iax_destroy_session i st)"
  by (auto simp: iax_destroy_session_def by_client_def appended_def intro: client_step.destroy)

text \<open>Chaining: what comes first is known, what follows is the rest of the operation.\<close>

lemma by_client_map:
  assumes "map_option g x = Some st'" "\<And>y. x = Some y \<Longrightarrow> by_client st y" "\<And>y. by_client y (g y)"
  shows "by_client st st'"
  using assms by (auto intro: by_client_trans)

section \<open>Operations of the application\<close>

lemma iaxc_clear_call_client: "iaxc_clear_call n st = Some st' \<Longrightarrow> by_client st st'"
  unfolding iaxc_clear_call_def
  by (erule by_client_map) (auto intro: upd_call_client state_callback_client)

lemma iaxc_answer_call_client: "iaxc_answer_call n st = Some st' \<Longrightarrow> by_client st st'"
  by (auto simp: iaxc_answer_call_def split: if_splits Option.bind_splits
      intro!: by_client_trans[OF _ state_callback_client]
      intro: by_client_trans[OF upd_call_client] iax_do_client client_step.answer)

lemma select_field_client:
  "n < nCalls st \<Longrightarrow> by_client st (st\<lparr>l_selected_call := n\<rparr>)"
  by (auto simp: by_client_def appended_def)

lemma change_selection_client:
  assumes "change_selection n st = Some st'" "n < nCalls st"
  shows "by_client st st'"
proof (cases "n = l_selected_call st")
  case True
  then show ?thesis using assms by (simp add: change_selection_def)
next
  case False
  then obtain st1 where st1: "upd_call n (\<lambda>c. c\<lparr>ic_state := ic_state c OR IAXC_CALL_STATE_SELECTED\<rparr>) (st1\<lparr>l_selected_call := n\<rparr>) = Some st'"
    "by_client st st1"
    using assms(1)
    by (auto simp: change_selection_def split: if_splits Option.bind_splits
        intro: by_client_trans[OF upd_call_client state_callback_client])
  from st1(2) assms(2) have "n < nCalls st1" by (simp add: by_client_def)
  with st1 show ?thesis by (blast intro: by_client_trans select_field_client upd_call_client)
qed

lemma iaxc_select_call_client:
  assumes "iaxc_select_call n st = Some (r, st')"
  shows "by_client st st'"
proof -
  consider "nCalls st \<le> n" | "n < 0" | "0 \<le> n" "n < nCalls st" by linarith
  then show ?thesis
  proof cases
    case 1
    then show ?thesis using assms by (auto simp: iaxc_select_call_def usermsg_client)
  next
    case 2
    then have "\<exists>st1. by_client st st1 \<and> st' = st1\<lparr>l_selected_call := n\<rparr>"
      using assms by (cases "0 \<le> l_selected_call st")
        (auto simp: iaxc_select_call_def split: Option.bind_splits intro: upd_call_client by_client_refl)
    then obtain st1 where st1: "by_client st st1" "st' = st1\<lparr>l_selected_call := n\<rparr>" by blast
    then have "n < nCalls st1" using 2 by (simp add: by_client_def)
    with st1 show ?thesis by (blast intro: by_client_trans select_field_client)
  next
    case 3
    then show ?thesis using assms
      by (auto simp: iaxc_select_call_def split: if_splits Option.bind_splits
          intro: by_client_trans[OF change_selection_client state_callback_client]
            by_client_trans[OF change_selection_client iaxc_answer_call_client])
  qed
qed

text \<open>Between operations the library is not locked and nothing waits.\<close>

definition at_rest :: "('z, 's, 'a) lib \<Rightarrow> bool" where
  "at_rest st \<longleftrightarrow> \<not> l_iaxc_locked st \<and> l_event_queue st = []"

lemma post_all:
  "\<not> l_iaxc_locked st \<Longrightarrow> fold iaxc_post_event es st = st\<lparr>l_posted := l_posted st @ es\<rparr>"
  by (induction es arbitrary: st) (simp_all add: iaxc_post_event_def)

lemma put_lock_eq:
  "put_iaxc_lock st = st\<lparr>l_event_queue := [], l_iaxc_locked := False, l_posted := l_posted st @ l_event_queue st\<rparr>"
  by (simp add: put_iaxc_lock_def post_all)

lemma locked_section:
  assumes "at_rest st" "by_client (get_iaxc_lock st) st1"
  shows "by_client st (put_iaxc_lock st1)"
  using assms by (auto simp: at_rest_def by_client_def get_iaxc_lock_def put_lock_eq appended_def)

lemma at_rest_client: "at_rest st \<Longrightarrow> by_client st st' \<Longrightarrow> at_rest st'"
  by (auto simp: at_rest_def by_client_def appended_def)

text \<open>The allocator never hands out a live session, nor the null pointer.\<close>

definition alloc_ok :: "('z, 's, 'a) env \<Rightarrow> bool" where
  "alloc_ok env \<longleftrightarrow> (\<forall>st. en_alloc env st \<notin> insert 0 (set (ids st)))"

lemma new_session_client:
  assumes "alloc_ok env" "new_session env st = (i, st')"
  shows "by_client st st'"
proof -
  have "client_step (l_iax st) (iax_session_new (en_alloc env (l_iax st)) (en_garbage env) (l_iax st))"
    using assms(1) by (intro client_step.session) (simp add: alloc_ok_def)
  with assms(2) show ?thesis by (auto simp: new_session_def Let_def by_client_def appended_def)
qed

lemma iaxc_call_client:
  assumes "alloc_ok env" "at_rest st" "iaxc_call env num st = Some st'"
  shows "by_client st st'"
proof -
  let ?st = "get_iaxc_lock st" and ?num = "cstr num"
  obtain n where n: "call_to_use ?st = Some n"
    using assms(3) by (auto simp: iaxc_call_def Let_def split: Option.bind_splits)
  show ?thesis
  proof (cases "n < 0")
    case True
    then show ?thesis using assms n by (auto simp: iaxc_call_def Let_def intro: locked_section usermsg_client)
  next
    case False
    obtain i st1 where st1: "new_session env ?st = (i, st1)" by fastforce
    obtain st2 st3 st4 r nr name where
      "upd_call n (outgoing_call ?num i (now_of st1)) st1 = Some st2"
      "iax_do (iax_call (en_host env) i (Some nr) (Some name) (Some ?num) None False
         (l_audio_format_preferred st2) (l_audio_format_capability st2)) st2 = Some st3"
      "iaxc_select_call n st3 = Some (r, st4)" "st' = put_iaxc_lock st4"
      using assms(3) n False st1 by (auto simp: iaxc_call_def Let_def split: Option.bind_splits)
    moreover have "by_client ?st st1" using new_session_client[OF assms(1) st1] .
    ultimately have "by_client ?st st4"
      by (meson by_client_trans upd_call_client iax_do_client client_step.call iaxc_select_call_client)
    with assms(2) \<open>st' = put_iaxc_lock st4\<close> show ?thesis by (simp add: locked_section)
  qed
qed

lemma iaxc_send_busy_client: "iaxc_send_busy_on_incoming_call n st = Some st' \<Longrightarrow> by_client st st'"
  by (auto simp: iaxc_send_busy_on_incoming_call_def split: if_splits Option.bind_splits intro: iax_do_client client_step.busy)

lemma iaxc_blind_transfer_client: "iaxc_blind_transfer_call n dest st = Some st' \<Longrightarrow> by_client st st'"
  by (auto simp: iaxc_blind_transfer_call_def split: Option.bind_splits intro: iax_do_client client_step.transfer)

lemma iaxc_dump_one_call_client: "iaxc_dump_one_call n st = Some st' \<Longrightarrow> by_client st st'"
  by (auto simp: iaxc_dump_one_call_def split: if_splits Option.bind_splits
      intro: by_client_trans[OF iax_do_client by_client_trans[OF usermsg_client iaxc_clear_call_client]] client_step.hangup)

lemma dump_calls_client: "dump_calls ns st = Some st' \<Longrightarrow> by_client st st'"
  by (induction ns arbitrary: st)
    (auto split: Option.bind_splits intro: by_client_trans[OF iaxc_dump_one_call_client])

lemma iaxc_dump_all_calls_client: "at_rest st \<Longrightarrow> iaxc_dump_all_calls st = Some st' \<Longrightarrow> by_client st st'"
  by (auto simp: iaxc_dump_all_calls_def intro: locked_section dump_calls_client)

lemma iaxc_dump_call_client: "at_rest st \<Longrightarrow> iaxc_dump_call st = Some st' \<Longrightarrow> by_client st st'"
  by (auto simp: iaxc_dump_call_def split: if_splits intro: locked_section iaxc_dump_one_call_client)

lemma iaxc_reject_call_number_client:
  "at_rest st \<Longrightarrow> iaxc_reject_call_number n st = Some st' \<Longrightarrow> by_client st st'"
  by (auto simp: iaxc_reject_call_number_def split: if_splits Option.bind_splits
      intro!: locked_section by_client_trans[OF iax_do_client iaxc_clear_call_client] intro: client_step.reject)

lemma iaxc_reject_call_client: "at_rest st \<Longrightarrow> iaxc_reject_call st = Some st' \<Longrightarrow> by_client st st'"
  by (auto simp: iaxc_reject_call_def split: if_splits intro: iaxc_reject_call_number_client)

lemma send_to_selected_client:
  assumes "at_rest st" "send_to_selected f st = Some st'"
    and "\<And>i st r st'. f i st = Some (r, st') \<Longrightarrow> client_step st st'"
  shows "by_client st st'"
  using assms by (auto simp: send_to_selected_def Let_def split: if_splits Option.bind_splits
      intro!: locked_section intro: iax_do_client)

lemma iaxc_send_client:
  "at_rest st \<Longrightarrow> iaxc_send_dtmf digit st = Some st' \<Longrightarrow> by_client st st'"
  "at_rest st \<Longrightarrow> iaxc_send_text msg st = Some st' \<Longrightarrow> by_client st st'"
  "at_rest st \<Longrightarrow> iaxc_send_url url link st = Some st' \<Longrightarrow> by_client st st'"
  by (auto simp: iaxc_send_dtmf_def iaxc_send_text_def iaxc_send_url_def
      elim!: send_to_selected_client intro: client_step.intros)

lemma iaxc_quelch_client: "iaxc_quelch n moh st = Some st' \<Longrightarrow> by_client st st'"
  by (auto simp: iaxc_quelch_def split: if_splits Option.bind_splits intro: iax_do_client client_step.quelch_moh)

lemma iaxc_unquelch_client: "iaxc_unquelch n st = Some st' \<Longrightarrow> by_client st st'"
  by (auto simp: iaxc_unquelch_def split: Option.bind_splits intro: iax_do_client client_step.unquelch)

lemma registrations_client: "by_client st (st\<lparr>l_registrations := rs\<rparr>)"
  by (rule by_client_same) simp_all

lemma remove_registration_client: "by_client st (snd (iaxc_remove_registration_by_id i st))"
  by (auto simp: iaxc_remove_registration_by_id_def registrations_client split: prod.splits option.splits
      intro: by_client_trans[OF destroy_client registrations_client])

lemma iaxc_unregister_client: "at_rest st \<Longrightarrow> by_client st (snd (iaxc_unregister i st))"
  using locked_section[OF _ remove_registration_client[of "get_iaxc_lock st" i]]
  by (simp add: iaxc_unregister_def case_prod_beta)

lemma iaxc_register_client:
  assumes "alloc_ok env" "at_rest st" "iaxc_register env user pass host st = Some (r, st')"
  shows "by_client st st'"
proof -
  obtain i st1 where st1: "new_session env (get_iaxc_lock st) = (i, st1)" by fastforce
  obtain st2 x rs where st2: "iax_do (iax_register (en_host env) i host user (Some pass) 300) st1 = Some st2"
    "st' = put_iaxc_lock (st2\<lparr>l_next_registration_id := x, l_registrations := rs\<rparr>)"
    using assms(3) st1 by (auto simp: iaxc_register_def Let_def)
  have "by_client (get_iaxc_lock st) st1" using new_session_client[OF assms(1) st1] .
  also have "by_client st1 st2" using st2(1) by (rule iax_do_client) (rule client_step.register)
  also have "by_client st2 (st2\<lparr>l_next_registration_id := x, l_registrations := rs\<rparr>)"
    by (rule by_client_same) simp_all
  finally show ?thesis using locked_section[OF assms(2)] st2(2) by simp
qed

lemma refresh_registration_client:
  assumes "alloc_ok env" "refresh_registration env k st = Some st'"
  shows "by_client st st'"
proof (cases "rg_refresh (l_registrations st ! k) < iaxc_usecdiff (now_of st) (rg_last (l_registrations st ! k))")
  case False
  then show ?thesis using assms by (simp add: refresh_registration_def)
next
  case True
  let ?r = "l_registrations st ! k"
  let ?st = "if rg_session ?r \<noteq> 0 then iax_destroy_session (rg_session ?r) st else st"
  obtain i st1 where st1: "new_session env ?st = (i, st1)" by fastforce
  obtain user st2 x where st2: "iax_do (iax_register (en_host env) i (rg_host ?r) user (Some (rg_pass ?r)) 60) st1 = Some st2"
    "st' = st2\<lparr>l_registrations := x\<rparr>"
    using assms(2) st1 True by (auto simp: refresh_registration_def Let_def split: Option.bind_splits if_splits)
  have "by_client st ?st" by (simp add: destroy_client)
  also have "by_client ?st st1" using new_session_client[OF assms(1) st1] .
  also have "by_client st1 st2" using st2(1) by (rule iax_do_client) (rule client_step.register)
  also have "by_client st2 st'" using st2(2) by (simp add: registrations_client)
  finally show ?thesis .
qed

lemma refresh_loop_client: "alloc_ok env \<Longrightarrow> refresh_loop env ks st = Some st' \<Longrightarrow> by_client st st'"
  by (induction ks arbitrary: st)
    (auto split: Option.bind_splits intro: by_client_trans[OF refresh_registration_client])


section \<open>What the processing thread does\<close>

lemma send_silence_client: "send_silence n st = Some st' \<Longrightarrow> by_client st st'"
  by (auto simp: send_silence_def Let_def set_call_client split: if_splits Option.bind_splits
      intro: by_client_trans[OF set_call_client iax_do_client] client_step.cng)

lemma send_voice_client: "send_voice env n format samples st = Some st' \<Longrightarrow> by_client st st'"
  by (auto simp: send_voice_def Let_def set_call_client split: if_splits Option.bind_splits option.splits prod.splits
      intro: by_client_trans[OF set_call_client iax_do_client] client_step.voice)

lemma audio_client [client_intros]: "by_client st (st\<lparr>l_audio := au\<rparr>)"
  by (rule by_client_same) simp_all

lemma driver_client [client_intros]: "by_client st (st\<lparr>l_driver := d\<rparr>)"
  by (rule by_client_same) simp_all

lemma send_encoded_audio_client:
  "send_encoded_audio env n format samples st = Some st' \<Longrightarrow> by_client st st'"
  by (auto simp: send_encoded_audio_def Let_def split: if_splits prod.splits
      intro: by_client_trans[OF by_client_trans[OF audio_client post_levels_client] send_silence_client]
        by_client_trans[OF by_client_trans[OF audio_client post_levels_client] send_voice_client])

lemma audio_input_loop_client: "audio_input_loop rounds env st = Some st' \<Longrightarrow> by_client st st'"
proof (induction rounds arbitrary: st)
  case (Suc rounds)
  then obtain c where c: "get_call (l_selected_call st) st = Some c" by (auto split: Option.bind_splits)
  obtain got d where got: "ad_input (en_driver env) (nat (samples_to_read (l_minimum_outgoing_framesize st) (ic_encoder c))) (l_driver st) = (got, d)"
    by fastforce
  let ?st = "st\<lparr>l_driver := d\<rparr>"
  show ?case
  proof (cases "\<exists>x xs. got = Some (x # xs)")
    case True
    then obtain x xs st2 where "send_encoded_audio env (l_selected_call st) (ic_format c) (x # xs) ?st = Some st2"
      "audio_input_loop rounds env st2 = Some st'"
      using Suc(2) c got by (auto simp: Let_def split: if_splits Option.bind_splits)
    then have "by_client ?st st2" "by_client st2 st'" by (simp_all add: send_encoded_audio_client Suc(1))
    then show ?thesis by (rule by_client_trans[OF by_client_trans[OF driver_client]])
  next
    case False
    then show ?thesis using Suc(2) c got
      by (auto simp: Let_def driver_client split: if_splits option.splits list.splits
          intro: by_client_trans[OF driver_client usermsg_client])
  qed
qed simp

lemma usermsgs_client: "by_client st (fold (\<lambda>(ty, msg). iaxc_usermsg ty msg) msgs st)"
  by (induction msgs arbitrary: st) (auto intro: by_client_trans[OF usermsg_client])

lemma start_audio_client: "by_client st (start_audio env st)"
proof -
  obtain err msgs mixer d where s: "ad_start (en_driver env) (au_mixer (l_audio st)) (l_driver st) = (err, msgs, mixer, d)"
    by (metis prod_cases4)
  let ?st = "st\<lparr>l_driver := d, l_audio := (l_audio st)\<lparr>au_mixer := mixer\<rparr>\<rparr>"
  have "by_client st ?st" by (rule by_client_same) simp_all
  also have "by_client ?st (fold (\<lambda>(ty, msg). iaxc_usermsg ty msg) msgs ?st)" by (rule usermsgs_client)
  also have "by_client \<dots> (start_audio env st)" by (simp add: start_audio_def s usermsg_client Let_def)
  finally show ?thesis .
qed

lemma stop_audio_client: "by_client st (stop_audio env st)"
  by (simp add: stop_audio_def driver_client)

lemma quiet_levels_client: "by_client st (quiet_levels tick st)"
  by (simp add: quiet_levels_def levels_client)

lemma ticks_client: "by_client st (st\<lparr>l_tick_idle := i\<rparr>)" "by_client st (st\<lparr>l_tick_quiet := i\<rparr>)"
  by (rule by_client_same, simp_all)+

lemma service_audio_client: "service_audio env st = Some st' \<Longrightarrow> by_client st st'"
  by (auto simp: service_audio_def split: if_splits Option.bind_splits
      intro: by_client_trans[OF start_audio_client audio_input_loop_client]
        by_client_trans[OF by_client_trans[OF ticks_client(1) quiet_levels_client] stop_audio_client]
        by_client_trans[OF by_client_trans[OF ticks_client(2) quiet_levels_client] stop_audio_client])

lemma decode_audio_client:
  assumes "decode_audio env n bytes room st = Some (res, st')"
  shows "by_client st st'"
proof -
  let ?st = "st\<lparr>l_audio := (l_audio st)\<lparr>au_last_output := now_of st\<rparr>\<rparr>"
  have rest: "by_client st (post_levels r (set_call n c (?st\<lparr>l_audio := au\<rparr>)))" for r c au
    by (intro by_client_trans[OF by_client_trans[OF by_client_trans[OF audio_client audio_client] set_call_client] post_levels_client])
  have fail: "by_client st (set_call n c ?st)" for c
    by (rule by_client_trans[OF audio_client set_call_client])
  show ?thesis using assms rest fail
    by (auto simp: decode_audio_def Let_def audio_client split: if_splits Option.bind_splits option.splits codec_result.splits prod.splits)
qed

lemma audio_output_loop_client: "audio_output_loop rounds env n bytes room st = Some st' \<Longrightarrow> by_client st st'"
proof (induction rounds arbitrary: st bytes room)
  case (Suc rounds)
  then obtain res st1 where d: "decode_audio env n bytes room st = Some (res, st1)" by (auto split: Option.bind_splits)
  have 1: "by_client st st1" using decode_audio_client[OF d] .
  have 2: "by_client st1 (if l_audio_output_mode st1 \<noteq> 0 then st1
      else st1\<lparr>l_driver := ad_output (en_driver env) out (l_driver st1)\<rparr>)" for out
    by (simp add: driver_client)
  from Suc(2) d 1 show ?case
    by (auto simp: Let_def driver_client split: codec_result.splits if_splits
        intro: by_client_trans[OF 1 usermsg_client] by_client_trans[OF by_client_trans[OF 1 driver_client] Suc(1)]
          by_client_trans[OF 1 Suc(1)] by_client_trans[OF 1 driver_client])
qed simp

lemma handle_audio_event_client: "handle_audio_event env e n st = Some st' \<Longrightarrow> by_client st st'"
  by (auto simp: handle_audio_event_def split: if_splits intro: audio_output_loop_client)

lemma change_state_client: "change_state n f st = Some st' \<Longrightarrow> by_client st st'"
  by (auto simp: change_state_def intro: by_client_trans[OF upd_call_client state_callback_client])

lemma netstats_client: "iaxc_get_netstats n st = Some (r, st') \<Longrightarrow> by_client st st'"
proof -
  assume "iaxc_get_netstats n st = Some (r, st')"
  then have "\<exists>i. st' = st\<lparr>l_iax := snd (iax_get_netstats i (l_iax st))\<rparr>"
    by (auto simp: iaxc_get_netstats_def Let_def case_prod_beta)
  then obtain i where "st' = st\<lparr>l_iax := snd (iax_get_netstats i (l_iax st))\<rparr>" by blast
  then show ?thesis by (auto simp: by_client_def appended_def intro: client_step.netstats)
qed

lemma generate_netstat_event_client: "generate_netstat_event n st = Some st' \<Longrightarrow> by_client st st'"
  by (auto simp: generate_netstat_event_def netstats_client split: if_splits Option.bind_splits option.splits
      intro: by_client_trans[OF netstats_client post_client])

lemma on_voice_client: "on_voice env e n st = Some st' \<Longrightarrow> by_client st st'"
  by (auto simp: on_voice_def split: if_splits Option.bind_splits
      intro: handle_audio_event_client
        by_client_trans[OF handle_audio_event_client by_client_trans[OF change_state_client call_status_client]])

lemma note_activity_client: "iaxc_note_activity n st = Some st' \<Longrightarrow> by_client st st'"
  by (auto simp: iaxc_note_activity_def split: if_splits intro: upd_call_client)

lemmas handlers_client = iaxc_clear_call_client change_state_client on_voice_client
  generate_netstat_event_client upd_call_client

lemma iaxc_handle_network_event_client:
  assumes "iaxc_handle_network_event env e n st = Some st'"
  shows "by_client st st'"
proof (cases "n < 0")
  case True
  then show ?thesis using assms by (simp add: iaxc_handle_network_event_def)
next
  case False
  then obtain st1 where 1: "iaxc_note_activity n st = Some st1"
    using assms by (auto simp: iaxc_handle_network_event_def split: Option.bind_splits)
  have "by_client st1 st'"
    using assms False 1
    by (auto simp: iaxc_handle_network_event_def Let_def handle_text_event_def handle_url_event_def
        usermsg_client post_client split: if_splits Option.bind_splits
        intro: handlers_client by_client_trans[OF usermsg_client iaxc_clear_call_client]
          by_client_trans[OF upd_call_client call_status_client] by_client_trans[OF change_state_client call_status_client]
          by_client_trans[OF iax_do_client by_client_trans[OF call_status_client iaxc_clear_call_client]] client_step.hangup)
  with note_activity_client[OF 1] show ?thesis by (rule by_client_trans)
qed


lemma iaxc_handle_regreply_client: "by_client st (iaxc_handle_regreply e reg st)"
proof -
  let ?a = "iaxc_do_registration_callback (rg_id reg) (ev_etype e) (ies_msgcount (ev_ies e)) st"
  let ?b = "iax_destroy_session (rg_session reg) ?a"
  let ?c = "?b\<lparr>l_registrations := update_registration (rg_session reg) (\<lambda>r. r\<lparr>rg_session := 0\<rparr>) (l_registrations ?b)\<rparr>"
  have "by_client st ?a" by (simp add: iaxc_do_registration_callback_def post_client)
  also have "by_client ?a ?b" by (rule destroy_client)
  also have "by_client ?b ?c" by (rule registrations_client)
  also have "by_client ?c (iaxc_handle_regreply e reg st)"
    by (simp add: iaxc_handle_regreply_def Let_def remove_registration_client)
  finally show ?thesis .
qed

lemma on_connect_client: "on_connect e st = Some st' \<Longrightarrow> by_client st st'"
  by (auto simp: on_connect_def Let_def split: if_splits Option.bind_splits
      intro: by_client_trans[OF usermsg_client by_client_trans[OF iax_do_client iax_do_client]] iax_do_client
        by_client_trans[OF by_client_trans[OF upd_call_client usermsg_client] by_client_trans[OF iax_do_client
          by_client_trans[OF iax_do_client by_client_trans[OF state_callback_client usermsg_client]]]]
        client_step.accept client_step.busy client_step.reject client_step.ring)

lemma dispatch_event_client: "dispatch_event env e st = Some st' \<Longrightarrow> by_client st st'"
  by (auto simp: dispatch_event_def Let_def usermsg_client split: if_splits option.splits
      intro: iaxc_handle_network_event_client iaxc_handle_regreply_client on_connect_client)

lemma next_event_client:
  assumes "alloc_ok env" "next_event env st = Some (e, st')"
  shows "by_client st st'"
proof -
  obtain iax q where g: "st' = st\<lparr>l_iax := iax, l_socket := q\<rparr>"
    "iax_get_event (en_fuel env) (en_alloc env (l_iax st)) (en_garbage env) (en_stale env)
       (case l_socket st of [] \<Rightarrow> None | d # _ \<Rightarrow> Some d) (l_iax st) = Some (e, iax)"
    using assms(2) by (auto simp: next_event_def)
  have "client_step (l_iax st) iax"
    using assms(1) by (intro client_step.event[OF _ g(2)]) (simp add: alloc_ok_def)
  with g(1) show ?thesis by (auto simp: by_client_def appended_def)
qed

lemma service_network_client:
  "alloc_ok env \<Longrightarrow> iaxc_service_network rounds env st = Some st' \<Longrightarrow> by_client st st'"
proof (induction rounds arbitrary: st)
  case (Suc rounds)
  then obtain e st1 where 1: "next_event env st = Some (e, st1)" by (auto split: Option.bind_splits)
  note st1 = next_event_client[OF Suc(2) 1]
  show ?case
  proof (cases e)
    case None
    then show ?thesis using Suc(3) 1 st1 by simp
  next
    case (Some ev)
    then obtain st2 where st2: "dispatch_event env ev st1 = Some st2"
      "iaxc_service_network rounds env (st2\<lparr>l_iax := iax_event_free ev (l_iax st2)\<rparr>) = Some st'"
      using Suc(3) 1 by (auto split: Option.bind_splits)
    have "by_client st1 st2" using dispatch_event_client[OF st2(1)] .
    also have "by_client st2 (st2\<lparr>l_iax := iax_event_free ev (l_iax st2)\<rparr>)"
      by (auto simp: by_client_def appended_def intro: client_step.event_free)
    also have "by_client (st2\<lparr>l_iax := iax_event_free ev (l_iax st2)\<rparr>) st'" using Suc(1)[OF Suc(2) st2(2)] .
    finally show ?thesis using st1 by (rule by_client_trans[rotated])
  qed
qed simp

lemma iaxc_process_calls_client:
  assumes "alloc_ok env" "at_rest st" "iaxc_process_calls env st = Some st'"
  shows "by_client st st'"
proof -
  obtain st1 st2 st3 where s: "iaxc_service_network (en_fuel env) env (get_iaxc_lock st) = Some st1"
    "service_audio env st1 = Some st2" "iaxc_refresh_registrations env st2 = Some st3" "st' = put_iaxc_lock st3"
    using assms(3) by (auto simp: iaxc_process_calls_def split: Option.bind_splits)
  have "by_client (get_iaxc_lock st) st1" using service_network_client[OF assms(1) s(1)] .
  also have "by_client st1 st2" using service_audio_client[OF s(2)] .
  also have "by_client st2 st3" using s(3) refresh_loop_client[OF assms(1)] by (simp add: iaxc_refresh_registrations_def)
  finally show ?thesis using locked_section[OF assms(2)] s(4) by simp
qed

section \<open>The state machine of the library\<close>

text \<open>
  What can happen to the library at rest: a turn of the processing thread, a call of the application, or
  something outside, when time passes, datagrams arrive and the device works.
\<close>

inductive lib_step :: "('z, 's, 'a) env \<Rightarrow> ('z, 's, 'a) lib \<Rightarrow> ('z, 's, 'a) lib \<Rightarrow> bool" for env where
  outside: "lib_step env st (st\<lparr>l_iax := (l_iax st)\<lparr>st_now := t, st_sendto := f\<rparr>, l_socket := q, l_driver := d\<rparr>)"
| process: "iaxc_process_calls env st = Some st' \<Longrightarrow> lib_step env st st'"
| call: "iaxc_call env num st = Some st' \<Longrightarrow> lib_step env st st'"
| answer: "iaxc_answer_call n st = Some st' \<Longrightarrow> lib_step env st st'"
| select: "iaxc_select_call n st = Some (r, st') \<Longrightarrow> lib_step env st st'"
| busy: "iaxc_send_busy_on_incoming_call n st = Some st' \<Longrightarrow> lib_step env st st'"
| transfer: "iaxc_blind_transfer_call n dest st = Some st' \<Longrightarrow> lib_step env st st'"
| dump_all: "iaxc_dump_all_calls st = Some st' \<Longrightarrow> lib_step env st st'"
| dump: "iaxc_dump_call st = Some st' \<Longrightarrow> lib_step env st st'"
| reject: "iaxc_reject_call st = Some st' \<Longrightarrow> lib_step env st st'"
| reject_number: "iaxc_reject_call_number n st = Some st' \<Longrightarrow> lib_step env st st'"
| dtmf: "iaxc_send_dtmf digit st = Some st' \<Longrightarrow> lib_step env st st'"
| send_text: "iaxc_send_text msg st = Some st' \<Longrightarrow> lib_step env st st'"
| url: "iaxc_send_url url link st = Some st' \<Longrightarrow> lib_step env st st'"
| quelch: "iaxc_quelch n moh st = Some st' \<Longrightarrow> lib_step env st st'"
| unquelch: "iaxc_unquelch n st = Some st' \<Longrightarrow> lib_step env st st'"
| netstats: "iaxc_get_netstats n st = Some (r, st') \<Longrightarrow> lib_step env st st'"
| register: "iaxc_register env user pass host st = Some (r, st') \<Longrightarrow> lib_step env st st'"
| unregister: "lib_step env st (snd (iaxc_unregister i st))"
| callerid: "lib_step env st (iaxc_set_callerid name nr st)"
| formats: "lib_step env st (iaxc_set_formats preferred allowed st)"
| framesize: "lib_step env st (iaxc_set_min_outgoing_framesize samples st)"
| audio_output: "lib_step env st (iaxc_set_audio_output mode st)"
| audio: "lib_step env st (st\<lparr>l_audio := au\<rparr>)"

inductive lib_reachable :: "('z, 's, 'a) env \<Rightarrow> int \<Rightarrow> ('z, 's, 'a) lib \<Rightarrow> bool" for env n where
  init: "st_sched (l_iax st) = [] \<Longrightarrow> st_sessions (l_iax st) = [] \<Longrightarrow> at_rest st \<Longrightarrow> l_posted st = [] \<Longrightarrow>
           lib_reachable env n (iaxc_initialize n st)"
| step: "lib_reachable env n st \<Longrightarrow> lib_step env st st' \<Longrightarrow> lib_reachable env n st'"

lemma outside_client:
  "by_client st (st\<lparr>l_iax := (l_iax st)\<lparr>st_now := t, st_sendto := f\<rparr>, l_socket := q, l_driver := d\<rparr>)"
  by (auto simp: by_client_def appended_def intro: client_step.time)

lemma settings_client:
  "by_client st (iaxc_set_callerid name nr st)" "by_client st (iaxc_set_formats preferred allowed st)"
  "by_client st (iaxc_set_min_outgoing_framesize samples st)" "by_client st (iaxc_set_audio_output mode st)"
  by (rule by_client_same, simp_all add: iaxc_set_callerid_def iaxc_set_formats_def
      iaxc_set_min_outgoing_framesize_def iaxc_set_audio_output_def)+

lemma lib_step_client: "alloc_ok env \<Longrightarrow> at_rest st \<Longrightarrow> lib_step env st st' \<Longrightarrow> by_client st st'"
  by (erule lib_step.cases)
    (simp_all add: outside_client settings_client audio_client iaxc_unregister_client iaxc_process_calls_client
      iaxc_call_client iaxc_answer_call_client iaxc_select_call_client iaxc_send_busy_client iaxc_blind_transfer_client
      iaxc_dump_all_calls_client iaxc_dump_call_client iaxc_reject_call_client iaxc_reject_call_number_client
      iaxc_send_client iaxc_quelch_client iaxc_unquelch_client netstats_client iaxc_register_client)

lemma reachable_steps: "client_step\<^sup>*\<^sup>* a b \<Longrightarrow> reachable a \<Longrightarrow> reachable b"
  by (induction rule: rtranclp_induct) (auto intro: reachable.step)

lemma lib_reachable_inv:
  "lib_reachable env n st \<Longrightarrow> alloc_ok env \<Longrightarrow>
     reachable (l_iax st) \<and> at_rest st \<and> nCalls st = max 1 n \<and> l_selected_call st < nCalls st"
proof (induction rule: lib_reachable.induct)
  case (init st)
  then show ?case by (auto simp: iaxc_initialize_def at_rest_def intro!: reachable.init)
next
  case (step st st')
  then have "by_client st st'" by (blast intro: lib_step_client)
  with step show ?case
    by (auto simp: by_client_def at_rest_def appended_def dest: reachable_steps)
qed

text \<open>
  C3. The calls above, the sessions below: every operation of \<open>iaxclient\<close>, and every turn of its thread,
  is a sequence of steps of a client of \<open>libiax2\<close>, so that in each state the library can reach all that is
  known of reachable states of \<open>libiax2\<close> holds; the selected call is one of the table, no event waits
  and the lock is free.
\<close>

theorem iaxclient_refines_client:
  assumes "\<forall>s. en_alloc env s \<notin> insert 0 (set (map s_id (st_sessions s)))" "lib_reachable env n st"
  shows "reachable (l_iax st) \<and> l_selected_call st < nCalls st \<and> nCalls st = max 1 n \<and>
     \<not> l_iaxc_locked st \<and> l_event_queue st = []"
  using lib_reachable_inv[OF assms(2)] assms(1) by (simp add: alloc_ok_def ids_def at_rest_def)

definition demo_env :: "('z, 's, 'a) env \<Rightarrow> ('z, 's, 'a) env" where
  "demo_env env = env\<lparr>en_alloc := \<lambda>s. Suc (sum_list (map s_id (st_sessions s))), en_host := \<lambda>_. None, en_fuel := 5\<rparr>"

definition demo_lib :: "('z, 's, 'a) lib \<Rightarrow> ('z, 's, 'a) lib" where
  "demo_lib lib = iaxc_initialize 3 (lib\<lparr>l_iax := idle, l_socket := [], l_iaxc_locked := False, l_event_queue := [],
     l_posted := [], l_registrations := [], l_tick_quiet := 0\<rparr>)"

lemma in_le_sum: "i \<in> set xs \<Longrightarrow> i \<le> sum_list xs" for i :: nat
  by (induction xs) auto

lemma demo_alloc: "en_alloc (demo_env env) s \<notin> insert 0 (set (map s_id (st_sessions s)))"
  using in_le_sum[of _ "map s_id (st_sessions s)"] by (fastforce simp: demo_env_def)

lemma demo_reachable: "lib_reachable (demo_env env) 3 (demo_lib lib)"
  unfolding demo_lib_def by (rule lib_reachable.init) (simp_all add: idle_def at_rest_def)

lemma demo_register:
  "\<exists>st. iaxc_register (demo_env env) (bytes_of ''ann'') (bytes_of ''pw'') (bytes_of ''fgcom'') (demo_lib lib) =
     Some (l_next_registration_id lib + 1, st) \<and> map rg_session (l_registrations st) = [1]"
  by (simp add: iaxc_register_def demo_lib_def demo_env_def iaxc_initialize_def get_iaxc_lock_def put_lock_eq new_session_def
      Let_def iax_do_def iax_register_def iax_session_new_def new_session_record_def idle_def set_session_def find_id_def)

lemma iaxclient_refines_client_witness:
  "\<forall>env lib. \<exists>st. lib_reachable (demo_env env) 3 st \<and> map rg_session (l_registrations st) = [1] \<and>
     reachable (l_iax st) \<and> nCalls st = 3 \<and> l_event_queue (st :: ('z, 's, 'a) lib) = []"
proof (intro allI)
  fix env :: "('z, 's, 'a) env" and lib :: "('z, 's, 'a) lib"
  obtain st where st: "iaxc_register (demo_env env) (bytes_of ''ann'') (bytes_of ''pw'') (bytes_of ''fgcom'') (demo_lib lib) =
     Some (l_next_registration_id lib + 1, st)" "map rg_session (l_registrations st) = [1]"
    using demo_register[of env lib] by auto
  have alloc: "\<forall>s. en_alloc (demo_env env) s \<notin> insert 0 (set (map s_id (st_sessions s)))"
    by (rule allI) (rule demo_alloc)
  have r: "lib_reachable (demo_env env) 3 st"
    by (rule lib_reachable.step[OF demo_reachable lib_step.register[OF st(1)]])
  show "\<exists>st. lib_reachable (demo_env env) 3 st \<and> map rg_session (l_registrations st) = [1] \<and>
     reachable (l_iax st) \<and> nCalls st = 3 \<and> l_event_queue st = []"
    using iaxclient_refines_client[OF alloc r] st(2) r by (intro exI[of _ st]) simp
qed

text \<open>
  C6. The application hears of events in the order they were posted, and never while the library is
  locked: a turn of the thread hands its events on at the end, behind all that went before.
\<close>

theorem events_after_unlock:
  assumes "\<forall>s. en_alloc env s \<notin> insert 0 (set (map s_id (st_sessions s)))" "lib_reachable env n st"
    "iaxc_service_network (en_fuel env) env (get_iaxc_lock st) = Some st1"
    "service_audio env st1 = Some st2" "iaxc_refresh_registrations env st2 = Some st3"
  shows "l_posted st3 = l_posted st \<and>
     iaxc_process_calls env st = Some (st3\<lparr>l_event_queue := [], l_iaxc_locked := False,
       l_posted := l_posted st @ l_event_queue st3\<rparr>) \<and>
     (\<exists>es1 es2. l_event_queue st1 = es1 \<and> l_event_queue st2 = es1 @ es2 \<and> prefix (es1 @ es2) (l_event_queue st3))"
proof -
  have alloc: "alloc_ok env" using assms(1) by (simp add: alloc_ok_def ids_def)
  have rest: "at_rest st" using lib_reachable_inv[OF assms(2) alloc] by simp
  have s: "by_client (get_iaxc_lock st) st1" "by_client st1 st2" "by_client st2 st3"
    using service_network_client[OF alloc assms(3)] service_audio_client[OF assms(4)]
      refresh_loop_client[OF alloc] assms(5) by (simp_all add: iaxc_refresh_registrations_def)
  then have "l_posted st3 = l_posted st"
    by (auto simp: by_client_def appended_def get_iaxc_lock_def split: if_splits)
  moreover from s have "\<exists>es1 es2 es3. l_event_queue st1 = es1 \<and> l_event_queue st2 = es1 @ es2 \<and>
      l_event_queue st3 = (es1 @ es2) @ es3"
    by (auto simp: by_client_def appended_def get_iaxc_lock_def)
  ultimately show ?thesis
    using assms(3-5) by (auto simp: iaxc_process_calls_def put_lock_eq prefix_def)
qed

text \<open>An idle library hands on that it is quiet, after the lock is free.\<close>

lemma demo_turn:
  fixes env :: "('z, 's, 'a) env" and lib :: "('z, 's, 'a) lib"
  defines "e \<equiv> demo_env env" and "st0 \<equiv> demo_lib lib"
  defines "st1 \<equiv> get_iaxc_lock st0"
  defines "st2 \<equiv> st1\<lparr>l_tick_quiet := 1, l_event_queue := [Levels_ev (Some (- 99)) (Some (- 99))],
     l_driver := ad_stop (en_driver env) (l_driver lib)\<rparr>"
  shows "iaxc_service_network (en_fuel e) e st1 = Some st1" "service_audio e st1 = Some st2"
    "iaxc_refresh_registrations e st2 = Some st2"
proof -
  have get: "iax_get_event (Suc n) x g y None idle = Some (None, idle)" for n x g y
    by (simp add: iax_get_event_def idle_def Let_def iax_net_read_def handle_event_def)
  show "iaxc_service_network (en_fuel e) e st1 = Some st1"
    by (simp add: e_def st1_def st0_def demo_lib_def demo_env_def get_iaxc_lock_def iaxc_initialize_def next_event_def get numeral_eq_Suc)
  show "service_audio e st1 = Some st2"
    by (simp add: e_def st2_def st1_def st0_def demo_lib_def demo_env_def get_iaxc_lock_def iaxc_initialize_def service_audio_def
        get_call_def new_call_def stop_audio_def quiet_levels_def iaxc_do_levels_callback_def iaxc_post_event_def)
  show "iaxc_refresh_registrations e st2 = Some st2"
    by (simp add: iaxc_refresh_registrations_def st2_def st1_def st0_def demo_lib_def iaxc_initialize_def get_iaxc_lock_def)
qed

lemma events_after_unlock_witness:
  "\<forall>env lib. \<exists>st. iaxc_process_calls (demo_env env) (demo_lib (lib :: ('z, 's, 'a) lib)) = Some st \<and>
     l_posted st = [Levels_ev (Some (- 99)) (Some (- 99))] \<and> \<not> l_iaxc_locked st"
proof (intro allI)
  fix env :: "('z, 's, 'a) env" and lib :: "('z, 's, 'a) lib"
  have alloc: "\<forall>s. en_alloc (demo_env env) s \<notin> insert 0 (set (map s_id (st_sessions s)))"
    by (rule allI) (rule demo_alloc)
  have posted: "l_posted (demo_lib lib) = []" by (simp add: demo_lib_def iaxc_initialize_def)
  show "\<exists>st. iaxc_process_calls (demo_env env) (demo_lib lib) = Some st \<and>
     l_posted st = [Levels_ev (Some (- 99)) (Some (- 99))] \<and> \<not> l_iaxc_locked st"
    using events_after_unlock[OF alloc demo_reachable demo_turn, of lib] posted by simp
qed

end
