(* ===== verification/Fgcom_Phone.thy ===== *)
theory Fgcom_Phone
  imports Fgcom_Client Iaxc_Calls_Props Iax_Call_Props Iax_Ies_Props
begin

text \<open>
  FGCom on its telephone: the commands of the client (\<open>src/src/fgcom.cpp\<close>) carried out by \<open>iaxclient\<close>, and
  the events of \<open>iaxclient\<close> as the callback of FGCom gets them. A call made for a channel reaches the
  server as a NEW with the number of the room.
\<close>

section \<open>The message of a call\<close>

lemma ie_message_holds:
  "list_all2 (\<lambda>f e. f = (\<lambda>ied. iax_ie_append_raw ied (fst e) (snd e))) fs es \<Longrightarrow> holds ied es0 \<Longrightarrow>
   length (enc (es0 @ es)) \<le> 1024 \<Longrightarrow> ie_message fs ied = Some (enc (es0 @ es))"
proof (induction fs es arbitrary: ied es0 rule: list_all2_induct)
  case Nil
  then show ?case by (metis append_Nil2 holds_def ie_message.simps(1))
next
  case (Cons f fs e es)
  obtain ied1 where 1: "iax_ie_append_raw ied (fst e) (snd e) = Some (0, ied1)" "holds ied1 (es0 @ [e])"
    using append_raw_holds[OF Cons.prems(1), of "fst e" "snd e"] Cons.prems(2) by auto
  from Cons.IH[OF 1(2)] Cons.prems(2) 1(1) Cons.hyps(1) show ?case by simp
qed

lemma ie_message_enc:
  assumes "list_all2 (\<lambda>f e. f = (\<lambda>ied. iax_ie_append_raw ied (fst e) (snd e))) fs es" "length (enc es) \<le> 1024"
  shows "ie_message fs ied_empty = Some (enc es)"
  using ie_message_holds[OF assms(1) holds_empty] assms(2) by simp

lemma ie_steps:
  "0 \<notin> set v \<Longrightarrow> ie_str ie v = (\<lambda>ied. iax_ie_append_raw ied (fst (ie, v)) (snd (ie, v)))"
  "ie_short ie x = (\<lambda>ied. iax_ie_append_raw ied (fst (ie, be16 x)) (snd (ie, be16 x)))"
  "ie_int ie y = (\<lambda>ied. iax_ie_append_raw ied (fst (ie, be32 y)) (snd (ie, be32 y)))"
proof -
  have "0 \<notin> set v \<Longrightarrow> cstr v = v" by (auto simp: cstr_def takeWhile_eq_all_conv)
  then show "0 \<notin> set v \<Longrightarrow> ie_str ie v = (\<lambda>ied. iax_ie_append_raw ied (fst (ie, v)) (snd (ie, v)))"
    by (simp add: ie_str_def iax_ie_append_str_def)
qed (simp_all add: ie_short_def ie_int_def iax_ie_append_short_def iax_ie_append_int_def)

section \<open>The first message of a session\<close>

lemma find_upd:
  "find_id i st = Some s \<Longrightarrow> s_id (f s) = i \<Longrightarrow> find_id i (upd_session i f st) = Some (f s)"
proof -
  have "find (\<lambda>s. s_id s = i) ss = Some s \<Longrightarrow> s_id (f s) = i \<Longrightarrow>
      find (\<lambda>s. s_id s = i) (map (\<lambda>s. if s_id s = i then f s else s) ss) = Some (f s)" for ss
    by (induction ss) (auto split: if_splits)
  then show "find_id i st = Some s \<Longrightarrow> s_id (f s) = i \<Longrightarrow> find_id i (upd_session i f st) = Some (f s)"
    by (simp add: find_id_def upd_session_def)
qed

lemma find_same [simp]:
  "find_id i (st\<lparr>st_sched := q\<rparr>) = find_id i st" "find_id i (st\<lparr>st_wire := w\<rparr>) = find_id i st"
  by (simp_all add: find_id_def)

lemma ms_between_same [simp]: "ms_between t t = 0"
  by (simp add: ms_between_def)

lemma first_timestamp:
  assumes "s_offset s = Timeval 0 0" "s_lastsent s = 0" "af_frametype f = AST_FRAME_IAX"
  shows "calc_timestamp now 0 (Some f) s = Some (3, s\<lparr>s_offset := now\<rparr>)"
  using assms by (simp add: calc_timestamp_def data_ts_def int_of_long_def AST_FRAME_IAX_def AST_FRAME_VOICE_def Let_def)

lemma first_send:
  assumes "find_id i st = Some s" "s_offset s = Timeval 0 0" "s_lastsent s = 0"
  shows "\<exists>r st' hdr. send_command i AST_FRAME_IAX 1 0 m (- 1) st = Some (r, st') \<and>
     st_wire st' = st_wire st @ [(s_peeraddr s, hdr @ m)] \<and> length hdr = 12 \<and> hdr ! 10 = 6 \<and> hdr ! 11 = 1"
proof -
  let ?f = "\<lparr>af_frametype = AST_FRAME_IAX, af_subclass = 1, af_samples = 0, af_data = m\<rparr>"
  let ?s = "s\<lparr>s_offset := st_now st\<rparr>"
  have id: "s_id s = i" using find_id_SomeD[OF assms(1)] by simp
  have c: "calc_timestamp (st_now st) 0 (Some ?f) s = Some (3, ?s)"
    using assms(2,3) by (intro first_timestamp) simp_all
  obtain fr s2 where ff: "full_frame i ?f 3 (- 1) False False ?s = (fr, s2)" by fastforce
  have fr: "fr_session fr = i" "fr_transfer fr = False" "s_id s2 = i" "s_peeraddr s2 = s_peeraddr s"
    using ff id by (auto simp: full_frame_def Let_def AST_FRAME_IAX_def AST_FRAME_VOICE_def)
  have data: "fr_data fr = full_bytes (of_int (s_callno s)) (of_int (s_peercallno s)) 3 (s_oseqno s) (s_iseqno s) 6 (compress_subclass 1) m"
    using ff by (auto simp: full_frame_def Let_def AST_FRAME_IAX_def AST_FRAME_VOICE_def)
  have "compress_subclass 1 = 1" by code_simp
  with data obtain hdr where hdr: "fr_data fr = hdr @ m" "length hdr = 12" "hdr ! 10 = 6" "hdr ! 11 = 1"
    by (auto simp: full_bytes_def be16_def be32_def intro: that[of "be16 (of_int (s_callno s) OR 0x8000) @
        be16 (of_int (s_peercallno s)) @ be32 3 @ [s_oseqno s, s_iseqno s, 6, 1]"])
  have x: "\<exists>r st'. iax_reliable_xmit fr (upd_session i (\<lambda>_. s2) st) = Some (r, st') \<and>
      st_wire st' = st_wire st @ [(s_peeraddr s, fr_data fr)]"
    using find_upd[OF assms(1), of "\<lambda>_. s2"] fr hdr
    by (auto simp: iax_reliable_xmit_def iax_xmit_frame_def nth_append upd_session_def)
  show ?thesis using x hdr assms(1) c ff
    by (auto simp: send_command_def send_command_gen_def iax_send_def send_mini_def AST_FRAME_IAX_def AST_FRAME_VOICE_def Let_def)
qed


text \<open>The elements of the NEW: version, number and name of the caller, formats, user, and the number called.\<close>

definition new_elements :: "u8 list \<Rightarrow> u8 list \<Rightarrow> u32 \<Rightarrow> u32 \<Rightarrow> u8 list \<Rightarrow> u8 list \<Rightarrow> element list" where
  "new_elements nr name formats caps user num =
     [(IAX_IE_VERSION, be16 2), (IAX_IE_CALLING_NUMBER, nr), (IAX_IE_CALLING_NAME, name),
      (IAX_IE_FORMAT, be32 formats), (IAX_IE_CAPABILITY, be32 caps), (IAX_IE_USERNAME, user),
      (IAX_IE_CALLED_NUMBER, num), (IAX_IE_DNID, num)]"

lemma new_message:
  assumes "0 \<notin> set nr" "0 \<notin> set name" "0 \<notin> set user" "0 \<notin> set num"
    "length nr + length name + length user + 2 * length num \<le> 998"
  shows "ie_message
     ([ie_short IAX_IE_VERSION 2] @ opt_ie IAX_IE_CALLING_NUMBER (Some nr) @ opt_ie IAX_IE_CALLING_NAME (Some name) @ [] @
      [ie_int IAX_IE_FORMAT formats, ie_int IAX_IE_CAPABILITY caps] @ opt_ie IAX_IE_LANGUAGE None @
      opt_ie IAX_IE_USERNAME (Some user) @ opt_ie IAX_IE_CALLED_NUMBER (Some num) @ opt_ie IAX_IE_DNID (Some num) @
      opt_ie IAX_IE_CALLED_CONTEXT None) ied_empty =
     Some (enc (new_elements nr name formats caps user num))"
  by (rule ie_message_enc) (use assms in \<open>simp_all add: new_elements_def opt_ie_def ie_steps(1)[OF assms(1)]
      ie_steps(1)[OF assms(2)] ie_steps(1)[OF assms(3)] ie_steps(1)[OF assms(4)] ie_steps(2,3)\<close>)

lemma iax_call_sends:
  assumes "find_id i st = Some s" "s_offset s = Timeval 0 0" "s_lastsent s = 0" "s_codec_order s = []"
    and "parse_call_handle (take 255 (cstr h)) = Some c"
    and "ch_username c = Some user" "ch_exten c = Some num" "ch_context c = None"
    and "0 \<notin> set nr" "0 \<notin> set name" "0 \<notin> set user" "0 \<notin> set num"
    and "length nr + length name + length user + 2 * length num \<le> 998"
    and "host (ch_hostname c) = Some addr" "4 \<le> length addr"
  shows "\<exists>r st' hdr peer. iax_call host i (Some nr) (Some name) (Some h) None False formats caps st = Some (r, st') \<and>
     st_wire st' = st_wire st @ [(peer, hdr @ enc (new_elements nr name formats caps user num))] \<and>
     length hdr = 12 \<and> hdr ! 10 = 6 \<and> hdr ! 11 = 1 \<and>
     sin_addr peer = take 4 addr \<and> sin_port peer = be16 (of_int (ch_portno c))"
proof -
  obtain pid q where a: "iax_sched_add True (st_now st) None None (Some i) 2000 (st_sched st) = (pid, q)" by fastforce
  define f1 :: "iax_session \<Rightarrow> iax_session" where "f1 = (\<lambda>s. s\<lparr>s_capability := caps, s_pingid := pid\<rparr>)"
  define f2 :: "iax_session \<Rightarrow> iax_session" where "f2 = (\<lambda>s. s\<lparr>s_username := (case ch_username c of Some u \<Rightarrow> take 79 u | None \<Rightarrow> s_username s),
                            s_secret := (case ch_secret c of Some x \<Rightarrow> take 79 x | None \<Rightarrow> s_secret s)\<rparr>)"
  define f3 :: "iax_session \<Rightarrow> iax_session" where "f3 = set_peer addr (ch_portno c)"
  let ?st = "upd_session i f3 (upd_session i f2 (upd_session i f1 (st\<lparr>st_sched := q\<rparr>)))"
  let ?m = "enc (new_elements nr name formats caps user num)"
  have id: "s_id s = i" using find_id_SomeD[OF assms(1)] by simp
  have keep: "s_id (f1 x) = s_id x" "s_id (f2 x) = s_id x" "s_id (f3 x) = s_id x" for x :: iax_session
    by (simp_all add: f1_def f2_def f3_def set_peer_def)
  have f: "find_id i ?st = Some (f3 (f2 (f1 s)))"
    by (intro find_upd) (simp_all add: assms(1) id keep)
  have fresh: "s_offset (f3 (f2 (f1 s))) = Timeval 0 0" "s_lastsent (f3 (f2 (f1 s))) = 0"
    "s_peeraddr (f3 (f2 (f1 s))) = sin_make (be16 (of_int (ch_portno c))) (take 4 addr) (s_peeraddr s)"
    using assms(2,3) by (simp_all add: f1_def f2_def f3_def set_peer_def)
  obtain r st' hdr where send: "send_command i AST_FRAME_IAX 1 0 ?m (- 1) ?st = Some (r, st')"
    "st_wire st' = st_wire ?st @ [(s_peeraddr (f3 (f2 (f1 s))), hdr @ ?m)]" "length hdr = 12" "hdr ! 10 = 6" "hdr ! 11 = 1"
    using first_send[OF f fresh(1,2), of ?m] by blast
  have m: "ie_message
     ([ie_short IAX_IE_VERSION 2] @ opt_ie IAX_IE_CALLING_NUMBER (Some nr) @ opt_ie IAX_IE_CALLING_NAME (Some name) @
      (if s_codec_order s \<noteq> [] then [ie_str IAX_IE_CODEC_PREFS (s_codec_order s)] else []) @
      [ie_int IAX_IE_FORMAT formats, ie_int IAX_IE_CAPABILITY caps] @ opt_ie IAX_IE_LANGUAGE None @
      opt_ie IAX_IE_USERNAME (ch_username c) @ opt_ie IAX_IE_CALLED_NUMBER (ch_exten c) @ opt_ie IAX_IE_DNID (ch_exten c) @
      opt_ie IAX_IE_CALLED_CONTEXT (ch_context c)) ied_empty = Some ?m"
    using new_message[OF assms(9-13), of formats caps] assms(4,6-8) by (simp only: if_False simp_thms)
  have wire: "st_wire ?st = st_wire st" by (simp add: upd_session_def)
  have peer: "sin_addr (s_peeraddr (f3 (f2 (f1 s)))) = take 4 addr"
    "sin_port (s_peeraddr (f3 (f2 (f1 s)))) = be16 (of_int (ch_portno c))"
    using fresh(3) assms(15) by (simp_all add: sin_addr_def sin_port_def sin_make_def be16_def)
  have "iax_call host i (Some nr) (Some name) (Some h) None False formats caps st = Some (if r < 0 then r else r, st')"
    unfolding iax_call_def
    by (simp only: option.case assms(1) Option.bind.simps a prod.case Let_def assms(5) m assms(14)
        f1_def[symmetric] f2_def[symmetric] f3_def[symmetric] send(1) if_False simp_thms)
  with send wire peer show ?thesis by auto
qed

section \<open>What FGCom says and hears\<close>

text \<open>The bytes of a C string of the library, as text.\<close>

definition text_of :: "u8 list \<Rightarrow> string" where
  "text_of s = map (\<lambda>b. char_of (unat b)) s"

definition netstat_words :: "iax_netstat \<Rightarrow> int list" where
  "netstat_words s = map sint [ns_jitter s, ns_losspct s, ns_losscnt s, ns_packets s, ns_delay s, ns_dropped s, ns_ooo s]"

text \<open>
  An event of the library as the structure the callback is given. A level that is not a number has no
  counterpart: \<open>None\<close>. URLs are of the type 5.
\<close>

definition fgcom_event :: "iaxc_ev \<Rightarrow> Fgcom_Client.iaxc_event option" where
  "fgcom_event e =
     (case e of
        Text_ev ty n msg \<Rightarrow> Some (Ev_text ty (text_of msg))
      | Levels_ev (Some i) (Some out) \<Rightarrow> Some (Ev_levels i out)
      | Levels_ev _ _ \<Rightarrow> None
      | State_ev n s f r rn l lc \<Rightarrow> Some (Ev_state s (text_of r) (text_of rn) (text_of l) (text_of lc))
      | Netstat_ev n rtt here there \<Rightarrow> Some (Ev_netstat (n # rtt # netstat_words here @ netstat_words there))
      | Url_ev n ty url ended \<Rightarrow> Some (Ev_other 5)
      | Registration_ev i reply msgs \<Rightarrow> Some (Ev_registration i reply msgs))"

text \<open>The callback for each event handed on, in their order. One without a counterpart is only printed.\<close>

fun hear :: "iaxc_ev list \<Rightarrow> client \<Rightarrow> client" where
  "hear [] cl = cl"
| "hear (e # es) cl = hear es (case fgcom_event e of None \<Rightarrow> cl | Some e \<Rightarrow> snd (iaxc_callback e cl))"

section \<open>A call reaches the server\<close>

lemma iaxc_call_sends:
  assumes "get_call (l_selected_call lib) lib = Some c" "ic_state c AND IAXC_CALL_STATE_ACTIVE = 0"
    and "0 \<notin> set h" "length h \<le> 255" "parse_call_handle h = Some ch"
    and "ch_username ch = Some user" "ch_exten ch = Some num" "ch_context ch = None"
    and "0 \<notin> set (ic_callerid_number c)" "0 \<notin> set (ic_callerid_name c)" "0 \<notin> set user" "0 \<notin> set num"
    and "length (ic_callerid_number c) < 256" "length (ic_callerid_name c) < 256"
    and "length user + 2 * length num \<le> 488"
    and "en_host env (ch_hostname ch) = Some addr" "4 \<le> length addr"
  shows "\<exists>lib' hdr peer. iaxc_call env h lib = Some lib' \<and>
     st_wire (l_iax lib') = st_wire (l_iax lib) @ [(peer, hdr @ enc (new_elements (ic_callerid_number c) (ic_callerid_name c)
       (l_audio_format_preferred lib) (l_audio_format_capability lib) user num))] \<and>
     length hdr = 12 \<and> hdr ! 10 = 6 \<and> hdr ! 11 = 1 \<and>
     sin_addr peer = take 4 addr \<and> sin_port peer = be16 (of_int (ch_portno ch)) \<and>
     get_call (l_selected_call lib) lib' = Some (outgoing_call h (en_alloc env (l_iax lib)) (now_of lib) c)"
proof -
  let ?n = "l_selected_call lib" and ?i = "en_alloc env (l_iax lib)"
  let ?c = "outgoing_call h ?i (now_of lib) c"
  let ?iax = "iax_session_new ?i (en_garbage env) (l_iax lib)"
  have n: "0 \<le> ?n" "?n < nCalls lib" "c = l_calls lib ! nat ?n"
    using assms(1) by (auto simp: get_call_def split: if_splits)
  have h: "cstr h = h" using assms(3) by (auto simp: cstr_def takeWhile_eq_all_conv)
  define lib1 where "lib1 = set_call ?n ?c ((get_iaxc_lock lib)\<lparr>l_iax := ?iax\<rparr>)"
  have lib1: "l_iax lib1 = ?iax" "get_call ?n lib1 = Some ?c" "nCalls lib1 = nCalls lib" "l_selected_call lib1 = ?n"
    "l_audio_format_preferred lib1 = l_audio_format_preferred lib"
    "l_audio_format_capability lib1 = l_audio_format_capability lib"
    using n by (simp_all add: lib1_def set_call_def get_call_def get_iaxc_lock_def)
  have s: "find_id ?i ?iax = Some (new_session_record ?i (en_garbage env) (l_iax lib))" "st_wire ?iax = st_wire (l_iax lib)"
    by (simp_all add: find_id_def iax_session_new_def new_session_record_def)
  have len: "length (ic_callerid_number c) + length (ic_callerid_name c) + length user + 2 * length num \<le> 998"
    using assms(13-15) by simp
  have "parse_call_handle (take 255 (cstr h)) = Some ch" using assms(4,5) h by simp
  note sends = iax_call_sends[where host = "en_host env", OF s(1), simplified new_session_record_def, simplified, OF this assms(6-12) len assms(16,17)]
  obtain r iax hdr peer where call:
    "iax_call (en_host env) ?i (Some (ic_callerid_number c)) (Some (ic_callerid_name c)) (Some h) None False
       (l_audio_format_preferred lib) (l_audio_format_capability lib) ?iax = Some (r, iax)"
    "st_wire iax = st_wire ?iax @ [(peer, hdr @ enc (new_elements (ic_callerid_number c) (ic_callerid_name c)
       (l_audio_format_preferred lib) (l_audio_format_capability lib) user num))]"
    "length hdr = 12" "hdr ! 10 = 6" "hdr ! 11 = 1" "sin_addr peer = take 4 addr" "sin_port peer = be16 (of_int (ch_portno ch))"
    using sends[where formats = "l_audio_format_preferred lib" and caps = "l_audio_format_capability lib"] by blast
  define lib2 where "lib2 = iaxc_do_state_callback ?n (lib1\<lparr>l_iax := iax\<rparr>)"
  have lib2: "l_iax lib2 = iax" "get_call ?n lib2 = Some ?c"
    using lib1(2) by (auto simp: lib2_def iaxc_do_state_callback_def iaxc_post_event_def get_call_def split: option.splits if_splits)
  have use: "call_to_use (get_iaxc_lock lib) = Some ?n"
    using assms(1,2) n by (simp add: call_to_use_def get_iaxc_lock_def get_call_def)
  have up: "upd_call ?n (outgoing_call h ?i (now_of lib)) ((get_iaxc_lock lib)\<lparr>l_iax := ?iax\<rparr>) = Some lib1"
    using assms(1) by (simp add: upd_call_def get_call_def get_iaxc_lock_def lib1_def split: if_splits)
  have new: "new_session env (get_iaxc_lock lib) = (?i, (get_iaxc_lock lib)\<lparr>l_iax := ?iax\<rparr>)"
    by (simp add: new_session_def get_iaxc_lock_def Let_def)
  have now: "st_now ?iax = now_of lib" by (simp add: iax_session_new_def)
  have sel: "iaxc_select_call ?n (lib1\<lparr>l_iax := iax\<rparr>) = Some (0, lib2)"
    using lib1 n by (simp add: iaxc_select_call_def change_selection_def get_call_def outgoing_call_def call_states lib2_def)
  have "iaxc_call env h lib = Some (put_iaxc_lock lib2)"
    using n(1,2) assms(13,14) lib1
    by (simp add: iaxc_call_def Let_def h use new now up c_string_def outgoing_call_def codec_destroy_def IAXC_EVENT_BUFSIZ_def
        iax_do_def call(1) sel)
  moreover have "l_iax (put_iaxc_lock lib2) = iax" "get_call ?n (put_iaxc_lock lib2) = Some ?c"
    using lib2 by (simp_all add: put_lock_eq get_call_def split: if_splits)
  ultimately show ?thesis using call(2-7) s(2) by (intro exI[of _ "put_iaxc_lock lib2"] exI[of _ hdr] exI[of _ peer]) simp
qed

lemma bytes_append: "bytes_of (x @ y) = bytes_of x @ bytes_of y"
  by (simp add: bytes_of_def)

lemma bytes_length [simp]: "length (bytes_of x) = length x"
  by (simp add: bytes_of_def)

text \<open>
  C5. The call FGCom asks for reaches the server: the text made of user, password, server and number is taken
  apart again, and the first message of the session, on the port of IAX, names the user and the number.
\<close>

theorem fgcom_call_reaches_server:
  fixes lib :: "('z, 's, 'a) lib"
  assumes "patch_number (cf_voipserver cf) nr = Some num" "num \<noteq> ''9990909090910000''"
    and "\<forall>x \<in> {cf_username cf, cf_password cf, cf_voipserver cf, num}. plain (bytes_of x) \<and> 0 \<notin> set (bytes_of x)"
    and "length (cf_username cf @ cf_password cf @ cf_voipserver cf @ num) < 253" "length num \<le> 16"
    and "get_call (l_selected_call lib) lib = Some c" "ic_state c AND IAXC_CALL_STATE_ACTIVE = 0"
    and "0 \<notin> set (ic_callerid_number c @ ic_callerid_name c)"
    and "length (ic_callerid_number c) < 256" "length (ic_callerid_name c) < 256"
    and "en_host env (bytes_of (cf_voipserver cf)) = Some addr" "length addr = 4"
  shows "\<exists>dest lib' hdr peer.
     do_iaxc_call cf nr cl = Some (issue [Call dest, Millisleep DEFAULT_MILLISLEEP] cl) \<and>
     iaxc_call env (bytes_of dest) lib = Some lib' \<and>
     st_wire (l_iax lib') = st_wire (l_iax lib) @ [(peer, hdr @
       enc (new_elements (ic_callerid_number c) (ic_callerid_name c) (l_audio_format_preferred lib)
              (l_audio_format_capability lib) (bytes_of (cf_username cf)) (bytes_of num)))] \<and>
     length hdr = 12 \<and> hdr ! 10 = 6 \<and> hdr ! 11 = 1 \<and> sin_addr peer = addr \<and> sin_port peer = be16 4569 \<and>
     map_option ic_state (get_call (l_selected_call lib) lib') = Some (IAXC_CALL_STATE_ACTIVE OR IAXC_CALL_STATE_OUTGOING) \<and>
     map_option ic_remote (get_call (l_selected_call lib) lib') = Some (bytes_of num)"
proof -
  let ?dest = "cf_username cf @ '':'' @ cf_password cf @ ''@'' @ cf_voipserver cf @ ''/'' @ num"
  let ?ch = "\<lparr>ch_username = Some (bytes_of (cf_username cf)), ch_secret = Some (bytes_of (cf_password cf)),
     ch_hostname = bytes_of (cf_voipserver cf), ch_portno = 4569, ch_exten = Some (bytes_of num), ch_context = None\<rparr>"
  have dest: "bytes_of ?dest = show_handle ?ch"
    by (simp add: bytes_append show_handle_def handle_peer_def handle_host_def opt_part_def) (simp add: bytes_of_def)
  have ok: "handle_ok ?ch" using assms(3) by (simp add: handle_ok_def)
  have parse: "parse_call_handle (bytes_of ?dest) = Some ?ch" unfolding dest by (rule parse_show_handle[OF ok])
  have zero: "0 \<notin> set (bytes_of ?dest)" using assms(3) by (simp add: bytes_append) (simp add: bytes_of_def)
  have slash: "tl (dropWhile (\<lambda>b. b \<noteq> 47) (bytes_of ?dest)) = bytes_of num" "47 \<in> set (bytes_of ?dest)"
  proof -
    have "b \<noteq> 47" if "b \<in> set (bytes_of (cf_username cf @ '':'' @ cf_password cf @ ''@'' @ cf_voipserver cf))" for b
      using that assms(3) by (auto simp: bytes_append plain_def) (auto simp: bytes_of_def)
    then have "dropWhile (\<lambda>b. b \<noteq> 47) (bytes_of ((cf_username cf @ '':'' @ cf_password cf @ ''@'' @ cf_voipserver cf) @ ''/'' @ num)) =
        dropWhile (\<lambda>b. b \<noteq> 47) (bytes_of (''/'' @ num))"
      unfolding bytes_append by (rule dropWhile_append2)
    then show "tl (dropWhile (\<lambda>b. b \<noteq> 47) (bytes_of ?dest)) = bytes_of num" by (simp add: bytes_of_def)
    show "47 \<in> set (bytes_of ?dest)" by (simp add: bytes_append) (simp add: bytes_of_def)
  qed
  have issue: "do_iaxc_call cf nr cl = Some (issue [Call ?dest, Millisleep DEFAULT_MILLISLEEP] cl)"
    using assms(1,2,4) by (simp add: do_iaxc_call_def call_dest_def Let_def snprintf_def)
  have fields: "ch_username ?ch = Some (bytes_of (cf_username cf))" "ch_exten ?ch = Some (bytes_of num)" "ch_context ?ch = None"
    "0 \<notin> set (ic_callerid_number c)" "0 \<notin> set (ic_callerid_name c)" "0 \<notin> set (bytes_of (cf_username cf))" "0 \<notin> set (bytes_of num)"
    "length (bytes_of ?dest) \<le> 255" "length (bytes_of (cf_username cf)) + 2 * length (bytes_of num) \<le> 488"
    "en_host env (ch_hostname ?ch) = Some addr" "4 \<le> length addr"
    using assms(3,4,5,8,11,12) by simp_all
  obtain lib' hdr peer where call: "iaxc_call env (bytes_of ?dest) lib = Some lib'"
    "st_wire (l_iax lib') = st_wire (l_iax lib) @ [(peer, hdr @
       enc (new_elements (ic_callerid_number c) (ic_callerid_name c) (l_audio_format_preferred lib)
              (l_audio_format_capability lib) (bytes_of (cf_username cf)) (bytes_of num)))]"
    "length hdr = 12" "hdr ! 10 = 6" "hdr ! 11 = 1" "sin_addr peer = take 4 addr" "sin_port peer = be16 (of_int 4569)"
    "get_call (l_selected_call lib) lib' = Some (outgoing_call (bytes_of ?dest) (en_alloc env (l_iax lib)) (now_of lib) c)"
    using iaxc_call_sends[where env = env, OF assms(6,7) zero fields(8) parse fields(1-7) assms(9,10) fields(9-11)] by auto
  have "cstr (bytes_of num) = bytes_of num" using fields(7) by (auto simp: cstr_def takeWhile_eq_all_conv)
  then have "strncpy_buf (bytes_of num) = bytes_of num" using assms(5) by (simp add: strncpy_buf_def IAXC_EVENT_BUFSIZ_def)
  then have state: "map_option ic_state (get_call (l_selected_call lib) lib') = Some (IAXC_CALL_STATE_ACTIVE OR IAXC_CALL_STATE_OUTGOING)"
    "map_option ic_remote (get_call (l_selected_call lib) lib') = Some (bytes_of num)"
    unfolding call(8) option.map outgoing_call_def slash(1) by (simp_all add: slash(2)[simplified] codec_destroy_def)
  have peer: "sin_addr peer = addr" "sin_port peer = be16 4569" using call(6,7) assms(12) by simp_all
  show ?thesis
    by (intro exI conjI, rule issue, rule call(1), rule call(2), rule call(3), rule call(4), rule call(5), rule peer(1),
        rule peer(2), rule state(1), rule state(2))
qed

text \<open>The guest of the server in its demonstration room, by the default caller of \<open>iaxclient\<close>.\<close>

definition guest :: "config \<Rightarrow> config" where
  "guest cf = cf\<lparr>cf_username := ''guest'', cf_password := ''guest'', cf_voipserver := ''fgcom.flightgear.org''\<rparr>"

lemma fgcom_call_reaches_server_witness:
  "\<forall>cf cl env (lib :: ('z, 's, 'a) lib). \<exists>dest lib' hdr peer.
     do_iaxc_call (guest cf) ''0175'' cl = Some (issue [Call dest, Millisleep DEFAULT_MILLISLEEP] cl) \<and>
     iaxc_call (demo_env env\<lparr>en_host := \<lambda>_. Some [85, 13, 130, 212]\<rparr>) (bytes_of dest) (demo_lib lib) = Some lib' \<and>
     map snd (st_wire (l_iax lib')) = [hdr @ enc (new_elements (bytes_of ''7005551212'') (bytes_of ''Not Available'')
       512 526 (bytes_of ''guest'') (bytes_of ''0175''))] \<and> length hdr = 12 \<and> hdr ! 11 = 1"
proof (intro allI)
  fix cf :: config and cl :: client and env :: "('z, 's, 'a) env" and lib :: "('z, 's, 'a) lib"
  let ?env = "demo_env env\<lparr>en_host := \<lambda>_. Some [85, 13, 130, 212]\<rparr>"
  have lib: "l_audio_format_preferred (demo_lib lib) = 512" "l_audio_format_capability (demo_lib lib) = 526"
    "st_wire (l_iax (demo_lib lib)) = []" "get_call (l_selected_call (demo_lib lib)) (demo_lib lib) = Some new_call"
    by (simp_all add: demo_lib_def iaxc_initialize_def idle_def get_call_def)
  have cf: "patch_number (cf_voipserver (guest cf)) ''0175'' = Some ''0175''"
    "\<forall>x \<in> {cf_username (guest cf), cf_password (guest cf), cf_voipserver (guest cf), ''0175''}. plain (bytes_of x) \<and> 0 \<notin> set (bytes_of x)"
    by (simp_all add: guest_def patch_number_def Let_def plain_def bytes_of_def)
  have c: "ic_callerid_number (new_call :: 'z call_entry) = bytes_of ''7005551212''"
    "ic_callerid_name (new_call :: 'z call_entry) = bytes_of ''Not Available''"
    "0 \<notin> set (ic_callerid_number (new_call :: 'z call_entry) @ ic_callerid_name (new_call :: 'z call_entry))"
    by (simp_all add: new_call_def bytes_of_def)
  obtain dest lib' hdr peer where call: "do_iaxc_call (guest cf) ''0175'' cl = Some (issue [Call dest, Millisleep DEFAULT_MILLISLEEP] cl)"
    "iaxc_call ?env (bytes_of dest) (demo_lib lib) = Some lib'"
    "st_wire (l_iax lib') = st_wire (l_iax (demo_lib lib)) @ [(peer, hdr @
       enc (new_elements (ic_callerid_number (new_call :: 'z call_entry)) (ic_callerid_name (new_call :: 'z call_entry))
         (l_audio_format_preferred (demo_lib lib)) (l_audio_format_capability (demo_lib lib))
         (bytes_of (cf_username (guest cf))) (bytes_of ''0175'')))]" "length hdr = 12" "hdr ! 11 = 1"
    using fgcom_call_reaches_server[where env = ?env and cl = cl, OF cf(1) _ cf(2) _ _ lib(4) _ c(3), of "[85, 13, 130, 212]"]
    by (auto simp: guest_def new_call_def)
  have "cf_username (guest cf) = ''guest''" by (simp add: guest_def)
  with call lib show "\<exists>dest lib' hdr peer.
     do_iaxc_call (guest cf) ''0175'' cl = Some (issue [Call dest, Millisleep DEFAULT_MILLISLEEP] cl) \<and>
     iaxc_call ?env (bytes_of dest) (demo_lib lib) = Some lib' \<and>
     map snd (st_wire (l_iax lib')) = [hdr @ enc (new_elements (bytes_of ''7005551212'') (bytes_of ''Not Available'')
       512 526 (bytes_of ''guest'') (bytes_of ''0175''))] \<and> length hdr = 12 \<and> hdr ! 11 = 1"
    by (auto simp: c)
qed

section \<open>Other calls, other sessions\<close>

lemma post_locked: "l_iaxc_locked lib \<Longrightarrow> iaxc_post_event e lib = lib\<lparr>l_event_queue := l_event_queue lib @ [e]\<rparr>"
  by (simp add: iaxc_post_event_def)

lemma clear_call_locked:
  assumes "l_iaxc_locked lib" "get_call m lib = Some c"
  shows "iaxc_clear_call m lib = Some
     (lib\<lparr>l_calls := (l_calls lib)[nat m := c\<lparr>ic_state := 0, ic_format := 0, ic_session := 0\<rparr>],
          l_event_queue := l_event_queue lib @ [State_ev m 0 0 (ic_remote c) (ic_remote_name c) (ic_local c) (ic_local_context c)]\<rparr>)"
  using assms by (auto simp: iaxc_clear_call_def upd_call_def get_call_def set_call_def iaxc_do_state_callback_def post_locked
      IAXC_CALL_STATE_FREE_def split: if_splits)

lemma hear_end:
  "cl_connected (hear [Text_ev ty n msg, State_ev m 0 f r rn l lc] cl) = 0"
  by (simp add: fgcom_event_def iaxc_callback_def event_state_def Let_def)

text \<open>
  C28. The end of any call is the end of the call for FGCom: when the peer of another call hangs up, or is turned
  away, nothing happens to the call FGCom is in, but its callback, which does not look at the number of the
  call, takes itself for disconnected.
\<close>

theorem foreign_hangup_disconnects:
  assumes "l_iaxc_locked lib" "ev_etype e = IAX_EVENT_HANGUP \<or> ev_etype e = IAX_EVENT_REJECT"
    and "get_call m lib = Some other" "m \<noteq> l_selected_call lib" "get_call (l_selected_call lib) lib = Some c"
  shows "\<exists>lib' es. iaxc_handle_network_event env e m lib = Some lib' \<and>
     l_selected_call lib' = l_selected_call lib \<and> get_call (l_selected_call lib) lib' = Some c \<and> l_iax lib' = l_iax lib \<and>
     l_event_queue lib' = l_event_queue lib @ es \<and>
     cl_connected (hear es cl) = 0"
proof -
  have n: "0 \<le> m" "m < nCalls lib" "0 \<le> l_selected_call lib" "l_selected_call lib < nCalls lib"
    "c = l_calls lib ! nat (l_selected_call lib)" "nat m \<noteq> nat (l_selected_call lib)"
    using assms(3-5) by (auto simp: get_call_def split: if_splits)
  define lib1 where "lib1 = set_call m (other\<lparr>ic_last_activity := now_of lib\<rparr>) lib"
  have noted: "iaxc_note_activity m lib = Some lib1"
    using assms(3) n(1) by (simp add: iaxc_note_activity_def upd_call_def lib1_def)
  have lib1: "l_iaxc_locked lib1" "l_iax lib1 = l_iax lib" "l_selected_call lib1 = l_selected_call lib"
    "l_event_queue lib1 = l_event_queue lib" "get_call m lib1 = Some (other\<lparr>ic_last_activity := now_of lib\<rparr>)"
    "get_call (l_selected_call lib) lib1 = Some c"
    using assms(1) n by (simp_all add: lib1_def set_call_def get_call_def)
  define msg where "msg = (if ev_etype e = IAX_EVENT_HANGUP then ''Call disconnected by remote'' else ''Call rejected by remote'')"
  define lib2 where "lib2 = status msg lib1"
  have lib2: "l_iaxc_locked lib2" "l_iax lib2 = l_iax lib" "l_selected_call lib2 = l_selected_call lib"
    "l_event_queue lib2 = l_event_queue lib @ [Text_ev IAXC_STATUS None (take (IAXC_EVENT_BUFSIZ - 1) (bytes_of msg))]"
    "l_calls lib2 = l_calls lib1" "get_call m lib2 = Some (other\<lparr>ic_last_activity := now_of lib\<rparr>)"
    using lib1 by (simp_all add: lib2_def iaxc_usermsg_def post_locked get_call_def split: if_splits)
  have step: "iaxc_handle_network_event env e m lib = iaxc_clear_call m lib2"
    using assms(2) n(1) noted
    by (auto simp: iaxc_handle_network_event_def lib2_def msg_def IAX_EVENT_NULL_def IAX_EVENT_HANGUP_def IAX_EVENT_REJECT_def)
  from clear_call_locked[OF lib2(1,6)] obtain lib3 ev where lib3: "iaxc_clear_call m lib2 = Some lib3" "l_iax lib3 = l_iax lib"
    "l_selected_call lib3 = l_selected_call lib" "\<exists>f. l_calls lib3 = (l_calls lib1)[nat m := f]"
    "l_event_queue lib3 = l_event_queue lib2 @ [ev]" "\<exists>r rn l lc. ev = State_ev m 0 0 r rn l lc"
    using lib2 by fastforce
  have "get_call (l_selected_call lib) lib3 = Some c"
    using lib3(4) lib1(6) n by (auto simp: get_call_def split: if_splits)
  moreover have "cl_connected (hear [Text_ev IAXC_STATUS None (take (IAXC_EVENT_BUFSIZ - 1) (bytes_of msg)), ev] cl) = 0"
    using lib3(6) hear_end by blast
  ultimately show ?thesis using step lib3(1-3,5) lib2(4) by auto
qed

text \<open>A library of two calls, one of them selected, in the hands of its thread.\<close>

definition two_calls :: "('z, 's, 'a) lib \<Rightarrow> ('z, 's, 'a) lib" where
  "two_calls lib = lib\<lparr>l_calls := [new_call\<lparr>ic_state := 6, ic_session := 1\<rparr>, new_call\<lparr>ic_state := 10, ic_session := 2\<rparr>],
     l_selected_call := 0, l_iaxc_locked := True, l_event_queue := []\<rparr>"

lemma foreign_hangup_disconnects_witness:
  "\<forall>env cl (lib :: ('z, 's, 'a) lib). \<exists>lib'.
     iaxc_handle_network_event env (new_event 2 IAX_EVENT_HANGUP 0 0 []) 1 (two_calls lib) = Some lib' \<and>
     map_option ic_state (get_call 0 lib') = Some 6 \<and>
     cl_connected (hear (l_event_queue lib') cl) = 0"
proof (intro allI)
  fix env :: "('z, 's, 'a) env" and cl and lib :: "('z, 's, 'a) lib"
  have e: "ev_etype (new_event 2 IAX_EVENT_HANGUP 0 0 []) = IAX_EVENT_HANGUP" by (simp add: new_event_def)
  show "\<exists>lib'. iaxc_handle_network_event env (new_event 2 IAX_EVENT_HANGUP 0 0 []) 1 (two_calls lib) = Some lib' \<and>
     map_option ic_state (get_call 0 lib') = Some 6 \<and>
     cl_connected (hear (l_event_queue lib') cl) = 0"
    using foreign_hangup_disconnects[where lib = "two_calls lib" and e = "new_event 2 IAX_EVENT_HANGUP 0 0 []" and m = 1
        and other = "new_call\<lparr>ic_state := 10, ic_session := 2\<rparr>" and c = "new_call\<lparr>ic_state := 6, ic_session := 1\<rparr>"
        and env = env and cl = cl] e
    by (force simp: two_calls_def get_call_def)
qed

lemma unlink_gone: "distinct (map s_id ss) \<Longrightarrow> i \<notin> s_id ` set (unlink_session i ss)"
  by (induction ss) auto

text \<open>
  C29. A datagram that brings no event at once, like an acknowledgement, becomes a null event, of which only
  the type is set. If the memory of its session happens to hold that of a registration, the event is taken
  for the reply to it: the application is told of a reply that never came, and the session is destroyed.
\<close>

theorem null_event_ends_registration:
  assumes "l_iaxc_locked lib" "ev_etype e = IAX_EVENT_NULL" "distinct (ids (l_iax lib))"
    and "iaxc_find_call_by_session (en_junk env) lib < 0" "find_registration (en_junk env) lib = Some r"
  shows "\<exists>lib'. dispatch_event env e lib = Some lib' \<and> en_junk env \<notin> set (ids (l_iax lib')) \<and>
     l_event_queue lib' = l_event_queue lib @ [Registration_ev (rg_id r) IAX_EVENT_NULL (ies_msgcount (ev_ies e))] \<and>
     length (l_registrations lib') = length (l_registrations lib) \<and> (\<exists>r' \<in> set (l_registrations lib'). r' = r\<lparr>rg_session := 0\<rparr>)"
proof -
  have r: "rg_session r = en_junk env" using assms(5) by (auto simp: find_registration_def find_Some_iff)
  have upd: "length (update_registration i f rs) = length rs"
    "find (\<lambda>r. rg_session r = i) rs = Some r \<Longrightarrow> f r \<in> set (update_registration i f rs)" for i f rs
    by (induction rs) (auto split: if_splits)
  have "en_junk env \<notin> set (ids (l_iax (iax_destroy_session (en_junk env) lib)))"
    using unlink_gone[of "st_sessions (l_iax lib)" "en_junk env"] assms(3)
    by (simp add: iax_destroy_session_def destroy_session_def ids_def)
  then show ?thesis
    using assms r upd(2)[OF assms(5)[unfolded find_registration_def]]
    by (simp add: dispatch_event_def event_session_def iaxc_handle_regreply_def iaxc_do_registration_callback_def post_locked
        iax_destroy_session_def upd Let_def IAX_EVENT_NULL_def)
qed

definition registering :: "iax_event jitterbuf \<Rightarrow> ('z, 's, 'a) lib \<Rightarrow> ('z, 's, 'a) lib" where
  "registering g lib = lib\<lparr>l_iax := iax_session_new 7 g idle, l_calls := [new_call], l_iaxc_locked := True, l_event_queue := [],
     l_registrations := [\<lparr>rg_session = 7, rg_last = Timeval 0 0, rg_host = [], rg_user = [], rg_pass = [], rg_refresh = 60, rg_id = 1\<rparr>]\<rparr>"

lemma null_event_ends_registration_witness:
  "\<forall>env g (lib :: ('z, 's, 'a) lib). \<exists>lib'.
     dispatch_event (env\<lparr>en_junk := 7\<rparr>) null_event (registering g lib) = Some lib' \<and> 7 \<notin> set (ids (l_iax lib')) \<and>
     l_event_queue lib' = [Registration_ev 1 IAX_EVENT_NULL (ies_msgcount (ev_ies null_event))]"
proof (intro allI)
  fix env :: "('z, 's, 'a) env" and g and lib :: "('z, 's, 'a) lib"
  let ?r = "\<lparr>rg_session = 7, rg_last = Timeval 0 0, rg_host = [], rg_user = [], rg_pass = [], rg_refresh = 60, rg_id = 1\<rparr>"
  have "l_iaxc_locked (registering g lib)" "ev_etype null_event = IAX_EVENT_NULL" "distinct (ids (l_iax (registering g lib)))"
    "iaxc_find_call_by_session (en_junk (env\<lparr>en_junk := 7\<rparr>)) (registering g lib) < 0"
    "find_registration (en_junk (env\<lparr>en_junk := 7\<rparr>)) (registering g lib) = Some ?r"
    by (simp_all add: null_event_def new_event_def ids_def iax_session_new_def idle_def new_session_record_def
        iaxc_find_call_by_session_def new_call_def find_registration_def registering_def)
  from null_event_ends_registration[OF this] obtain lib' where
    "dispatch_event (env\<lparr>en_junk := 7\<rparr>) null_event (registering g lib) = Some lib'"
    "en_junk (env\<lparr>en_junk := 7\<rparr>) \<notin> set (ids (l_iax lib'))"
    "l_event_queue lib' = l_event_queue (registering g lib) @ [Registration_ev (rg_id ?r) IAX_EVENT_NULL (ies_msgcount (ev_ies null_event))]"
    by blast
  moreover have "l_event_queue (registering g lib) = []" by (simp add: registering_def)
  ultimately show "\<exists>lib'. dispatch_event (env\<lparr>en_junk := 7\<rparr>) null_event (registering g lib) = Some lib' \<and> 7 \<notin> set (ids (l_iax lib')) \<and>
     l_event_queue lib' = [Registration_ev 1 IAX_EVENT_NULL (ies_msgcount (ev_ies null_event))]"
    by (intro exI[of _ lib']) simp
qed

end
