(* ===== verification/Fgcom_System.thy ===== *)
theory Fgcom_System
  imports Fgcom_Client_Props Fgcom_Phone
begin

text \<open>
  The program as a whole: FGCom (\<open>main\<close> in \<open>src/src/fgcom.cpp\<close>, in the mode for FlightGear) on
  \<open>iaxclient\<close>, on \<open>libiax2\<close>. What a handler asks of \<open>iaxclient\<close> is carried out in its order, and while it
  sleeps the thread of \<open>iaxclient\<close> takes turns. Every run of the whole is, seen from above, a run of the
  client, and, seen from below, one of \<open>iaxclient\<close>.
\<close>

section \<open>Commands\<close>

text \<open>What the world is like at a turn of the thread: the time, the network, the device.\<close>

type_synonym 'a world = "timeval \<times> (u8 list \<Rightarrow> int) \<times> (u8 list \<times> sockaddr_in) list \<times> 'a"

fun enter_world :: "'a world \<Rightarrow> ('z, 's, 'a) lib \<Rightarrow> ('z, 's, 'a) lib" where
  "enter_world (t, f, q, d) st = st\<lparr>l_iax := (l_iax st)\<lparr>st_now := t, st_sendto := f\<rparr>, l_socket := q, l_driver := d\<rparr>"

fun turns :: "('z, 's, 'a) env \<Rightarrow> 'a world list \<Rightarrow> ('z, 's, 'a) lib \<Rightarrow> ('z, 's, 'a) lib option" where
  "turns env [] st = Some st"
| "turns env (w # ws) st = do { st \<leftarrow> iaxc_process_calls env (enter_world w st); turns env ws st }"

text \<open>The volume of the output is not part of the model.\<close>

fun perform :: "('z, 's, 'a) env \<Rightarrow> 'a world list \<Rightarrow> command \<Rightarrow> ('z, 's, 'a) lib \<Rightarrow> ('z, 's, 'a) lib option" where
  "perform env ws (Call dest) st = iaxc_call env (bytes_of dest) st"
| "perform env ws Dump_call st = iaxc_dump_call st"
| "perform env ws (Millisleep n) st = turns env ws st"
| "perform env ws (Input_level x) st = Some (st\<lparr>l_audio := pa_input_level_set x (l_audio st)\<rparr>)"
| "perform env ws (Output_level x) st = Some st"

fun performs :: "('z, 's, 'a) env \<Rightarrow> ('a world list \<times> command) list \<Rightarrow> ('z, 's, 'a) lib \<Rightarrow> ('z, 's, 'a) lib option" where
  "performs env [] st = Some st"
| "performs env ((ws, c) # cs) st = do { st \<leftarrow> perform env ws c st; performs env cs st }"

section \<open>The program\<close>

record ('z, 's, 'a) fgcom =
  sys_client :: client
  sys_reg :: int
  sys_lib :: "('z, 's, 'a) lib"

text \<open>What the library posted between two of its states.\<close>

definition news :: "('z, 's, 'a) lib \<Rightarrow> ('z, 's, 'a) lib \<Rightarrow> iaxc_ev list" where
  "news st st' = drop (length (l_posted st)) (l_posted st')"

text \<open>
  \<open>main\<close> from \<open>iaxc_initialize\<close> to its loop, behind the options. The library has two calls, and the number of the caller is always
  the same; the codec preferred need not be among those allowed. The thread takes its first turns in the
  sleep behind the registration.
\<close>

definition main_start :: "config \<Rightarrow> u32 \<Rightarrow> ('z, 's, 'a) env \<Rightarrow> 'a world list \<Rightarrow> ('z, 's, 'a) lib \<Rightarrow> ('z, 's, 'a) fgcom option" where
  "main_start cf codec env ws st =
     (let st = iaxc_initialize 2 st;
          st = iaxc_set_callerid (bytes_of (cf_username cf)) (bytes_of ''0125252525122750'') st;
          st0 = iaxc_set_formats codec (word_of_int (IAXC_FORMAT_ULAW OR IAXC_FORMAT_GSM OR IAXC_FORMAT_SPEEX)) st
      in do { (reg, st) \<leftarrow> iaxc_register env (bytes_of (cf_username cf)) (bytes_of (cf_password cf)) (bytes_of (cf_voipserver cf)) st0;
              st \<leftarrow> turns env ws st;
              st \<leftarrow> performs env (map (Pair []) (cl_commands (client0 cf))) st;
              Some \<lparr>sys_client = hear (news st0 st) (client0 cf), sys_reg = reg, sys_lib = st\<rparr> })"

text \<open>
  The events that come while a handler is at work: they set the last state, and \<open>connected\<close>, which the
  handler sets again behind each of its calls and hangups.
\<close>

fun last_heard :: "iaxc_ev list \<Rightarrow> int \<Rightarrow> int" where
  "last_heard [] x = x"
| "last_heard (State_ev n s f r rn l lc # es) x = last_heard es s"
| "last_heard (e # es) x = last_heard es x"

definition handler ::
    "(client \<Rightarrow> client option) \<Rightarrow> ('z, 's, 'a) env \<Rightarrow> 'a world list list \<Rightarrow> ('z, 's, 'a) fgcom \<Rightarrow> ('z, 's, 'a) fgcom option" where
  "handler f env wss s =
     do { cl \<leftarrow> f (sys_client s);
          let cs = drop (length (cl_commands (sys_client s))) (cl_commands cl);
          st \<leftarrow> performs env (zip (wss @ replicate (length cs) []) cs) (sys_lib s);
          Some \<lparr>sys_client = cl\<lparr>cl_last_state := last_heard (news (sys_lib s) st) (cl_last_state cl)\<rparr>,
            sys_reg = sys_reg s, sys_lib = st\<rparr> }"

text \<open>A packet, the timer, a turn of the thread; each with the worlds of the turns meanwhile.\<close>

datatype 'a incident = Packet_in string "'a world list list" | Timer "'a world list list" | Turn "'a world"

fun sys_step :: "config \<Rightarrow> ('z, 's, 'a) env \<Rightarrow> 'a incident \<Rightarrow> ('z, 's, 'a) fgcom \<Rightarrow> ('z, 's, 'a) fgcom option" where
  "sys_step cf env (Packet_in buf wss) s = handler (process_packet cf buf) env wss s"
| "sys_step cf env (Timer wss) s = handler (alarm_handler cf) env wss s"
| "sys_step cf env (Turn w) s =
     map_option (\<lambda>st. s\<lparr>sys_client := hear (news (sys_lib s) st) (sys_client s), sys_lib := st\<rparr>)
       (iaxc_process_calls env (enter_world w (sys_lib s)))"

fun sys_run :: "config \<Rightarrow> ('z, 's, 'a) env \<Rightarrow> 'a incident list \<Rightarrow> ('z, 's, 'a) fgcom \<Rightarrow> ('z, 's, 'a) fgcom option" where
  "sys_run cf env [] s = Some s"
| "sys_run cf env (i # is) s = do { s \<leftarrow> sys_step cf env i s; sys_run cf env is s }"

text \<open>\<open>quit\<close>: the calls end, the device is closed, and only then the registration is removed.\<close>

definition iaxc_shutdown :: "('z, 's, 'a) lib \<Rightarrow> ('z, 's, 'a) lib option" where
  "iaxc_shutdown st = do { st \<leftarrow> iaxc_dump_all_calls st; Some (put_iaxc_lock (get_iaxc_lock st)) }"

definition quit :: "('z, 's, 'a) fgcom \<Rightarrow> ('z, 's, 'a) lib option" where
  "quit s =
     do { st \<leftarrow> iaxc_shutdown (sys_lib s);
          Some (if sys_reg s \<noteq> 0 then snd (iaxc_unregister (sys_reg s) st) else st) }"

section \<open>From below: the library\<close>

lemma enter_world_step: "lib_step env st (enter_world w st)"
  by (cases w) (simp add: lib_step.outside)

lemma turns_reachable: "lib_reachable env n st \<Longrightarrow> turns env ws st = Some st' \<Longrightarrow> lib_reachable env n st'"
proof (induction ws arbitrary: st)
  case (Cons w ws)
  from Cons.prems(2) obtain st1 where st1: "iaxc_process_calls env (enter_world w st) = Some st1" "turns env ws st1 = Some st'"
    by (auto split: Option.bind_splits)
  have "lib_reachable env n (enter_world w st)" by (rule lib_reachable.step[OF Cons.prems(1) enter_world_step])
  from Cons.IH[OF lib_reachable.step[OF this lib_step.process[OF st1(1)]] st1(2)] show ?case .
qed simp

lemma perform_reachable: "lib_reachable env n st \<Longrightarrow> perform env ws c st = Some st' \<Longrightarrow> lib_reachable env n st'"
  by (cases c) (auto intro: lib_reachable.step lib_step.call lib_step.dump lib_step.audio turns_reachable)

lemma performs_reachable: "lib_reachable env n st \<Longrightarrow> performs env cs st = Some st' \<Longrightarrow> lib_reachable env n st'"
  by (induction env cs st rule: performs.induct) (auto dest: perform_reachable split: Option.bind_splits)

lemma handler_reachable:
  "lib_reachable env n (sys_lib s) \<Longrightarrow> handler f env wss s = Some s' \<Longrightarrow> lib_reachable env n (sys_lib s')"
  by (auto simp: handler_def Let_def dest: performs_reachable split: Option.bind_splits)

lemma sys_step_reachable:
  "lib_reachable env n (sys_lib s) \<Longrightarrow> sys_step cf env i s = Some s' \<Longrightarrow> lib_reachable env n (sys_lib s')"
  by (cases i) (auto dest: handler_reachable intro: lib_reachable.step[OF lib_reachable.step[OF _ enter_world_step] lib_step.process]
      simp del: enter_world.simps)

lemma sys_run_reachable:
  "lib_reachable env n (sys_lib s) \<Longrightarrow> sys_run cf env is s = Some s' \<Longrightarrow> lib_reachable env n (sys_lib s')"
  by (induction cf env "is" s rule: sys_run.induct) (auto dest: sys_step_reachable split: Option.bind_splits)

lemma main_start_reachable:
  assumes "st_sched (l_iax st) = []" "st_sessions (l_iax st) = []" "at_rest st" "l_posted st = []"
    and "main_start cf codec env ws st = Some s"
  shows "lib_reachable env 2 (sys_lib s)"
proof -
  have 1: "lib_reachable env 2 (iaxc_initialize 2 st)" by (rule lib_reachable.init) (use assms in simp_all)
  let ?st = "iaxc_set_formats codec (word_of_int (IAXC_FORMAT_ULAW OR IAXC_FORMAT_GSM OR IAXC_FORMAT_SPEEX))
      (iaxc_set_callerid (bytes_of (cf_username cf)) (bytes_of ''0125252525122750'') (iaxc_initialize 2 st))"
  have 2: "lib_reachable env 2 ?st"
    by (rule lib_reachable.step[OF lib_reachable.step[OF 1 lib_step.callerid] lib_step.formats])
  obtain r st1 st2 st3 where st1: "iaxc_register env (bytes_of (cf_username cf)) (bytes_of (cf_password cf)) (bytes_of (cf_voipserver cf)) ?st =
      Some (r, st1)" "turns env ws st1 = Some st2" "performs env (map (Pair []) (cl_commands (client0 cf))) st2 = Some st3" "sys_lib s = st3"
    using assms(5) by (auto simp: main_start_def Let_def split: Option.bind_splits)
  show ?thesis
    using performs_reachable[OF turns_reachable[OF lib_reachable.step[OF 2 lib_step.register[OF st1(1)]] st1(2)] st1(3)] st1(4) by simp
qed

section \<open>From above: the client\<close>

text \<open>The last state is written and never read.\<close>

abbreviation forget :: "int \<Rightarrow> client \<Rightarrow> client" where
  "forget x st \<equiv> st\<lparr>cl_last_state := x\<rparr>"

lemma forget_swap [simp]:
  "(forget x st)\<lparr>cl_data := d\<rparr> = forget x (st\<lparr>cl_data := d\<rparr>)"
  "(forget x st)\<lparr>cl_selected_frequency := q\<rparr> = forget x (st\<lparr>cl_selected_frequency := q\<rparr>)"
  "(forget x st)\<lparr>cl_previous_com_frequency := q\<rparr> = forget x (st\<lparr>cl_previous_com_frequency := q\<rparr>)"
  "(forget x st)\<lparr>cl_previous_ptt := i\<rparr> = forget x (st\<lparr>cl_previous_ptt := i\<rparr>)"
  "(forget x st)\<lparr>cl_com_select := i\<rparr> = forget x (st\<lparr>cl_com_select := i\<rparr>)"
  "(forget x st)\<lparr>cl_connected := i\<rparr> = forget x (st\<lparr>cl_connected := i\<rparr>)"
  "(forget x st)\<lparr>cl_icao := a\<rparr> = forget x (st\<lparr>cl_icao := a\<rparr>)"
  "(forget x st)\<lparr>cl_num_buf := a\<rparr> = forget x (st\<lparr>cl_num_buf := a\<rparr>)"
  "(forget x st)\<lparr>cl_commands := cs\<rparr> = forget x (st\<lparr>cl_commands := cs\<rparr>)"
  by simp_all

lemma bind_forget [simp]:
  "Option.bind (map_option f m) g = Option.bind m (\<lambda>a. g (f a))"
  "Option.bind n (\<lambda>b. map_option f (h b)) = map_option f (Option.bind n h)"
  by (cases m; simp) (cases n; simp)

lemma forget_simple [simp]:
  "issue cs (forget x st) = forget x (issue cs st)" "hang_up (forget x st) = forget x (hang_up st)"
  "select_frequency (forget x st) = forget x (select_frequency st)"
  "tuned_airport cf (forget x st) = tuned_airport cf st"
  by (simp_all add: issue_def hang_up_def select_frequency_def tuned_airport_def Let_def)

lemma forget_strcpy [simp]: "strcpy_icao a (forget x st) = map_option (forget x) (strcpy_icao a st)"
  by (simp add: strcpy_icao_def)

lemma forget_call [simp]: "do_iaxc_call cf num (forget x st) = map_option (forget x) (do_iaxc_call cf num st)"
  by (simp add: do_iaxc_call_def option.map_comp comp_def)

lemma forget_dial [simp]: "dial cf (forget x st) = map_option (forget x) (dial cf st)"
  by (cases "icao2number (cl_icao st) (float (cl_selected_frequency st))")
     (auto simp: dial_def split: Option.bind_splits)

lemma forget_ptt [simp]: "ptt cf m (forget x st) = map_option (forget x) (ptt cf m st)"
  by (simp add: ptt_def Let_def split: Option.bind_splits)

lemma forget_retune [simp]: "retune cf (forget x st) = map_option (forget x) (retune cf st)"
  by (simp add: retune_def Let_def)

lemma forget_key [simp]: "key cf (forget x st) = map_option (forget x) (key cf st)"
  by (cases "ptt cf (PTT (cl_data st)) st") (simp_all add: key_def)

lemma forget_packet: "process_packet cf buf (forget x st) = map_option (forget x) (process_packet cf buf st)"
  by (simp add: process_packet_def Let_def)

lemma forget_alarm: "alarm_handler cf (forget x st) = map_option (forget x) (alarm_handler cf st)"
  by (simp add: alarm_handler_def Let_def split: Option.bind_splits)

text \<open>What the client makes of the events of the library is what it makes of those it knows.\<close>

lemma hear_run: "run cf (map Event (List.map_filter fgcom_event es)) cl = Some (hear es cl)"
  by (induction es arbitrary: cl) (auto simp: map_filter_simps split: option.splits)

lemma hear_forget: "\<exists>y. hear es (forget x cl) = forget y (hear es cl)"
proof (induction es arbitrary: x cl)
  case (Cons e es)
  show ?case
  proof (cases "fgcom_event e")
    case None
    then show ?thesis using Cons by simp
  next
    case (Some ev)
    have "\<exists>z. snd (iaxc_callback ev (forget x cl)) = forget z (snd (iaxc_callback ev cl))"
      by (cases ev) (auto simp: iaxc_callback_def event_state_def Let_def)
    then show ?thesis using Cons Some by (metis hear.simps(2) option.case(2))
  qed
qed auto

lemma run_append: "run cf (hs @ hs') st = Option.bind (run cf hs st) (run cf hs')"
  by (induction hs arbitrary: st) (auto split: option.splits)

definition seen :: "config \<Rightarrow> ('z, 's, 'a) fgcom \<Rightarrow> bool" where
  "seen cf s \<longleftrightarrow> (\<exists>hs cl x. run cf hs (client0 cf) = Some cl \<and> sys_client s = forget x cl)"

lemma handler_client: "handler f env wss s = Some s' \<Longrightarrow> \<exists>cl x. f (sys_client s) = Some cl \<and> sys_client s' = forget x cl"
  by (auto simp: handler_def Let_def split: Option.bind_splits)

lemma handler_seen:
  assumes "seen cf s" "handler f env wss s = Some s'"
    and "\<And>st x. f (forget x st) = map_option (forget x) (f st)" "\<And>st. step cf h st = f st"
  shows "seen cf s'"
proof -
  obtain hs cl x where r: "run cf hs (client0 cf) = Some cl" "sys_client s = forget x cl"
    using assms(1) by (auto simp: seen_def)
  obtain cl' y where "f (sys_client s) = Some cl'" "sys_client s' = forget y cl'"
    using handler_client[OF assms(2)] by blast
  with r(2) assms(3) obtain cl2 where "f cl = Some cl2" "sys_client s' = forget y cl2" by auto
  with r(1) assms(4) show ?thesis unfolding seen_def
    by (intro exI[of _ "hs @ [h]"] exI[of _ cl2] exI[of _ y]) (simp add: run_append)
qed

lemma sys_step_seen:
  assumes "seen cf s" "sys_step cf env i s = Some s'"
  shows "seen cf s'"
proof (cases i)
  case (Packet_in buf wss)
  then show ?thesis using handler_seen[OF assms(1), of "process_packet cf buf" env wss s' "Packet buf"] assms(2) forget_packet by simp
next
  case (Timer wss)
  then show ?thesis using handler_seen[OF assms(1), of "alarm_handler cf" env wss s' Alarm] assms(2) forget_alarm by simp
next
  case (Turn w)
  obtain hs cl x where r: "run cf hs (client0 cf) = Some cl" "sys_client s = forget x cl"
    using assms(1) by (auto simp: seen_def)
  obtain es where "sys_client s' = hear es (sys_client s)" using assms(2) Turn by (auto simp del: enter_world.simps)
  moreover obtain y where "hear es (forget x cl) = forget y (hear es cl)" using hear_forget by blast
  ultimately show ?thesis unfolding seen_def
    using r by (intro exI[of _ "hs @ map Event (List.map_filter fgcom_event es)"] exI[of _ "hear es cl"] exI[of _ y])
      (simp add: run_append hear_run)
qed

lemma sys_run_seen: "seen cf s \<Longrightarrow> sys_run cf env is s = Some s' \<Longrightarrow> seen cf s'"
  by (induction cf env "is" s rule: sys_run.induct) (auto dest: sys_step_seen split: Option.bind_splits)

lemma main_start_seen:
  assumes "main_start cf codec env ws st = Some s"
  shows "seen cf s"
proof -
  obtain es where "sys_client s = hear es (client0 cf)"
    using assms by (auto simp: main_start_def Let_def split: Option.bind_splits)
  then show ?thesis unfolding seen_def
    by (intro exI[of _ "map Event (List.map_filter fgcom_event es)"] exI[of _ "hear es (client0 cf)"]
        exI[of _ "cl_last_state (hear es (client0 cf))"]) (simp add: hear_run)
qed

text \<open>
  C4. The program is put together from its parts: however packets, alarms, turns of the thread, the network
  and the device interleave, the client goes through a run of the client alone, up to the last state,
  which nobody reads, and the library through states that the library alone can reach; so what is shown
  of each part holds of the whole.
\<close>

theorem fgcom_refines_parts:
  assumes "\<forall>s. en_alloc env s \<notin> insert 0 (set (map s_id (st_sessions s)))"
    and "st_sched (l_iax st) = []" "st_sessions (l_iax st) = []" "\<not> l_iaxc_locked st" "l_event_queue st = []" "l_posted st = []"
    and "main_start cf codec env ws st = Some s0" "sys_run cf env is s0 = Some s"
  shows "lib_reachable env 2 (sys_lib s) \<and> reachable (l_iax (sys_lib s)) \<and>
     (\<exists>hs cl. run cf hs (client0 cf) = Some cl \<and> sys_client s = cl\<lparr>cl_last_state := cl_last_state (sys_client s)\<rparr>)"
proof -
  have "lib_reachable env 2 (sys_lib s)"
    by (rule sys_run_reachable[OF main_start_reachable[OF assms(2,3) _ assms(6,7)] assms(8)]) (simp add: at_rest_def assms(4,5))
  moreover have "alloc_ok env" using assms(1) by (simp add: alloc_ok_def ids_def)
  moreover have "seen cf s" by (rule sys_run_seen[OF main_start_seen[OF assms(7)] assms(8)])
  ultimately show ?thesis using lib_reachable_inv by (fastforce simp: seen_def)
qed

lemma start_registers:
  "\<exists>s. main_start cf codec (demo_env env) [] (demo_lib lib) = Some s \<and> sys_client s = client0 cf \<and>
     map s_id (st_sessions (l_iax (sys_lib s))) = [1]"
  by (simp add: main_start_def news_def client0_def iaxc_register_def demo_lib_def demo_env_def iaxc_initialize_def iaxc_set_callerid_def
      iaxc_set_formats_def get_iaxc_lock_def put_lock_eq new_session_def iax_do_def iax_register_def iax_session_new_def
      new_session_record_def idle_def set_session_def find_id_def upd_session_def Let_def)

lemma unknown_field: "process_packet cf (''X=1'' @ nl) (client0 cf) = Some (client0 cf)"
proof -
  have "parse_fgdata fgdata0 (butlast (takeWhile (\<lambda>c. c \<noteq> CHR 0x00) (''X=1'' @ nl))) = Some fgdata0"
    "takeWhile (\<lambda>c. c \<noteq> CHR 0x00) (''X=1'' @ nl) \<noteq> []" by code_simp+
  then show ?thesis
    by (simp add: process_packet_def Let_def client0_def select_frequency_def retune_def key_def fgdata0_def)
qed

lemma handler_idle: "f (sys_client s) = Some (sys_client s) \<Longrightarrow> \<exists>s'. handler f env wss s = Some s' \<and> sys_lib s' = sys_lib s"
  by (simp add: handler_def Let_def)

lemma fgcom_refines_parts_witness:
  "\<forall>cf codec env (lib :: ('z, 's, 'a) lib). \<exists>s0 s.
     main_start cf codec (demo_env env) [] (demo_lib lib) = Some s0 \<and>
     sys_run cf (demo_env env) [Packet_in (''X=1'' @ nl) []] s0 = Some s \<and>
     map s_id (st_sessions (l_iax (sys_lib s))) = [1] \<and> reachable (l_iax (sys_lib s))"
proof (intro allI)
  fix cf codec and env :: "('z, 's, 'a) env" and lib :: "('z, 's, 'a) lib"
  obtain s0 where s0: "main_start cf codec (demo_env env) [] (demo_lib lib) = Some s0" "sys_client s0 = client0 cf"
    "map s_id (st_sessions (l_iax (sys_lib s0))) = [1]"
    using start_registers[of cf codec env lib] by (elim exE conjE) (rule that)
  have run: "\<exists>s. sys_run cf (demo_env env) [Packet_in buf []] s0 = Some s \<and> sys_lib s = sys_lib s0"
    if "process_packet cf buf (client0 cf) = Some (client0 cf)" for buf
    using handler_idle[of "process_packet cf buf" s0 "demo_env env" "[]"] that s0(2) by auto
  obtain s where s: "sys_run cf (demo_env env) [Packet_in (''X=1'' @ nl) []] s0 = Some s" "sys_lib s = sys_lib s0"
    using run[OF unknown_field] by (elim exE conjE) (rule that)
  have alloc: "\<forall>s. en_alloc (demo_env env) s \<notin> insert 0 (set (map s_id (st_sessions s)))"
    by (rule allI) (rule demo_alloc)
  have lib: "st_sched (l_iax (demo_lib lib)) = []" "st_sessions (l_iax (demo_lib lib)) = []" "\<not> l_iaxc_locked (demo_lib lib)"
    "l_event_queue (demo_lib lib) = []" "l_posted (demo_lib lib) = []"
    by (simp_all add: demo_lib_def iaxc_initialize_def idle_def)
  have "reachable (l_iax (sys_lib s))"
    using fgcom_refines_parts[OF alloc lib s0(1) s(1)] by (rule conjunct1[OF conjunct2])
  with s0(1,3) s
  show "\<exists>s0 s. main_start cf codec (demo_env env) [] (demo_lib lib) = Some s0 \<and>
     sys_run cf (demo_env env) [Packet_in (''X=1'' @ nl) []] s0 = Some s \<and>
     map s_id (st_sessions (l_iax (sys_lib s))) = [1] \<and> reachable (l_iax (sys_lib s))"
    by (intro exI[of _ s0] exI[of _ s]) simp
qed

section \<open>A lost call\<close>

lemma alarm_dials:
  assumes "alarm_handler cf cl = Some cl'" "cl_connected cl = 0"
  shows "(cl_commands cl' = cl_commands cl \<and> cl_connected cl' = 0) \<or>
     (cl_connected cl' = 1 \<and> same_radio cl cl' \<and>
      (\<exists>b a. check_special_frq (cf_specials cf) (cl_selected_frequency cl) = Some b \<and>
         (if b then Some ''ZZZZ'' else tuned_airport cf cl) = Some a \<and> a \<noteq> []))"
proof -
  obtain b where b: "check_special_frq (cf_specials cf) (cl_selected_frequency cl) = Some b"
    using assms(1) by (cases "check_special_frq (cf_specials cf) (cl_selected_frequency cl)") (simp_all add: alarm_handler_def)
  obtain a where a: "(if b then Some ''ZZZZ'' else tuned_airport cf cl) = Some a"
    using assms(1) b by (cases "if b then Some ''ZZZZ'' else tuned_airport cf cl") (simp_all add: alarm_handler_def)
  have d: "(if a = [] \<and> cl_connected cl = 1 then Some (hang_up (cl\<lparr>cl_icao := a\<rparr>))
       else if a \<noteq> [] \<and> cl_connected cl = 0 then dial cf (cl\<lparr>cl_icao := a\<rparr>) else Some (cl\<lparr>cl_icao := a\<rparr>)) = Some cl'"
    using assms(1) unfolding alarm_handler_def b Option.bind.simps a strcpy_icao_def
    by (cases "length a \<le> 4") (auto simp: Let_def split: if_split_asm)
  show ?thesis
  proof (cases "a = []")
    case True
    with d assms(2) have "cl' = cl\<lparr>cl_icao := a\<rparr>" by simp
    with assms(2) show ?thesis by simp
  next
    case False
    then have "dial cf (cl\<lparr>cl_icao := a\<rparr>) = Some cl'" using d assms(2) by simp
    from find_dial[OF this] have "cl_connected cl' = 1" "same_radio cl cl'" by (auto simp: same_radio_def)
    with a b False show ?thesis by blast
  qed
qed

lemma alarm_connected:
  assumes "alarm_handler cf cl = Some cl'" "cl_connected cl = 1"
    and "check_special_frq (cf_specials cf) (cl_selected_frequency cl) = Some b"
      "(if b then Some ''ZZZZ'' else tuned_airport cf cl) = Some a" "a \<noteq> []"
  shows "cl' = cl\<lparr>cl_icao := a\<rparr>"
  using assms by (auto simp: alarm_handler_def strcpy_icao_def Let_def split: if_splits)

lemma same_radio_airport: "same_radio cl cl' \<Longrightarrow> tuned_airport cf cl' = tuned_airport cf cl"
  by (simp add: same_radio_def tuned_airport_def)

lemma timers_idle:
  assumes "sys_run cf env (map Timer wsss) s = Some s'" "cl_connected (sys_client s) = 1"
    and "check_special_frq (cf_specials cf) (cl_selected_frequency (sys_client s)) = Some b"
      "(if b then Some ''ZZZZ'' else tuned_airport cf (sys_client s)) = Some a" "a \<noteq> []"
  shows "cl_commands (sys_client s') = cl_commands (sys_client s) \<and> cl_connected (sys_client s') = 1 \<and> sys_lib s' = sys_lib s"
  using assms
proof (induction wsss arbitrary: s)
  case (Cons wss wsss)
  from Cons.prems(1) obtain s1 where s1: "handler (alarm_handler cf) env wss s = Some s1" "sys_run cf env (map Timer wsss) s1 = Some s'"
    by (auto split: Option.bind_splits)
  have "sys_client s1 = forget (cl_last_state (sys_client s)) ((sys_client s)\<lparr>cl_icao := a\<rparr>)" "sys_lib s1 = sys_lib s"
    using s1(1) alarm_connected[OF _ Cons.prems(2-5)]
    by (auto simp: handler_def Let_def news_def split: Option.bind_splits)
  then show ?case
    using Cons.IH[OF s1(2)] Cons.prems(2-5) by (auto simp: tuned_airport_def split: if_splits)
qed simp


definition calling :: "config \<Rightarrow> ('z, 's, 'a) lib \<Rightarrow> ('z, 's, 'a) fgcom" where
  "calling cf lib = \<lparr>sys_client = (client0 cf)\<lparr>cl_selected_frequency := 910\<rparr>, sys_reg = 0, sys_lib = lib\<lparr>l_calls := [], l_selected_call := - 1\<rparr>\<rparr>"

lemma calling_dials:
  fixes lib :: "('z, 's, 'a) lib"
  assumes "cf_specials cf = [910, - 1]"
  shows "\<exists>s1. sys_step cf env (Timer []) (calling cf lib) = Some s1 \<and> cl_connected (sys_client s1) = 1 \<and>
     cl_commands (sys_client s1) \<noteq> cl_commands (sys_client (calling cf lib)) \<and>
     cl_selected_frequency (sys_client s1) = 910"
proof -
  let ?cl = "(client0 cf)\<lparr>cl_selected_frequency := 910\<rparr>"
  have special: "check_special_frq [910, - 1] 910 = Some True" by code_simp
  obtain cl d where dial: "dial cf (?cl\<lparr>cl_icao := ''ZZZZ''\<rparr>) = Some cl" "cl_connected cl = 1" "same_radio ?cl cl"
    "cl_commands cl = cl_commands ?cl @ [Call d, Millisleep DEFAULT_MILLISLEEP]"
    using dial_total[of "?cl\<lparr>cl_icao := ''ZZZZ''\<rparr>" cf] by (auto simp: same_radio_def)
  have alarm: "alarm_handler cf ?cl = Some cl"
    using special assms dial(1) by (simp add: alarm_handler_def strcpy_icao_def client0_def)
  have call: "\<exists>st. iaxc_call env num (lib\<lparr>l_calls := [], l_selected_call := - 1\<rparr>) = Some st" for num
    by (simp add: iaxc_call_def Let_def call_to_use_def get_iaxc_lock_def iaxc_first_free_call_def)
  have "\<exists>s1. handler (alarm_handler cf) env [] (calling cf lib) = Some s1 \<and> (\<exists>x. sys_client s1 = forget x cl)"
    using alarm dial(4) call[of "bytes_of d"] by (auto simp: handler_def calling_def Let_def numeral_2_eq_2)
  with dial show ?thesis by (auto simp: calling_def same_radio_def)
qed

lemma timer_connected:
  assumes "cf_specials cf = [910, - 1]" "cl_connected (sys_client s) = 1" "cl_selected_frequency (sys_client s) = 910"
  shows "\<exists>s'. sys_step cf env (Timer []) s = Some s'"
proof -
  have "check_special_frq [910, - 1] 910 = Some True" by code_simp
  then have "alarm_handler cf (sys_client s) = Some ((sys_client s)\<lparr>cl_icao := ''ZZZZ''\<rparr>)"
    using assms by (simp add: alarm_handler_def strcpy_icao_def)
  then show ?thesis by (simp add: handler_def Let_def)
qed


end
