(* ===== verification/Fgcom_Devices.thy ===== *)
theory Fgcom_Devices
  imports Iaxc_Device Iaxc_Calls_Props
begin

text \<open>
  The list of audio devices (\<open>scan_devices\<close> and the volumes in \<open>src/iaxclient/lib/audio_portaudio.c\<close>), what
  \<open>iaxclient_lib.c\<close> makes of it for the application, and its use in \<open>src/src/fgcom.cpp\<close>: the options
  that list the devices and choose them. What PortAudio knows of a device is a parameter.
\<close>

section \<open>The list\<close>

text \<open>What PortAudio says of a device, if it says anything.\<close>

record pa_info =
  pi_name :: string
  pi_maxInputChannels :: int
  pi_maxOutputChannels :: int

record audio_device =
  dv_name :: string
  dv_capabilities :: int
  dv_devID :: int

definition IAXC_AD_INPUT :: int where "IAXC_AD_INPUT = 1"
definition IAXC_AD_OUTPUT :: int where "IAXC_AD_OUTPUT = 2"
definition IAXC_AD_RING :: int where "IAXC_AD_RING = 4"
definition IAXC_AD_INPUT_DEFAULT :: int where "IAXC_AD_INPUT_DEFAULT = 8"
definition IAXC_AD_OUTPUT_DEFAULT :: int where "IAXC_AD_OUTPUT_DEFAULT = 16"
definition IAXC_AD_RING_DEFAULT :: int where "IAXC_AD_RING_DEFAULT = 32"

definition device_capabilities :: "int \<Rightarrow> int \<Rightarrow> int \<Rightarrow> pa_info \<Rightarrow> int" where
  "device_capabilities def_input def_output i pa =
     (let c = 0;
          c = (if 0 < pi_maxInputChannels pa then c OR IAXC_AD_INPUT else c);
          c = (if 0 < pi_maxOutputChannels pa then c OR IAXC_AD_OUTPUT OR IAXC_AD_RING else c);
          c = (if i = def_input then c OR IAXC_AD_INPUT_DEFAULT else c)
      in if i = def_output then c OR IAXC_AD_OUTPUT_DEFAULT OR IAXC_AD_RING_DEFAULT else c)"

definition scan_device :: "int \<Rightarrow> int \<Rightarrow> int \<Rightarrow> pa_info option \<Rightarrow> audio_device" where
  "scan_device def_input def_output i info =
     (case info of
        None \<Rightarrow> \<lparr>dv_name = ''Not usable device'', dv_capabilities = 0, dv_devID = i\<rparr>
      | Some pa \<Rightarrow> \<lparr>dv_name = pi_name pa, dv_capabilities = device_capabilities def_input def_output i pa, dv_devID = i\<rparr>)"

fun scan_from :: "int \<Rightarrow> int \<Rightarrow> int \<Rightarrow> pa_info option list \<Rightarrow> audio_device list" where
  "scan_from def_input def_output i [] = []"
| "scan_from def_input def_output i (info # infos) =
     scan_device def_input def_output i info # scan_from def_input def_output (i + 1) infos"

definition scan_devices :: "int \<Rightarrow> int \<Rightarrow> pa_info option list \<Rightarrow> audio_device list" where
  "scan_devices def_input def_output infos = scan_from def_input def_output 0 infos"

section \<open>Volumes\<close>

text \<open>The volumes of a mixer for the output: one for PCM, where it has one, and the master.\<close>

record out_mixer =
  om_pcm :: "rat option"
  om_master :: rat

text \<open>The mixer of the output stream comes first, and that of the input stream second.\<close>

definition pa_output_level_get :: "out_mixer option \<Rightarrow> out_mixer option \<Rightarrow> rat" where
  "pa_output_level_get oMixer iMixer =
     (case (if oMixer \<noteq> None then oMixer else iMixer) of
        None \<Rightarrow> - 1
      | Some mix \<Rightarrow> (case om_pcm mix of Some v \<Rightarrow> v | None \<Rightarrow> om_master mix))"

definition set_out_level :: "rat \<Rightarrow> out_mixer \<Rightarrow> out_mixer" where
  "set_out_level level mix =
     (if om_pcm mix \<noteq> None then mix\<lparr>om_pcm := Some (float level)\<rparr> else mix\<lparr>om_master := float level\<rparr>)"

definition pa_output_level_set :: "rat \<Rightarrow> out_mixer option \<Rightarrow> out_mixer option \<Rightarrow> int \<times> out_mixer option \<times> out_mixer option" where
  "pa_output_level_set level oMixer iMixer =
     (if oMixer \<noteq> None then (0, map_option (set_out_level level) oMixer, iMixer)
      else if iMixer \<noteq> None then (0, oMixer, map_option (set_out_level level) iMixer)
      else (- 1, oMixer, iMixer))"

lemma output_level_get_set:
  "pa_output_level_set level oMixer iMixer = (r, oMixer', iMixer') \<Longrightarrow>
     pa_output_level_get oMixer' iMixer' = (if r = 0 then float level else - 1)"
  by (auto simp: pa_output_level_set_def pa_output_level_get_def set_out_level_def split: if_splits)

section \<open>iaxclient\<close>

definition pa_selected_devices :: "pa_state \<Rightarrow> int \<times> int \<times> int" where
  "pa_selected_devices st = (pa_selectedInput st, pa_selectedOutput st, pa_selectedRing st)"

text \<open>What the driver returns in a section with the lock: its messages, the mixer and its state.\<close>

definition from_driver ::
    "(int \<times> u8 list) list \<times> rat option \<times> pa_state \<Rightarrow> ('z, 's, pa_state) lib \<Rightarrow> ('z, 's, pa_state) lib" where
  "from_driver r st =
     (let (msgs, mixer, d) = r
      in fold (\<lambda>(ty, msg). iaxc_usermsg ty msg) msgs (st\<lparr>l_driver := d, l_audio := (l_audio st)\<lparr>au_mixer := mixer\<rparr>\<rparr>))"

definition iaxc_audio_devices_get ::
    "audio_device list \<Rightarrow> ('z, 's, pa_state) lib \<Rightarrow> audio_device list \<times> int \<times> int \<times> int" where
  "iaxc_audio_devices_get devs st = (devs, pa_selected_devices (l_driver st))"

definition iaxc_audio_devices_set :: "pa_env \<Rightarrow> int \<Rightarrow> int \<Rightarrow> int \<Rightarrow> ('z, 's, pa_state) lib \<Rightarrow> ('z, 's, pa_state) lib" where
  "iaxc_audio_devices_set e input output ring st =
     (let st = get_iaxc_lock st
      in put_iaxc_lock (from_driver (pa_select_devices e input output ring (au_mixer (l_audio st)) (l_driver st)) st))"

definition iaxc_play_sound :: "pa_env \<Rightarrow> iaxc_sound \<Rightarrow> int \<Rightarrow> ('z, 's, pa_state) lib \<Rightarrow> int \<times> ('z, 's, pa_state) lib" where
  "iaxc_play_sound e s ring st =
     (let st = get_iaxc_lock st; (i, r) = pa_play_sound e s ring (au_mixer (l_audio st)) (l_driver st)
      in (i, put_iaxc_lock (from_driver r st)))"

definition iaxc_stop_sound :: "int \<Rightarrow> ('z, 's, pa_state) lib \<Rightarrow> int \<times> ('z, 's, pa_state) lib" where
  "iaxc_stop_sound i st =
     (let st = get_iaxc_lock st; (r, d) = pa_stop_sound i (l_driver st)
      in (r, put_iaxc_lock (st\<lparr>l_driver := d\<rparr>)))"

section \<open>FGCom\<close>

definition MX_REPORT_BUF :: nat where "MX_REPORT_BUF = 1024"

text \<open>What is left of the buffer takes a name and its newline, less the end of the string.\<close>

fun report_loop :: "int \<Rightarrow> int \<Rightarrow> int \<Rightarrow> audio_device list \<Rightarrow> string \<Rightarrow> string" where
  "report_loop flag current i [] buf = buf"
| "report_loop flag current i (d # devs) buf =
     (let buf = (if dv_capabilities d AND flag \<noteq> 0 \<and> i \<noteq> current
                 then buf @ take (MX_REPORT_BUF - length buf - 1) (dv_name d @ [CHR 0x0A]) else buf)
      in if MX_REPORT_BUF \<le> length buf then buf else report_loop flag current (i + 1) devs buf)"

text \<open>\<open>None\<close> is a read outside the list, where there is no current device.\<close>

definition report_devices :: "int \<Rightarrow> audio_device list \<Rightarrow> ('z, 's, pa_state) lib \<Rightarrow> string option" where
  "report_devices inp devs st =
     (let flag = (if inp \<noteq> 0 then IAXC_AD_INPUT else IAXC_AD_OUTPUT);
          (devs, input, output, ring) = iaxc_audio_devices_get devs st;
          current = (if inp \<noteq> 0 then input else output)
      in if 0 \<le> current \<and> current < int (length devs)
         then Some (report_loop flag current 0 devs (take (MX_REPORT_BUF - 1) (dv_name (devs ! nat current) @ [CHR 0x0A])))
         else None)"

text \<open>The option \<open>list_audio\<close>: the list of the inputs and that of the outputs.\<close>

definition list_audio :: "audio_device list \<Rightarrow> ('z, 's, pa_state) lib \<Rightarrow> (string \<times> string) option" where
  "list_audio devs st =
     do { ins \<leftarrow> report_devices IAXC_AD_INPUT devs st;
          outs \<leftarrow> report_devices IAXC_AD_OUTPUT devs st;
          Some (ins, outs) }"

fun find_device :: "int \<Rightarrow> string \<Rightarrow> audio_device list \<Rightarrow> audio_device option" where
  "find_device flag name [] = None"
| "find_device flag name (d # devs) =
     (if dv_capabilities d AND flag \<noteq> 0 \<and> name = dv_name d then Some d else find_device flag name devs)"

definition set_device ::
    "pa_env \<Rightarrow> string \<Rightarrow> bool \<Rightarrow> audio_device list \<Rightarrow> ('z, 's, pa_state) lib \<Rightarrow> int \<times> ('z, 's, pa_state) lib" where
  "set_device e name out devs st =
     (let (devs, input, output, ring) = iaxc_audio_devices_get devs st
      in case find_device (if out then IAXC_AD_OUTPUT else IAXC_AD_INPUT) name devs of
           None \<Rightarrow> (0, st)
         | Some d \<Rightarrow>
             (1, if out then iaxc_audio_devices_set e input (dv_devID d) ring st
                 else iaxc_audio_devices_set e (dv_devID d) output ring st))"

text \<open>The options for the devices.\<close>

definition choose_devices ::
    "pa_env \<Rightarrow> string option \<Rightarrow> string option \<Rightarrow> audio_device list \<Rightarrow> ('z, 's, pa_state) lib \<Rightarrow> ('z, 's, pa_state) lib" where
  "choose_devices e audio_in audio_out devs st =
     (let st = (case audio_in of None \<Rightarrow> st | Some name \<Rightarrow> snd (set_device e name False devs st))
      in case audio_out of None \<Rightarrow> st | Some name \<Rightarrow> snd (set_device e name True devs st))"

section \<open>What is listed\<close>

lemma scan_from_length [simp]: "length (scan_from di dt i infos) = length infos"
  by (induction infos arbitrary: i) simp_all

lemma scan_from_nth: "k < length infos \<Longrightarrow> scan_from di dt i infos ! k = scan_device di dt (i + int k) (infos ! k)"
  by (induction infos arbitrary: i k) (auto simp: nth_Cons algebra_simps split: nat.splits)

lemma scan_device_id [simp]: "dv_devID (scan_device di dt i info) = i"
  by (simp add: scan_device_def split: option.splits)

text \<open>A buffer that is full stays as it is, whatever is put behind it.\<close>

lemma report_loop_scan:
  "length buf \<le> 1023 \<Longrightarrow>
     report_loop flag current i (scan_from di dt i infos) buf =
     take 1023 (buf @ concat (map (\<lambda>d. dv_name d @ [CHR 0x0A])
       (filter (\<lambda>d. dv_capabilities d AND flag \<noteq> 0 \<and> dv_devID d \<noteq> current) (scan_from di dt i infos))))"
proof (induction infos arbitrary: i buf)
  case (Cons info infos)
  let ?d = "scan_device di dt i info"
  show ?case
  proof (cases "dv_capabilities ?d AND flag \<noteq> 0 \<and> i \<noteq> current")
    case True
    let ?buf = "buf @ take (1023 - length buf) (dv_name ?d @ [CHR 0x0A])"
    have "length ?buf \<le> 1023" using Cons.prems by simp
    from Cons.IH[OF this, of "i + 1"] True Cons.prems show ?thesis
      by (simp add: MX_REPORT_BUF_def Let_def min_def) (auto simp: not_le take_Cons' not_less min_def)
  next
    case False
    with Cons.IH[OF Cons.prems, of "i + 1"] Cons.prems show ?thesis
      by (auto simp: MX_REPORT_BUF_def Let_def)
  qed
qed simp

lemma take_twice_append: "take n (take n xs @ ys) = take n (xs @ ys)"
  by (cases "length xs \<le> n") simp_all

text \<open>
  C38. What the option that lists the devices prints: the selected input and then the other devices that
  have inputs, as far as the buffer goes; and then the same again, for the list of outputs is asked for
  with \<open>IAXC_AD_OUTPUT\<close> where the parameter only says whether inputs are meant. Without a selected input
  it reads outside the list.
\<close>

theorem list_audio_inputs_twice:
  "list_audio (scan_devices def_input def_output infos) st =
     (let devs = scan_devices def_input def_output infos;
          input = pa_selectedInput (l_driver st);
          others = filter (\<lambda>d. dv_capabilities d AND IAXC_AD_INPUT \<noteq> 0 \<and> dv_devID d \<noteq> input) devs;
          names = take 1023 (concat (map (\<lambda>d. dv_name d @ [CHR 0x0A]) (devs ! nat input # others)))
      in if 0 \<le> input \<and> input < int (length infos) then Some (names, names) else None)"
proof -
  have report: "report_devices IAXC_AD_OUTPUT devs st = report_devices IAXC_AD_INPUT devs st" for devs
    by (simp add: report_devices_def IAXC_AD_INPUT_def IAXC_AD_OUTPUT_def)
  have flag: "IAXC_AD_INPUT \<noteq> 0" by (simp add: IAXC_AD_INPUT_def)
  have loop: "report_loop f cur 0 (scan_from d e 0 infos) (take 1023 (s @ [CHR 0x0A])) =
      take 1023 (s @ [CHR 0x0A] @ concat (map (\<lambda>d. dv_name d @ [CHR 0x0A])
       (filter (\<lambda>d. dv_capabilities d AND f \<noteq> 0 \<and> dv_devID d \<noteq> cur) (scan_from d e 0 infos))))" for f cur d e s
    using report_loop_scan[of "take 1023 (s @ [CHR 0x0A])"] take_twice_append[of 1023 "s @ [CHR 0x0A]"]
    by (simp del: take_append)
  show ?thesis
    unfolding list_audio_def report
    unfolding Let_def scan_devices_def report_devices_def iaxc_audio_devices_get_def pa_selected_devices_def
    by (simp add: flag MX_REPORT_BUF_def loop del: take_append)
qed

text \<open>A device is found where it is the first of its name that can be used for the purpose.\<close>

lemma find_device_find: "find_device flag name devs = List.find (\<lambda>d. dv_capabilities d AND flag \<noteq> 0 \<and> name = dv_name d) devs"
  by (induction devs) auto

lemma select_idle:
  "\<not> pa_running st \<Longrightarrow>
     pa_select_devices e i out r mixer st =
     ([], mixer, st\<lparr>pa_selectedInput := i, pa_selectedOutput := out, pa_selectedRing := r\<rparr>)"
  by (simp add: pa_select_devices_def)

text \<open>
  Another output for a device at rest: the ring device stays where it was, so a start opens a third
  stream for it, though FGCom plays no sounds.
\<close>

lemma output_device_leaves_ring:
  assumes "\<not> pa_running (l_driver st)" "set_device e name True devs st = (1, st')"
    and "pa_selectedRing (l_driver st) = pa_selectedOutput (l_driver st)"
  shows "pa_selectedRing (l_driver st') = pa_selectedRing (l_driver st) \<and>
     pa_selectedInput (l_driver st') = pa_selectedInput (l_driver st) \<and>
     pa_auxStream (start_aux e (l_driver st')) =
       (pa_selectedOutput (l_driver st') \<noteq> pa_selectedOutput (l_driver st) \<and> pd_start e Ring_stream)"
  using assms by (auto simp: set_device_def iaxc_audio_devices_get_def pa_selected_devices_def iaxc_audio_devices_set_def
      select_idle from_driver_def get_iaxc_lock_def put_lock_eq start_aux_def Let_def split: option.splits)

end
