(* ===== verification/Spec2Isabelle.thy ===== *)
theory Spec2Isabelle
  imports Jitterbuf_Props Iax_Ies_Props Iax_Show Iax_Sched Iax_Util_Props Md5
    Iax_Session_Props Iax_Call_Props Iax_Reach Iaxc_Codec_Props
    Fgcom_Client_Props Fgcom_Files_Props Fgcom_Options_Props
    Iaxc_Audio_Props Iaxc_Device_Props Fgcom_Phone Fgcom_System Fgcom_Devices
begin

text \<open>
  Verification of FGCom and its voice engine.

  FGCom is a voice client for flight simulators: it places calls to an Asterisk server, one per radio
  frequency. The program (\<open>src/src\<close>) sits on \<open>iaxclient\<close> (\<open>src/iaxclient/lib\<close>), which sits on
  \<open>libiax2\<close> (\<open>src/iaxclient/lib/libiax2/src\<close>), the implementation of the IAX2 protocol. These
  theories model all three.

  The parts and how they interact.

  \<open>main\<close> (\<open>fgcom.cpp\<close>) reads the options (\<open>fgcom_init.cpp\<close>), the special frequencies (\<open>utils.cpp\<close>) and
  the list of airports. A packet of the simulator (\<open>process_packet\<close>) has the frequencies, the position
  and the push-to-talk key. A new frequency ends the call and makes another: the airport of the
  frequency is looked up (\<open>icaobypos\<close> in \<open>position.cpp\<close>), airport and frequency make a number
  (\<open>icao2number\<close>), and \<open>do_iaxc_call\<close> calls it. A timer (\<open>alarm_handler\<close>) ends the call when the
  station is out of range and makes it when one comes into range. \<open>iaxclient\<close> reports the states of
  calls from its thread (\<open>iaxc_callback\<close>), and a call that ended makes the timer call again.

  \<open>iaxclient\<close> keeps a table of calls, one of them selected, and a list of registrations
  (\<open>iaxclient_lib.c\<close>), each with a session of \<open>libiax2\<close>. Its thread (\<open>iaxc_process_calls\<close>) takes the lock,
  handles the events of \<open>libiax2\<close> (\<open>iaxc_service_network\<close>), sends what the microphone recorded
  (\<open>service_audio\<close>), renews registrations, frees the lock, and only then hands on the events that were
  posted. Voice is coded and decoded in \<open>audio_encode.c\<close> and played and recorded by
  \<open>audio_portaudio.c\<close>, whose callback shares two ring buffers with the thread.

  \<open>iax_get_event\<close> (\<open>iax.c\<close>) is the loop. It runs the timers of the scheduler (\<open>iax_get_sched\<close>):
  frames that wait for an acknowledgement are sent again, frames that are acknowledged are dropped,
  and pings are sent. It polls the jitter buffer of each session (\<open>jb_next\<close>, \<open>jb_get\<close>), which hands
  out events at a steady pace. It reads a datagram (\<open>iax_net_process\<close>), finds its session, checks the
  sequence numbers, cancels what is acknowledged, parses the information elements
  (\<open>iax_parse_ies\<close>), and makes an event, which is handed over or put into the jitter buffer
  (\<open>schedule_delivery\<close>, \<open>jb_put\<close>). The client sends with the functions \<open>iax_call\<close>, \<open>iax_answer\<close>,
  \<open>iax_hangup\<close>, \<open>iax_send_voice\<close> and so on, which build information elements
  (\<open>iax_ie_append_raw\<close>) and call \<open>iax_send\<close>; the challenge of a peer is answered with \<open>md5.c\<close>.

  Theories.

  \<open>Prelude\<close>: machine integers as the code uses them (\<open>u8\<close>, \<open>u16\<close>, \<open>u32\<close> are words; \<open>int\<close> and \<open>long\<close>
  are integers, with the conversions of the code written out where they truncate), bytes in network
  order, updates of lists, and insertion into a sorted list.

  \<open>Jitterbuf\<close> models \<open>jitterbuf.c\<close>. The record \<open>jitterbuf\<close> is the C structure: the history of 500
  delays with its position, the cached extremes, the doubly linked queue as a list, the statistics.
  \<open>Jitterbuf_Props\<close> shows that the cache of extremes is coherent (C9) and sorted (C8), what
  \<open>history_get\<close> computes (C10), when a frame is delivered (C11), the clamp of the target, the order
  of the queue (C12), and the conservation of frames over any run (C13, and \<open>jb_drain_frees_all\<close> for the end of a call). The queue is stated as
  an interface, interpreted on the model.

  \<open>Iax_Ies\<close> models the information elements of \<open>iax2-parser.c\<close> (\<open>iax_ie_append_raw\<close>,
  \<open>iax_parse_ies\<close>); \<open>Iax_Ies_Props\<close> has their round trips (C14) and memory safety (C15, C16).
  \<open>Iax_Show\<close> models the printing of frames with its tables; \<open>None\<close> is a read outside a table or
  buffer; its lemmas say which frames lead there, and what is printed of a list of elements.

  \<open>Iax_Sched\<close> models the scheduler of \<open>iax.c\<close>, a list ordered by time, and the arithmetic of \<open>timeval\<close>
  (\<open>iax_sched_add_in_order\<close>, \<open>iax_get_sched_takes_head\<close>). \<open>Iax_Util\<close> models the helpers of \<open>iax.c\<close> on subclasses, codec preferences, Speex
  packets and timestamps; \<open>Iax_Util_Props\<close> has \<open>subclass_roundtrip\<close>. The loop over a Speex packet has fuel:
  \<open>speex_get_samples_fuel_decides\<close> shows that the fuel given decides, and when the loop need not end.

  \<open>Md5\<close> models \<open>md5.c\<close> and shows that it computes MD5 as RFC 1321 defines it (C17).

  \<open>Iax_State\<close> models the rest of the state of \<open>iax.c\<close> and what sends. A session is named by its
  address (\<open>s_id\<close>), so that reuse of freed memory can be expressed; \<open>iax_state\<close> has the sessions, the
  scheduler, and the packets handed to \<open>sendto\<close>. Operations return \<open>None\<close> where the code uses memory
  that is freed or dereferences a null pointer. The environment is a parameter: the result of
  \<open>sendto\<close>, the clock (\<open>st_now\<close>, constant during one call), the address the allocator returns, the
  contents of memory that is not initialised, and \<open>gethostbyname\<close>. \<open>Iax_Recv\<close> models the reception
  (\<open>iax_net_process\<close> and what it calls), and \<open>Iax_Loop\<close> the loop \<open>iax_get_event\<close>. The loop over due
  timers has fuel, one more than the entries of the queue being enough, since every round takes an
  entry out and what it puts in is due later.
  \<open>Iax_Session_Props\<close> and \<open>Iax_Call_Props\<close> have the properties of sessions: acknowledgements (\<open>implicit_ack_effect\<close>),
  retransmission (C18, C20), lifetime of sessions (C19, C22), wire format (C21), and call
  handles (\<open>call_handle_roundtrip\<close>).

  \<open>Iax_Invariant\<close> states the invariant of the state and shows that every operation keeps it;
  \<open>Iax_Reach\<close> defines the states that a client can reach, by any sequence of calls, whatever the
  network and the clock do, and concludes: C1 that the invariant holds there, and C2 that
  the loop over the timers returns.

  \<open>Iaxc_Codec\<close> models \<open>codec_ulaw.c\<close>, \<open>codec_alaw.c\<close> and \<open>codec_gsm.c\<close>: the tables, the coding of a
  sample, and the loops over frames. The GSM coder and the concealment of lost packets are
  parameters; what the layer above needs of a decoder is an interface. \<open>Iaxc_Codec_Props\<close> has the
  accuracy of both codecs (C39, C40).

  \<open>Fgcom_Float\<close> models the arithmetic of \<open>float\<close> and \<open>double\<close>: rationals, rounded after every operation
  to 24 or 53 bits, to even on a tie. The range of exponents is not bounded; the values of the
  program are far from its ends. \<open>Fgcom_Text\<close> has the text functions of the C library that are used,
  on decimal numbers only. \<open>Fgcom_Radio\<close> models \<open>position.cpp\<close>, the special frequencies and the
  number that is dialled; the functions of \<open>libm\<close> are parameters. \<open>Fgcom_Radio_Props\<close> shows when two
  stations have the same number (C31), which airport is found (C32) and
  which is not (\<open>channel_128025_deaf\<close>).

  \<open>Fgcom_Client\<close> models the mode for FlightGear. The record \<open>client\<close> has the globals, \<open>config\<close> what is
  set up at the start; what is asked of \<open>iaxclient\<close> is recorded as a list of commands. A run is a
  sequence of packets, alarms and events, each handled to its end: the thread of \<open>iaxclient\<close> may in
  fact interrupt a handler between two statements, which is not modelled. \<open>Fgcom_Client_Props\<close> shows
  what tuning does (C23), that calls and hangups alternate (C24),
  what the microphone does (C25, C26), and which packets end the
  program (C30).

  \<open>Fgcom_Files\<close> models the readers of both files, given their content; \<open>Fgcom_Files_Props\<close> has their
  memory safety (C33), what they return (\<open>special_file_values\<close>, \<open>airport_line_roundtrip\<close>),
  and that what they return fits the client (C34). \<open>Fgcom_Options\<close> models the options,
  given the content of the file and the command line; in \<open>Fgcom_Options_Props\<close> the spellings of an
  option agree (C35), and the command line wins over the file.

  \<open>Iaxc_Speex\<close> and \<open>Iaxc_Audio\<close> model \<open>codec_speex.c\<close> and the other half of \<open>audio_encode.c\<close>: choice of a
  coder, levels, silence, the control of the gain. The Speex coder, its preprocessor and \<open>log10\<close> are
  parameters. \<open>Iaxc_Calls\<close> and \<open>Iaxc_Events\<close> model \<open>iaxclient_lib.c\<close>: the record \<open>lib\<close> has its globals on
  top of an \<open>iax_state\<close>, \<open>env\<close> the environment; no session is the number 0. \<open>None\<close> is undefined
  behaviour, or that a loop did not end in the rounds \<open>en_fuel\<close>. The theorems do not fix that bound: where a loop
  may not end they say when some bound is enough. \<open>Iaxc_Calls_Props\<close> shows that
  all of \<open>iaxclient\<close> is a client of \<open>libiax2\<close> (C3), for any sequence of calls of the application and turns
  of the thread, and when events are handed on (C6). \<open>Iaxc_Audio_Props\<close> shows which voice packets
  keep the thread busy for ever (C7) and that the format agreed on is one both sides have.

  \<open>Iaxc_Ring\<close> models \<open>ringbuffer.c\<close>, and shows it to be a bounded queue (C36), by an interface that is
  interpreted on the model. \<open>Iaxc_Device\<close> models \<open>audio_portaudio.c\<close>, in the build for Linux;
  \<open>Iaxc_Device_Props\<close> has its mixing (C37), what stopping a sound does (\<open>stop_sound_stops_others\<close>), and, behind the interface of a
  device, that more rounds than there are bytes in the input buffer make no difference to the loop over the
  microphone.

  \<open>Fgcom_Phone\<close> puts FGCom on top: what it asks for reaches the server (C5), and what it makes of the events
  that come back (C28, C29).

  \<open>Fgcom_System\<close> is the whole program. The record \<open>fgcom\<close> has the client and the library; \<open>main_start\<close> is
  \<open>main\<close> behind its options, \<open>sys_step\<close> a round of its loop, \<open>quit\<close> its end. What a handler asks for is
  carried out command by command (\<open>perform\<close>), and in every sleep the thread of \<open>iaxclient\<close> takes turns
  (\<open>turns\<close>), each in a world of its own: the time, what \<open>sendto\<close> does, the datagrams that came, the device.
  What is heard in a sleep changes the last state only, as the handler sets \<open>connected\<close> behind each sleep.
  Every run of the whole is a run of the client and a run of the library (C4); a call lost in the
  sleep behind dialling stays lost (C27). \<open>Fgcom_Devices\<close> models the list of devices,
  from PortAudio to the options of FGCom (C38).

  Not modelled: sockets, \<open>select\<close>, the clock, printing and the usage text, the memory allocator's
  failures except where the code tests for them, the branches of \<open>split\<close> for more than one separator,
  which nobody calls; of \<open>iaxclient\<close> the creation and the end of its thread, the boost of the
  microphone, and the echo canceller, which is third-party and off; the volume of the output is set and
  read (\<open>Fgcom_Devices\<close>), but is no part of the state of \<open>fgcom\<close>. \<open>libiax2\<close> is set up with its sockets by
  \<open>iax_init\<close>, which only makes system calls.
\<close>

end
